(* ===== verification/Prelude.thy ===== *)
theory Prelude
  imports Main "HOL-Library.Char_ord" "HOL-Library.List_Lexorder" "HOL-Library.Product_Lexorder"
begin

text \<open>
  Shared material of the development.

  \<^item> Text. Rust's \<open>String\<close> and \<open>&str\<close> are \<open>string\<close> values: the bytes of the UTF-8
    encoding, one \<open>char\<close> per byte. Rust orders strings by their bytes, which is the
    lexicographic order of \<open>HOL-Library.List_Lexorder\<close> over \<open>HOL-Library.Char_ord\<close>.
  \<^item> Decimal rendering and parsing of unsigned integers (\<open>format!("{n}")\<close> and
    \<open>str::parse::<u64>\<close>), and the slice helpers \<open>join\<close> and \<open>trim\<close>.
  \<^item> The result of an asynchronous function: a value, an error, or nothing at all because
    the future was dropped at an await point; and the state-passing monad over it in which
    the guard is written.
\<close>

section \<open>Text\<close>

subsection \<open>Decimal numbers\<close>

definition digit_char :: "nat \<Rightarrow> char" where
  "digit_char d = char_of (48 + d)"

fun show_nat :: "nat \<Rightarrow> string" where
  "show_nat n = (if n < 10 then [digit_char n] else show_nat (n div 10) @ [digit_char (n mod 10)])"

declare show_nat.simps [simp del]

definition is_digit :: "char \<Rightarrow> bool" where
  "is_digit c \<longleftrightarrow> 48 \<le> (of_char c :: nat) \<and> (of_char c :: nat) \<le> 57"

definition digit_value :: "char \<Rightarrow> nat" where
  "digit_value c = of_char c - 48"

fun digits_value :: "nat \<Rightarrow> string \<Rightarrow> nat" where
  "digits_value acc [] = acc"
| "digits_value acc (c # cs) = digits_value (10 * acc + digit_value c) cs"

definition u64_max :: nat where
  "u64_max = 18446744073709551615"

text \<open>
  \<open>str::parse::<u64>\<close>: an optional leading plus sign, at least one decimal digit and nothing
  else, and a value that fits in 64 bits.
\<close>

definition parse_u64 :: "string \<Rightarrow> nat option" where
  "parse_u64 s =
     (let ds = (case s of c # cs \<Rightarrow> if c = CHR ''+'' then cs else s | [] \<Rightarrow> [])
      in if ds \<noteq> [] \<and> list_all is_digit ds \<and> digits_value 0 ds \<le> u64_max
         then Some (digits_value 0 ds) else None)"

subsection \<open>Slices\<close>

text \<open>\<open>[&str]::join\<close>.\<close>

fun join :: "string \<Rightarrow> string list \<Rightarrow> string" where
  "join sep [] = []"
| "join sep [x] = x"
| "join sep (x # y # ys) = x @ sep @ join sep (y # ys)"

text \<open>
  \<open>str::trim\<close> and \<open>str::trim_end_matches\<close>. White space is the Unicode property, so a trim removes the
  encodings of its code points from either end.
\<close>

definition white_space_encodings :: "string list" where
  "white_space_encodings =
     [[CHR 0x09], [CHR 0x0A], [CHR 0x0B], [CHR 0x0C], [CHR 0x0D], [CHR 0x20], [CHR 0xC2, CHR 0x85],
      [CHR 0xC2, CHR 0xA0], [CHR 0xE1, CHR 0x9A, CHR 0x80], [CHR 0xE2, CHR 0x80, CHR 0x80],
      [CHR 0xE2, CHR 0x80, CHR 0x81], [CHR 0xE2, CHR 0x80, CHR 0x82], [CHR 0xE2, CHR 0x80, CHR 0x83],
      [CHR 0xE2, CHR 0x80, CHR 0x84], [CHR 0xE2, CHR 0x80, CHR 0x85], [CHR 0xE2, CHR 0x80, CHR 0x86],
      [CHR 0xE2, CHR 0x80, CHR 0x87], [CHR 0xE2, CHR 0x80, CHR 0x88], [CHR 0xE2, CHR 0x80, CHR 0x89],
      [CHR 0xE2, CHR 0x80, CHR 0x8A], [CHR 0xE2, CHR 0x80, CHR 0xA8], [CHR 0xE2, CHR 0x80, CHR 0xA9],
      [CHR 0xE2, CHR 0x80, CHR 0xAF], [CHR 0xE2, CHR 0x81, CHR 0x9F], [CHR 0xE3, CHR 0x80, CHR 0x80]]"

definition starts_white_space :: "string \<Rightarrow> bool" where
  "starts_white_space s = list_ex (\<lambda>p. take (length p) s = p) white_space_encodings"

lemma prefix_shrinks: "p \<noteq> [] \<Longrightarrow> take (length p) s = p \<Longrightarrow> length s - length p < length s"
  by (cases s) auto

function strip_start :: "string list \<Rightarrow> string \<Rightarrow> string" where
  "strip_start ps s =
     (case find (\<lambda>p. p \<noteq> [] \<and> take (length p) s = p) ps of
        None \<Rightarrow> s
      | Some p \<Rightarrow> strip_start ps (drop (length p) s))"
  by auto
termination
  by (relation "measure (length \<circ> snd)") (auto simp: find_Some_iff intro: prefix_shrinks)

declare strip_start.simps [simp del]

definition trim_end_matches :: "char \<Rightarrow> string \<Rightarrow> string" where
  "trim_end_matches c s = rev (dropWhile (\<lambda>x. x = c) (rev s))"

definition trim :: "string \<Rightarrow> string" where
  "trim s = rev (strip_start (map rev white_space_encodings) (rev (strip_start white_space_encodings s)))"

section \<open>Results of asynchronous functions\<close>

text \<open>
  An asynchronous Rust function returns \<open>Ok v\<close> or \<open>Err e\<close>, or never resumes because its
  future was dropped while it waited. \<open>Gone\<close> is the third case: no value reaches the caller,
  and only the destructors of live locals run.
\<close>

datatype ('a, 'e) outcome = Ok 'a | Err 'e | Gone

type_synonym ('a, 'e, 'w) gm = "'w \<Rightarrow> ('a, 'e) outcome \<times> 'w"

definition gret :: "'a \<Rightarrow> ('a, 'e, 'w) gm" where
  "gret x = (\<lambda>w. (Ok x, w))"

definition gfail :: "'e \<Rightarrow> ('a, 'e, 'w) gm" where
  "gfail e = (\<lambda>w. (Err e, w))"

text \<open>\<open>m.await?\<close> followed by the rest of the body.\<close>

definition gbind :: "('a, 'e, 'w) gm \<Rightarrow> ('a \<Rightarrow> ('b, 'e, 'w) gm) \<Rightarrow> ('b, 'e, 'w) gm" where
  "gbind m f = (\<lambda>w. case m w of
      (Ok x, w') \<Rightarrow> f x w'
    | (Err e, w') \<Rightarrow> (Err e, w')
    | (Gone, w') \<Rightarrow> (Gone, w'))"

text \<open>\<open>let r = m.await;\<close>: the result itself, value or error, is handed to the rest.\<close>

definition gtry :: "('a, 'e, 'w) gm \<Rightarrow> ('e + 'a \<Rightarrow> ('b, 'f, 'w) gm) \<Rightarrow> ('b, 'f, 'w) gm" where
  "gtry m f = (\<lambda>w. case m w of
      (Ok x, w') \<Rightarrow> f (Inr x) w'
    | (Err e, w') \<Rightarrow> f (Inl e) w'
    | (Gone, w') \<Rightarrow> (Gone, w'))"

definition gresult :: "'e + 'a \<Rightarrow> ('a, 'e, 'w) gm" where
  "gresult r = (case r of Inl e \<Rightarrow> gfail e | Inr x \<Rightarrow> gret x)"

definition gget :: "('w \<Rightarrow> 'a) \<Rightarrow> ('a, 'e, 'w) gm" where
  "gget f = (\<lambda>w. (Ok (f w), w))"

definition gmodify :: "('w \<Rightarrow> 'w) \<Rightarrow> (unit, 'e, 'w) gm" where
  "gmodify f = (\<lambda>w. (Ok (), f w))"

text \<open>\<open>Result::map\<close> and \<open>Result::ok\<close> on the sum representation of a \<open>Result\<close> value.\<close>

definition map_result :: "('a \<Rightarrow> 'b) \<Rightarrow> 'e + 'a \<Rightarrow> 'e + 'b" where
  "map_result f r = (case r of Inl e \<Rightarrow> Inl e | Inr x \<Rightarrow> Inr (f x))"

definition result_ok :: "'e + 'a \<Rightarrow> 'a option" where
  "result_ok r = (case r of Inl _ \<Rightarrow> None | Inr x \<Rightarrow> Some x)"

definition result_err :: "'e + 'a \<Rightarrow> 'e option" where
  "result_err r = (case r of Inl e \<Rightarrow> Some e | Inr _ \<Rightarrow> None)"

lemma map_result_simps [simp]:
  "map_result f (Inl e) = Inl e" "map_result f (Inr x) = Inr (f x)"
  by (simp_all add: map_result_def)

lemma result_ok_simps [simp]:
  "result_ok (Inl e) = None" "result_ok (Inr x) = Some x"
  by (simp_all add: result_ok_def)

lemma result_err_simps [simp]:
  "result_err (Inl e) = Some e" "result_err (Inr x) = None"
  by (simp_all add: result_err_def)

end
