(* ===== verification/Verdict.thy ===== *)
theory Verdict
  imports Prelude
begin

text \<open>
  \<open>crates/policy/src/verdict.rs\<close>: the three kinds of policy decision and \<open>Decision::join_all\<close>,
  which turns the decisions of all rules that applied into one verdict.
\<close>

section \<open>Decisions\<close>

datatype decision =
    Allow (rule_name: string)
  | RequireApproval (rule_name: string) (reason: string) (preview: "string option")
  | Deny (rule_name: string) (message: string)

fun is_allow :: "decision \<Rightarrow> bool" where
  "is_allow (Allow _) = True"
| "is_allow _ = False"

fun is_deny :: "decision \<Rightarrow> bool" where
  "is_deny (Deny _ _) = True"
| "is_deny _ = False"

fun severity :: "decision \<Rightarrow> nat" where
  "severity (Allow _) = 0"
| "severity (RequireApproval _ _ _) = 1"
| "severity (Deny _ _) = 2"

subsection \<open>The sort key\<close>

text \<open>
  \<open>format!("{reason}:{preview:?}")\<close> prints the preview with \<open>Debug\<close>: \<open>None\<close> or
  \<open>Some("...")\<close> with the quote, the backslash and the ASCII control characters of the text
  escaped. Bytes outside ASCII belong to multi-byte characters and are printed as they are.
\<close>

definition bslash :: char where "bslash = CHR 0x5C"
definition dquote :: char where "dquote = CHR 0x22"

definition hex_digit :: "nat \<Rightarrow> char" where
  "hex_digit n = (if n < 10 then char_of (48 + n) else char_of (87 + n))"

definition hex_nat :: "nat \<Rightarrow> string" where
  "hex_nat n = (if n < 16 then [hex_digit n] else [hex_digit (n div 16), hex_digit (n mod 16)])"

definition short_escape :: "char \<Rightarrow> char option" where
  "short_escape c =
     (if c = CHR 0x00 then Some (CHR ''0'')
      else if c = CHR 0x09 then Some (CHR ''t'')
      else if c = CHR 0x0A then Some (CHR ''n'')
      else if c = CHR 0x0D then Some (CHR ''r'')
      else if c = dquote then Some dquote
      else if c = bslash then Some bslash
      else None)"

definition is_ascii_control :: "char \<Rightarrow> bool" where
  "is_ascii_control c \<longleftrightarrow> (of_char c :: nat) < 32 \<or> (of_char c :: nat) = 127"

definition debug_char :: "char \<Rightarrow> string" where
  "debug_char c =
     (case short_escape c of
        Some t \<Rightarrow> [bslash, t]
      | None \<Rightarrow> if is_ascii_control c
                then [bslash, CHR ''u'', CHR ''{''] @ hex_nat (of_char c) @ [CHR ''}'']
                else [c])"

definition debug_str :: "string \<Rightarrow> string" where
  "debug_str s = dquote # concat (map debug_char s) @ [dquote]"

definition debug_preview :: "string option \<Rightarrow> string" where
  "debug_preview p = (case p of None \<Rightarrow> ''None'' | Some s \<Rightarrow> ''Some('' @ debug_str s @ '')'')"

fun decision_detail :: "decision \<Rightarrow> string" where
  "decision_detail (Allow _) = []"
| "decision_detail (RequireApproval _ r p) = r @ '':'' @ debug_preview p"
| "decision_detail (Deny _ m) = m"

definition decision_key :: "decision \<Rightarrow> string \<times> string" where
  "decision_key d = (rule_name d, decision_detail d)"

subsection \<open>Joining\<close>

fun reason_of :: "decision \<Rightarrow> string option" where
  "reason_of (RequireApproval _ r _) = Some r"
| "reason_of _ = None"

fun preview_of :: "decision \<Rightarrow> string option" where
  "preview_of (RequireApproval _ _ p) = p"
| "preview_of _ = None"

fun message_of :: "decision \<Rightarrow> string option" where
  "message_of (Deny _ m) = Some m"
| "message_of _ = None"

fun find_map :: "('a \<Rightarrow> 'b option) \<Rightarrow> 'a list \<Rightarrow> 'b option" where
  "find_map f [] = None"
| "find_map f (x # xs) = (case f x of None \<Rightarrow> find_map f xs | Some y \<Rightarrow> Some y)"

definition max_severity :: "decision list \<Rightarrow> nat option" where
  "max_severity ds = (if ds = [] then None else Some (Max (set (map severity ds))))"

definition join_all :: "decision list \<Rightarrow> decision option" where
  "join_all decisions =
     (case max_severity decisions of
        None \<Rightarrow> None
      | Some sev \<Rightarrow>
        (let ds = remdups_adj (sort_key decision_key (filter (\<lambda>d. severity d = sev) decisions)) in
         if length ds = 1 then Some (last ds)
         else
          (let rule = join ''+'' (remdups_adj (map rule_name ds)) in
           if sev = 0 then Some (Allow rule)
           else if sev = 1 then
             Some (RequireApproval rule (join ''; '' (List.map_filter reason_of ds)) (find_map preview_of ds))
           else Some (Deny rule (join ''; '' (List.map_filter message_of ds))))))"

section \<open>The verdict is as severe as its most severe part\<close>

lemma severity_cases:
  "severity d = 0 \<longleftrightarrow> is_allow d" "severity d = 2 \<longleftrightarrow> is_deny d" "severity d \<le> 2"
  by (cases d; simp)+

lemma severity_join_all:
  assumes "ds \<noteq> []"
  shows "\<exists>v. join_all ds = Some v \<and> severity v = Max (severity ` set ds)"
proof -
  define sev where "sev = Max (severity ` set ds)"
  define es where "es = remdups_adj (sort_key decision_key (filter (\<lambda>d. severity d = sev) ds))"
  have es: "set es = {d \<in> set ds. severity d = sev}"
    by (auto simp: es_def)
  have "sev \<in> severity ` set ds" using assms by (simp add: sev_def)
  then have "es \<noteq> []" using es by force
  have "length es = 1 \<Longrightarrow> severity (last es) = sev"
    using es \<open>es \<noteq> []\<close> last_in_set by blast
  moreover have "sev \<le> 2" using \<open>sev \<in> severity ` set ds\<close> severity_cases(3) by auto
  ultimately show ?thesis
    using assms by (auto simp: join_all_def max_severity_def Let_def simp flip: sev_def es_def)
qed

section \<open>The verdict depends only on which decisions were made\<close>

subsection \<open>The printed form of a preview can be read back\<close>

lemma hex_digit_inj: "m < 16 \<Longrightarrow> n < 16 \<Longrightarrow> hex_digit m = hex_digit n \<Longrightarrow> m = n"
  by (auto simp: hex_digit_def split: if_splits dest!: arg_cong [where f = "of_char :: char \<Rightarrow> nat"])

lemma hex_nat_inj:
  assumes mn: "m < 256" "n < 256" and eq: "hex_nat m = hex_nat n"
  shows "m = n"
proof (cases "m < 16")
  case True
  with eq have "n < 16" "hex_digit m = hex_digit n" by (auto simp: hex_nat_def split: if_splits)
  with True show ?thesis by (blast intro: hex_digit_inj)
next
  case False
  with eq have "hex_digit (m div 16) = hex_digit (n div 16)" "hex_digit (m mod 16) = hex_digit (n mod 16)"
    by (auto simp: hex_nat_def split: if_splits)
  moreover have "m div 16 < 16" "n div 16 < 16" using mn by auto
  ultimately have "m div 16 = n div 16" "m mod 16 = n mod 16"
    using hex_digit_inj by (blast, simp add: hex_digit_inj)
  then show ?thesis by (metis div_mult_mod_eq)
qed

lemma hex_digit_not_brace: "n < 16 \<Longrightarrow> hex_digit n \<noteq> CHR ''}''"
  by (auto simp: hex_digit_def dest!: arg_cong [where f = "of_char :: char \<Rightarrow> nat"])

lemma hex_nat_no_brace:
  assumes "n < 256"
  shows "CHR ''}'' \<notin> set (hex_nat n)"
proof -
  have "n div 16 < 16" "n mod 16 < 16" using assms by auto
  then have "hex_digit (n div 16) \<noteq> CHR ''}''" "hex_digit (n mod 16) \<noteq> CHR ''}''"
    by (simp_all only: hex_digit_not_brace not_False_eq_True)
  then show ?thesis using hex_digit_not_brace [of n] by (auto simp: hex_nat_def)
qed

lemma split_at_first:
  "z \<notin> set xs \<Longrightarrow> z \<notin> set ys \<Longrightarrow> xs @ z # us = ys @ z # vs \<Longrightarrow> xs = ys \<and> us = vs"
  by (induction xs arbitrary: ys) (auto simp: Cons_eq_append_conv)

lemma short_escape_inj: "short_escape c = Some t \<Longrightarrow> short_escape d = Some t \<Longrightarrow> c = d"
  by (auto simp: short_escape_def bslash_def dquote_def split: if_splits)

lemma short_escape_not_u: "short_escape c \<noteq> Some (CHR ''u'')"
  by (auto simp: short_escape_def bslash_def dquote_def)

lemma short_escape_bslash: "short_escape bslash \<noteq> None" "short_escape dquote \<noteq> None"
  by (auto simp: short_escape_def bslash_def dquote_def)

text \<open>The three shapes of an escaped character.\<close>

lemma debug_char_shape:
  obtains (short) t where "short_escape c = Some t" "debug_char c = [bslash, t]"
  | (long) "short_escape c = None"
      "debug_char c = bslash # CHR ''u'' # CHR ''{'' # hex_nat (of_char c) @ [CHR ''}'']"
  | (plain) "c \<noteq> bslash" "c \<noteq> dquote" "debug_char c = [c]"
proof (cases "short_escape c")
  case None
  then have "c \<noteq> bslash" "c \<noteq> dquote" using short_escape_bslash by auto
  with None show thesis
    by (cases "is_ascii_control c") (auto simp: debug_char_def intro: long plain)
next
  case (Some t)
  then show thesis by (intro short) (simp_all add: debug_char_def)
qed

text \<open>The escapes form a prefix code.\<close>

lemma debug_char_prefix_free:
  assumes "debug_char c @ xs = debug_char d @ ys"
  shows "c = d \<and> xs = ys"
proof -
  have bound: "(of_char c :: nat) < 256" "(of_char d :: nat) < 256" by simp_all
  show ?thesis
  proof (cases c rule: debug_char_shape)
    case c: (short t)
    show ?thesis
      by (cases d rule: debug_char_shape) (use assms c short_escape_inj short_escape_not_u in auto)
  next
    case c: long
    show ?thesis
    proof (cases d rule: debug_char_shape)
      case d: long
      from assms c d have "hex_nat (of_char c) @ CHR ''}'' # xs = hex_nat (of_char d) @ CHR ''}'' # ys"
        by simp
      then have "hex_nat (of_char c) = hex_nat (of_char d) \<and> xs = ys"
        by (rule split_at_first [OF hex_nat_no_brace hex_nat_no_brace, OF bound])
      then show ?thesis using hex_nat_inj [OF bound] by auto
    qed (use assms c short_escape_not_u in auto)
  next
    case c: plain
    show ?thesis by (cases d rule: debug_char_shape) (use assms c in auto)
  qed
qed

lemma debug_char_nonempty: "debug_char c \<noteq> []"
  by (cases c rule: debug_char_shape) auto

lemma debug_concat_inj: "concat (map debug_char s) = concat (map debug_char t) \<Longrightarrow> s = t"
proof (induction s arbitrary: t)
  case Nil
  then show ?case by (cases t) (auto simp: debug_char_nonempty)
next
  case (Cons c s)
  then obtain d t' where "t = d # t'" by (cases t) (auto simp: debug_char_nonempty)
  with Cons.prems have "debug_char c @ concat (map debug_char s) = debug_char d @ concat (map debug_char t')"
    by simp
  from debug_char_prefix_free [OF this] Cons.IH \<open>t = d # t'\<close> show ?case by simp
qed

text \<open>Inside an escaped text every quote follows a backslash.\<close>

fun quotes_escaped :: "char \<Rightarrow> string \<Rightarrow> bool" where
  "quotes_escaped b [] = True"
| "quotes_escaped b (c # cs) \<longleftrightarrow> (c = dquote \<longrightarrow> b = bslash) \<and> quotes_escaped c cs"

lemma quotes_escaped_append:
  "quotes_escaped b (xs @ ys) \<longleftrightarrow> quotes_escaped b xs \<and> quotes_escaped (last (b # xs)) ys"
  by (induction xs arbitrary: b) auto

lemma quotes_escaped_free: "dquote \<notin> set xs \<Longrightarrow> quotes_escaped b xs"
  by (induction xs arbitrary: b) auto

lemma hex_digit_not_quote: "n < 16 \<Longrightarrow> hex_digit n \<noteq> dquote"
  by (auto simp: hex_digit_def dquote_def dest!: arg_cong [where f = "of_char :: char \<Rightarrow> nat"])

lemma hex_nat_no_quote:
  assumes "n < 256"
  shows "dquote \<notin> set (hex_nat n)"
proof -
  have "n div 16 < 16" "n mod 16 < 16" using assms by auto
  then have "hex_digit (n div 16) \<noteq> dquote" "hex_digit (n mod 16) \<noteq> dquote"
    by (simp_all only: hex_digit_not_quote not_False_eq_True)
  then show ?thesis using hex_digit_not_quote [of n] by (auto simp: hex_nat_def)
qed

lemma quotes_escaped_debug_char: "quotes_escaped b (debug_char c)"
proof (cases c rule: debug_char_shape)
  case long
  have "dquote \<notin> set (debug_char c)"
    using hex_nat_no_quote [of "of_char c"] by (auto simp: long(2) bslash_def dquote_def)
  then show ?thesis by (rule quotes_escaped_free)
qed (auto simp: bslash_def dquote_def)

lemma quotes_escaped_concat: "quotes_escaped b (concat (map debug_char s))"
  by (induction s arbitrary: b) (simp_all add: quotes_escaped_append quotes_escaped_debug_char)

text \<open>
  Read from the right, the opening quote of the printed preview is the first one that follows
  no backslash: an opening parenthesis stands before it.
\<close>

lemma opening_quote_unique:
  assumes "us @ CHR ''('' # dquote # es = vs @ CHR ''('' # dquote # fs"
    and "quotes_escaped dquote es" "quotes_escaped dquote fs"
  shows "us = vs \<and> es = fs"
proof -
  have aux: "us = vs \<and> es = fs"
    if "us @ CHR ''('' # dquote # es = vs @ CHR ''('' # dquote # fs"
      "quotes_escaped dquote fs" "length us \<ge> length vs" for us vs es fs
  proof -
    from that(1,3) obtain ws where ws: "us = vs @ ws"
      by (metis append_eq_append_conv_if append_take_drop_id)
    have *: "ws @ CHR ''('' # dquote # es = CHR ''('' # dquote # fs"
      using that(1) by (simp add: ws)
    show ?thesis
    proof (cases ws)
      case Nil
      with * ws show ?thesis by simp
    next
      case (Cons a ws')
      with * have "ws' @ CHR ''('' # dquote # es = dquote # fs" by simp
      then obtain ws'' where "fs = ws'' @ CHR ''('' # dquote # es"
        by (cases ws') (auto simp: dquote_def)
      with that(2) have False by (simp add: quotes_escaped_append bslash_def)
      then show ?thesis ..
    qed
  qed
  show ?thesis
    using aux [of us es vs fs] aux [of vs fs us es] assms by (metis nle_le)
qed

lemma approval_detail_inj:
  assumes "r @ CHR '':'' # debug_preview p = r' @ CHR '':'' # debug_preview p'"
  shows "r = r' \<and> p = p'"
proof -
  have last: "last (r @ CHR '':'' # debug_preview p) = (if p = None then CHR ''e'' else CHR '')'')"
    for r :: string and p
    by (auto simp: debug_preview_def split: option.splits)
  have same: "p = None \<longleftrightarrow> p' = None"
    using last [of r p] last [of r' p'] arg_cong [OF assms, of last] by (simp split: if_splits)
  show ?thesis
  proof (cases p)
    case None
    with same assms show ?thesis by (simp add: debug_preview_def)
  next
    case (Some t)
    with same obtain t' where p': "p' = Some t'" by auto
    let ?E = "\<lambda>t. concat (map debug_char t)"
    have eq: "(r @ '':Some'') @ CHR ''('' # dquote # ?E t = (r' @ '':Some'') @ CHR ''('' # dquote # ?E t'"
      using assms by (simp add: Some p' debug_preview_def debug_str_def)
    have "r @ '':Some'' = r' @ '':Some'' \<and> ?E t = ?E t'"
      by (rule opening_quote_unique [OF eq]) (rule quotes_escaped_concat)+
    then show ?thesis using Some p' debug_concat_inj by auto
  qed
qed

lemma decision_key_inj:
  "decision_key d = decision_key d' \<Longrightarrow> severity d = severity d' \<Longrightarrow> d = d'"
  by (cases d; cases d') (auto simp: decision_key_def dest!: approval_detail_inj)

subsection \<open>Sorting and removing neighbours forgets order and repetition\<close>

lemma distinct_remdups_adj_sorted_key:
  assumes "sorted (map f xs)" "inj_on f (set xs)"
  shows "sorted (map f (remdups_adj xs)) \<and> distinct (map f (remdups_adj xs))"
  using assms
proof (induction xs rule: remdups_adj.induct)
  case (3 x y xs)
  show ?case
  proof (cases "x = y")
    case True
    with 3 show ?thesis by (auto simp: inj_on_def)
  next
    case False
    have ih: "sorted (map f (remdups_adj (y # xs))) \<and> distinct (map f (remdups_adj (y # xs)))"
      using 3 False by (auto simp: inj_on_def)
    have "f x \<noteq> f y" using False 3(4) by (auto simp: inj_on_def)
    then have "f x < f y" using 3(3) by (simp add: order.strict_iff_order)
    then have "\<forall>z\<in>set (y # xs). f x < f z" using 3(3) by auto
    with ih False show ?thesis by auto
  qed
qed auto

lemma remdups_adj_sort_key_set:
  assumes "set xs = set ys" "inj_on f (set xs)"
  shows "remdups_adj (sort_key f xs) = remdups_adj (sort_key f ys)"
proof -
  have "map f (remdups_adj (sort_key f zs)) = sorted_list_of_set (f ` set zs)"
    if "set zs = set xs" for zs
    using distinct_remdups_adj_sorted_key [of f "sort_key f zs"] assms(2) that
    by (intro sorted_distinct_set_unique) auto
  then have eq: "map f (remdups_adj (sort_key f xs)) = map f (remdups_adj (sort_key f ys))"
    using assms(1) by metis
  show ?thesis
    by (rule map_inj_on [OF eq]) (use assms in auto)
qed

text \<open>
  C39: the verdict joined from a list of decisions is the same for every order and for every
  number of repetitions of those decisions.
\<close>

theorem join_all_order_independent:
  assumes "set ds = set ds'"
  shows "join_all ds = join_all ds'"
proof -
  have max: "max_severity ds = max_severity ds'"
    using assms by (auto simp: max_severity_def)
  have sort: "remdups_adj (sort_key decision_key (filter (\<lambda>d. severity d = sev) ds))
            = remdups_adj (sort_key decision_key (filter (\<lambda>d. severity d = sev) ds'))" for sev
    by (rule remdups_adj_sort_key_set)
       (use assms in \<open>auto intro!: inj_onI dest: decision_key_inj\<close>)
  show ?thesis by (simp only: join_all_def max sort)
qed

theorem join_all_order_independent_witness:
  "join_all [Allow ''read'', Deny ''ro'' ''no''] = join_all [Deny ''ro'' ''no'', Allow ''read'', Deny ''ro'' ''no'']"
  by (rule join_all_order_independent) auto

end
