(* ===== verification/Policy_Config.thy ===== *)
theory Policy_Config
  imports Prelude
begin

text \<open>
  The inputs of a policy decision other than the statement: \<open>Environment\<close>
  (\<open>crates/core/src/tls.rs\<close>), \<open>Principal\<close> (\<open>crates/policy/src/principal.rs\<close>) and the policy
  configuration with its defaults, overrides and loading checks
  (\<open>crates/policy/src/config.rs\<close>).
\<close>

section \<open>Environments and principals\<close>

datatype environment = Local | Dev | Staging | Prod

fun env_as_str :: "environment \<Rightarrow> string" where
  "env_as_str Local = ''local''"
| "env_as_str Dev = ''dev''"
| "env_as_str Staging = ''staging''"
| "env_as_str Prod = ''prod''"

datatype principal =
    Human (session: string)
  | Agent (token: string) (client: "string option") (model: "string option")

definition human_gui :: principal where
  "human_gui = Human ''gui''"

fun is_agent :: "principal \<Rightarrow> bool" where
  "is_agent (Agent _ _ _) = True"
| "is_agent (Human _) = False"

text \<open>\<open>sha256_hex\<close> is the hex digest of the \<open>sha2\<close> and \<open>hex\<close> crates.\<close>

fun sanitized :: "(string \<Rightarrow> string) \<Rightarrow> principal \<Rightarrow> principal" where
  "sanitized sha256_hex (Human s) = Human s"
| "sanitized sha256_hex (Agent t c m) = Agent (''sha256:'' @ take 16 (sha256_hex t)) c m"

section \<open>Policies\<close>

datatype write_policy = WriteAllow | WriteApprove | WriteDeny

record env_policy =
  agent_writes :: write_policy
  agent_allow_ddl :: bool
  agent_allow_multi_statement :: bool
  human_approve_writes :: bool
  human_approve_ddl :: bool
  human_approve_unparseable :: bool
  human_allow_unaudited_writes :: bool
  blast_radius_max_rows :: "nat option"
  mask_agent_results :: bool

definition default_policy :: env_policy where
  "default_policy = \<lparr> agent_writes = WriteApprove, agent_allow_ddl = False,
     agent_allow_multi_statement = False, human_approve_writes = False, human_approve_ddl = False,
     human_approve_unparseable = True, human_allow_unaudited_writes = False,
     blast_radius_max_rows = Some 10000, mask_agent_results = True \<rparr>"

definition local_defaults :: env_policy where
  "local_defaults = default_policy\<lparr> agent_writes := WriteApprove, human_approve_writes := False,
     human_approve_ddl := False, blast_radius_max_rows := Some 100000 \<rparr>"

definition prod_defaults :: env_policy where
  "prod_defaults = default_policy\<lparr> agent_writes := WriteDeny, agent_allow_ddl := False,
     human_approve_writes := True, human_approve_ddl := True, blast_radius_max_rows := Some 1000,
     mask_agent_results := True \<rparr>"

definition staging_defaults :: env_policy where
  "staging_defaults = default_policy\<lparr> agent_writes := WriteApprove, human_approve_writes := False,
     human_approve_ddl := True, blast_radius_max_rows := Some 5000 \<rparr>"

record env_policy_override =
  o_agent_writes :: "write_policy option"
  o_agent_allow_ddl :: "bool option"
  o_agent_allow_multi_statement :: "bool option"
  o_human_approve_writes :: "bool option"
  o_human_approve_ddl :: "bool option"
  o_human_approve_unparseable :: "bool option"
  o_human_allow_unaudited_writes :: "bool option"
  o_blast_radius_max_rows :: "nat option"
  o_mask_agent_results :: "bool option"

definition or_else :: "'a option \<Rightarrow> 'a \<Rightarrow> 'a" where
  "or_else v d = (case v of Some x \<Rightarrow> x | None \<Rightarrow> d)"

definition apply_to :: "env_policy_override \<Rightarrow> env_policy \<Rightarrow> env_policy" where
  "apply_to ov p = \<lparr>
     agent_writes = or_else (o_agent_writes ov) (agent_writes p),
     agent_allow_ddl = or_else (o_agent_allow_ddl ov) (agent_allow_ddl p),
     agent_allow_multi_statement =
       or_else (o_agent_allow_multi_statement ov) (agent_allow_multi_statement p),
     human_approve_writes = or_else (o_human_approve_writes ov) (human_approve_writes p),
     human_approve_ddl = or_else (o_human_approve_ddl ov) (human_approve_ddl p),
     human_approve_unparseable =
       or_else (o_human_approve_unparseable ov) (human_approve_unparseable p),
     human_allow_unaudited_writes =
       or_else (o_human_allow_unaudited_writes ov) (human_allow_unaudited_writes p),
     blast_radius_max_rows =
       (case o_blast_radius_max_rows ov of Some v \<Rightarrow> Some v | None \<Rightarrow> blast_radius_max_rows p),
     mask_agent_results = or_else (o_mask_agent_results ov) (mask_agent_results p) \<rparr>"

record policy_config =
  environments :: "string \<rightharpoonup> env_policy_override"
  connection_overrides :: "string \<rightharpoonup> env_policy_override"
  mask_patterns :: "string list"

definition DEFAULT_SENSITIVE_PATTERNS :: "string list" where
  "DEFAULT_SENSITIVE_PATTERNS =
     [''*pan*'', ''*card*'', ''*cvv*'', ''*cvc*'', ''*ssn*'', ''*iban*'', ''*secret*'', ''*token*'',
      ''*password*'', ''*passwd*'', ''*api_key*'', ''*apikey*'', ''*private_key*'']"

definition push_pattern :: "string list \<Rightarrow> string \<Rightarrow> string list" where
  "push_pattern ps p = (if p \<in> set ps then ps else ps @ [p])"

definition effective_mask_patterns :: "policy_config \<Rightarrow> string list" where
  "effective_mask_patterns cfg = foldl push_pattern DEFAULT_SENSITIVE_PATTERNS (mask_patterns cfg)"

definition for_environment :: "policy_config \<Rightarrow> environment \<Rightarrow> env_policy" where
  "for_environment cfg env =
     (let defaults = (case env of Local \<Rightarrow> local_defaults | Dev \<Rightarrow> local_defaults
                        | Staging \<Rightarrow> staging_defaults | Prod \<Rightarrow> prod_defaults)
      in case environments cfg (env_as_str env) of
           None \<Rightarrow> defaults
         | Some overrides \<Rightarrow> apply_to overrides defaults)"

definition for_connection :: "policy_config \<Rightarrow> string \<Rightarrow> environment \<Rightarrow> env_policy" where
  "for_connection cfg connection_id env =
     (let environment_policy = for_environment cfg env
      in case connection_overrides cfg connection_id of
           None \<Rightarrow> environment_policy
         | Some overrides \<Rightarrow> apply_to overrides environment_policy)"

section \<open>Loading a configuration\<close>

text \<open>
  \<open>load_from_path\<close> after the file is read and parsed by the \<open>toml\<close> crate. The parsed tables
  are association lists; \<open>pattern_valid\<close> is \<open>glob::Pattern::new\<close> on the lower-cased pattern
  and \<open>parse_uuid\<close> the \<open>uuid\<close> crate's parser followed by its canonical printing.
\<close>

record parsed_config =
  p_environments :: "(string \<times> env_policy_override) list"
  p_connection_overrides :: "(string \<times> env_policy_override) list"
  p_mask_patterns :: "string list"

datatype config_error =
    InvalidMaskPattern string
  | UnknownEnvironment string
  | NotAConnectionId string
  | DuplicateOverride string

definition KNOWN_ENVIRONMENT_NAMES :: "string list" where
  "KNOWN_ENVIRONMENT_NAMES = [''local'', ''dev'', ''staging'', ''prod'']"

fun canonical_overrides ::
  "(string \<Rightarrow> string option) \<Rightarrow> (string \<rightharpoonup> env_policy_override)
     \<Rightarrow> (string \<times> env_policy_override) list \<Rightarrow> config_error + (string \<rightharpoonup> env_policy_override)" where
  "canonical_overrides parse_uuid m [] = Inr m"
| "canonical_overrides parse_uuid m ((key, v) # rest) =
     (case parse_uuid key of
        None \<Rightarrow> Inl (NotAConnectionId key)
      | Some uid \<Rightarrow>
          (case m uid of
             Some _ \<Rightarrow> Inl (DuplicateOverride key)
           | None \<Rightarrow> canonical_overrides parse_uuid (m(uid \<mapsto> v)) rest))"

definition load_policy ::
  "(string \<Rightarrow> bool) \<Rightarrow> (string \<Rightarrow> string option) \<Rightarrow> parsed_config \<Rightarrow> config_error + policy_config" where
  "load_policy pattern_valid parse_uuid pc =
     (case find (\<lambda>p. \<not> pattern_valid p) (p_mask_patterns pc) of
        Some p \<Rightarrow> Inl (InvalidMaskPattern p)
      | None \<Rightarrow>
     (case find (\<lambda>(name, _). name \<notin> set KNOWN_ENVIRONMENT_NAMES) (p_environments pc) of
        Some (name, _) \<Rightarrow> Inl (UnknownEnvironment name)
      | None \<Rightarrow>
     (case canonical_overrides parse_uuid Map.empty (p_connection_overrides pc) of
        Inl e \<Rightarrow> Inl e
      | Inr m \<Rightarrow> Inr \<lparr> environments = map_of (p_environments pc), connection_overrides = m,
                       mask_patterns = p_mask_patterns pc \<rparr>)))"

section \<open>Properties\<close>

lemma or_else_simps [simp]: "or_else (Some x) d = x" "or_else None d = d"
  by (simp_all add: or_else_def)

lemma set_foldl_push_pattern: "set (foldl push_pattern ps qs) = set ps \<union> set qs"
  by (induction qs arbitrary: ps) (auto simp: push_pattern_def)

lemma distinct_foldl_push_pattern: "distinct ps \<Longrightarrow> distinct (foldl push_pattern ps qs)"
  by (induction qs arbitrary: ps) (auto simp: push_pattern_def)

lemma set_effective_mask_patterns:
  "set (effective_mask_patterns cfg) = set DEFAULT_SENSITIVE_PATTERNS \<union> set (mask_patterns cfg)"
  by (simp add: effective_mask_patterns_def set_foldl_push_pattern)

lemma distinct_effective_mask_patterns: "distinct (effective_mask_patterns cfg)"
  unfolding effective_mask_patterns_def
  by (rule distinct_foldl_push_pattern) (simp add: DEFAULT_SENSITIVE_PATTERNS_def)

text \<open>
  The overrides a loaded configuration holds are those of the file, each under the canonical
  form of its key, and no two keys of the file share a canonical form.
\<close>

lemma canonical_overrides_sound:
  assumes "canonical_overrides parse_uuid m kvs = Inr m'"
  shows "m' uid = Some v \<longleftrightarrow> m uid = Some v \<or> (\<exists>key. (key, v) \<in> set kvs \<and> parse_uuid key = Some uid)"
  using assms
proof (induction kvs arbitrary: m)
  case (Cons kv kvs)
  obtain key w where kv: "kv = (key, w)" by force
  from Cons.prems obtain u where u: "parse_uuid key = Some u" "m u = None"
    and rest: "canonical_overrides parse_uuid (m(u \<mapsto> w)) kvs = Inr m'"
    by (auto simp: kv split: option.splits)
  from Cons.IH [OF rest] u show ?case
    by (auto simp: kv split: if_splits)
qed simp

lemma canonical_overrides_keys:
  assumes "canonical_overrides parse_uuid m kvs = Inr m'"
  shows "\<forall>(key, v)\<in>set kvs. parse_uuid key \<noteq> None \<and> m (the (parse_uuid key)) = None"
    and "distinct (map (the \<circ> parse_uuid \<circ> fst) kvs)"
  using assms
proof (induction kvs arbitrary: m)
  case (Cons kv kvs)
  obtain key w where kv: "kv = (key, w)" by force
  {
    case 1
    then obtain u where u: "parse_uuid key = Some u" "m u = None"
      and rest: "canonical_overrides parse_uuid (m(u \<mapsto> w)) kvs = Inr m'"
      by (auto simp: kv split: option.splits)
    from Cons.IH(1) [OF rest] u show ?case
      by (auto simp: kv split: if_splits)
  next
    case 2
    then obtain u where u: "parse_uuid key = Some u" "m u = None"
      and rest: "canonical_overrides parse_uuid (m(u \<mapsto> w)) kvs = Inr m'"
      by (auto simp: kv split: option.splits)
    have "u \<notin> (the \<circ> parse_uuid \<circ> fst) ` set kvs"
      using Cons.IH(1) [OF rest] by (auto split: if_splits)
    with Cons.IH(2) [OF rest] u show ?case by (simp add: kv)
  }
qed simp_all

text \<open>
  C40: loading keeps every connection override of the file, reachable under the canonical form
  of its key, and adds none: a lookup by canonical connection id finds an override exactly when
  the file has an entry whose key names that connection.
\<close>

theorem load_policy_overrides:
  assumes "load_policy pattern_valid parse_uuid pc = Inr cfg"
  shows "(connection_overrides cfg uid = Some v
            \<longleftrightarrow> (\<exists>key. (key, v) \<in> set (p_connection_overrides pc) \<and> parse_uuid key = Some uid))
     \<and> distinct (map (the \<circ> parse_uuid \<circ> fst) (p_connection_overrides pc))
     \<and> list_all pattern_valid (p_mask_patterns pc)
     \<and> fst ` set (p_environments pc) \<subseteq> set KNOWN_ENVIRONMENT_NAMES"
proof -
  from assms obtain m where m: "canonical_overrides parse_uuid Map.empty (p_connection_overrides pc) = Inr m"
    and cfg: "connection_overrides cfg = m"
    and ok: "find (\<lambda>p. \<not> pattern_valid p) (p_mask_patterns pc) = None"
      "find (\<lambda>(name, _). name \<notin> set KNOWN_ENVIRONMENT_NAMES) (p_environments pc) = None"
    by (auto simp: load_policy_def split: option.splits sum.splits)
  have "connection_overrides cfg uid = Some v
           \<longleftrightarrow> (\<exists>key. (key, v) \<in> set (p_connection_overrides pc) \<and> parse_uuid key = Some uid)"
    using canonical_overrides_sound [OF m] by (simp add: cfg)
  moreover have "list_all pattern_valid (p_mask_patterns pc)"
    "fst ` set (p_environments pc) \<subseteq> set KNOWN_ENVIRONMENT_NAMES"
    using ok by (auto simp: find_None_iff list_all_iff)
  ultimately show ?thesis using canonical_overrides_keys(2) [OF m] by blast
qed

definition example_override :: env_policy_override where
  "example_override = \<lparr>o_agent_writes = None, o_agent_allow_ddl = Some False, o_agent_allow_multi_statement = None,
     o_human_approve_writes = None, o_human_approve_ddl = None, o_human_approve_unparseable = None,
     o_human_allow_unaudited_writes = None, o_blast_radius_max_rows = Some 10, o_mask_agent_results = None\<rparr>"

definition example_parsed_config :: parsed_config where
  "example_parsed_config =
     \<lparr>p_environments = [(''prod'', example_override)], p_connection_overrides = [(''AB-1'', example_override)],
      p_mask_patterns = [''*pin*'']\<rparr>"

definition example_parse_uuid :: "string \<Rightarrow> string option" where
  "example_parse_uuid key = (if key = ''AB-1'' then Some ''ab1'' else None)"

lemma example_load:
  "load_policy (\<lambda>p. p \<noteq> []) example_parse_uuid example_parsed_config =
     Inr \<lparr>environments = map_of [(''prod'', example_override)], connection_overrides = [''ab1'' \<mapsto> example_override],
          mask_patterns = [''*pin*'']\<rparr>"
  by (simp add: load_policy_def example_parsed_config_def example_parse_uuid_def KNOWN_ENVIRONMENT_NAMES_def)

theorem load_policy_overrides_witness:
  "\<exists>key. (key, example_override) \<in> set (p_connection_overrides example_parsed_config)
     \<and> example_parse_uuid key = Some ''ab1''"
  using load_policy_overrides [OF example_load, of "''ab1''" example_override] by simp

end
