(* ===== verification/Sql_Lex.thy ===== *)
theory Sql_Lex
  imports Prelude
begin

text \<open>
  \<open>crates/core/src/sql_lex.rs\<close>: the scanner that finds the end of a comment, a quoted text or a
  quoted identifier in the dialect of each driver, and the splitter that cuts a script at its
  top-level semicolons. Positions are byte offsets, as in the source.
\<close>

section \<open>Definitions\<close>

subsection \<open>Searching\<close>

definition starts_with :: "string \<Rightarrow> string \<Rightarrow> bool" where
  "starts_with p s \<longleftrightarrow> take (length p) s = p"

fun find_char :: "char \<Rightarrow> string \<Rightarrow> nat option" where
  "find_char c [] = None"
| "find_char c (x # xs) = (if x = c then Some 0 else map_option Suc (find_char c xs))"

fun find_sub :: "string \<Rightarrow> string \<Rightarrow> nat option" where
  "find_sub p [] = (if p = [] then Some 0 else None)"
| "find_sub p (x # xs) = (if starts_with p (x # xs) then Some 0 else map_option Suc (find_sub p xs))"

definition is_ascii_alphabetic :: "char \<Rightarrow> bool" where
  "is_ascii_alphabetic c \<longleftrightarrow>
     (65 \<le> (of_char c :: nat) \<and> (of_char c :: nat) \<le> 90) \<or> (97 \<le> (of_char c :: nat) \<and> (of_char c :: nat) \<le> 122)"

definition is_ascii_alphanumeric :: "char \<Rightarrow> bool" where
  "is_ascii_alphanumeric c \<longleftrightarrow> is_ascii_alphabetic c \<or> is_digit c"

subsection \<open>Quoted spans and comments\<close>

definition backslash :: char where "backslash = CHR 0x5C"
definition single_quote :: char where "single_quote = CHR 0x27"
definition double_quote :: char where "double_quote = CHR 0x22"
definition backtick :: char where "backtick = CHR 0x60"

text \<open>The loop of \<open>quoted_length\<close>, from the character at \<open>offset\<close> on.\<close>

fun quoted_scan :: "char \<Rightarrow> bool \<Rightarrow> nat \<Rightarrow> string \<Rightarrow> nat option" where
  "quoted_scan quote escapes offset [] = None"
| "quoted_scan quote escapes offset [c] =
     (if escapes \<and> c = backslash then None
      else if c \<noteq> quote then None else Some (offset + 1))"
| "quoted_scan quote escapes offset (c # d # cs) =
     (if escapes \<and> c = backslash then quoted_scan quote escapes (offset + 2) cs
      else if c \<noteq> quote then quoted_scan quote escapes (offset + 1) (d # cs)
      else if d = quote then quoted_scan quote escapes (offset + 2) cs
      else Some (offset + 1))"

definition quoted_length :: "string \<Rightarrow> char \<Rightarrow> bool \<Rightarrow> nat" where
  "quoted_length rest quote backslash_escapes =
     (case quoted_scan quote backslash_escapes 1 (drop 1 rest) of None \<Rightarrow> length rest | Some n \<Rightarrow> n)"

fun bracket_scan :: "nat \<Rightarrow> string \<Rightarrow> nat option" where
  "bracket_scan offset [] = None"
| "bracket_scan offset [c] = (if c = CHR '']'' then Some (offset + 1) else None)"
| "bracket_scan offset (c # d # cs) =
     (if c = CHR '']'' then
        (if d = CHR '']'' then bracket_scan (offset + 2) cs else Some (offset + 1))
      else bracket_scan (offset + 1) (d # cs))"

definition bracket_length :: "string \<Rightarrow> nat" where
  "bracket_length rest = (case bracket_scan 1 (drop 1 rest) of None \<Rightarrow> length rest | Some n \<Rightarrow> n)"

fun block_comment_scan :: "bool \<Rightarrow> nat \<Rightarrow> nat \<Rightarrow> string \<Rightarrow> nat option" where
  "block_comment_scan nested depth index (a # b # cs) =
     (if a = CHR ''/'' \<and> b = CHR ''*'' \<and> nested then block_comment_scan nested (depth + 1) (index + 2) cs
      else if a = CHR ''*'' \<and> b = CHR ''/'' then
        (if depth - 1 = 0 then Some (index + 2) else block_comment_scan nested (depth - 1) (index + 2) cs)
      else block_comment_scan nested depth (index + 1) (b # cs))"
| "block_comment_scan nested depth index _ = None"

definition block_comment_length :: "string \<Rightarrow> bool \<Rightarrow> nat" where
  "block_comment_length rest nested =
     (case block_comment_scan nested 1 2 (drop 2 rest) of None \<Rightarrow> length rest | Some n \<Rightarrow> n)"

definition valid_dollar_tag :: "string \<Rightarrow> bool" where
  "valid_dollar_tag t =
     (case t of [] \<Rightarrow> True
      | c # cs \<Rightarrow> (is_ascii_alphabetic c \<or> c = CHR ''_'')
               \<and> list_all (\<lambda>c. is_ascii_alphanumeric c \<or> c = CHR ''_'') cs)"

definition dollar_quote_length :: "string \<Rightarrow> string \<Rightarrow> nat option" where
  "dollar_quote_length rest driver_id =
     (if driver_id \<notin> {''postgres'', ''clickhouse''} \<or> \<not> starts_with ''$'' rest then None
      else case find_char (CHR ''$'') (drop 1 rest) of
        None \<Rightarrow> None
      | Some p \<Rightarrow>
          (let close = p + 1; tag = take (close + 1) rest in
           if driver_id = ''postgres'' \<and> \<not> valid_dollar_tag (take (close - 1) (drop 1 tag)) then None
           else case find_sub tag (drop (close + 1) rest) of
                  Some offset \<Rightarrow> Some (close + 1 + offset + length tag)
                | None \<Rightarrow> Some (length rest)))"

definition line_length :: "string \<Rightarrow> nat" where
  "line_length rest = (case find_char (CHR 0x0A) rest of None \<Rightarrow> length rest | Some offset \<Rightarrow> offset + 1)"

definition skip_span :: "string \<Rightarrow> string \<Rightarrow> nat option" where
  "skip_span rest driver_id =
     (if starts_with ''--'' rest
         \<and> (driver_id \<noteq> ''mysql'' \<or> drop 2 rest = [] \<or> starts_white_space (drop 2 rest))
      then Some (line_length rest)
      else if starts_with ''/*'' rest
      then Some (block_comment_length rest (driver_id \<in> {''postgres'', ''mssql''}))
      else if driver_id = ''mysql'' \<and> starts_with ''#'' rest then Some (line_length rest)
      else if starts_with [single_quote] rest
      then Some (quoted_length rest single_quote (driver_id \<in> {''mysql'', ''clickhouse''}))
      else if driver_id = ''postgres''
              \<and> (starts_with [CHR ''E'', single_quote] rest \<or> starts_with [CHR ''e'', single_quote] rest)
      then Some (1 + quoted_length (drop 1 rest) single_quote True)
      else case dollar_quote_length rest driver_id of
        Some tag_length \<Rightarrow> Some tag_length
      | None \<Rightarrow>
          (case rest of
             [] \<Rightarrow> None
           | c # _ \<Rightarrow>
               if driver_id \<in> {''mysql'', ''clickhouse''} \<and> c = backtick
               then Some (quoted_length rest backtick (driver_id = ''clickhouse''))
               else if driver_id = ''mssql'' \<and> c = CHR ''['' then Some (bracket_length rest)
               else if c = double_quote
               then Some (quoted_length rest double_quote (driver_id \<in> {''mysql'', ''clickhouse''}))
               else None))"

text \<open>
  The last character of a text, as its encoding. \<open>char::is_alphanumeric\<close> is a table of the Unicode standard:
  the parameter \<open>alnum\<close>, on encodings.
\<close>

definition is_continuation_byte :: "char \<Rightarrow> bool" where
  "is_continuation_byte c \<longleftrightarrow> 128 \<le> (of_char c :: nat) \<and> (of_char c :: nat) < 192"

definition last_char :: "string \<Rightarrow> string" where
  "last_char s = rev (take (length (takeWhile is_continuation_byte (rev s)) + 1) (rev s))"

definition inside_identifier :: "(string \<Rightarrow> bool) \<Rightarrow> string \<Rightarrow> nat \<Rightarrow> bool" where
  "inside_identifier alnum sql index \<longleftrightarrow>
     starts_with ''$'' (drop index sql) \<and> take index sql \<noteq> []
     \<and> (let previous = last_char (take index sql)
        in alnum previous \<or> previous = ''_'' \<or> previous = ''$'')"

definition skip_span_at :: "(string \<Rightarrow> bool) \<Rightarrow> string \<Rightarrow> nat \<Rightarrow> string \<Rightarrow> nat option" where
  "skip_span_at alnum sql index driver_id =
     (if inside_identifier alnum sql index then None else skip_span (drop index sql) driver_id)"

subsection \<open>Splitting a script\<close>

text \<open>The \<open>while\<close> loop of \<open>statement_spans\<close>.\<close>

function spans_from :: "(string \<Rightarrow> bool) \<Rightarrow> string \<Rightarrow> string \<Rightarrow> nat \<Rightarrow> nat \<Rightarrow> (nat \<times> nat) list" where
  "spans_from alnum sql driver_id start index =
     (if index < length sql then
        (case skip_span_at alnum sql index driver_id of
           Some (Suc n) \<Rightarrow> spans_from alnum sql driver_id start (index + Suc n)
         | _ \<Rightarrow>
             if sql ! index = CHR '';'' then (start, index) # spans_from alnum sql driver_id (index + 1) (index + 1)
             else spans_from alnum sql driver_id start (index + 1))
      else [(start, length sql)])"
  by pat_completeness auto
termination
  by (relation "measure (\<lambda>(_, sql, _, _, index). length sql - index)") auto

declare spans_from.simps [simp del]

definition statement_spans :: "(string \<Rightarrow> bool) \<Rightarrow> string \<Rightarrow> string \<Rightarrow> (nat \<times> nat) list" where
  "statement_spans alnum sql driver_id = spans_from alnum sql driver_id 0 0"

definition slice :: "string \<Rightarrow> nat \<times> nat \<Rightarrow> string" where
  "slice s b = take (snd b - fst b) (drop (fst b) s)"

definition split_statements :: "(string \<Rightarrow> bool) \<Rightarrow> string \<Rightarrow> string \<Rightarrow> string list" where
  "split_statements alnum sql driver_id =
     filter (\<lambda>t. t \<noteq> []) (map (\<lambda>b. trim (slice sql b)) (statement_spans alnum sql driver_id))"

definition statement_at_cursor :: "(string \<Rightarrow> bool) \<Rightarrow> string \<Rightarrow> string \<Rightarrow> nat \<Rightarrow> string option" where
  "statement_at_cursor alnum sql driver_id cursor_byte =
     (let spans = statement_spans alnum sql driver_id;
          cursor = min cursor_byte (length sql);
          pick = (case find (\<lambda>(s, e). s \<le> cursor \<and> cursor \<le> e) spans of
                    Some b \<Rightarrow> Some b
                  | None \<Rightarrow> if spans = [] then None else Some (last spans))
      in case pick of
           None \<Rightarrow> None
         | Some b \<Rightarrow> (let trimmed = trim (slice sql b) in if trimmed = [] then None else Some trimmed))"

section \<open>Properties\<close>

subsection \<open>A skipped span ends inside the text\<close>

lemma quoted_scan_bound: "quoted_scan q e k s = Some n \<Longrightarrow> k < n \<and> n \<le> k + length s"
  by (induction q e k s rule: quoted_scan.induct) (fastforce split: if_splits)+

lemma bracket_scan_bound: "bracket_scan k s = Some n \<Longrightarrow> k < n \<and> n \<le> k + length s"
  by (induction k s rule: bracket_scan.induct) (fastforce split: if_splits)+

lemma block_comment_scan_bound: "block_comment_scan b d k s = Some n \<Longrightarrow> k < n \<and> n \<le> k + length s"
  by (induction b d k s rule: block_comment_scan.induct) (fastforce split: if_splits)+

lemma find_char_bound: "find_char c s = Some n \<Longrightarrow> n < length s"
  by (induction s arbitrary: n) (auto split: if_splits)

lemma find_sub_bound: "find_sub p s = Some n \<Longrightarrow> n + length p \<le> length s"
  by (induction s arbitrary: n) (auto simp: starts_with_def split: if_splits dest: arg_cong [where f = length])


lemma starts_with_length: "starts_with p s \<Longrightarrow> length p \<le> length s"
  unfolding starts_with_def by (metis length_take min.cobounded1)

lemma quoted_length_bound: "s \<noteq> [] \<Longrightarrow> quoted_length s q e \<le> length s"
  by (cases s) (auto simp: quoted_length_def split: option.splits dest: quoted_scan_bound)

lemma bracket_length_bound: "s \<noteq> [] \<Longrightarrow> bracket_length s \<le> length s"
  by (cases s) (auto simp: bracket_length_def split: option.splits dest: bracket_scan_bound)

lemma block_comment_length_bound: "2 \<le> length s \<Longrightarrow> block_comment_length s nested \<le> length s"
  by (auto simp: block_comment_length_def split: option.splits dest: block_comment_scan_bound)

lemma line_length_bound: "line_length s \<le> length s"
  by (auto simp: line_length_def split: option.splits dest: find_char_bound)

lemma dollar_quote_length_bound: "dollar_quote_length s d = Some n \<Longrightarrow> n \<le> length s"
  by (auto simp: dollar_quote_length_def Let_def split: if_splits option.splits
      dest!: find_char_bound find_sub_bound)

lemma if_Some_bound:
  "(if c then Some a else x) = Some (n :: nat) \<Longrightarrow> (c \<Longrightarrow> a \<le> b) \<Longrightarrow> (x = Some n \<Longrightarrow> n \<le> b) \<Longrightarrow> n \<le> b"
  by (cases c) auto

lemma skip_span_bound:
  assumes "skip_span s d = Some n"
  shows "n \<le> length s"
proof (cases "s = []")
  case True
  then show ?thesis
    using assms by (simp add: skip_span_def starts_with_def dollar_quote_length_def)
next
  case False
  have comment: "block_comment_length s nested \<le> length s" if "starts_with ''/*'' s" for nested
    using block_comment_length_bound [of s] starts_with_length [OF that] by simp
  have escaped: "1 + quoted_length (drop 1 s) single_quote True \<le> length s"
    if "starts_with [c, single_quote] s" for c
    using quoted_length_bound [of "drop 1 s" single_quote True] starts_with_length [OF that]
    by (cases "drop 1 s") auto
  have ident: "(if a then Some (quoted_length (x # t) q e) else if b then Some (bracket_length (x # t))
      else if c then Some (quoted_length (x # t) q' e') else None) = Some n \<Longrightarrow> n \<le> length (x # t)" for a b c q e q' e' x t
    using quoted_length_bound [of "x # t"] bracket_length_bound [of "x # t"] by (elim if_Some_bound) simp_all
  show ?thesis
    using assms unfolding skip_span_def
  proof (elim if_Some_bound)
    assume "(case dollar_quote_length s d of
        Some tag_length \<Rightarrow> Some tag_length
      | None \<Rightarrow>
          (case s of
             [] \<Rightarrow> None
           | c # _ \<Rightarrow>
               if d \<in> {''mysql'', ''clickhouse''} \<and> c = backtick
               then Some (quoted_length s backtick (d = ''clickhouse''))
               else if d = ''mssql'' \<and> c = CHR ''['' then Some (bracket_length s)
               else if c = double_quote
               then Some (quoted_length s double_quote (d \<in> {''mysql'', ''clickhouse''}))
               else None)) = Some n"
    then show "n \<le> length s"
      by (cases "dollar_quote_length s d"; cases s)
        (simp_all only: option.case list.case option.inject dollar_quote_length_bound False, elim ident)
  qed (use False comment escaped in \<open>auto simp: line_length_bound quoted_length_bound\<close>)
qed

lemma skip_span_at_bound: "skip_span_at alnum s i d = Some n \<Longrightarrow> i < length s \<Longrightarrow> i + n \<le> length s"
  by (auto simp: skip_span_at_def split: if_splits dest: skip_span_bound)

subsection \<open>The pieces of a script\<close>

lemma slice_split:
  "a \<le> b \<Longrightarrow> b < c \<Longrightarrow> c \<le> length s \<Longrightarrow> slice s (a, c) = slice s (a, b) @ s ! b # slice s (b + 1, c)"
proof -
  assume a: "a \<le> b" "b < c" "c \<le> length s"
  have "take (c - a) (drop a s) = take (b - a) (drop a s) @ take (c - b) (drop b s)"
    using a take_add [of "b - a" "c - b" "drop a s"] by simp
  moreover have "take (c - b) (drop b s) = s ! b # take (c - (b + 1)) (drop (b + 1) s)"
  proof -
    have "c - b = Suc (c - (b + 1))" "drop b s = s ! b # drop (b + 1) s"
      using a Cons_nth_drop_Suc [of b s] by auto
    then show ?thesis by simp
  qed
  ultimately show ?thesis
    by (simp add: slice_def)
qed

definition skip_length :: "(string \<Rightarrow> bool) \<Rightarrow> string \<Rightarrow> nat \<Rightarrow> string \<Rightarrow> nat" where
  "skip_length alnum s i d = (case skip_span_at alnum s i d of None \<Rightarrow> 0 | Some n \<Rightarrow> n)"

lemma skip_length_bound: "i < length s \<Longrightarrow> i + skip_length alnum s i d \<le> length s"
  by (auto simp: skip_length_def split: option.splits dest: skip_span_at_bound)

lemma spans_from_done: "length s \<le> i \<Longrightarrow> spans_from alnum s d a i = [(a, length s)]"
  by (subst spans_from.simps) simp

lemma spans_from_skip:
  "i < length s \<Longrightarrow> 0 < skip_length alnum s i d \<Longrightarrow> spans_from alnum s d a i = spans_from alnum s d a (i + skip_length alnum s i d)"
  by (subst spans_from.simps) (auto simp: skip_length_def split: option.splits nat.splits)

lemma spans_from_cut:
  "i < length s \<Longrightarrow> skip_length alnum s i d = 0 \<Longrightarrow> s ! i = CHR '';''
   \<Longrightarrow> spans_from alnum s d a i = (a, i) # spans_from alnum s d (i + 1) (i + 1)"
  by (subst spans_from.simps) (auto simp: skip_length_def split: option.splits nat.splits)

lemma spans_from_plain:
  "i < length s \<Longrightarrow> skip_length alnum s i d = 0 \<Longrightarrow> s ! i \<noteq> CHR '';''
   \<Longrightarrow> spans_from alnum s d a i = spans_from alnum s d a (i + 1)"
  by (subst spans_from.simps) (auto simp: skip_length_def split: option.splits nat.splits)

lemma spans_from_cases [case_names finished skip cut plain]:
  fixes i :: nat and s :: string
  assumes "length s \<le> i \<Longrightarrow> P"
    and "i < length s \<Longrightarrow> 0 < skip_length alnum s i d \<Longrightarrow> P"
    and "i < length s \<Longrightarrow> skip_length alnum s i d = 0 \<Longrightarrow> s ! i = CHR '';'' \<Longrightarrow> P"
    and "i < length s \<Longrightarrow> skip_length alnum s i d = 0 \<Longrightarrow> s ! i \<noteq> CHR '';'' \<Longrightarrow> P"
  shows P
  using assms by (meson gr_zeroI not_le)

lemma join_Cons_nonempty: "xs \<noteq> [] \<Longrightarrow> join sep (x # xs) = x @ sep @ join sep xs"
  by (cases xs) simp_all

lemma spans_from_nonempty [simp]: "spans_from alnum s d a i \<noteq> []"
proof (induction "length s - i" arbitrary: a i rule: less_induct)
  case less
  show ?case
    by (cases rule: spans_from_cases [where s = s and i = i and d = d and alnum = alnum])
      (simp_all add: spans_from_done spans_from_skip spans_from_cut spans_from_plain less)
qed

lemma join_spans_from:
  "a \<le> i \<Longrightarrow> i \<le> length s \<Longrightarrow> join '';'' (map (slice s) (spans_from alnum s d a i)) = drop a s"
proof (induction "length s - i" arbitrary: a i rule: less_induct)
  case less
  show ?case
  proof (cases rule: spans_from_cases [where s = s and i = i and d = d and alnum = alnum])
    case finished
    then show ?thesis by (simp add: spans_from_done slice_def)
  next
    case skip
    then show ?thesis
      using less skip_length_bound [of i s alnum d] by (simp add: spans_from_skip)
  next
    case cut
    then have "drop a s = slice s (a, i) @ '';'' @ drop (i + 1) s"
      using slice_split [of a i "length s" s] less.prems by (simp add: slice_def)
    with cut show ?thesis
      using less.hyps [of "i + 1" "i + 1"] by (simp add: spans_from_cut join_Cons_nonempty)
  next
    case plain
    then show ?thesis
      using less by (simp add: spans_from_plain)
  qed
qed

text \<open>
  C35: Splitting loses nothing. For every text and every driver, the spans computed by
  \<open>statement_spans\<close>, rejoined with the semicolons at which they were cut, give the text back byte for
  byte. The scanner always returns: it is a total function whatever the text, unterminated literals and
  comments included.
\<close>

theorem split_rejoin: "join '';'' (map (slice sql) (statement_spans alnum sql driver_id)) = sql"
  using join_spans_from [of 0 0 sql alnum driver_id] by (simp add: statement_spans_def)

end
