(* ===== verification/Statement_Facts.thy ===== *)
theory Statement_Facts
  imports Prelude "HOL-Library.Word"
begin

text \<open>
  What the classifier knows about a statement: \<open>crates/policy/src/effects.rs\<close> (the effect
  bit set), \<open>crates/policy/src/classify.rs\<close> (statement classes, facts, and the fold that
  merges the statements of a script), \<open>effects_classification.rs\<close> (\<open>merge_script_class\<close>)
  and \<open>single_read.rs\<close>. The details of each statement, the input of the fold here, are computed in
  \<open>Classification\<close>.
\<close>

unbundle bit_operations_syntax

section \<open>Effects\<close>

text \<open>\<open>Effects(u16)\<close>.\<close>

type_synonym effects = "16 word"

definition EMPTY :: effects where "EMPTY = 0"
definition READS :: effects where "READS = push_bit 0 1"
definition WRITES_ROWS :: effects where "WRITES_ROWS = push_bit 1 1"
definition WRITES_SCHEMA :: effects where "WRITES_SCHEMA = push_bit 2 1"
definition ADMIN :: effects where "ADMIN = push_bit 3 1"
definition TRANSACTION_CONTROL :: effects where "TRANSACTION_CONTROL = push_bit 4 1"
definition SESSION_STATE :: effects where "SESSION_STATE = push_bit 5 1"
definition HOST_OR_FILE_ACCESS :: effects where "HOST_OR_FILE_ACCESS = push_bit 6 1"
definition UNKNOWN :: effects where "UNKNOWN = push_bit 7 1"

lemmas effect_bits =
  EMPTY_def READS_def WRITES_ROWS_def WRITES_SCHEMA_def ADMIN_def TRANSACTION_CONTROL_def
  SESSION_STATE_def HOST_OR_FILE_ACCESS_def UNKNOWN_def

definition eff_union :: "effects \<Rightarrow> effects \<Rightarrow> effects" where
  "eff_union a b = a OR b"

definition union_if :: "effects \<Rightarrow> effects \<Rightarrow> bool \<Rightarrow> effects" where
  "union_if a b c = (if c then eff_union a b else a)"

definition eff_contains :: "effects \<Rightarrow> effects \<Rightarrow> bool" where
  "eff_contains a b \<longleftrightarrow> a AND b = b"

definition intersects :: "effects \<Rightarrow> effects \<Rightarrow> bool" where
  "intersects a b \<longleftrightarrow> a AND b \<noteq> 0"

definition eff_writes :: "effects \<Rightarrow> bool" where
  "eff_writes a \<longleftrightarrow>
     a AND eff_union (eff_union (eff_union WRITES_ROWS WRITES_SCHEMA) ADMIN) UNKNOWN \<noteq> 0"

section \<open>Statement classes and facts\<close>

datatype statement_class =
    Select | Insert | Update | Delete | Ddl | Administrative | Transaction | Other | Unparseable

fun is_write :: "statement_class \<Rightarrow> bool" where
  "is_write Select = False"
| "is_write Transaction = False"
| "is_write _ = True"

record statement_facts =
  facts_class :: statement_class
  facts_effects :: effects
  tables :: "string list"
  has_where :: bool
  contains_unscoped_dml :: bool
  is_multi_statement :: bool
  parse_error :: "string option"

definition facts_writes :: "statement_facts \<Rightarrow> bool" where
  "facts_writes f = is_write (facts_class f)"

definition contains_ddl :: "statement_facts \<Rightarrow> bool" where
  "contains_ddl f = eff_contains (facts_effects f) WRITES_SCHEMA"

definition contains_mutating_dml :: "statement_facts \<Rightarrow> bool" where
  "contains_mutating_dml f = eff_contains (facts_effects f) WRITES_ROWS"

definition contains_unknown_write :: "statement_facts \<Rightarrow> bool" where
  "contains_unknown_write f = eff_contains (facts_effects f) UNKNOWN"

definition unparseable :: "string \<Rightarrow> statement_facts" where
  "unparseable message = \<lparr> facts_class = Unparseable, facts_effects = UNKNOWN, tables = [],
     has_where = False, contains_unscoped_dml = False, is_multi_statement = False,
     parse_error = Some message \<rparr>"

definition is_single_read :: "statement_facts \<Rightarrow> bool" where
  "is_single_read f \<longleftrightarrow>
     \<not> is_multi_statement f \<and> facts_class f = Select \<and> \<not> eff_writes (facts_effects f)
     \<and> \<not> intersects (facts_effects f)
            (eff_union (eff_union SESSION_STATE HOST_OR_FILE_ACCESS) ADMIN)"

text \<open>What it takes to learn how many rows a mutation would affect (\<open>blast_radius.rs\<close>).\<close>

record blast_radius_result =
  count_sql :: string
  br_tables :: "string list"

datatype blast_radius_rewrite = Known nat | CountQuery blast_radius_result

record statement_analysis =
  facts :: statement_facts
  rolls_back_to_savepoint :: bool
  blast_radius :: "blast_radius_rewrite option"
  sensitive_positions :: "bool list option"
  known_statement_rows :: "nat option list"

definition failed_analysis :: "string \<Rightarrow> statement_analysis" where
  "failed_analysis message = \<lparr> facts = unparseable message, rolls_back_to_savepoint = False,
     blast_radius = None, sensitive_positions = None, known_statement_rows = [] \<rparr>"

section \<open>Merging the statements of a script\<close>

record statement_details =
  d_class :: statement_class
  d_effects :: effects
  d_tables :: "string list"
  d_has_where :: bool
  d_contains_unscoped_dml :: bool

definition merge_script_class :: "statement_class \<Rightarrow> statement_class \<Rightarrow> statement_class" where
  "merge_script_class current next =
     (if current = Administrative \<or> next = Administrative then Administrative
      else if current = Select then next
      else if next = Select \<or> current = next then current
      else Other)"

definition push_table :: "string list \<Rightarrow> string \<Rightarrow> string list" where
  "push_table ts t = (if t \<in> set ts then ts else ts @ [t])"

text \<open>The loop state of \<open>classify_statements\<close>: the mutable locals of the Rust function.\<close>

record script_state =
  s_class :: statement_class
  s_writes :: bool
  s_effects :: effects
  s_tables :: "string list"
  s_has_where :: bool
  s_unscoped :: bool

definition classify_step :: "script_state \<Rightarrow> statement_details \<Rightarrow> script_state" where
  "classify_step s d =
     \<lparr> s_class = merge_script_class (s_class s) (d_class d),
       s_writes = (s_writes s \<or> is_write (d_class d)),
       s_effects = eff_union (s_effects s) (d_effects d),
       s_tables = foldl push_table (s_tables s) (d_tables d),
       s_has_where = (if d_class d = Update \<or> d_class d = Delete
                      then s_has_where s \<and> d_has_where d else s_has_where s),
       s_unscoped = (s_unscoped s \<or> d_contains_unscoped_dml d) \<rparr>"

definition classify_statements :: "statement_details list \<Rightarrow> effects \<Rightarrow> bool \<Rightarrow> statement_facts" where
  "classify_statements statements effects contains_administrative_call =
     (let s = foldl classify_step
                \<lparr> s_class = Select, s_writes = False, s_effects = effects, s_tables = [],
                  s_has_where = True, s_unscoped = False \<rparr> statements;
          class1 = (if contains_administrative_call then Administrative else s_class s);
          writes1 = (contains_administrative_call \<or> s_writes s);
          class2 = (if writes1 \<and> class1 = Select then Other else class1)
      in \<lparr> facts_class = class2, facts_effects = s_effects s, tables = s_tables s,
           has_where = s_has_where s, contains_unscoped_dml = s_unscoped s,
           is_multi_statement = (length statements > 1), parse_error = None \<rparr>)"

section \<open>Properties\<close>

subsection \<open>The effect set\<close>

text \<open>Every named effect is one bit, so containment of a single effect is that bit.\<close>

lemma bit_one_at: "bit (push_bit k (1 :: effects)) n \<longleftrightarrow> n = k \<and> k < 16"
  by (auto simp: bit_simps)

lemma effects_eq_iff: "(a :: effects) = b \<longleftrightarrow> (\<forall>n. bit a n \<longleftrightarrow> bit b n)"
  by (auto intro: bit_eqI)

lemma and_nonzero_iff: "(a :: effects) AND b \<noteq> 0 \<longleftrightarrow> (\<exists>n. bit a n \<and> bit b n)"
  by (simp only: effects_eq_iff bit_and_iff bit_0_eq) simp

lemma contains_bit:
  assumes "n < 16"
  shows "eff_contains a (push_bit n 1) \<longleftrightarrow> bit a n"
  unfolding eff_contains_def effects_eq_iff bit_and_iff bit_one_at using assms by auto

lemma contains_effect:
  "eff_contains a READS \<longleftrightarrow> bit a 0"
  "eff_contains a WRITES_ROWS \<longleftrightarrow> bit a 1"
  "eff_contains a WRITES_SCHEMA \<longleftrightarrow> bit a 2"
  "eff_contains a ADMIN \<longleftrightarrow> bit a 3"
  "eff_contains a TRANSACTION_CONTROL \<longleftrightarrow> bit a 4"
  "eff_contains a SESSION_STATE \<longleftrightarrow> bit a 5"
  "eff_contains a HOST_OR_FILE_ACCESS \<longleftrightarrow> bit a 6"
  "eff_contains a UNKNOWN \<longleftrightarrow> bit a 7"
  unfolding effect_bits by (rule contains_bit; simp)+

lemma bit_eff_union: "bit (eff_union a b) n \<longleftrightarrow> bit a n \<or> bit b n"
  by (simp add: eff_union_def bit_or_iff)

lemma eff_writes_contains:
  "eff_writes a \<longleftrightarrow> eff_contains a WRITES_ROWS \<or> eff_contains a WRITES_SCHEMA
     \<or> eff_contains a ADMIN \<or> eff_contains a UNKNOWN"
  unfolding eff_writes_def contains_effect and_nonzero_iff bit_eff_union
  unfolding effect_bits bit_one_at by auto

lemma contains_effect_union:
  "eff_contains (eff_union a b) WRITES_ROWS \<longleftrightarrow> eff_contains a WRITES_ROWS \<or> eff_contains b WRITES_ROWS"
  "eff_contains (eff_union a b) WRITES_SCHEMA \<longleftrightarrow> eff_contains a WRITES_SCHEMA \<or> eff_contains b WRITES_SCHEMA"
  "eff_contains (eff_union a b) ADMIN \<longleftrightarrow> eff_contains a ADMIN \<or> eff_contains b ADMIN"
  "eff_contains (eff_union a b) UNKNOWN \<longleftrightarrow> eff_contains a UNKNOWN \<or> eff_contains b UNKNOWN"
  "eff_contains (eff_union a b) HOST_OR_FILE_ACCESS
     \<longleftrightarrow> eff_contains a HOST_OR_FILE_ACCESS \<or> eff_contains b HOST_OR_FILE_ACCESS"
  by (simp_all only: contains_effect bit_eff_union)

lemma eff_writes_union: "eff_writes (eff_union a b) \<longleftrightarrow> eff_writes a \<or> eff_writes b"
  by (auto simp only: eff_writes_contains contains_effect_union)

subsection \<open>The class of a script\<close>

text \<open>
  The contract a class merge has to keep for the order of the statements of a script not to
  matter: a commutative idempotent monoid in which a write never becomes a read.
\<close>

locale class_merge =
  fixes merge :: "'c \<Rightarrow> 'c \<Rightarrow> 'c" and unit :: 'c and wr :: "'c \<Rightarrow> bool"
  assumes merge_assoc: "merge (merge a b) c = merge a (merge b c)"
    and merge_commute: "merge a b = merge b a"
    and merge_idem: "merge a a = a"
    and merge_unit: "merge unit a = a"
    and merge_write: "wr (merge a b) \<longleftrightarrow> wr a \<or> wr b"
begin

lemma foldl_merge_shift: "foldl merge (merge a b) cs = merge a (foldl merge b cs)"
  by (induction cs arbitrary: b) (simp_all add: merge_assoc)

lemma foldl_merge_absorb: "c \<in> set cs \<Longrightarrow> merge c (foldl merge a cs) = foldl merge a cs"
proof (induction cs arbitrary: a)
  case (Cons d cs)
  have "merge d (foldl merge (merge a d) cs) = foldl merge (merge d (merge a d)) cs"
    by (simp add: foldl_merge_shift)
  also have "merge d (merge a d) = merge a d"
    by (metis merge_assoc merge_commute merge_idem)
  finally show ?case using Cons by auto
qed simp

lemma foldl_merge_subset:
  "set cs \<subseteq> set ds \<Longrightarrow> merge (foldl merge unit cs) (foldl merge unit ds) = foldl merge unit ds"
proof (induction cs rule: rev_induct)
  case Nil
  then show ?case by (simp add: merge_unit)
next
  case (snoc c cs)
  then show ?case by (simp add: merge_assoc foldl_merge_absorb)
qed

lemma foldl_merge_set: "set cs = set ds \<Longrightarrow> foldl merge unit cs = foldl merge unit ds"
  by (metis foldl_merge_subset merge_commute order_refl)

lemma foldl_merge_write: "wr (foldl merge a cs) \<longleftrightarrow> wr a \<or> (\<exists>c\<in>set cs. wr c)"
  by (induction cs arbitrary: a) (auto simp: merge_write)

end

interpretation script_class: class_merge merge_script_class Select is_write
proof
  fix a b c :: statement_class
  show "merge_script_class (merge_script_class a b) c = merge_script_class a (merge_script_class b c)"
    by (cases a; cases b; cases c) (simp_all add: merge_script_class_def)
  show "merge_script_class a b = merge_script_class b a"
    by (cases a; cases b) (simp_all add: merge_script_class_def)
  show "merge_script_class a a = a" by (cases a) (simp_all add: merge_script_class_def)
  show "merge_script_class Select a = a" by (cases a) (simp_all add: merge_script_class_def)
  show "is_write (merge_script_class a b) \<longleftrightarrow> is_write a \<or> is_write b"
    by (cases a; cases b) (simp_all add: merge_script_class_def)
qed

lemma foldl_classify_step:
  "s_class (foldl classify_step s ds) = foldl merge_script_class (s_class s) (map d_class ds)"
  "s_writes (foldl classify_step s ds) \<longleftrightarrow> s_writes s \<or> (\<exists>d\<in>set ds. is_write (d_class d))"
  "s_unscoped (foldl classify_step s ds) \<longleftrightarrow> s_unscoped s \<or> (\<exists>d\<in>set ds. d_contains_unscoped_dml d)"
  "eff_writes (s_effects (foldl classify_step s ds)) \<longleftrightarrow>
     eff_writes (s_effects s) \<or> (\<exists>d\<in>set ds. eff_writes (d_effects d))"
  by (induction ds arbitrary: s) (auto simp: classify_step_def eff_writes_union)

text \<open>
  A script is a write exactly when one of its statements is a write or it calls an
  administrative function; no position of a statement in the script hides it.
\<close>

lemma script_writes_iff:
  "facts_writes (classify_statements ds effects admin) \<longleftrightarrow> admin \<or> list_ex (\<lambda>d. is_write (d_class d)) ds"
  by (auto simp: list_ex_iff facts_writes_def classify_statements_def Let_def foldl_classify_step
      script_class.foldl_merge_write)

text \<open>
  The class of a script does not depend on the order or the repetition of its statements.
\<close>

lemma script_class_order_independent:
  assumes "set (map d_class ds) = set (map d_class ds')"
  shows "facts_class (classify_statements ds effects admin)
       = facts_class (classify_statements ds' effects' admin)"
proof -
  have "foldl merge_script_class Select (map d_class ds) = foldl merge_script_class Select (map d_class ds')"
    by (rule script_class.foldl_merge_set [OF assms])
  moreover have "(\<exists>d\<in>set ds. is_write (d_class d)) \<longleftrightarrow> (\<exists>d\<in>set ds'. is_write (d_class d))"
    using assms by (metis (no_types, opaque_lifting) image_iff list.set_map)
  ultimately show ?thesis
    by (simp add: classify_statements_def Let_def foldl_classify_step)
qed

end
