(* ===== verification/Sql_Syntax.thy ===== *)
theory Sql_Syntax
  imports Sql_Lex Statement_Facts
begin

text \<open>
  The tokens and syntax trees of the \<open>sqlparser\<close> crate, as far as the code under \<open>crates/policy/src\<close>
  inspects them, and the crate itself as the record \<open>sql_parser\<close>, a parameter of every definition that
  tokenizes or parses. The datatypes have the constructors and fields that \<open>classify.rs\<close>,
  \<open>effects_classification.rs\<close>, \<open>select_writes.rs\<close>, \<open>constant_predicate.rs\<close>, \<open>explain_options.rs\<close>,
  \<open>show_statements.rs\<close>, \<open>blast_radius.rs\<close>, \<open>sensitive_projection.rs\<close>, \<open>projection_sources.rs\<close>,
  \<open>transaction_control.rs\<close> and \<open>tsql_transaction.rs\<close> match on; a node the code never looks into has a
  constructor of its own with nothing below it. Where the code prints a node (\<open>to_string\<close>), the printed text
  is a field of the place the code prints it from, and an object name is its printed text.
\<close>

section \<open>Tokens\<close>

datatype keyword =
    KwBEGIN | KwCOMMIT | KwROLLBACK | KwTRANSACTION | KwWITH | KwSELECT | KwFOR | KwUPDATE | KwSHARE | KwNO | KwKEY
  | NoKeyword | OtherKeyword

datatype whitespace = Space | SingleLineComment string | MultiLineComment string

datatype token =
    Word (word_value: string) (quote_style: "char option") (word_keyword: keyword)
  | Number string
  | SingleQuotedString string
  | Whitespace whitespace
  | SemiColon
  | Comma
  | Period
  | LParen
  | RParen
  | Mul
  | EqToken
  | Assignment
  | OtherToken

fun is_whitespace :: "token \<Rightarrow> bool" where
  "is_whitespace (Whitespace _) = True"
| "is_whitespace _ = False"

section \<open>Syntax trees\<close>

datatype unary_operator = OpNot | OpMinus | OpPlus | OpOtherUnary

datatype binary_operator = OpEq | OpNotEq | OpLt | OpLtEq | OpGt | OpGtEq | OpAnd | OpOr | OpOtherBinary

datatype sql_value =
    BooleanValue bool | NumberValue string | SingleQuotedValue string | DoubleQuotedValue string | OtherValue

text \<open>An argument is \<open>Some\<close> expression, or \<open>None\<close> for a wildcard; its name, if it has one, is not inspected.\<close>

datatype ('q, 'e) function_arguments = NoArguments | SubqueryArgument 'q | ArgumentList "'e option list"

text \<open>An expression of a projection with the text it prints as.\<close>

datatype 'e select_item =
    UnnamedExpr 'e string | ExprWithAlias 'e string | ExprWithAliases 'e string | Wildcard | QualifiedWildcard

datatype join_operator =
    PlainJoin | InnerJoin | LeftJoin | LeftOuterJoin | RightJoin | RightOuterJoin | FullOuterJoin
  | SemiJoin | LeftSemiJoin | RightSemiJoin | AntiJoin | LeftAntiJoin | RightAntiJoin
  | StraightJoin | OtherJoin

text \<open>A join, its operator and the expression of its \<open>ON\<close> constraint, if it has one.\<close>

datatype ('f, 'e) join_item = JoinItem (join_relation: 'f) (join_operator: join_operator) (on_constraint: "'e option")

datatype ('f, 'e) table_with_joins =
  TableWithJoins (relation: 'f) (joins: "('f, 'e) join_item list") (printed_source: string)

datatype 'q table_object = TableName string | TableFunction string | TableQuery 'q

datatype copy_target = CopyStdin | CopyStdout | CopyFile | CopyProgram

datatype 'q copy_source = CopyTable string | CopyQuery 'q

text \<open>\<open>alias.name.value\<close> and whether the alias names columns.\<close>

datatype table_alias = TableAlias string bool

datatype grant_objects =
    GrantTables "string list" | GrantViews "string list" | GrantSchemas "string list" | GrantDatabases "string list"
  | GrantOther

datatype isolation_level = ReadUncommitted | ReadCommitted | RepeatableRead | Serializable | SnapshotIsolation

datatype transaction_mode = AccessReadOnly | AccessReadWrite | IsolationLevel isolation_level

datatype show_kind =
    ShowVariable | ShowStatus | ShowVariables | ShowCreate | ShowColumns | ShowCatalogs | ShowDatabases
  | ShowProcessList | ShowSchemas | ShowCharset | ShowObjects | ShowTables | ShowViews | ShowCollation
  | ShowFunctions

datatype set_statement =
    SetTransaction | SetSingleAssignment string | SetMultipleAssignments "string list" | SetOther

text \<open>The statements of which the code inspects the constructor only.\<close>

datatype statement_kind =
    CreateVirtualTable | CreateRole | CreateSecret | CreateServer | CreatePolicy | CreateConnector
  | AlterIndex | AlterView | AlterType | AlterRole | AlterPolicy | AlterConnector
  | DropFunction | DropDomain | DropProcedure | DropSecret | DropPolicy | DropConnector
  | CreateExtension | DropExtension | CommentOn | CreateSchema | CreateDatabase | CreateTrigger | DropTrigger
  | CreateProcedure | CreateMacro | CreateStage | DenyStatement | CreateSequence | CreateDomain | CreateType
  | Install | Load | Kill | UseStatement | Pragma | Discard | DeclareStatement | Deallocate | ExecuteStatement | PrepareStatement
  | OpenStatement | FetchStatement | CloseStatement | Directory | Unload | CopyIntoSnowflake | OtherStatement

datatype expr =
    Identifier string
  | ValueExpr sql_value
  | Nested expr
  | UnaryOp unary_operator expr
  | BinaryOp expr binary_operator expr
  | Subquery query
  | Exists query
  | InSubquery expr query
  | InList expr "expr list"
  | Between expr expr expr
  | Cast expr
  | IsNull expr
  | IsNotNull expr
  | IsTrue expr
  | IsFalse expr
  | IsNotTrue expr
  | IsNotFalse expr
  | Collate expr
  | LikeExpr expr expr
  | ILike expr expr
  | SimilarTo expr expr
  | IsDistinctFrom expr expr
  | IsNotDistinctFrom expr expr
  | Tuple "expr list"
  | Function (function_name: string) (function_args: "(query, expr) function_arguments") (function_filter: "expr option")
  | CaseExpr "expr option" "(expr \<times> expr) list" "expr option"
  | OtherExpr
and query =
    MkQuery (cte_tables: "query list option") (query_body: set_expr) (query_locks: nat) (printed_query: string)
and set_expr =
    SelectBody select
  | QueryBody query
  | SetOperation set_expr set_expr
  | Values nat
  | InsertBody statement
  | UpdateBody statement
  | DeleteBody statement
  | MergeBody statement
  | TableBody
and select =
    MkSelect (projection: "expr select_item list") (select_into: bool)
      (select_from: "(table_factor, expr) table_with_joins list") (where_clause: "expr option") (having: "expr option")
and table_factor =
    Table (table_name: string) (last_ident: "string option") (table_alias: "table_alias option")
      (table_has_args: bool) (table_has_json_path: bool)
  | Derived query
  | NestedJoin "(table_factor, expr) table_with_joins"
  | OtherFactor
and statement =
    Query query
  | InsertStatement (insert_table: "query table_object") (insert_source: "query option")
  | UpdateStatement (update_table: "(table_factor, expr) table_with_joins")
      (update_from: "(table_factor, expr) table_with_joins list")
      (update_selection: "expr option") (printed_selection: string)
  | DeleteStatement (delete_tables: "string list") (delete_from: "(table_factor, expr) table_with_joins list")
      (delete_using: "(table_factor, expr) table_with_joins list")
      (delete_selection: "expr option") (printed_selection: string)
  | MergeStatement table_factor
  | CreateTable string (as_query: bool)
  | CreateView string
  | CreateIndex "string option" string
  | AlterTable string
  | RenameTable "string list"
  | Drop "string list"
  | Truncate "string list"
  | CreateFunction string
  | Grant "grant_objects option"
  | Revoke "grant_objects option"
  | StartTransaction "transaction_mode list" "statement list"
  | Commit bool
  | Rollback bool "string option"
  | Savepoint string
  | ReleaseSavepoint string
  | Explain bool statement "(string \<times> expr option) list option"
  | ExplainTable string
  | Copy (copy_to: bool) (copy_target: copy_target) (copy_source: "query copy_source")
  | SetStatement set_statement
  | ShowStatement show_kind
  | PlainStatement statement_kind

section \<open>The parser\<close>

datatype dialect = PostgreSqlDialect | MySqlDialect | SQLiteDialect | MsSqlDialect | GenericDialect

definition dialect_for :: "string \<Rightarrow> dialect" where
  "dialect_for driver_id =
     (if driver_id = ''postgres'' then PostgreSqlDialect
      else if driver_id = ''mysql'' then MySqlDialect
      else if driver_id = ''sqlite'' then SQLiteDialect
      else if driver_id = ''mssql'' then MsSqlDialect
      else GenericDialect)"

text \<open>
  The parser crate; the script planner that \<open>script_statements\<close> uses for SQLite; and the Unicode table of
  alphanumeric characters. A failed parse is the text of the parser's error.
\<close>

record sql_parser =
  tokenize :: "dialect \<Rightarrow> string \<Rightarrow> token list option"
  parse_sql :: "dialect \<Rightarrow> string \<Rightarrow> string + statement list"
  sqlite_script :: "string \<Rightarrow> string list"
  unicode_alnum :: "string \<Rightarrow> bool"

section \<open>ASCII case and slices\<close>

definition ascii_lower :: "char \<Rightarrow> char" where
  "ascii_lower c = (if 65 \<le> (of_char c :: nat) \<and> (of_char c :: nat) \<le> 90 then char_of ((of_char c :: nat) + 32) else c)"

definition to_ascii_lowercase :: "string \<Rightarrow> string" where
  "to_ascii_lowercase = map ascii_lower"

definition eq_ignore_ascii_case :: "string \<Rightarrow> string \<Rightarrow> bool" where
  "eq_ignore_ascii_case a b \<longleftrightarrow> map ascii_lower a = map ascii_lower b"

definition nth_opt :: "'a list \<Rightarrow> nat \<Rightarrow> 'a option" where
  "nth_opt xs i = (if i < length xs then Some (xs ! i) else None)"

text \<open>\<open>slice::split\<close>: the pieces between the separators.\<close>

fun split_on :: "('a \<Rightarrow> bool) \<Rightarrow> 'a list \<Rightarrow> 'a list list" where
  "split_on p [] = [[]]"
| "split_on p (x # xs) =
     (if p x then [] # split_on p xs
      else case split_on p xs of [] \<Rightarrow> [[x]] | y # ys \<Rightarrow> (x # y) # ys)"

end
