(* ===== verification/Constant_Predicate.thy ===== *)
theory Constant_Predicate
  imports Sql_Syntax
begin

text \<open>
  \<open>crates/policy/src/constant_predicate.rs\<close>: recognition of a predicate that is true of every row, which
  leaves an \<open>UPDATE\<close> or \<open>DELETE\<close> as unscoped as one without a \<open>WHERE\<close>. Decimal literals are compared
  exactly: a literal is its sign, its significant digits and the power of ten in front of them.
\<close>

section \<open>Definitions\<close>

subsection \<open>Numeric literals\<close>

datatype ordering = Less | Equal | Greater

fun reverse_ordering :: "ordering \<Rightarrow> ordering" where
  "reverse_ordering Less = Greater"
| "reverse_ordering Equal = Equal"
| "reverse_ordering Greater = Less"

definition cmp :: "'a::linorder \<Rightarrow> 'a \<Rightarrow> ordering" where
  "cmp a b = (if a < b then Less else if a = b then Equal else Greater)"

record numeric_literal =
  negative :: bool
  digits :: string
  order :: int

definition i64_range :: "int \<Rightarrow> bool" where
  "i64_range i \<longleftrightarrow> - (2 ^ 63) \<le> i \<and> i < 2 ^ 63"

definition checked_i64 :: "int \<Rightarrow> int option" where
  "checked_i64 i = (if i64_range i then Some i else None)"

text \<open>A leading sign, and the rest.\<close>

definition strip_sign :: "string \<Rightarrow> bool \<times> string" where
  "strip_sign s =
     (case s of
        c # rest \<Rightarrow> if c = CHR ''-'' then (True, rest) else if c = CHR ''+'' then (False, rest) else (False, s)
      | [] \<Rightarrow> (False, []))"

text \<open>\<open>str::parse::<i64>\<close>.\<close>

definition parse_i64 :: "string \<Rightarrow> int option" where
  "parse_i64 s =
     (let (minus, ds) = strip_sign s in
      if ds = [] \<or> \<not> list_all is_digit ds then None
      else checked_i64 (if minus then - int (digits_value 0 ds) else int (digits_value 0 ds)))"

definition is_exponent_mark :: "char \<Rightarrow> bool" where
  "is_exponent_mark c \<longleftrightarrow> c = CHR ''e'' \<or> c = CHR ''E''"

text \<open>The mantissa and the exponent of a literal without its sign; \<open>None\<close> is a malformed exponent.\<close>

definition split_exponent :: "string \<Rightarrow> (string \<times> int) option" where
  "split_exponent s =
     (let mantissa = takeWhile (\<lambda>c. \<not> is_exponent_mark c) s in
      if length mantissa < length s
      then map_option (Pair mantissa) (parse_i64 (drop (length mantissa + 1) s))
      else Some (s, 0))"

definition split_fraction :: "string \<Rightarrow> string \<times> string" where
  "split_fraction mantissa =
     (let whole = takeWhile (\<lambda>c. c \<noteq> CHR ''.'') mantissa in (whole, drop (length whole + 1) mantissa))"

definition trim_start_zeros :: "string \<Rightarrow> string" where
  "trim_start_zeros = dropWhile (\<lambda>c. c = CHR ''0'')"

definition zero_literal :: numeric_literal where
  "zero_literal = \<lparr>negative = False, digits = ''0'', order = 0\<rparr>"

text \<open>The digits of the mantissa without the zeros around them, and where they start.\<close>

definition significant_literal :: "bool \<Rightarrow> string \<Rightarrow> string \<Rightarrow> int \<Rightarrow> numeric_literal option" where
  "significant_literal neg whole fraction exponent =
     (let significant = trim_start_zeros (whole @ fraction) in
      if significant = [] then Some zero_literal
      else let trimmed = trim_end_matches (CHR ''0'') significant in
        Option.bind (checked_i64 (int (length significant - length trimmed))) (\<lambda>removed_zeros.
        Option.bind (checked_i64 (int (length fraction))) (\<lambda>fraction_len.
        Option.bind (checked_i64 (exponent - fraction_len)) (\<lambda>e.
        Option.bind (checked_i64 (e + removed_zeros)) (\<lambda>e.
        Option.bind (checked_i64 (int (length trimmed))) (\<lambda>len.
        Option.bind (checked_i64 (len + e)) (\<lambda>order.
          Some \<lparr>negative = neg, digits = trimmed, order = order\<rparr>)))))))"

definition parse_literal :: "string \<Rightarrow> numeric_literal option" where
  "parse_literal text =
     (let (neg, unsigned) = strip_sign text in
      Option.bind (split_exponent unsigned) (\<lambda>(mantissa, exponent).
        if list_ex is_exponent_mark mantissa then None
        else let (whole, fraction) = split_fraction mantissa in
          if whole = [] \<and> fraction = [] \<or> \<not> list_all is_digit whole \<or> \<not> list_all is_digit fraction then None
          else significant_literal neg whole fraction exponent))"

definition is_zero :: "numeric_literal \<Rightarrow> bool" where
  "is_zero n \<longleftrightarrow> digits n = ''0''"

text \<open>\<open>compare_digits\<close>: the loop over the positions of the longer of the two, a missing digit being a zero.\<close>

fun compare_padded :: "string \<Rightarrow> string \<Rightarrow> ordering" where
  "compare_padded [] [] = Equal"
| "compare_padded (a # as) [] = (if a = CHR ''0'' then compare_padded as [] else cmp a (CHR ''0''))"
| "compare_padded [] (b # bs) = (if b = CHR ''0'' then compare_padded [] bs else cmp (CHR ''0'') b)"
| "compare_padded (a # as) (b # bs) = (if a = b then compare_padded as bs else cmp a b)"

definition compare_digits :: "numeric_literal \<Rightarrow> numeric_literal \<Rightarrow> ordering" where
  "compare_digits a b = compare_padded (digits a) (digits b)"

definition compare_literal :: "numeric_literal \<Rightarrow> numeric_literal \<Rightarrow> ordering" where
  "compare_literal a b =
     (if negative a \<noteq> negative b then (if negative a then Less else Greater)
      else let order_cmp = cmp (order a) (order b);
               magnitude = (if order_cmp \<noteq> Equal then order_cmp else compare_digits a b)
           in if negative a then reverse_ordering magnitude else magnitude)"

subsection \<open>Constant predicates\<close>

fun numeric_literal_text :: "expr \<Rightarrow> string option" where
  "numeric_literal_text (ValueExpr (NumberValue number)) = Some number"
| "numeric_literal_text (Nested inner) = numeric_literal_text inner"
| "numeric_literal_text (UnaryOp op inner) =
     (if op = OpMinus \<or> op = OpPlus then numeric_literal_text inner else None)"
| "numeric_literal_text _ = None"

fun numeric_literal_of :: "expr \<Rightarrow> numeric_literal option" where
  "numeric_literal_of (ValueExpr (NumberValue number)) = parse_literal number"
| "numeric_literal_of (Nested inner) = numeric_literal_of inner"
| "numeric_literal_of (UnaryOp op inner) =
     (if op = OpPlus then numeric_literal_of inner
      else if op = OpMinus then
        map_option (\<lambda>number. if is_zero number then number else number\<lparr>negative := \<not> negative number\<rparr>)
          (numeric_literal_of inner)
      else None)"
| "numeric_literal_of _ = None"

definition numeric_truth :: "expr \<Rightarrow> bool option" where
  "numeric_truth e =
     map_option (\<lambda>text. case parse_literal text of None \<Rightarrow> True | Some number \<Rightarrow> \<not> is_zero number)
       (numeric_literal_text e)"

fun literal :: "expr \<Rightarrow> sql_value option" where
  "literal (ValueExpr v) = Some v"
| "literal (Nested inner) = literal inner"
| "literal _ = None"

fun comparison_is_true :: "ordering \<Rightarrow> binary_operator \<Rightarrow> bool" where
  "comparison_is_true result OpEq = (result = Equal)"
| "comparison_is_true result OpNotEq = (result \<noteq> Equal)"
| "comparison_is_true result OpLt = (result = Less)"
| "comparison_is_true result OpLtEq = (result \<noteq> Greater)"
| "comparison_is_true result OpGt = (result = Greater)"
| "comparison_is_true result _ = (result \<noteq> Less)"

definition compare_literals :: "expr \<Rightarrow> binary_operator \<Rightarrow> expr \<Rightarrow> bool" where
  "compare_literals left op right =
     (if numeric_literal_text left \<noteq> None \<and> numeric_literal_text right \<noteq> None then
        (case (numeric_literal_of left, numeric_literal_of right) of
           (Some a, Some b) \<Rightarrow> comparison_is_true (compare_literal a b) op
         | _ \<Rightarrow> True)
      else case (literal left, literal right) of
        (Some (SingleQuotedValue a), Some (SingleQuotedValue b)) \<Rightarrow> comparison_is_true (cmp a b) op
      | _ \<Rightarrow> False)"

definition is_comparison :: "binary_operator \<Rightarrow> bool" where
  "is_comparison op \<longleftrightarrow> op \<in> {OpEq, OpNotEq, OpLt, OpLtEq, OpGt, OpGtEq}"

fun is_constant_true :: "expr \<Rightarrow> bool"
  and is_constant_false :: "expr \<Rightarrow> bool" where
  "is_constant_true e =
     (case numeric_truth e of
        Some v \<Rightarrow> v
      | None \<Rightarrow>
          (case e of
             ValueExpr v \<Rightarrow> v = BooleanValue True
           | Nested inner \<Rightarrow> is_constant_true inner
           | UnaryOp op inner \<Rightarrow> op = OpNot \<and> is_constant_false inner
           | BinaryOp left op right \<Rightarrow>
               if is_comparison op then compare_literals left op right
               else if op = OpAnd then is_constant_true left \<and> is_constant_true right
               else if op = OpOr then is_constant_true left \<or> is_constant_true right
               else False
           | _ \<Rightarrow> False))"
| "is_constant_false e =
     (case numeric_truth e of
        Some v \<Rightarrow> \<not> v
      | None \<Rightarrow>
          (case e of
             ValueExpr v \<Rightarrow> v = BooleanValue False
           | Nested inner \<Rightarrow> is_constant_false inner
           | UnaryOp op inner \<Rightarrow> op = OpNot \<and> is_constant_true inner
           | _ \<Rightarrow> False))"

declare is_constant_true.simps [simp del] is_constant_false.simps [simp del]

end
