(* ===== verification/Effect_Tokens.thy ===== *)
theory Effect_Tokens
  imports Sql_Syntax
begin

text \<open>
  What the words of a statement say about its effects, wherever in the statement they stand: the lists of
  \<open>crates/policy/src/admin_functions.rs\<close>, the token scan \<open>sql_effects_from_tokens\<close> of
  \<open>effects_classification.rs\<close>, the texts that \<open>input_refusal.rs\<close> refuses to classify, and the locking clauses
  that \<open>select_writes.rs\<close> finds in the tokens of a query.
\<close>

section \<open>Definitions\<close>

subsection \<open>Administrative functions\<close>

definition ADMINISTRATIVE_FUNCTIONS :: "string list" where
  "ADMINISTRATIVE_FUNCTIONS =
     [''lo_create'', ''lo_export'', ''lo_import'', ''lo_put'', ''lo_unlink'', ''lowrite'', ''nextval'',
      ''pg_advisory_lock'', ''pg_advisory_lock_shared'', ''pg_advisory_unlock'', ''pg_advisory_unlock_all'',
      ''pg_advisory_unlock_shared'', ''pg_advisory_xact_lock'', ''pg_advisory_xact_lock_shared'',
      ''pg_backup_start'', ''pg_backup_stop'', ''pg_cancel_backend'', ''pg_create_restore_point'',
      ''pg_create_logical_replication_slot'', ''pg_create_physical_replication_slot'', ''pg_drop_replication_slot'',
      ''pg_log_backend_memory_contexts'', ''pg_promote'', ''pg_reload_conf'', ''pg_rotate_logfile'',
      ''pg_start_backup'', ''pg_stop_backup'', ''pg_switch_wal'', ''pg_terminate_backend'',
      ''pg_try_advisory_lock'', ''pg_try_advisory_lock_shared'', ''pg_try_advisory_xact_lock'',
      ''pg_try_advisory_xact_lock_shared'', ''pg_wal_replay_pause'', ''pg_wal_replay_resume'', ''lo_from_bytea'',
      ''lo_truncate'', ''lo_truncate64'', ''set_config'', ''setval'', ''pg_read_file'', ''pg_read_binary_file'',
      ''pg_stat_file'', ''pg_ls_dir'', ''pg_ls_logdir'', ''pg_ls_waldir'', ''pg_ls_archive_statusdir'',
      ''pg_ls_tmpdir'', ''dblink'', ''dblink_exec'', ''dblink_connect'', ''dblink_connect_u'', ''dblink_open'',
      ''dblink_fetch'', ''dblink_send_query'', ''query_to_xml'', ''query_to_xml_and_xmlschema'',
      ''query_to_xmlschema'', ''crosstab'', ''crosstab2'', ''crosstab3'', ''crosstab4'', ''lo_creat'',
      ''lo_from_bytea'', ''lo_truncate'', ''lo_truncate64'', ''pg_notify'', ''pg_file_write'', ''pg_file_rename'',
      ''pg_file_unlink'', ''pg_stat_statements_reset'']"

definition ADMINISTRATIVE_FUNCTION_PREFIXES :: "string list" where
  "ADMINISTRATIVE_FUNCTION_PREFIXES =
     [''pg_ls_'', ''pg_logical_'', ''pg_replication_'', ''pg_copy_logical_replication_slot'',
      ''pg_copy_physical_replication_slot'', ''pg_stat_reset'', ''crosstab'']"

definition is_administrative_function_exact_name :: "string \<Rightarrow> bool" where
  "is_administrative_function_exact_name name = List.member ADMINISTRATIVE_FUNCTIONS (to_ascii_lowercase name)"

definition is_administrative_function_prefix :: "string \<Rightarrow> bool" where
  "is_administrative_function_prefix name =
     (let lowered = to_ascii_lowercase name in
      list_ex (\<lambda>prefix. starts_with prefix lowered) ADMINISTRATIVE_FUNCTION_PREFIXES)"

definition is_administrative_function_name :: "string \<Rightarrow> bool" where
  "is_administrative_function_name name =
     (let lowered = to_ascii_lowercase name in
      is_administrative_function_exact_name lowered \<or> is_administrative_function_prefix lowered)"

subsection \<open>Functions of one engine\<close>

definition is_mssql_external_rowset :: "string \<Rightarrow> bool" where
  "is_mssql_external_rowset lowered = List.member [''openrowset'', ''openquery'', ''opendatasource''] lowered"

definition is_clickhouse_external_source :: "string \<Rightarrow> bool" where
  "is_clickhouse_external_source lowered = List.member
     [''file'', ''url'', ''urlcluster'', ''s3'', ''s3cluster'', ''hdfs'', ''hdfscluster'', ''remote'', ''remotesecure'',
      ''cluster'', ''clusterallreplicas'', ''mysql'', ''postgresql'', ''mongodb'', ''jdbc'', ''odbc'', ''sqlite'',
      ''azureblobstorage'', ''azureblobstoragecluster'', ''deltalake'', ''deltalakecluster'', ''iceberg'',
      ''icebergcluster'', ''hudi'', ''hudicluster'', ''redis'', ''executable'', ''gcs'', ''oss'', ''cosn'', ''hive'',
      ''arrowflight'', ''filecluster''] lowered"

definition is_host_or_file_access_function :: "string \<Rightarrow> string \<Rightarrow> bool" where
  "is_host_or_file_access_function driver_id name =
     (let lowered = to_ascii_lowercase name in
      if driver_id = ''postgres'' then
        List.member
          [''lo_export'', ''lo_import'', ''pg_read_file'', ''pg_read_binary_file'', ''pg_stat_file'', ''pg_ls_dir'',
           ''pg_ls_logdir'', ''pg_ls_waldir'', ''pg_ls_archive_statusdir'', ''pg_ls_tmpdir'', ''pg_file_write'',
           ''pg_file_rename'', ''pg_file_unlink''] lowered
      else if driver_id = ''mysql'' then lowered = ''load_file''
      else if driver_id = ''mssql'' then is_mssql_external_rowset lowered
      else if driver_id = ''clickhouse'' then is_clickhouse_external_source lowered
      else if driver_id = ''sqlite'' then List.member [''readfile'', ''writefile'', ''load_extension''] lowered
      else if driver_id = ''duckdb'' then
        List.member
          [''read_text'', ''read_blob'', ''read_csv'', ''read_csv_auto'', ''read_parquet'', ''read_json'',
           ''read_json_auto'', ''read_ndjson'', ''read_ndjson_auto'', ''write_csv'', ''write_parquet''] lowered
      else False)"

definition is_session_state_function :: "string \<Rightarrow> string \<Rightarrow> bool" where
  "is_session_state_function driver_id name =
     (let lowered = to_ascii_lowercase name in
      lowered = ''set_config''
      \<or> (driver_id = ''postgres'' \<and> starts_with ''pg_advisory_'' lowered)
      \<or> (driver_id = ''mysql'' \<and> List.member [''get_lock'', ''release_lock'', ''release_all_locks''] lowered))"

definition is_host_write_function :: "string \<Rightarrow> string \<Rightarrow> bool" where
  "is_host_write_function driver_id name =
     (let lowered = to_ascii_lowercase name in
      driver_id = ''duckdb'' \<and> List.member [''write_csv'', ''write_parquet''] lowered)"

definition is_engine_administrative_function_name :: "string \<Rightarrow> string \<Rightarrow> bool" where
  "is_engine_administrative_function_name driver_id name =
     (let lowered = to_ascii_lowercase name in
      if driver_id = ''mysql'' then List.member [''benchmark'', ''load_file'', ''sleep''] lowered
      else if driver_id = ''mssql'' then is_mssql_external_rowset lowered
      else if driver_id = ''clickhouse'' then is_clickhouse_external_source lowered
      else if driver_id = ''sqlite'' then
        List.member [''writefile'', ''readfile'', ''edit'', ''load_extension'', ''fts3_tokenizer''] lowered
      else False)"

definition is_administrative_procedure_name :: "string \<Rightarrow> string \<Rightarrow> bool" where
  "is_administrative_procedure_name driver_id name =
     (if driver_id \<noteq> ''mssql'' then False
      else let lowered = to_ascii_lowercase name in
        starts_with ''xp_'' lowered
        \<or> List.member [''sp_addsrvrolemember'', ''sp_configure'', ''sp_lock'', ''sp_password'', ''sp_who'', ''sp_who2'']
            lowered)"

subsection \<open>The scan\<close>

text \<open>The tokens before the name, the nearest first.\<close>

definition function_prefix_is_system_scoped :: "token list \<Rightarrow> bool" where
  "function_prefix_is_system_scoped before =
     (case filter (\<lambda>t. \<not> is_whitespace t) before of
        Period # Word schema quote _ # _ \<Rightarrow>
          schema = ''pg_catalog'' \<or> (quote = None \<and> eq_ignore_ascii_case schema ''pg_catalog'')
      | Period # _ \<Rightarrow> False
      | _ \<Rightarrow> True)"

definition is_call :: "token list \<Rightarrow> bool" where
  "is_call rest = (find (\<lambda>t. \<not> is_whitespace t) rest = Some LParen)"

text \<open>The body of the loop, for the word \<open>name\<close>.\<close>

definition word_effects :: "string \<Rightarrow> token list \<Rightarrow> string \<Rightarrow> token list \<Rightarrow> effects \<times> bool \<Rightarrow> effects \<times> bool" where
  "word_effects driver_id before name rest = (\<lambda>(effects, legacy).
     let procedure = is_administrative_procedure_name driver_id name;
         effects = union_if effects ADMIN procedure;
         legacy = (legacy \<or> procedure);
         effects = union_if effects HOST_OR_FILE_ACCESS
                     (procedure \<and> starts_with ''xp_'' (to_ascii_lowercase name))
     in if \<not> is_call rest then (effects, legacy)
        else let known_function = is_administrative_function_exact_name name
                   \<or> (is_administrative_function_prefix name \<and> function_prefix_is_system_scoped before);
                 administrative = (known_function \<or> is_engine_administrative_function_name driver_id name);
                 effects = union_if effects ADMIN administrative;
                 legacy = (legacy \<or> administrative);
                 effects = union_if effects HOST_OR_FILE_ACCESS (is_host_or_file_access_function driver_id name);
                 session = is_session_state_function driver_id name;
                 effects = union_if effects SESSION_STATE session;
                 effects = union_if effects ADMIN (session \<and> driver_id = ''mysql'');
                 effects = union_if effects ADMIN (is_host_write_function driver_id name)
             in (effects, legacy))"

fun token_loop :: "string \<Rightarrow> token list \<Rightarrow> token list \<Rightarrow> effects \<times> bool \<Rightarrow> effects \<times> bool" where
  "token_loop driver_id before [] acc = acc"
| "token_loop driver_id before (t # rest) acc =
     token_loop driver_id (t # before) rest
       (case t of Word name _ _ \<Rightarrow> word_effects driver_id before name rest acc | _ \<Rightarrow> acc)"

definition sql_effects_from_tokens :: "sql_parser \<Rightarrow> string \<Rightarrow> dialect \<Rightarrow> string \<Rightarrow> effects \<times> bool" where
  "sql_effects_from_tokens P sql dialect driver_id =
     (case tokenize P dialect sql of
        None \<Rightarrow> (EMPTY, False)
      | Some tokens \<Rightarrow> token_loop driver_id [] tokens (EMPTY, False))"

subsection \<open>Texts that are not classified (\<open>input_refusal.rs\<close>)\<close>

definition is_executable_comment :: "token \<Rightarrow> bool" where
  "is_executable_comment t =
     (case t of
        Whitespace (MultiLineComment comment) \<Rightarrow> starts_with ''!'' comment \<or> starts_with ''M!'' comment
      | _ \<Rightarrow> False)"

definition contains_mysql_executable_comment :: "sql_parser \<Rightarrow> string \<Rightarrow> dialect \<Rightarrow> bool" where
  "contains_mysql_executable_comment P sql dialect =
     (case tokenize P dialect sql of None \<Rightarrow> False | Some tokens \<Rightarrow> list_ex is_executable_comment tokens)"

definition is_redis_database_switch :: "sql_parser \<Rightarrow> string \<Rightarrow> dialect \<Rightarrow> bool" where
  "is_redis_database_switch P sql dialect =
     (case tokenize P dialect sql of
        None \<Rightarrow> False
      | Some tokens \<Rightarrow>
          (case filter (\<lambda>t. \<not> is_whitespace t \<and> t \<noteq> SemiColon) tokens of
             [Word word None _, _] \<Rightarrow> eq_ignore_ascii_case word ''SELECT''
           | _ \<Rightarrow> False))"

definition input_refusal :: "sql_parser \<Rightarrow> string \<Rightarrow> string \<Rightarrow> dialect \<Rightarrow> string option" where
  "input_refusal P sql driver_id dialect =
     (if driver_id = ''redis'' \<and> is_redis_database_switch P sql dialect
      then Some ''Redis SELECT switches the connection's database and is not a read''
      else if driver_id = ''mysql'' \<and> contains_mysql_executable_comment P sql dialect
      then Some ''MySQL executable comments are not safely classified''
      else None)"

subsection \<open>Locking clauses (\<open>select_writes.rs\<close>)\<close>

definition bare_keyword :: "token \<Rightarrow> keyword option" where
  "bare_keyword t = (case t of Word _ None k \<Rightarrow> Some k | _ \<Rightarrow> None)"

text \<open>The windows of the keyword sequence, from the first on.\<close>

fun locking_keywords :: "keyword option list \<Rightarrow> bool" where
  "locking_keywords (a # b # rest) =
     ((a = Some KwFOR \<and> (b = Some KwUPDATE \<or> b = Some KwSHARE))
      \<or> (a = Some KwFOR \<and> (b = Some KwNO \<or> b = Some KwKEY)
          \<and> (case rest of c # _ \<Rightarrow> c = Some KwKEY \<or> c = Some KwSHARE \<or> c = Some KwUPDATE | [] \<Rightarrow> False))
      \<or> locking_keywords (b # rest))"
| "locking_keywords _ = False"

definition has_locking_clause :: "sql_parser \<Rightarrow> string \<Rightarrow> dialect \<Rightarrow> bool" where
  "has_locking_clause P sql dialect =
     (case tokenize P dialect sql of
        None \<Rightarrow> True
      | Some tokens \<Rightarrow> locking_keywords (map bare_keyword (filter (\<lambda>t. \<not> is_whitespace t) tokens)))"

definition with_locking_backstop :: "sql_parser \<Rightarrow> statement_facts \<Rightarrow> string \<Rightarrow> dialect \<Rightarrow> statement_facts" where
  "with_locking_backstop P f sql dialect =
     (if facts_class f = Select \<and> has_locking_clause P sql dialect
      then f\<lparr>facts_class := Other, facts_effects := eff_union (facts_effects f) WRITES_ROWS\<rparr>
      else f)"

section \<open>Properties\<close>

lemma bit_union_if: "bit (union_if a b c) n \<longleftrightarrow> bit a n \<or> c \<and> bit b n"
  by (simp add: union_if_def bit_eff_union)

lemma admin_bit: "bit ADMIN n \<longleftrightarrow> n = 3"
  unfolding ADMIN_def bit_one_at by auto

text \<open>The scan only ever adds to what it has found.\<close>

lemma word_effects_grow:
  assumes "word_effects driver_id before name rest (e, l) = (e', l')"
  shows "bit e n \<Longrightarrow> bit e' n" "l \<Longrightarrow> l'"
  using assms by (auto simp: word_effects_def Let_def bit_union_if split: if_splits)

lemma token_loop_grow:
  assumes "token_loop driver_id before ts (e, l) = (e', l')"
  shows "(bit e n \<longrightarrow> bit e' n) \<and> (l \<longrightarrow> l')"
  using assms
proof (induction ts arbitrary: before e l)
  case (Cons t ts)
  obtain e1 l1 where s: "(case t of Word name _ _ \<Rightarrow> word_effects driver_id before name ts (e, l) | _ \<Rightarrow> (e, l)) = (e1, l1)"
    by fastforce
  then have "(bit e n \<longrightarrow> bit e1 n) \<and> (l \<longrightarrow> l1)"
    by (cases t) (auto dest: word_effects_grow)
  with Cons.IH [of "t # before" e1 l1] Cons.prems s show ?case by simp
qed simp

text \<open>An administrative call is always an administrative effect.\<close>

lemma token_loop_admin:
  assumes "token_loop driver_id before ts (e, l) = (e', l')" "l \<longrightarrow> eff_contains e ADMIN"
  shows "l' \<longrightarrow> eff_contains e' ADMIN"
  using assms
proof (induction ts arbitrary: before e l)
  case (Cons t ts)
  obtain e1 l1 where s: "(case t of Word name _ _ \<Rightarrow> word_effects driver_id before name ts (e, l) | _ \<Rightarrow> (e, l)) = (e1, l1)"
    by fastforce
  then have "l1 \<longrightarrow> eff_contains e1 ADMIN"
    using Cons.prems(2)
    by (cases t) (auto simp: word_effects_def Let_def contains_effect bit_union_if admin_bit split: if_splits)
  with Cons.IH [of "t # before" e1 l1] Cons.prems s show ?case by simp
qed simp

lemma token_loop_suffix:
  "\<exists>e l. token_loop driver_id before (xs @ ys) acc = token_loop driver_id (rev xs @ before) ys (e, l)"
  by (induction xs arbitrary: before acc) (fastforce, simp)

lemma is_call_blank: "list_all is_whitespace blank \<Longrightarrow> is_call (blank @ LParen # rest)"
  by (induction blank) (auto simp: is_call_def)

text \<open>Names whose call is administrative for a driver.\<close>

definition administrative_name :: "string \<Rightarrow> string \<Rightarrow> bool" where
  "administrative_name driver_id name \<longleftrightarrow>
     is_administrative_function_exact_name name \<or> is_engine_administrative_function_name driver_id name"

lemma token_loop_call:
  assumes "administrative_name driver_id name" "list_all is_whitespace blank"
    and "token_loop driver_id before (xs @ Word name q k # blank @ LParen # ys) acc = (e, l)"
  shows "eff_contains e ADMIN \<and> l"
proof -
  obtain e0 l0 where acc: "token_loop driver_id (rev xs @ before) (Word name q k # blank @ LParen # ys) (e0, l0) = (e, l)"
    using token_loop_suffix [of driver_id before xs "Word name q k # blank @ LParen # ys" acc] assms(3) by auto
  obtain e1 l1 where w: "word_effects driver_id (rev xs @ before) name (blank @ LParen # ys) (e0, l0) = (e1, l1)"
    by fastforce
  then have "bit e1 3" "l1"
    using assms(1) is_call_blank [OF assms(2), of ys]
    by (auto simp: word_effects_def Let_def administrative_name_def bit_union_if admin_bit)
  then show ?thesis
    using acc token_loop_grow [of driver_id "Word name q k # rev xs @ before" "blank @ LParen # ys" e1 l1 e l 3]
    by (simp add: w contains_effect)
qed

end
