(* ===== verification/Classification.thy ===== *)
theory Classification
  imports Constant_Predicate Effect_Tokens
begin

text \<open>
  \<open>crates/policy/src/classify.rs\<close> with \<open>select_writes.rs\<close>, \<open>explain_options.rs\<close>, \<open>show_statements.rs\<close> and the
  statement effects of \<open>effects_classification.rs\<close>: what one statement does, from its syntax tree. The functions
  of the source are mutually recursive through \<open>classify_query\<close> and \<open>classify_statement\<close>; a helper that calls
  one of the two takes it as its first argument here (\<open>cq\<close>, \<open>cs\<close>), and the congruence rule next to it says that
  it only calls it on smaller trees.
\<close>

section \<open>Definitions\<close>

definition is_some_and :: "('a \<Rightarrow> bool) \<Rightarrow> 'a option \<Rightarrow> bool" where
  "is_some_and p x = (case x of Some v \<Rightarrow> p v | None \<Rightarrow> False)"

definition is_none_or :: "('a \<Rightarrow> bool) \<Rightarrow> 'a option \<Rightarrow> bool" where
  "is_none_or p x = (case x of Some v \<Rightarrow> p v | None \<Rightarrow> True)"

lemma is_some_and_cong [fundef_cong]:
  "x = y \<Longrightarrow> (\<And>v. y = Some v \<Longrightarrow> p v = q v) \<Longrightarrow> is_some_and p x = is_some_and q y"
  by (auto simp: is_some_and_def split: option.splits)

definition details_of :: "statement_class \<Rightarrow> string list \<Rightarrow> bool \<Rightarrow> bool \<Rightarrow> statement_details" where
  "details_of class names where_given unscoped = \<lparr>d_class = class, d_effects = EMPTY, d_tables = names,
     d_has_where = where_given, d_contains_unscoped_dml = unscoped\<rparr>"

subsection \<open>Sizes of the parts of a tree\<close>

lemma size_some_in [termination_simp]: "Some e \<in> set xs \<Longrightarrow> f e < size_list (size_option f) xs"
  by (induction xs) auto

lemma size_relation [termination_simp]: "f (relation t) < Suc (size_table_with_joins f g t)"
  by (cases t) simp

lemma size_join_relation [termination_simp]:
  "j \<in> set (joins t) \<Longrightarrow> f (join_relation j) < Suc (size_table_with_joins f g t)"
proof (cases t)
  case (TableWithJoins r js printed)
  assume "j \<in> set (joins t)"
  then have "size_join_item f g j \<le> size_list (size_join_item f g) js"
    using TableWithJoins by (simp add: size_list_estimation')
  then show ?thesis using TableWithJoins by (cases j) simp
qed

lemma size_pair_in [termination_simp]:
  "(a, b) \<in> set xs \<Longrightarrow> f a < Suc (size_list (size_prod f f) xs)"
  "(a, b) \<in> set xs \<Longrightarrow> f b < Suc (size_list (size_prod f f) xs)"
  by (induction xs) auto

subsection \<open>Writes inside expressions (\<open>select_writes.rs\<close>)\<close>

definition query_writes :: "(query \<Rightarrow> statement_details) \<Rightarrow> query \<Rightarrow> bool" where
  "query_writes cq q = is_write (d_class (cq q))"

fun expr_writes :: "(query \<Rightarrow> statement_details) \<Rightarrow> expr \<Rightarrow> bool" where
  "expr_writes cq (Subquery q) = query_writes cq q"
| "expr_writes cq (BinaryOp left _ right) = (expr_writes cq left \<or> expr_writes cq right)"
| "expr_writes cq (UnaryOp _ e) = expr_writes cq e"
| "expr_writes cq (Nested e) = expr_writes cq e"
| "expr_writes cq (Exists q) = query_writes cq q"
| "expr_writes cq (InSubquery e q) = (expr_writes cq e \<or> query_writes cq q)"
| "expr_writes cq (InList e es) = (expr_writes cq e \<or> list_ex (expr_writes cq) es)"
| "expr_writes cq (Between e low high) = (expr_writes cq e \<or> expr_writes cq low \<or> expr_writes cq high)"
| "expr_writes cq (Cast e) = expr_writes cq e"
| "expr_writes cq (IsNull e) = expr_writes cq e"
| "expr_writes cq (IsNotNull e) = expr_writes cq e"
| "expr_writes cq (IsTrue e) = expr_writes cq e"
| "expr_writes cq (IsFalse e) = expr_writes cq e"
| "expr_writes cq (IsNotTrue e) = expr_writes cq e"
| "expr_writes cq (IsNotFalse e) = expr_writes cq e"
| "expr_writes cq (Collate e) = expr_writes cq e"
| "expr_writes cq (LikeExpr e pat) = (expr_writes cq e \<or> expr_writes cq pat)"
| "expr_writes cq (ILike e pat) = (expr_writes cq e \<or> expr_writes cq pat)"
| "expr_writes cq (SimilarTo e pat) = (expr_writes cq e \<or> expr_writes cq pat)"
| "expr_writes cq (IsDistinctFrom left right) = (expr_writes cq left \<or> expr_writes cq right)"
| "expr_writes cq (IsNotDistinctFrom left right) = (expr_writes cq left \<or> expr_writes cq right)"
| "expr_writes cq (Tuple items) = list_ex (expr_writes cq) items"
| "expr_writes cq (Function name args flt) =
     (case args of
        SubqueryArgument q \<Rightarrow> query_writes cq q
      | ArgumentList arguments \<Rightarrow>
          list_ex (is_some_and (expr_writes cq)) arguments \<or> is_some_and (expr_writes cq) flt
      | NoArguments \<Rightarrow> False)"
| "expr_writes cq (CaseExpr operand conditions else_result) =
     (is_some_and (expr_writes cq) operand
      \<or> list_ex (\<lambda>(condition, value). expr_writes cq condition \<or> expr_writes cq value) conditions
      \<or> is_some_and (expr_writes cq) else_result)"
| "expr_writes cq _ = False"

lemma less_size_in: "x \<in> set xs \<Longrightarrow> (n :: nat) < f x \<Longrightarrow> n < Suc (size_list f xs + m)" "x \<in> set xs \<Longrightarrow> n < f x \<Longrightarrow> n < Suc (size_list f xs)"
  using size_list_estimation [of x xs n f] by simp_all

lemma expr_writes_agree:
  "(\<And>q. size q < size e \<Longrightarrow> cq q = cq' q) \<Longrightarrow> expr_writes cq e = expr_writes cq' e"
proof (induction cq e rule: expr_writes.induct)
  case (7 cq e es)
  then have "list_ex (expr_writes cq) es = list_ex (expr_writes cq') es"
    by (intro list_ex_cong refl) (auto intro: less_size_in)
  with 7 show ?case by auto
next
  case (22 cq items)
  then show ?case by (simp, intro list_ex_cong refl) (auto intro: less_size_in)
next
  case (23 cq name args flt)
  then show ?case
    by (cases args) (auto simp: query_writes_def termination_simp intro!: arg_cong2 [where f = "(\<or>)"] list_ex_cong is_some_and_cong)
next
  case (24 cq operand conditions else_result)
  have "is_some_and (expr_writes cq) operand = is_some_and (expr_writes cq') operand"
    by (rule is_some_and_cong [OF refl], rule 24(1)) (auto intro!: 24(5))
  moreover have "list_ex (\<lambda>(condition, value). expr_writes cq condition \<or> expr_writes cq value) conditions
     = list_ex (\<lambda>(condition, value). expr_writes cq' condition \<or> expr_writes cq' value) conditions"
    using 24 by (intro list_ex_cong) (auto simp: termination_simp)
  moreover have "is_some_and (expr_writes cq) else_result = is_some_and (expr_writes cq') else_result"
    by (rule is_some_and_cong [OF refl], rule 24(4)) (auto intro!: 24(5))
  ultimately show ?case by simp
qed (auto simp: query_writes_def intro!: list_ex_cong)

lemma expr_writes_cong [fundef_cong]:
  "e = e' \<Longrightarrow> (\<And>q. size q < size e' \<Longrightarrow> cq q = cq' q) \<Longrightarrow> expr_writes cq e = expr_writes cq' e'"
  using expr_writes_agree by blast

definition join_constraint :: "(table_factor, expr) join_item \<Rightarrow> expr option" where
  "join_constraint j =
     (if join_operator j \<in> {PlainJoin, InnerJoin, LeftJoin, LeftOuterJoin, RightJoin, RightOuterJoin, FullOuterJoin,
                            SemiJoin, LeftSemiJoin, RightSemiJoin, AntiJoin, LeftAntiJoin, RightAntiJoin}
      then on_constraint j else None)"

definition derived_writes :: "(query \<Rightarrow> statement_details) \<Rightarrow> table_factor \<Rightarrow> bool" where
  "derived_writes cq factor = (case factor of Derived q \<Rightarrow> query_writes cq q | _ \<Rightarrow> False)"

definition projected_expr :: "expr select_item \<Rightarrow> expr option" where
  "projected_expr item = (case item of UnnamedExpr e _ \<Rightarrow> Some e | ExprWithAlias e _ \<Rightarrow> Some e | _ \<Rightarrow> None)"

definition select_writes :: "(query \<Rightarrow> statement_details) \<Rightarrow> select \<Rightarrow> bool" where
  "select_writes cq s \<longleftrightarrow>
     select_into s
     \<or> list_ex (\<lambda>t. list_ex (derived_writes cq) (relation t # map join_relation (joins t))) (select_from s)
     \<or> list_ex (\<lambda>j. is_some_and (expr_writes cq) (join_constraint j)) (concat (map joins (select_from s)))
     \<or> is_some_and (expr_writes cq) (where_clause s)
     \<or> is_some_and (expr_writes cq) (having s)
     \<or> list_ex (\<lambda>item. is_some_and (expr_writes cq) (projected_expr item)) (projection s)"

subsection \<open>Administrative calls in the syntax tree\<close>

fun expr_is_administrative :: "(query \<Rightarrow> statement_details) \<Rightarrow> expr \<Rightarrow> bool" where
  "expr_is_administrative cq (Function name args flt) =
     (is_administrative_function_name name
      \<or> (case args of
           NoArguments \<Rightarrow> False
         | SubqueryArgument q \<Rightarrow> d_class (cq q) = Administrative
         | ArgumentList arguments \<Rightarrow> list_ex (is_some_and (expr_is_administrative cq)) arguments))"
| "expr_is_administrative cq (Subquery q) = (d_class (cq q) = Administrative)"
| "expr_is_administrative cq (BinaryOp left _ right) =
     (expr_is_administrative cq left \<or> expr_is_administrative cq right)"
| "expr_is_administrative cq (UnaryOp _ e) = expr_is_administrative cq e"
| "expr_is_administrative cq (Nested e) = expr_is_administrative cq e"
| "expr_is_administrative cq (CaseExpr operand conditions else_result) =
     (is_some_and (expr_is_administrative cq) operand
      \<or> list_ex (\<lambda>(condition, value). expr_is_administrative cq condition \<or> expr_is_administrative cq value) conditions
      \<or> is_some_and (expr_is_administrative cq) else_result)"
| "expr_is_administrative cq _ = False"

fun set_expr_administrative :: "(query \<Rightarrow> statement_details) \<Rightarrow> set_expr \<Rightarrow> bool" where
  "set_expr_administrative cq (QueryBody q) = (d_class (cq q) = Administrative)"
| "set_expr_administrative cq (SetOperation left right) =
     (set_expr_administrative cq left \<or> set_expr_administrative cq right)"
| "set_expr_administrative cq (SelectBody s) =
     list_ex (\<lambda>item. is_some_and (expr_is_administrative cq) (projected_expr item)) (projection s)"
| "set_expr_administrative cq _ = False"

fun set_expr_writes :: "(query \<Rightarrow> statement_details) \<Rightarrow> set_expr \<Rightarrow> bool" where
  "set_expr_writes cq (InsertBody _) = True"
| "set_expr_writes cq (UpdateBody _) = True"
| "set_expr_writes cq (DeleteBody _) = True"
| "set_expr_writes cq (MergeBody _) = True"
| "set_expr_writes cq (Values _) = False"
| "set_expr_writes cq (QueryBody q) = query_writes cq q"
| "set_expr_writes cq (SetOperation left right) = (set_expr_writes cq left \<or> set_expr_writes cq right)"
| "set_expr_writes cq (SelectBody s) = select_writes cq s"
| "set_expr_writes cq TableBody = False"

subsection \<open>Tables\<close>

fun table_factor_names :: "(query \<Rightarrow> statement_details) \<Rightarrow> table_factor \<Rightarrow> string list" where
  "table_factor_names cq (Table name _ _ _ _) = [name]"
| "table_factor_names cq (Derived q) = d_tables (cq q)"
| "table_factor_names cq (NestedJoin t) =
     table_factor_names cq (relation t) @ concat (map (\<lambda>j. table_factor_names cq (join_relation j)) (joins t))"
| "table_factor_names cq OtherFactor = []"

definition table_with_joins_names ::
    "(query \<Rightarrow> statement_details) \<Rightarrow> (table_factor, expr) table_with_joins \<Rightarrow> string list" where
  "table_with_joins_names cq t =
     table_factor_names cq (relation t) @ concat (map (\<lambda>j. table_factor_names cq (join_relation j)) (joins t))"

fun set_expr_tables ::
    "(query \<Rightarrow> statement_details) \<Rightarrow> (statement \<Rightarrow> statement_details) \<Rightarrow> set_expr \<Rightarrow> string list" where
  "set_expr_tables cq cs (SelectBody s) = concat (map (table_with_joins_names cq) (select_from s))"
| "set_expr_tables cq cs (QueryBody q) = d_tables (cq q)"
| "set_expr_tables cq cs (SetOperation left right) = set_expr_tables cq cs left @ set_expr_tables cq cs right"
| "set_expr_tables cq cs (InsertBody s) = d_tables (cs s)"
| "set_expr_tables cq cs (UpdateBody s) = d_tables (cs s)"
| "set_expr_tables cq cs (DeleteBody s) = d_tables (cs s)"
| "set_expr_tables cq cs (MergeBody s) = d_tables (cs s)"
| "set_expr_tables cq cs (Values _) = []"
| "set_expr_tables cq cs TableBody = []"

subsection \<open>The helpers look at smaller trees only\<close>

lemma factor_in_sources:
  assumes "t \<in> set ts" "factor = relation t \<or> (\<exists>j\<in>set (joins t). factor = join_relation j)"
  shows "size factor < Suc (size_list (size_table_with_joins size size) ts)"
proof -
  have "size factor \<le> size_table_with_joins size size t"
    using assms(2) size_relation [of size t size] size_join_relation [of _ t size size] by (auto simp: less_Suc_eq_le)
  then show ?thesis using size_list_estimation' [OF assms(1)] by fastforce
qed

lemma constraint_in_sources:
  assumes "t \<in> set ts" "j \<in> set (joins t)" "on_constraint j = Some e"
  shows "size e < Suc (size_list (size_table_with_joins size size) ts)"
proof -
  have "size e \<le> size_join_item size size j" using assms(3) by (cases j) simp
  also have "\<dots> \<le> size_list (size_join_item size size) (joins t)" using assms(2) by (simp add: size_list_estimation')
  also have "\<dots> \<le> size_table_with_joins size size t" by (cases t) simp
  also have "\<dots> \<le> size_list (size_table_with_joins size size) ts" using assms(1) by (simp add: size_list_estimation')
  finally show ?thesis by simp
qed

lemma select_parts_smaller:
  "where_clause s = Some e \<Longrightarrow> size e < size s"
  "having s = Some e \<Longrightarrow> size e < size s"
  "t \<in> set (select_from s) \<Longrightarrow> factor = relation t \<or> (\<exists>j\<in>set (joins t). factor = join_relation j) \<Longrightarrow> size factor < size s"
  "t \<in> set (select_from s) \<Longrightarrow> j \<in> set (joins t) \<Longrightarrow> on_constraint j = Some e \<Longrightarrow> size e < size s"
  "item \<in> set (projection s) \<Longrightarrow> projected_expr item = Some e \<Longrightarrow> size e < size s"
proof -
  show "where_clause s = Some e \<Longrightarrow> size e < size s" "having s = Some e \<Longrightarrow> size e < size s"
    by (cases s; simp)+
  show "t \<in> set (select_from s) \<Longrightarrow> factor = relation t \<or> (\<exists>j\<in>set (joins t). factor = join_relation j) \<Longrightarrow> size factor < size s"
    using factor_in_sources [of t "select_from s" factor] by (cases s) auto
  show "t \<in> set (select_from s) \<Longrightarrow> j \<in> set (joins t) \<Longrightarrow> on_constraint j = Some e \<Longrightarrow> size e < size s"
    using constraint_in_sources [of t "select_from s" j e] by (cases s) auto
  assume item: "item \<in> set (projection s)" "projected_expr item = Some e"
  then have "size e \<le> size_select_item size item"
    by (auto simp: projected_expr_def split: select_item.splits)
  also have "\<dots> \<le> size_list (size_select_item size) (projection s)" using item by (simp add: size_list_estimation')
  finally show "size e < size s" by (cases s) simp
qed

lemma projected_agree:
  assumes "\<And>e. size e < size s \<Longrightarrow> f e = g e"
  shows "list_ex (\<lambda>item. is_some_and f (projected_expr item)) (projection s)
       = list_ex (\<lambda>item. is_some_and g (projected_expr item)) (projection s)"
  by (intro list_ex_cong is_some_and_cong refl assms) (rule select_parts_smaller)

lemma select_writes_agree:
  assumes "\<And>q. size q < size s \<Longrightarrow> cq q = cq' q"
  shows "select_writes cq s = select_writes cq' s"
proof -
  have e: "expr_writes cq e = expr_writes cq' e" if "size e < size s" for e
    using that by (intro expr_writes_agree assms) simp
  have "list_ex (\<lambda>t. list_ex (derived_writes cq) (relation t # map join_relation (joins t))) (select_from s)
      = list_ex (\<lambda>t. list_ex (derived_writes cq') (relation t # map join_relation (joins t))) (select_from s)"
  proof (intro list_ex_cong refl)
    fix t factor
    assume "t \<in> set (select_from s)" "factor \<in> set (relation t # map join_relation (joins t))"
    then have "size factor < size s" by (intro select_parts_smaller(3)) auto
    then show "derived_writes cq factor = derived_writes cq' factor"
      by (cases factor) (simp_all add: derived_writes_def query_writes_def assms)
  qed
  moreover have "list_ex (\<lambda>j. is_some_and (expr_writes cq) (join_constraint j)) (concat (map joins (select_from s)))
      = list_ex (\<lambda>j. is_some_and (expr_writes cq') (join_constraint j)) (concat (map joins (select_from s)))"
    by (intro list_ex_cong is_some_and_cong refl e)
      (auto simp: join_constraint_def split: if_splits intro: select_parts_smaller(4))
  moreover have "is_some_and (expr_writes cq) (where_clause s) = is_some_and (expr_writes cq') (where_clause s)"
    "is_some_and (expr_writes cq) (having s) = is_some_and (expr_writes cq') (having s)"
    by (intro is_some_and_cong refl e select_parts_smaller(1,2), assumption)+
  ultimately show ?thesis using projected_agree [OF e] by (simp only: select_writes_def)
qed

lemma expr_is_administrative_agree:
  "(\<And>q. size q < size e \<Longrightarrow> cq q = cq' q) \<Longrightarrow> expr_is_administrative cq e = expr_is_administrative cq' e"
proof (induction cq e rule: expr_is_administrative.induct)
  case (1 cq name args flt)
  then show ?case
    by (cases args) (auto simp: termination_simp intro!: arg_cong2 [where f = "(\<or>)"] list_ex_cong is_some_and_cong)
next
  case (6 cq operand conditions else_result)
  have "is_some_and (expr_is_administrative cq) operand = is_some_and (expr_is_administrative cq') operand"
    by (rule is_some_and_cong [OF refl], rule 6(1)) (auto intro!: 6(5))
  moreover have "list_ex (\<lambda>(condition, value). expr_is_administrative cq condition \<or> expr_is_administrative cq value) conditions
     = list_ex (\<lambda>(condition, value). expr_is_administrative cq' condition \<or> expr_is_administrative cq' value) conditions"
    using 6 by (intro list_ex_cong) (auto simp: termination_simp)
  moreover have "is_some_and (expr_is_administrative cq) else_result = is_some_and (expr_is_administrative cq') else_result"
    by (rule is_some_and_cong [OF refl], rule 6(4)) (auto intro!: 6(5))
  ultimately show ?case by simp
qed auto

lemma set_expr_administrative_agree:
  "(\<And>q. size q < size b \<Longrightarrow> cq q = cq' q) \<Longrightarrow> set_expr_administrative cq b = set_expr_administrative cq' b"
proof (induction cq b rule: set_expr_administrative.induct)
  case (3 cq s)
  then show ?case by (simp, intro projected_agree expr_is_administrative_agree) simp
qed auto

lemma set_expr_writes_agree:
  "(\<And>q. size q < size b \<Longrightarrow> cq q = cq' q) \<Longrightarrow> set_expr_writes cq b = set_expr_writes cq' b"
proof (induction cq b rule: set_expr_writes.induct)
  case (8 cq s)
  then show ?case using select_writes_agree [of s cq cq'] by simp
qed (auto simp: query_writes_def)

lemma table_factor_names_agree:
  "(\<And>q. size q < size factor \<Longrightarrow> cq q = cq' q) \<Longrightarrow> table_factor_names cq factor = table_factor_names cq' factor"
proof (induction cq factor rule: table_factor_names.induct)
  case (3 cq t)
  have "table_factor_names cq (relation t) = table_factor_names cq' (relation t)"
    by (rule 3(1), rule 3(3)) (use size_relation [of size t size] in simp)
  moreover have "table_factor_names cq (join_relation j) = table_factor_names cq' (join_relation j)" if "j \<in> set (joins t)" for j
    by (rule 3(2) [OF that], rule 3(3)) (use size_join_relation [OF that, of size size] in simp)
  ultimately show ?case by (simp cong: map_cong)
qed auto

lemma table_with_joins_agree:
  assumes "\<And>q. size q < size_table_with_joins size size t \<Longrightarrow> cq q = cq' q"
  shows "table_with_joins_names cq t = table_with_joins_names cq' t"
proof -
  have "table_factor_names cq (relation t) = table_factor_names cq' (relation t)"
    by (intro table_factor_names_agree assms) (use size_relation [of size t size] in simp)
  moreover have "table_factor_names cq (join_relation j) = table_factor_names cq' (join_relation j)" if "j \<in> set (joins t)" for j
    by (intro table_factor_names_agree assms) (use size_join_relation [OF that, of size size] in simp)
  ultimately show ?thesis by (simp add: table_with_joins_names_def cong: map_cong)
qed

lemma sources_names_agree:
  assumes "\<And>q. size q < Suc (size_list (size_table_with_joins size size) ts) \<Longrightarrow> cq q = cq' q" "t \<in> set ts"
  shows "table_with_joins_names cq t = table_with_joins_names cq' t"
  by (intro table_with_joins_agree assms(1) less_size_in(2) [OF assms(2)])

lemma set_expr_tables_agree:
  assumes "\<And>q. size q < size b \<Longrightarrow> cq q = cq' q" "\<And>s. size s < size b \<Longrightarrow> cs s = cs' s"
  shows "set_expr_tables cq cs b = set_expr_tables cq' cs' b"
  using assms
proof (induction cq cs b rule: set_expr_tables.induct)
  case (1 cq cs s)
  have "table_with_joins_names cq t = table_with_joins_names cq' t" if "t \<in> set (select_from s)" for t
    by (rule sources_names_agree [OF _ that], rule 1) (cases s; simp)
  then show ?case by (simp cong: map_cong)
qed auto

lemma set_expr_congs [fundef_cong]:
  "b = b' \<Longrightarrow> (\<And>q. size q < size b' \<Longrightarrow> cq q = cq' q) \<Longrightarrow> set_expr_administrative cq b = set_expr_administrative cq' b'"
  "b = b' \<Longrightarrow> (\<And>q. size q < size b' \<Longrightarrow> cq q = cq' q) \<Longrightarrow> set_expr_writes cq b = set_expr_writes cq' b'"
  "b = b' \<Longrightarrow> (\<And>q. size q < size b' \<Longrightarrow> cq q = cq' q) \<Longrightarrow> (\<And>s. size s < size b' \<Longrightarrow> cs s = cs' s)
   \<Longrightarrow> set_expr_tables cq cs b = set_expr_tables cq' cs' b'"
  using set_expr_administrative_agree [of b cq cq'] set_expr_writes_agree [of b cq cq']
    set_expr_tables_agree [of b cq cq' cs cs'] by auto

subsection \<open>Statements\<close>

definition is_disabled_word :: "string \<Rightarrow> bool" where
  "is_disabled_word text = List.member [''false'', ''off'', ''0'', ''no''] (to_ascii_lowercase text)"

text \<open>
  \<open>number.parse::<f64>().is_ok_and(|n| n == 0.0)\<close>: the text is a decimal number, and the number rounds to zero,
  which is so exactly up to half of the smallest positive double, $2^{-1075}$. The exponent may have any length.
\<close>

definition f64_parts :: "string \<Rightarrow> (string \<times> string \<times> int) option" where
  "f64_parts text =
     (let unsigned = snd (strip_sign text);
          mantissa = takeWhile (\<lambda>c. \<not> is_exponent_mark c) unsigned;
          (whole, fraction) = split_fraction mantissa;
          (minus, exponent) = strip_sign (drop (length mantissa + 1) unsigned)
      in if whole = [] \<and> fraction = [] \<or> \<not> list_all is_digit whole \<or> \<not> list_all is_digit fraction then None
         else if length mantissa = length unsigned then Some (whole, fraction, 0)
         else if exponent = [] \<or> \<not> list_all is_digit exponent then None
         else Some (whole, fraction, if minus then - int (digits_value 0 exponent) else int (digits_value 0 exponent)))"

definition is_zero_f64 :: "string \<Rightarrow> bool" where
  "is_zero_f64 number =
     (case f64_parts number of
        None \<Rightarrow> False
      | Some (whole, fraction, exponent) \<Rightarrow>
          (let value = digits_value 0 (whole @ fraction); scale = exponent - int (length fraction)
           in if 0 \<le> scale then value = 0 else value * 2 ^ 1075 \<le> 10 ^ nat (- scale)))"

definition is_disabled_option_arg :: "expr \<Rightarrow> bool" where
  "is_disabled_option_arg arg =
     (case arg of
        ValueExpr value \<Rightarrow>
          (case value of
             BooleanValue flag \<Rightarrow> \<not> flag
           | NumberValue number \<Rightarrow> is_zero_f64 number
           | SingleQuotedValue text \<Rightarrow> is_disabled_word text
           | DoubleQuotedValue text \<Rightarrow> is_disabled_word text
           | OtherValue \<Rightarrow> False)
      | Identifier ident \<Rightarrow> is_disabled_word ident
      | _ \<Rightarrow> False)"

definition analyze_option_enabled :: "(string \<times> expr option) list \<Rightarrow> bool" where
  "analyze_option_enabled options =
     list_ex (\<lambda>(name, arg).
         (eq_ignore_ascii_case name ''analyze'' \<or> eq_ignore_ascii_case name ''analyse'')
         \<and> \<not> is_some_and is_disabled_option_arg arg)
       options"

definition is_read_only_show :: "statement \<Rightarrow> bool" where
  "is_read_only_show st =
     (case st of
        ShowStatement k \<Rightarrow>
          k \<in> {ShowVariable, ShowStatus, ShowVariables, ShowCreate, ShowColumns, ShowCatalogs, ShowDatabases,
               ShowProcessList, ShowSchemas, ShowCharset, ShowObjects, ShowTables, ShowViews, ShowCollation}
      | _ \<Rightarrow> False)"

text \<open>The statements without tables that \<open>classify_statement_details\<close> lists as schema changes.\<close>

definition schema_kinds :: "statement_kind list" where
  "schema_kinds =
     [CreateVirtualTable, CreateRole, CreateSecret, CreateServer, CreatePolicy, CreateConnector, AlterIndex, AlterView,
      AlterType, AlterRole, AlterPolicy, AlterConnector, DropFunction, DropDomain, DropProcedure, DropSecret, DropPolicy,
      DropConnector, CreateExtension, DropExtension, CommentOn, CreateSchema, CreateDatabase, CreateTrigger, DropTrigger,
      CreateProcedure, CreateMacro, CreateStage, DenyStatement, CreateSequence, CreateDomain, CreateType]"

definition ddl_facts :: "string list \<Rightarrow> statement_details" where
  "ddl_facts names = details_of Ddl names True False"

definition ddl_on :: "string list \<Rightarrow> statement_details" where
  "ddl_on names = details_of Ddl names True False"

definition truncate_facts :: "string list \<Rightarrow> statement_details" where
  "truncate_facts names = (details_of Ddl names False True)\<lparr>d_effects := WRITES_ROWS\<rparr>"

definition grant_object_names :: "grant_objects \<Rightarrow> string list" where
  "grant_object_names objects =
     (case objects of
        GrantTables names \<Rightarrow> names
      | GrantViews names \<Rightarrow> names
      | GrantSchemas names \<Rightarrow> names
      | GrantDatabases names \<Rightarrow> names
      | GrantOther \<Rightarrow> [])"

definition granted_names :: "grant_objects option \<Rightarrow> string list" where
  "granted_names objects = (case objects of None \<Rightarrow> [] | Some named \<Rightarrow> grant_object_names named)"

definition classify_insert :: "(query \<Rightarrow> statement_details) \<Rightarrow> query table_object \<Rightarrow> statement_details" where
  "classify_insert cq target =
     details_of Insert
       (case target of TableName name \<Rightarrow> [name] | TableFunction name \<Rightarrow> [name] | TableQuery q \<Rightarrow> d_tables (cq q))
       True False"

definition update_table_names ::
    "(query \<Rightarrow> statement_details) \<Rightarrow> (table_factor, expr) table_with_joins
       \<Rightarrow> (table_factor, expr) table_with_joins list \<Rightarrow> string list" where
  "update_table_names cq target sources =
     table_with_joins_names cq target @ concat (map (table_with_joins_names cq) sources)"

definition classify_delete ::
    "(query \<Rightarrow> statement_details) \<Rightarrow> string list \<Rightarrow> (table_factor, expr) table_with_joins list
       \<Rightarrow> (table_factor, expr) table_with_joins list \<Rightarrow> expr option \<Rightarrow> statement_details" where
  "classify_delete cq names sources using_sources sel =
     details_of Delete
       (names @ concat (map (table_with_joins_names cq) sources) @ concat (map (table_with_joins_names cq) using_sources))
       (sel \<noteq> None) (is_none_or is_constant_true sel)"

definition classify_explain ::
    "(statement \<Rightarrow> statement_details) \<Rightarrow> bool \<Rightarrow> statement \<Rightarrow> (string \<times> expr option) list option \<Rightarrow> statement_details" where
  "classify_explain cs analyzing st options =
     (if analyzing \<or> is_some_and analyze_option_enabled options then cs st
      else let inner = cs st in details_of Select (d_tables inner) True False)"

fun classify_statement_details ::
    "(query \<Rightarrow> statement_details) \<Rightarrow> (statement \<Rightarrow> statement_details) \<Rightarrow> statement \<Rightarrow> statement_details" where
  "classify_statement_details cq cs (Query q) = cq q"
| "classify_statement_details cq cs (InsertStatement target source) = classify_insert cq target"
| "classify_statement_details cq cs (UpdateStatement target sources sel _) =
     details_of Update (update_table_names cq target sources) (sel \<noteq> None) (is_none_or is_constant_true sel)"
| "classify_statement_details cq cs (DeleteStatement names sources using_sources sel _) =
     classify_delete cq names sources using_sources sel"
| "classify_statement_details cq cs (CreateTable name _) = ddl_on [name]"
| "classify_statement_details cq cs (CreateView name) = ddl_on [name]"
| "classify_statement_details cq cs (CreateIndex name table) =
     ddl_on [case name of Some n \<Rightarrow> n | None \<Rightarrow> table]"
| "classify_statement_details cq cs (AlterTable name) = ddl_on [name]"
| "classify_statement_details cq cs (RenameTable old_names) = ddl_on old_names"
| "classify_statement_details cq cs (Drop names) = ddl_on names"
| "classify_statement_details cq cs (Truncate names) = truncate_facts names"
| "classify_statement_details cq cs (CreateFunction name) = ddl_facts [name]"
| "classify_statement_details cq cs (Grant objects) = ddl_facts (granted_names objects)"
| "classify_statement_details cq cs (Revoke objects) = ddl_facts (granted_names objects)"
| "classify_statement_details cq cs (MergeStatement target) = details_of Other (table_factor_names cq target) True False"
| "classify_statement_details cq cs (StartTransaction _ _) = details_of Transaction [] True False"
| "classify_statement_details cq cs (Commit _) = details_of Transaction [] True False"
| "classify_statement_details cq cs (Rollback _ _) = details_of Transaction [] True False"
| "classify_statement_details cq cs (Explain analyzing st options) = classify_explain cs analyzing st options"
| "classify_statement_details cq cs (ExplainTable name) = details_of Select [name] True False"
| "classify_statement_details cq cs (Copy _ target source) =
     details_of (if target = CopyFile \<or> target = CopyProgram then Administrative else Other)
       (case source of CopyTable name \<Rightarrow> [name] | CopyQuery q \<Rightarrow> d_tables (cq q)) True False"
| "classify_statement_details cq cs (PlainStatement kind) =
     (if kind \<in> set schema_kinds then ddl_facts []
      else if kind = Kill then details_of Administrative [] True False
      else details_of Other [] True False)"
| "classify_statement_details cq cs _ = details_of Other [] True False"

text \<open>\<open>show_statements::details\<close>.\<close>

definition show_details ::
    "(query \<Rightarrow> statement_details) \<Rightarrow> (statement \<Rightarrow> statement_details) \<Rightarrow> statement \<Rightarrow> statement_details" where
  "show_details cq cs st =
     (if \<not> is_read_only_show st then classify_statement_details cq cs st else details_of Select [] True False)"

lemma sources_list_agree:
  assumes "\<And>q. size q < Suc (size_list (size_table_with_joins size size) ts) \<Longrightarrow> cq q = cq' q"
  shows "map (table_with_joins_names cq) ts = map (table_with_joins_names cq') ts"
  by (rule map_cong [OF refl], rule sources_names_agree [OF assms])

lemma classify_statement_details_agree:
  assumes "\<And>q. size q < size st \<Longrightarrow> cq q = cq' q" "\<And>s. size s < size st \<Longrightarrow> cs s = cs' s"
  shows "classify_statement_details cq cs st = classify_statement_details cq' cs' st"
proof (cases st)
  case (InsertStatement target source)
  then show ?thesis using assms by (cases target) (simp_all add: classify_insert_def)
next
  case (UpdateStatement target sources sel printed)
  then have "table_with_joins_names cq target = table_with_joins_names cq' target"
    by (intro table_with_joins_agree assms) simp
  moreover have "map (table_with_joins_names cq) sources = map (table_with_joins_names cq') sources"
    using UpdateStatement by (intro sources_list_agree assms) simp
  ultimately show ?thesis using UpdateStatement by (simp add: update_table_names_def cong: map_cong)
next
  case (DeleteStatement names sources using_sources sel printed)
  then have "map (table_with_joins_names cq) sources = map (table_with_joins_names cq') sources"
    "map (table_with_joins_names cq) using_sources = map (table_with_joins_names cq') using_sources"
    by (intro sources_list_agree assms; simp)+
  then show ?thesis using DeleteStatement by (simp add: classify_delete_def cong: map_cong)
next
  case (MergeStatement target)
  then show ?thesis using table_factor_names_agree [of target cq cq'] assms(1) by simp
next
  case (Explain analyzing inner options)
  then show ?thesis using assms(2) [of inner] by (simp add: classify_explain_def)
next
  case (Copy direction target source)
  then show ?thesis using assms(1) by (cases source) simp_all
next
  case (Query q)
  then show ?thesis using assms(1) by simp
qed simp_all

lemma show_details_cong [fundef_cong]:
  "st = st' \<Longrightarrow> (\<And>q. size q < size st' \<Longrightarrow> cq q = cq' q) \<Longrightarrow> (\<And>s. size s < size st' \<Longrightarrow> cs s = cs' s)
   \<Longrightarrow> show_details cq cs st = show_details cq' cs' st'"
  using classify_statement_details_agree [of st cq cq' cs cs'] by (simp add: show_details_def)

subsection \<open>Effects of a statement (\<open>effects_classification.rs\<close>)\<close>

fun statement_reads :: "statement \<Rightarrow> statement_details \<Rightarrow> bool" where
  "statement_reads (Query _) d = True"
| "statement_reads (ExplainTable _) d = True"
| "statement_reads (InsertStatement _ source) d = (d_class d = Select \<or> source \<noteq> None)"
| "statement_reads (UpdateStatement _ _ _ _) d = True"
| "statement_reads (DeleteStatement _ _ _ _ _) d = True"
| "statement_reads (MergeStatement _) d = True"
| "statement_reads (CreateTable _ from_query) d = (d_class d = Select \<or> from_query)"
| "statement_reads (CreateView _) d = True"
| "statement_reads (Copy _ _ _) d = True"
| "statement_reads _ d = (d_class d = Select)"

definition read_effects :: "statement \<Rightarrow> statement_details \<Rightarrow> effects" where
  "read_effects st d = (if statement_reads st d then READS else EMPTY)"

definition write_effects :: "statement \<Rightarrow> statement_details \<Rightarrow> effects" where
  "write_effects st d =
     (let writes_rows = eff_contains (d_effects d) WRITES_ROWS
            \<or> (case st of InsertStatement _ _ \<Rightarrow> True | Truncate _ \<Rightarrow> True | UpdateStatement _ _ _ _ \<Rightarrow> True
               | DeleteStatement _ _ _ _ _ \<Rightarrow> True | Copy to_target _ _ \<Rightarrow> \<not> to_target | _ \<Rightarrow> False);
          writes_schema = eff_contains (d_effects d) WRITES_SCHEMA
            \<or> (d_class d = Ddl \<and> (case st of Truncate _ \<Rightarrow> False | _ \<Rightarrow> True));
          unknown = eff_contains (d_effects d) UNKNOWN
            \<or> (d_class d = Other \<and> (case st of Query _ \<Rightarrow> False | _ \<Rightarrow> True))
      in union_if (union_if (union_if EMPTY WRITES_ROWS writes_rows) WRITES_SCHEMA writes_schema) UNKNOWN unknown)"

definition administrative_effects :: "statement \<Rightarrow> statement_details \<Rightarrow> effects" where
  "administrative_effects st d =
     (if d_class d = Administrative
        \<or> (case st of
             Grant _ \<Rightarrow> True
           | Revoke _ \<Rightarrow> True
           | PlainStatement kind \<Rightarrow>
               kind \<in> {Install, Load, CreateRole, AlterRole, CreateDatabase, CreateExtension, DropExtension, Kill}
           | _ \<Rightarrow> False)
      then ADMIN else EMPTY)"

definition transaction_effects :: "statement \<Rightarrow> statement_details \<Rightarrow> effects" where
  "transaction_effects st d =
     (if d_class d = Transaction \<or> st = SetStatement SetTransaction then TRANSACTION_CONTROL else EMPTY)"

definition session_effects :: "statement \<Rightarrow> effects" where
  "session_effects st =
     (case st of
        SetStatement _ \<Rightarrow> SESSION_STATE
      | PlainStatement kind \<Rightarrow>
          if kind \<in> {UseStatement, Pragma, Discard, DeclareStatement, Deallocate, ExecuteStatement, PrepareStatement, OpenStatement, FetchStatement, CloseStatement}
          then SESSION_STATE else EMPTY
      | _ \<Rightarrow> EMPTY)"

definition host_access_effects :: "statement \<Rightarrow> effects" where
  "host_access_effects st =
     (case st of
        Copy _ target _ \<Rightarrow> if target = CopyFile \<or> target = CopyProgram then HOST_OR_FILE_ACCESS else EMPTY
      | PlainStatement kind \<Rightarrow>
          if kind \<in> {Install, Load, Directory, Unload, CopyIntoSnowflake} then HOST_OR_FILE_ACCESS else EMPTY
      | _ \<Rightarrow> EMPTY)"

definition statement_effects :: "statement \<Rightarrow> statement_details \<Rightarrow> effects" where
  "statement_effects st d =
     eff_union (eff_union (eff_union (eff_union (eff_union (read_effects st d) (write_effects st d))
       (administrative_effects st d)) (transaction_effects st d)) (session_effects st)) (host_access_effects st)"

subsection \<open>Queries\<close>

text \<open>The result of \<open>classify_query\<close>, from the details of its common table expressions and of its body.\<close>

definition merge_query :: "statement_details list \<Rightarrow> statement_details \<Rightarrow> nat \<Rightarrow> statement_details" where
  "merge_query ctes body_facts locks =
     (let writes = list_ex (\<lambda>d. is_write (d_class d)) ctes \<or> is_write (d_class body_facts) \<or> locks \<noteq> 0;
          administrative = list_ex (\<lambda>d. d_class d = Administrative) ctes \<or> d_class body_facts = Administrative;
          effects = union_if (eff_union (foldl eff_union EMPTY (map d_effects ctes)) (d_effects body_facts))
                      WRITES_ROWS (locks \<noteq> 0);
          unscoped = list_ex d_contains_unscoped_dml ctes \<or> d_contains_unscoped_dml body_facts
      in \<lparr>d_class = (if administrative then Administrative else if writes then Other else Select),
          d_effects = effects, d_tables = concat (map d_tables ctes) @ d_tables body_facts,
          d_has_where = \<not> unscoped, d_contains_unscoped_dml = unscoped\<rparr>)"

definition merge_operands :: "statement_details \<Rightarrow> statement_details \<Rightarrow> statement_details" where
  "merge_operands left right =
     \<lparr>d_class = (if d_class left = Administrative \<or> d_class right = Administrative then Administrative
                 else if is_write (d_class left) \<or> is_write (d_class right) then Other else Select),
      d_effects = eff_union (d_effects left) (d_effects right),
      d_tables = d_tables left @ d_tables right,
      d_has_where = (d_has_where left \<and> d_has_where right),
      d_contains_unscoped_dml = (d_contains_unscoped_dml left \<or> d_contains_unscoped_dml right)\<rparr>"

definition body_details :: "bool \<Rightarrow> bool \<Rightarrow> string list \<Rightarrow> statement_details" where
  "body_details administrative set_expr_write names =
     (let writes = set_expr_write \<or> administrative
      in \<lparr>d_class = (if administrative then Administrative else if writes then Other else Select),
          d_effects = (if administrative then ADMIN else if writes then UNKNOWN else READS),
          d_tables = names, d_has_where = True, d_contains_unscoped_dml = False\<rparr>)"

function classify_query :: "query \<Rightarrow> statement_details"
  and classify_set_expr :: "set_expr \<Rightarrow> statement_details"
  and classify_statement :: "statement \<Rightarrow> statement_details" where
  "classify_query q =
     merge_query (case cte_tables q of Some ctes \<Rightarrow> map classify_query ctes | None \<Rightarrow> [])
       (classify_set_expr (query_body q)) (query_locks q)"
| "classify_set_expr body =
     (case body of
        InsertBody st \<Rightarrow> classify_statement st
      | UpdateBody st \<Rightarrow> classify_statement st
      | DeleteBody st \<Rightarrow> classify_statement st
      | QueryBody q \<Rightarrow> classify_query q
      | SetOperation left right \<Rightarrow> merge_operands (classify_set_expr left) (classify_set_expr right)
      | _ \<Rightarrow> body_details (set_expr_administrative classify_query body) (set_expr_writes classify_query body)
               (set_expr_tables classify_query classify_statement body))"
| "classify_statement st =
     (let d = show_details classify_query classify_statement st
      in d\<lparr>d_effects := eff_union (d_effects d) (statement_effects st d)\<rparr>)"
  by pat_completeness auto
termination
proof (relation "measure (case_sum size (case_sum size size))")
  fix q ctes cte
  assume "cte_tables q = Some ctes" "cte \<in> set ctes"
  then show "(Inl cte, Inl q) \<in> measure (case_sum size (case_sum size size))"
    using size_list_estimation' [of cte ctes "size cte" size] by (cases q) simp
next
  fix q
  show "(Inr (Inl (query_body q)), Inl q) \<in> measure (case_sum size (case_sum size size))"
    by (cases q) simp
qed simp_all

subsection \<open>The facts of a text\<close>

text \<open>
  The first half of \<open>analyze_statement_inner\<close>: the statements of a text and the facts about them, or why they
  cannot be known. The caller adds the execution plans.
\<close>

definition parsed_facts :: "sql_parser \<Rightarrow> string \<Rightarrow> string \<Rightarrow> string + statement list \<times> statement_facts" where
  "parsed_facts P sql driver_id =
     (let dialect = dialect_for driver_id; trimmed = trim sql in
      if trimmed = [] then Inl ''empty SQL''
      else case input_refusal P trimmed driver_id dialect of
        Some reason \<Rightarrow> Inl reason
      | None \<Rightarrow>
          (case parse_sql P dialect trimmed of
             Inl e \<Rightarrow> Inl e
           | Inr statements \<Rightarrow>
               if statements = [] then Inl ''no statements parsed''
               else
                 (let (effects, contains_administrative_call) = sql_effects_from_tokens P trimmed dialect driver_id
                  in Inr (statements,
                       with_locking_backstop P
                         (classify_statements (map classify_statement statements) effects contains_administrative_call)
                         trimmed dialect))))"

definition classify :: "sql_parser \<Rightarrow> string \<Rightarrow> string \<Rightarrow> statement_facts" where
  "classify P sql driver_id =
     (case parsed_facts P sql driver_id of Inl message \<Rightarrow> unparseable message | Inr (_, f) \<Rightarrow> f)"

declare classify_query.simps [simp del] classify_set_expr.simps [simp del] classify_statement.simps [simp del]

section \<open>Properties\<close>

subsection \<open>Classes and effects agree\<close>

lemma eff_writes_foldl: "eff_writes (foldl eff_union e es) \<longleftrightarrow> eff_writes e \<or> (\<exists>x\<in>set es. eff_writes x)"
  by (induction es arbitrary: e) (auto simp: eff_writes_union)

lemma eff_writes_named [simp]:
  "\<not> eff_writes EMPTY" "\<not> eff_writes READS" "eff_writes WRITES_ROWS" "eff_writes WRITES_SCHEMA" "eff_writes ADMIN"
  "eff_writes UNKNOWN" "\<not> eff_writes TRANSACTION_CONTROL" "\<not> eff_writes SESSION_STATE" "\<not> eff_writes HOST_OR_FILE_ACCESS"
  by code_simp+

lemma eff_writes_union_if [simp]: "eff_writes (union_if a b c) \<longleftrightarrow> eff_writes a \<or> c \<and> eff_writes b"
  by (auto simp: union_if_def eff_writes_union)

definition agrees :: "statement_details \<Rightarrow> bool" where
  "agrees d \<longleftrightarrow> (eff_writes (d_effects d) \<longleftrightarrow> is_write (d_class d))"

lemma merge_query_agrees:
  "list_all agrees ctes \<Longrightarrow> agrees b \<Longrightarrow> agrees (merge_query ctes b locks)"
  by (auto simp: agrees_def merge_query_def Let_def eff_writes_union eff_writes_foldl list_all_iff list_ex_iff)

lemma merge_operands_agrees: "agrees l \<Longrightarrow> agrees r \<Longrightarrow> agrees (merge_operands l r)"
  by (auto simp: agrees_def merge_operands_def eff_writes_union)

lemma body_details_agrees: "agrees (body_details a w names)"
  by (auto simp: agrees_def body_details_def Let_def)

text \<open>The effects that the constructor of a statement adds never contradict its class.\<close>

lemma statement_effects_writes:
  "eff_writes (statement_effects st d) \<longleftrightarrow> eff_writes (write_effects st d) \<or> eff_writes (administrative_effects st d)"
  by (auto simp: statement_effects_def eff_writes_union read_effects_def transaction_effects_def session_effects_def
      host_access_effects_def split: statement.splits)

lemma write_effects_writes:
  "eff_writes (write_effects st d) \<longleftrightarrow>
     eff_contains (d_effects d) WRITES_ROWS \<or> eff_contains (d_effects d) WRITES_SCHEMA \<or> eff_contains (d_effects d) UNKNOWN
     \<or> (case st of InsertStatement _ _ \<Rightarrow> True | Truncate _ \<Rightarrow> True | UpdateStatement _ _ _ _ \<Rightarrow> True
        | DeleteStatement _ _ _ _ _ \<Rightarrow> True | Copy to_target _ _ \<Rightarrow> \<not> to_target | _ \<Rightarrow> False)
     \<or> (d_class d = Ddl \<and> (case st of Truncate _ \<Rightarrow> False | _ \<Rightarrow> True))
     \<or> (d_class d = Other \<and> (case st of Query _ \<Rightarrow> False | _ \<Rightarrow> True))"
  by (auto simp: write_effects_def Let_def)

lemma eff_contains_empty [simp]:
  "\<not> eff_contains EMPTY WRITES_ROWS" "\<not> eff_contains EMPTY WRITES_SCHEMA" "\<not> eff_contains EMPTY UNKNOWN" "\<not> eff_contains EMPTY ADMIN"
  by code_simp+

lemma contains_writes:
  "eff_contains e WRITES_ROWS \<Longrightarrow> eff_writes e" "eff_contains e WRITES_SCHEMA \<Longrightarrow> eff_writes e"
  "eff_contains e UNKNOWN \<Longrightarrow> eff_writes e" "eff_contains e ADMIN \<Longrightarrow> eff_writes e"
  by (simp_all add: eff_writes_contains)

lemma is_write_cases: "is_write c \<longleftrightarrow> c \<noteq> Select \<and> c \<noteq> Transaction"
  by (cases c) auto

definition add_effects :: "statement \<Rightarrow> statement_details \<Rightarrow> statement_details" where
  "add_effects st d = d\<lparr>d_effects := eff_union (d_effects d) (statement_effects st d)\<rparr>"

lemma add_effects_agrees:
  "agrees (add_effects st d) \<longleftrightarrow>
     (eff_writes (d_effects d) \<or> eff_writes (write_effects st d) \<or> eff_writes (administrative_effects st d) \<longleftrightarrow> is_write (d_class d))"
  by (simp add: agrees_def add_effects_def eff_writes_union statement_effects_writes)

lemma inherited_agrees:
  assumes "agrees d" "(\<exists>q. st = Query q) \<or> (\<exists>a s os. st = Explain a s os)"
  shows "agrees (add_effects st d)"
  using assms unfolding add_effects_agrees
  by (auto simp: agrees_def write_effects_writes administrative_effects_def is_write_cases dest: contains_writes)

lemma show_details_agrees:
  assumes "\<And>q. size q < size st \<Longrightarrow> agrees (cq q)" "\<And>s. size s < size st \<Longrightarrow> agrees (cs s)"
  shows "agrees (add_effects st (show_details cq cs st))"
proof (cases "(\<exists>q. st = Query q) \<or> (\<exists>a s os. st = Explain a s os)")
  case True
  then have "agrees (show_details cq cs st)"
    using assms by (auto simp: show_details_def is_read_only_show_def classify_explain_def Let_def agrees_def details_of_def
      split: if_splits)
  then show ?thesis using True by (rule inherited_agrees)
next
  case False
  then show ?thesis
    unfolding add_effects_agrees write_effects_writes administrative_effects_def
    by (cases st)
      (simp_all add: show_details_def is_read_only_show_def details_of_def ddl_on_def ddl_facts_def truncate_facts_def
        classify_insert_def classify_delete_def schema_kinds_def)
qed

lemma classify_agrees: "agrees (classify_query q)" "agrees (classify_set_expr b)" "agrees (classify_statement st)"
proof (induction q and b and st rule: classify_query_classify_set_expr_classify_statement.induct)
  case (1 q)
  then show ?case
    unfolding classify_query.simps [of q]
    by (intro merge_query_agrees; cases "cte_tables q") (auto simp: list_all_iff)
next
  case (2 body)
  then show ?case
    by (cases body) (auto simp: classify_set_expr.simps intro: merge_operands_agrees body_details_agrees)
next
  case (3 st)
  then show ?case
    using show_details_agrees [of st classify_query classify_statement]
    by (simp add: classify_statement.simps add_effects_def Let_def)
qed

text \<open>
  C14: The two descriptions of a statement that the policy rules and the execution paths rely on agree for every
  syntax tree: its effects contain a write, a schema change, an administrative act or an unknown effect exactly
  when its class is a write class.
\<close>

theorem effects_match_class:
  "eff_writes (d_effects (classify_statement st)) \<longleftrightarrow> is_write (d_class (classify_statement st))"
  using classify_agrees(3) by (simp add: agrees_def)

subsection \<open>Statements inside queries\<close>

text \<open>The data-modifying statements and the queries a body consists of, through parentheses and set operations.\<close>

fun body_statements :: "set_expr \<Rightarrow> statement list" where
  "body_statements (InsertBody st) = [st]"
| "body_statements (UpdateBody st) = [st]"
| "body_statements (DeleteBody st) = [st]"
| "body_statements (SetOperation left right) = body_statements left @ body_statements right"
| "body_statements _ = []"

fun body_queries :: "set_expr \<Rightarrow> query list" where
  "body_queries (QueryBody q) = [q]"
| "body_queries (SetOperation left right) = body_queries left @ body_queries right"
| "body_queries _ = []"

text \<open>A statement stands in a query at some depth of common table expressions, parentheses and set operations.\<close>

inductive stands_in :: "statement \<Rightarrow> query \<Rightarrow> bool" where
  in_body: "st \<in> set (body_statements (query_body q)) \<Longrightarrow> stands_in st q"
| in_parentheses: "q' \<in> set (body_queries (query_body q)) \<Longrightarrow> stands_in st q' \<Longrightarrow> stands_in st q"
| in_cte: "cte_tables q = Some ctes \<Longrightarrow> cte \<in> set ctes \<Longrightarrow> stands_in st cte \<Longrightarrow> stands_in st q"

text \<open>Everything known of a part is known of the whole.\<close>

definition covers :: "statement_details \<Rightarrow> statement_details \<Rightarrow> bool" where
  "covers whole part \<longleftrightarrow> eff_contains (d_effects whole) (d_effects part) \<and> set (d_tables part) \<subseteq> set (d_tables whole)
     \<and> (d_contains_unscoped_dml part \<longrightarrow> d_contains_unscoped_dml whole)"

lemma eff_contains_bits: "eff_contains a b \<longleftrightarrow> (\<forall>n. bit b n \<longrightarrow> bit a n)"
  unfolding eff_contains_def effects_eq_iff bit_and_iff by auto

lemma bit_foldl_union: "bit (foldl eff_union e es) n \<longleftrightarrow> bit e n \<or> (\<exists>x\<in>set es. bit x n)"
  by (induction es arbitrary: e) (auto simp: bit_eff_union)

lemma covers_refl: "covers d d" and covers_trans: "covers a b \<Longrightarrow> covers b c \<Longrightarrow> covers a c"
  by (auto simp: covers_def eff_contains_bits)

lemma covers_merge:
  "covers (merge_query ctes b locks) b" "d \<in> set ctes \<Longrightarrow> covers (merge_query ctes b locks) d"
  "covers (merge_operands l r) l" "covers (merge_operands l r) r"
  by (auto simp: covers_def merge_query_def merge_operands_def Let_def eff_contains_bits bit_eff_union bit_union_if
      bit_foldl_union list_ex_iff)

lemma covers_body:
  "st \<in> set (body_statements b) \<Longrightarrow> covers (classify_set_expr b) (classify_statement st)"
  "q \<in> set (body_queries b) \<Longrightarrow> covers (classify_set_expr b) (classify_query q)"
proof -
  show "st \<in> set (body_statements b) \<Longrightarrow> covers (classify_set_expr b) (classify_statement st)"
    by (induction b rule: body_statements.induct)
      (auto simp: classify_set_expr.simps [where body = "SetOperation _ _"] classify_set_expr.simps [where body = "InsertBody _"]
        classify_set_expr.simps [where body = "UpdateBody _"] classify_set_expr.simps [where body = "DeleteBody _"]
        intro: covers_refl covers_trans [OF covers_merge(3)] covers_trans [OF covers_merge(4)])
  show "q \<in> set (body_queries b) \<Longrightarrow> covers (classify_set_expr b) (classify_query q)"
    by (induction b rule: body_queries.induct)
      (auto simp: classify_set_expr.simps [where body = "SetOperation _ _"] classify_set_expr.simps [where body = "QueryBody _"]
        intro: covers_refl covers_trans [OF covers_merge(3)] covers_trans [OF covers_merge(4)])
qed


text \<open>\<open>WITH d AS (DELETE FROM t RETURNING *) SELECT * FROM d\<close>.\<close>

definition example_delete :: statement where
  "example_delete = DeleteStatement [] [TableWithJoins (Table ''t'' (Some ''t'') None False False) [] ''t''] [] None []"

definition example_cte :: query where
  "example_cte = MkQuery (Some [MkQuery None (DeleteBody example_delete) 0 []])
     (SelectBody (MkSelect [Wildcard] False [TableWithJoins (Table ''d'' (Some ''d'') None False False) [] ''d''] None None)) 0 []"

lemma example_stands_in: "stands_in example_delete example_cte"
  by (rule in_cte) (auto simp: example_cte_def intro: in_body)


text \<open>The statements inside a \<open>BEGIN ... END\<close> block do not count: the block is transaction control whatever it holds.\<close>

theorem block_body_ignored:
  "classify_statement (StartTransaction modes statements)
   = (details_of Transaction [] True False)\<lparr>d_effects := TRANSACTION_CONTROL\<rparr>"
  by (simp add: classify_statement.simps show_details_def is_read_only_show_def details_of_def Let_def statement_effects_def
      read_effects_def write_effects_def administrative_effects_def transaction_effects_def session_effects_def
      host_access_effects_def union_if_def) code_simp

subsection \<open>Facts of a text\<close>

lemma parsed_facts_cases:
  assumes "parsed_facts P sql driver_id = Inr (statements, f)"
  obtains effects administrative where
    "sql_effects_from_tokens P (trim sql) (dialect_for driver_id) driver_id = (effects, administrative)"
    "f = with_locking_backstop P (classify_statements (map classify_statement statements) effects administrative)
           (trim sql) (dialect_for driver_id)"
  using assms by (auto simp: parsed_facts_def Let_def split: if_splits option.splits sum.splits prod.splits)

lemma effects_from_tokens_admin:
  "sql_effects_from_tokens P sql dialect driver_id = (e, l) \<Longrightarrow> l \<Longrightarrow> eff_contains e ADMIN"
  using token_loop_admin [of driver_id "[]" _ EMPTY False e l]
  by (auto simp: sql_effects_from_tokens_def split: option.splits)

lemma script_effects:
  "facts_effects (classify_statements ds e l) = foldl eff_union e (map d_effects ds)"
proof -
  have "s_effects (foldl classify_step s ds) = foldl eff_union (s_effects s) (map d_effects ds)" for s
    by (induction ds arbitrary: s) (simp_all add: classify_step_def)
  then show ?thesis by (simp add: classify_statements_def Let_def)
qed

text \<open>A text whose class is that of a write has a writing effect.\<close>

lemma classified_writes:
  "facts_writes (classify P sql driver_id) \<Longrightarrow> eff_writes (facts_effects (classify P sql driver_id))"
proof (cases "parsed_facts P sql driver_id")
  case (Inl message)
  then show ?thesis by (simp add: classify_def unparseable_def)
next
  case (Inr r)
  then obtain statements f where r: "parsed_facts P sql driver_id = Inr (statements, f)" by (cases r) auto
  then obtain e l where
    t: "sql_effects_from_tokens P (trim sql) (dialect_for driver_id) driver_id = (e, l)" and
    f: "f = with_locking_backstop P (classify_statements (map classify_statement statements) e l)
              (trim sql) (dialect_for driver_id)"
    by (rule parsed_facts_cases)
  have "eff_writes (facts_effects (classify_statements (map classify_statement statements) e l))"
    if "facts_writes (classify_statements (map classify_statement statements) e l)"
    using that effects_from_tokens_admin [OF t] classify_agrees(3)
    by (auto simp: script_writes_iff list_ex_iff script_effects eff_writes_foldl agrees_def dest: contains_writes)
  moreover assume "facts_writes (classify P sql driver_id)"
  ultimately show ?thesis
    using r f by (auto simp: classify_def with_locking_backstop_def facts_writes_def eff_writes_union)
qed

text \<open>
  C16: A call of an administrative function of the engine makes the whole text administrative wherever in it the
  call stands - in a predicate, an ordering, a nested expression the syntax walk does not enter - because the
  name is recognised among the tokens: whatever precedes and follows it, and whatever white space or comment
  separates it from its parenthesis.
\<close>

theorem administrative_call_governed:
  assumes "parsed_facts P sql driver_id = Inr (statements, f)"
    and "tokenize P (dialect_for driver_id) (trim sql) = Some (before @ Word name q k # blank @ LParen # rest)"
    and "administrative_name driver_id name" "list_all is_whitespace blank"
  shows "facts_class f = Administrative \<and> eff_contains (facts_effects f) ADMIN"
proof -
  obtain e l where
    t: "sql_effects_from_tokens P (trim sql) (dialect_for driver_id) driver_id = (e, l)" and
    f: "f = with_locking_backstop P (classify_statements (map classify_statement statements) e l)
              (trim sql) (dialect_for driver_id)"
    using assms(1) by (rule parsed_facts_cases)
  have "eff_contains e ADMIN \<and> l"
    using t assms(2) token_loop_call [OF assms(3,4), of "[]" before q k rest "(EMPTY, False)" e l]
    by (simp add: sql_effects_from_tokens_def)
  moreover from this have "facts_class (classify_statements (map classify_statement statements) e l) = Administrative"
    by (simp add: classify_statements_def Let_def)
  ultimately show ?thesis
    using f by (simp add: with_locking_backstop_def script_effects contains_effect bit_foldl_union)
qed

subsection \<open>Examples\<close>

text \<open>A parser for the texts of the examples below: \<open>D\<close> is a \<open>DELETE\<close>, every other text is the query of its one call.\<close>

definition example_select :: "string \<Rightarrow> statement" where
  "example_select name = Query (MkQuery None (SelectBody (MkSelect [Wildcard] False
     [TableWithJoins (Table ''t'' (Some ''t'') None False False) [] ''t'']
     (Some (Function name (ArgumentList []) None)) None)) 0 [])"

definition example_calls :: sql_parser where
  "example_calls = \<lparr>
     tokenize = (\<lambda>_ sql. Some ([Word ''SELECT'' None KwSELECT, Whitespace Space, Mul, Whitespace Space]
        @ Word sql None NoKeyword # [Whitespace (MultiLineComment ''x'')] @ LParen # [RParen])),
     parse_sql = (\<lambda>_ sql. Inr [if sql = ''D'' then example_delete else example_select sql]),
     sqlite_script = (\<lambda>_. []),
     unicode_alnum = (\<lambda>_. False)\<rparr>"

lemma example_call_facts:
  "parsed_facts example_calls ''pg_terminate_backend'' ''postgres''
   = Inr ([example_select ''pg_terminate_backend''], classify example_calls ''pg_terminate_backend'' ''postgres'')"
  by code_simp

lemma example_call_name: "trim ''pg_terminate_backend'' = ''pg_terminate_backend''" "administrative_name ''postgres'' ''pg_terminate_backend''"
  by code_simp+

theorem administrative_call_governed_witness:
  "facts_class (classify example_calls ''pg_terminate_backend'' ''postgres'') = Administrative"
  using administrative_call_governed [OF example_call_facts _ example_call_name(2),
      of "[Word ''SELECT'' None KwSELECT, Whitespace Space, Mul, Whitespace Space]" None NoKeyword
        "[Whitespace (MultiLineComment ''x'')]" "[RParen]"]
  by (simp add: example_calls_def example_call_name(1))

text \<open>
  The converse of agreement fails for the advisory locks of MySQL: the policy rules see an administrative effect,
  the class of the statement stays that of a read.
\<close>

theorem advisory_lock_class_is_read:
  "eff_writes (facts_effects (classify example_calls ''get_lock'' ''mysql''))
   \<and> \<not> facts_writes (classify example_calls ''get_lock'' ''mysql'')"
  by code_simp

end
