(* ===== verification/Transaction_Control.thy ===== *)
theory Transaction_Control
  imports Classification
begin

text \<open>
  Recognition of transaction control in the text of a statement:
  \<open>crates/policy/src/transaction_control.rs\<close>, \<open>tsql_transaction.rs\<close> and \<open>script_statements.rs\<close>.
\<close>

section \<open>Definitions\<close>

datatype transaction_control =
    Begin | BeginReadWrite | BeginReadOnly | BeginReadOnlySnapshot
  | CommitControl bool | RollbackControl bool

subsection \<open>T-SQL phrases (\<open>tsql_transaction.rs\<close>)\<close>

datatype tsql_phrase = PhraseBegin | PhraseCommit | PhraseRollback | NamedRollback | PhraseSave

record tsql_scan =
  phrases :: "tsql_phrase list"
  other_tokens :: bool

definition only_phrase :: "tsql_scan \<Rightarrow> tsql_phrase option" where
  "only_phrase s = (case phrases s of [phrase] \<Rightarrow> if \<not> other_tokens s then Some phrase else None | _ \<Rightarrow> None)"

definition hides_control :: "tsql_scan \<Rightarrow> bool" where
  "hides_control s \<longleftrightarrow>
     phrases s \<noteq> [] \<and> (other_tokens s \<or> length (phrases s) > 1
       \<or> list_ex (\<lambda>phrase. phrase = NamedRollback \<or> phrase = PhraseSave) (phrases s))"

fun unclosed_from :: "bool \<Rightarrow> tsql_phrase list \<Rightarrow> bool" where
  "unclosed_from is_open [] = is_open"
| "unclosed_from is_open (phrase # rest) =
     (case phrase of
        PhraseBegin \<Rightarrow> if is_open then True else unclosed_from True rest
      | PhraseCommit \<Rightarrow> if \<not> is_open then True else unclosed_from False rest
      | PhraseRollback \<Rightarrow> if \<not> is_open then True else unclosed_from False rest
      | NamedRollback \<Rightarrow> True
      | PhraseSave \<Rightarrow> True)"

definition leaves_shared_transaction_unclosed :: "tsql_scan \<Rightarrow> bool" where
  "leaves_shared_transaction_unclosed s = unclosed_from False (phrases s)"

definition is_unquoted_word :: "token option \<Rightarrow> string \<Rightarrow> bool" where
  "is_unquoted_word t expected =
     (case t of Some (Word v None _) \<Rightarrow> eq_ignore_ascii_case v expected | _ \<Rightarrow> False)"

definition keyword_of :: "token option \<Rightarrow> keyword option" where
  "keyword_of t = (case t of Some (Word _ None k) \<Rightarrow> Some k | _ \<Rightarrow> None)"

definition keyword_at :: "token list \<Rightarrow> nat \<Rightarrow> keyword option" where
  "keyword_at tokens at = keyword_of (nth_opt tokens at)"

definition is_tran_word :: "token option \<Rightarrow> bool" where
  "is_tran_word t \<longleftrightarrow> is_unquoted_word t ''TRAN'' \<or> keyword_of t = Some KwTRANSACTION"

definition skip_tran_word :: "token list \<Rightarrow> nat \<Rightarrow> bool \<Rightarrow> nat" where
  "skip_tran_word tokens at allow_work =
     (let t = nth_opt tokens at in
      if is_tran_word t \<or> (allow_work \<and> is_unquoted_word t ''WORK'') then at + 1 else at)"

definition skip_name :: "token list \<Rightarrow> nat \<Rightarrow> nat option" where
  "skip_name tokens at =
     (case nth_opt tokens at of
        Some (Word v q k) \<Rightarrow>
          (let unquoted_reserved = list_ex (eq_ignore_ascii_case v) [''SAVE'', ''TRAN''];
               is_name = q \<noteq> None \<or> starts_with ''@'' v \<or> (k = NoKeyword \<and> \<not> unquoted_reserved)
           in if is_name then Some (at + 1) else None)
      | _ \<Rightarrow> None)"

definition unwrap_or :: "'a option \<Rightarrow> 'a \<Rightarrow> 'a" where
  "unwrap_or x d = (case x of Some v \<Rightarrow> v | None \<Rightarrow> d)"

definition skip_with_options :: "token list \<Rightarrow> nat \<Rightarrow> nat" where
  "skip_with_options tokens at =
     (if keyword_at tokens at \<noteq> Some KwWITH \<or> nth_opt tokens (at + 1) \<noteq> Some LParen then at
      else case find (\<lambda>i. tokens ! i = RParen) [at + 2..<length tokens] of
             Some index \<Rightarrow> index + 1
           | None \<Rightarrow> length tokens)"

definition begin_at :: "token list \<Rightarrow> nat \<Rightarrow> (tsql_phrase \<times> nat) option" where
  "begin_at tokens at0 =
     (let at = (if is_unquoted_word (nth_opt tokens at0) ''DISTRIBUTED'' then at0 + 1 else at0) in
      if \<not> is_tran_word (nth_opt tokens at) then None
      else let after = unwrap_or (skip_name tokens (at + 1)) (at + 1) in
        if keyword_at tokens after = Some KwWITH \<and> is_unquoted_word (nth_opt tokens (after + 1)) ''MARK'' then
          (let after_mark = after + 2;
               after_text = (case nth_opt tokens after_mark of
                               Some (SingleQuotedString _) \<Rightarrow> after_mark + 1 | _ \<Rightarrow> after_mark)
           in Some (PhraseBegin, after_text))
        else Some (PhraseBegin, after))"

definition phrase_at :: "token list \<Rightarrow> nat \<Rightarrow> (tsql_phrase \<times> nat) option" where
  "phrase_at tokens at =
     (case keyword_at tokens at of
        None \<Rightarrow> None
      | Some KwBEGIN \<Rightarrow> begin_at tokens (at + 1)
      | Some KwCOMMIT \<Rightarrow>
          (let after = skip_tran_word tokens (at + 1) True;
               after = unwrap_or (skip_name tokens after) after
           in Some (PhraseCommit, skip_with_options tokens after))
      | Some KwROLLBACK \<Rightarrow>
          (let after = skip_tran_word tokens (at + 1) True in
           case skip_name tokens after of
             Some after_name \<Rightarrow> Some (NamedRollback, after_name)
           | None \<Rightarrow> Some (PhraseRollback, after))
      | Some _ \<Rightarrow>
          if is_unquoted_word (nth_opt tokens at) ''SAVE'' \<and> is_tran_word (nth_opt tokens (at + 1))
          then Some (PhraseSave, unwrap_or (skip_name tokens (at + 2)) (at + 2))
          else None)"

lemma skip_name_bound: "skip_name tokens at = Some n \<Longrightarrow> n = at + 1"
  by (auto simp: skip_name_def Let_def split: option.splits token.splits if_splits)

lemma unwrap_skip_name_bound: "at \<le> unwrap_or (skip_name tokens at) at"
  by (auto simp: unwrap_or_def split: option.splits dest: skip_name_bound)

lemma skip_tran_word_bound: "at \<le> skip_tran_word tokens at w"
  by (simp add: skip_tran_word_def Let_def)

lemma skip_with_options_bound: "at \<le> skip_with_options tokens at"
  by (auto simp: skip_with_options_def nth_opt_def keyword_at_def find_Some_iff split: option.splits if_splits)

lemma begin_at_bound: "begin_at tokens at = Some (p, n) \<Longrightarrow> at < n"
  using unwrap_skip_name_bound [of "at + 1" tokens] unwrap_skip_name_bound [of "at + 2" tokens]
  by (auto simp: begin_at_def Let_def split: if_splits option.splits token.splits)

lemma phrase_at_bound: "phrase_at tokens at = Some (p, n) \<Longrightarrow> at < n"
  using skip_tran_word_bound [of "at + 1" tokens True] unwrap_skip_name_bound [of "at + 2" tokens]
    unwrap_skip_name_bound [of "skip_tran_word tokens (at + 1) True" tokens]
    skip_with_options_bound
      [of "unwrap_or (skip_name tokens (skip_tran_word tokens (at + 1) True)) (skip_tran_word tokens (at + 1) True)" tokens]
  by (auto simp: phrase_at_def Let_def split: if_splits option.splits keyword.splits
      dest!: begin_at_bound skip_name_bound)


text \<open>The \<open>while\<close> loop of \<open>scan\<close>.\<close>

function scan_from :: "token list \<Rightarrow> nat \<Rightarrow> tsql_scan \<Rightarrow> tsql_scan" where
  "scan_from tokens at s =
     (if at < length tokens then
        let after_period = at > 0 \<and> nth_opt tokens (at - 1) = Some Period in
        case (if after_period then None else phrase_at tokens at) of
          Some (phrase, after) \<Rightarrow> scan_from tokens after (s\<lparr>phrases := phrases s @ [phrase]\<rparr>)
        | None \<Rightarrow> scan_from tokens (at + 1)
                   (if nth_opt tokens at \<noteq> Some SemiColon then s\<lparr>other_tokens := True\<rparr> else s)
      else s)"
  by pat_completeness auto
termination
  by (relation "measure (\<lambda>(tokens, at, _). length tokens - at)")
    (auto split: if_splits dest: phrase_at_bound)

declare scan_from.simps [simp del]

definition scan_tsql :: "sql_parser \<Rightarrow> string \<Rightarrow> tsql_scan" where
  "scan_tsql P sql =
     (case tokenize P (dialect_for ''mssql'') sql of
        None \<Rightarrow> \<lparr>phrases = [], other_tokens = False\<rparr>
      | Some tokens \<Rightarrow> scan_from (filter (\<lambda>t. \<not> is_whitespace t) tokens) 0 \<lparr>phrases = [], other_tokens = False\<rparr>)"

subsection \<open>Transactions that start without \<open>BEGIN\<close>\<close>

definition is_word :: "token option \<Rightarrow> string \<Rightarrow> bool" where
  "is_word t expected = (case t of Some (Word v _ _) \<Rightarrow> eq_ignore_ascii_case v expected | _ \<Rightarrow> False)"

definition autocommit_assignment :: "token list \<Rightarrow> nat \<Rightarrow> bool" where
  "autocommit_assignment tokens index =
     (let is_autocommit = is_word (nth_opt tokens index) ''autocommit'' \<or> is_word (nth_opt tokens index) ''@@autocommit'' in
      if \<not> is_autocommit \<or> nth_opt tokens (index + 1) \<notin> {Some EqToken, Some Assignment} then False
      else let enabled = nth_opt tokens (index + 2) = Some (Number ''1'')
                       \<or> is_word (nth_opt tokens (index + 2)) ''ON'' \<or> is_word (nth_opt tokens (index + 2)) ''TRUE'';
               complete_value = nth_opt tokens (index + 3) \<in> {None, Some Comma}
           in \<not> enabled \<or> \<not> complete_value)"

definition mysql_implicit_transaction_statement :: "token list \<Rightarrow> string option" where
  "mysql_implicit_transaction_statement tokens =
     (if is_word (nth_opt tokens 0) ''XA''
         \<and> (is_word (nth_opt tokens 1) ''START'' \<or> is_word (nth_opt tokens 1) ''BEGIN'')
      then Some ''XA START''
      else if \<not> is_word (nth_opt tokens 0) ''SET'' then None
      else if list_ex (autocommit_assignment tokens) [0..<length tokens] then Some ''SET autocommit=0''
      else None)"

fun find_map_opt :: "('a \<Rightarrow> 'b option) \<Rightarrow> 'a list \<Rightarrow> 'b option" where
  "find_map_opt f [] = None"
| "find_map_opt f (x # xs) = (case f x of Some y \<Rightarrow> Some y | None \<Rightarrow> find_map_opt f xs)"

definition implicit_transaction_starter :: "sql_parser \<Rightarrow> string \<Rightarrow> string \<Rightarrow> string option" where
  "implicit_transaction_starter P sql driver_id =
     (if driver_id \<notin> {''mysql'', ''mssql''} then None
      else case tokenize P (dialect_for driver_id) sql of
        None \<Rightarrow> None
      | Some tokens \<Rightarrow>
          find_map_opt
            (\<lambda>st. if driver_id = ''mssql'' then
                     (if is_word (nth_opt st 0) ''SET'' \<and> is_word (nth_opt st 1) ''IMPLICIT_TRANSACTIONS''
                         \<and> is_word (nth_opt st 2) ''ON''
                      then Some ''SET IMPLICIT_TRANSACTIONS ON'' else None)
                   else mysql_implicit_transaction_statement st)
            (split_on (\<lambda>t. t = SemiColon) (filter (\<lambda>t. \<not> is_whitespace t) tokens)))"

subsection \<open>Transaction control of one statement\<close>

definition transaction_start :: "transaction_mode list \<Rightarrow> transaction_control option" where
  "transaction_start modes =
     (if AccessReadWrite \<in> set modes then Some BeginReadWrite
      else if AccessReadOnly \<notin> set modes then Some Begin
      else if list_ex (\<lambda>m. m = IsolationLevel RepeatableRead \<or> m = IsolationLevel Serializable) modes
      then Some BeginReadOnlySnapshot else Some BeginReadOnly)"

definition control_of :: "statement \<Rightarrow> transaction_control option" where
  "control_of st =
     (case st of
        StartTransaction modes statements \<Rightarrow> if statements = [] then transaction_start modes else None
      | Commit chain \<Rightarrow> Some (CommitControl chain)
      | Rollback chain savepoint \<Rightarrow> if savepoint = None then Some (RollbackControl chain) else None
      | _ \<Rightarrow> None)"

definition parsed_transaction_control :: "sql_parser \<Rightarrow> string \<Rightarrow> string \<Rightarrow> transaction_control option" where
  "parsed_transaction_control P sql driver_id =
     (case parse_sql P (dialect_for driver_id) (trim sql) of Inr [st] \<Rightarrow> control_of st | _ \<Rightarrow> None)"

definition tsql_transaction_control :: "sql_parser \<Rightarrow> string \<Rightarrow> transaction_control option" where
  "tsql_transaction_control P sql =
     (case only_phrase (scan_tsql P sql) of
        None \<Rightarrow> parsed_transaction_control P sql ''mssql''
      | Some PhraseBegin \<Rightarrow>
          (case parsed_transaction_control P sql ''mssql'' of Some c \<Rightarrow> Some c | None \<Rightarrow> Some Begin)
      | Some PhraseCommit \<Rightarrow> Some (CommitControl False)
      | Some PhraseRollback \<Rightarrow> Some (RollbackControl False)
      | Some NamedRollback \<Rightarrow> None
      | Some PhraseSave \<Rightarrow> None)"

definition transaction_control_of :: "sql_parser \<Rightarrow> string \<Rightarrow> string \<Rightarrow> transaction_control option" where
  "transaction_control_of P sql driver_id =
     (if driver_id = ''mssql'' then tsql_transaction_control P sql else parsed_transaction_control P sql driver_id)"

definition hides_transaction_control :: "sql_parser \<Rightarrow> string \<Rightarrow> string \<Rightarrow> bool" where
  "hides_transaction_control P sql driver_id =
     (if driver_id = ''mssql'' \<and> hides_control (scan_tsql P sql) then True
      else case parse_sql P (dialect_for driver_id) (trim sql) of
             Inl _ \<Rightarrow> False
           | Inr statements \<Rightarrow> length statements > 1 \<and> list_ex (\<lambda>st. control_of st \<noteq> None) statements)"

definition leaves_tsql_transaction_unclosed :: "sql_parser \<Rightarrow> string \<Rightarrow> string \<Rightarrow> bool" where
  "leaves_tsql_transaction_unclosed P sql driver_id \<longleftrightarrow>
     driver_id = ''mssql'' \<and> leaves_shared_transaction_unclosed (scan_tsql P sql)"

subsection \<open>Statements a MySQL transaction can hold\<close>

definition mysql_user_variable :: "string \<Rightarrow> bool" where
  "mysql_user_variable name \<longleftrightarrow> starts_with ''@'' name \<and> \<not> starts_with ''@@'' name"

definition mysql_locking_read :: "query \<Rightarrow> bool" where
  "mysql_locking_read q \<longleftrightarrow>
     query_locks q \<noteq> 0 \<and> (case query_body q of SelectBody s \<Rightarrow> \<not> select_into s | _ \<Rightarrow> False)"

definition mysql_statement_is_transaction_safe :: "sql_parser \<Rightarrow> string \<Rightarrow> bool" where
  "mysql_statement_is_transaction_safe P sql =
     (case parse_sql P (dialect_for ''mysql'') (trim sql) of
        Inr [st] \<Rightarrow>
          (case st of
             Query q \<Rightarrow> mysql_locking_read q
           | SetStatement (SetSingleAssignment variable) \<Rightarrow> mysql_user_variable variable
           | SetStatement (SetMultipleAssignments assignments) \<Rightarrow>
               assignments \<noteq> [] \<and> list_all mysql_user_variable assignments
           | Savepoint _ \<Rightarrow> True
           | ReleaseSavepoint _ \<Rightarrow> True
           | Rollback _ (Some _) \<Rightarrow> True
           | shown \<Rightarrow> is_read_only_show shown)
      | _ \<Rightarrow> False)"

subsection \<open>Scripts\<close>

definition script_statements :: "sql_parser \<Rightarrow> string \<Rightarrow> string \<Rightarrow> string list" where
  "script_statements P sql driver_id =
     (if driver_id = ''sqlite'' then filter (\<lambda>t. t \<noteq> []) (map trim (sqlite_script P sql))
      else split_statements (unicode_alnum P) sql driver_id)"

section \<open>Properties\<close>

text \<open>A T-SQL batch whose transactions are whole: every phrase that opens one is followed by one that ends it.\<close>

fun whole_transactions :: "tsql_phrase list \<Rightarrow> bool" where
  "whole_transactions [] = True"
| "whole_transactions (PhraseBegin # e # rest) = (e \<in> {PhraseCommit, PhraseRollback} \<and> whole_transactions rest)"
| "whole_transactions _ = False"

lemma unclosed_from_iff: "unclosed_from False ps \<longleftrightarrow> \<not> whole_transactions ps"
proof (induction ps rule: whole_transactions.induct)
  case (2 e rest)
  then show ?case by (cases e) auto
qed (auto split: tsql_phrase.splits)


end
