(* ===== verification/Rules.thy ===== *)
theory Rules
  imports Verdict Policy_Config Transaction_Control "HOL-Library.List_Lexorder" "HOL-Library.Char_ord"
begin

text \<open>
  \<open>crates/policy/src/rules.rs\<close>: the decision rules. Each group of rules yields a list of decisions;
  \<open>evaluate\<close> joins all of them into the verdict on a statement.
\<close>

section \<open>Definitions\<close>

subsection \<open>Rendering\<close>

text \<open>\<open>{:?}\<close> of \<open>StatementClass\<close>.\<close>

fun class_debug :: "statement_class \<Rightarrow> string" where
  "class_debug Select = ''Select''"
| "class_debug Insert = ''Insert''"
| "class_debug Update = ''Update''"
| "class_debug Delete = ''Delete''"
| "class_debug Ddl = ''Ddl''"
| "class_debug Administrative = ''Administrative''"
| "class_debug Transaction = ''Transaction''"
| "class_debug Other = ''Other''"
| "class_debug Unparseable = ''Unparseable''"

definition table_preview :: "statement_facts \<Rightarrow> string" where
  "table_preview f = ''tables: '' @ join '', '' (remdups_adj (sort (tables f)))"

subsection \<open>Unparseable statements\<close>

definition decide_unparseable :: "principal \<Rightarrow> env_policy \<Rightarrow> decision" where
  "decide_unparseable p pol =
     (if is_agent p then Deny ''fail_closed_unparseable'' ''SQL could not be parsed; agents are denied''
      else if human_approve_unparseable pol then
        RequireApproval ''fail_closed_unparseable'' ''SQL could not be parsed; confirm before running'' None
      else Allow ''unparseable_human_allow'')"

subsection \<open>Agents\<close>

definition evaluate_agent_write_categorical :: "environment \<Rightarrow> statement_facts \<Rightarrow> env_policy \<Rightarrow> decision list" where
  "evaluate_agent_write_categorical env f pol =
     (if eff_contains (facts_effects f) HOST_OR_FILE_ACCESS
      then [Deny ''agent_host_access_denied'' ''agents may not access host files or external programs''] else [])
     @ (if agent_writes pol = WriteDeny
        then [Deny ''agent_writes_denied'' (''agent writes are denied in '' @ env_as_str env)] else [])
     @ (if contains_ddl f \<and> \<not> agent_allow_ddl pol
        then [Deny ''agent_ddl_denied'' ''agents may not run DDL''] else [])
     @ (if contains_unknown_write f
        then [Deny ''agent_unknown_write_denied''
                ''agents may not run writes whose safety category cannot be determined''] else [])
     @ (if contains_unscoped_dml f
        then [Deny ''agent_no_unscoped_dml'' ''agents may not run unscoped UPDATE/DELETE or TRUNCATE''] else [])"

definition agent_blast_radius :: "statement_facts \<Rightarrow> env_policy \<Rightarrow> nat option \<Rightarrow> decision list" where
  "agent_blast_radius f pol estimated_rows =
     (case blast_radius_max_rows pol of
        None \<Rightarrow> []
      | Some limit \<Rightarrow>
          if \<not> contains_mutating_dml f then []
          else case estimated_rows of
            Some rows \<Rightarrow>
              if rows > limit
              then [Deny ''blast_radius_exceeded''
                      (''would affect '' @ show_nat rows @ '' rows; limit is '' @ show_nat limit)]
              else []
          | None \<Rightarrow>
              [Deny ''blast_radius_unknown''
                 ''could not estimate affected rows; agents are denied when a blast-radius limit is set''])"

definition evaluate_agent_write_decisions ::
    "environment \<Rightarrow> statement_facts \<Rightarrow> env_policy \<Rightarrow> nat option \<Rightarrow> decision list" where
  "evaluate_agent_write_decisions env f pol estimated_rows =
     evaluate_agent_write_categorical env f pol
     @ agent_blast_radius f pol estimated_rows
     @ [case agent_writes pol of
          WriteAllow \<Rightarrow> Allow ''agent_write_allow''
        | WriteApprove \<Rightarrow>
            RequireApproval ''agent_write_approve''
              (class_debug (facts_class f) @ '' requires approval for agent writes'') (Some (table_preview f))
        | WriteDeny \<Rightarrow> Deny ''agent_writes_denied'' (''agent writes are denied in '' @ env_as_str env)]"

subsection \<open>Humans\<close>

definition dangerous_effect :: "effects \<Rightarrow> bool" where
  "dangerous_effect e \<longleftrightarrow> eff_contains e ADMIN \<or> eff_contains e HOST_OR_FILE_ACCESS \<or> eff_contains e UNKNOWN"

definition dangerous_effect_approval :: "statement_facts \<Rightarrow> decision" where
  "dangerous_effect_approval f =
     RequireApproval ''human_dangerous_effect_approval''
       ''administrative, host-access or unknown write effects require confirmation'' (Some (table_preview f))"

definition human_write_approve :: "environment \<Rightarrow> string option \<Rightarrow> decision" where
  "human_write_approve env p =
     RequireApproval ''human_write_approve'' (''writes require approval in '' @ env_as_str env) p"

definition evaluate_human_dangerous_effects ::
    "environment \<Rightarrow> statement_facts \<Rightarrow> env_policy \<Rightarrow> decision list" where
  "evaluate_human_dangerous_effects env f pol =
     (if \<not> dangerous_effect (facts_effects f) then []
      else dangerous_effect_approval f
           # (if human_approve_writes pol then [human_write_approve env (Some (table_preview f))] else []))"

definition evaluate_human_write_categorical ::
    "environment \<Rightarrow> statement_facts \<Rightarrow> env_policy \<Rightarrow> decision list" where
  "evaluate_human_write_categorical env f pol =
     (if contains_unscoped_dml f
      then [RequireApproval ''human_unscoped_dml'' ''unscoped UPDATE/DELETE or TRUNCATE'' (Some (table_preview f))]
      else [])
     @ (if contains_ddl f \<and> human_approve_ddl pol
        then [RequireApproval ''human_ddl_approve'' (''DDL on '' @ env_as_str env) (Some (table_preview f))]
        else [])"

definition human_blast_radius :: "statement_facts \<Rightarrow> env_policy \<Rightarrow> nat option \<Rightarrow> decision list" where
  "human_blast_radius f pol estimated_rows =
     (case blast_radius_max_rows pol of
        None \<Rightarrow> []
      | Some limit \<Rightarrow>
          if \<not> contains_mutating_dml f then []
          else case estimated_rows of
            Some rows \<Rightarrow>
              if rows > limit
              then [RequireApproval ''blast_radius_approve''
                      (''would affect '' @ show_nat rows @ '' rows (limit '' @ show_nat limit @ '')'') None]
              else []
          | None \<Rightarrow>
              [RequireApproval ''blast_radius_unknown''
                 ''could not estimate affected rows; confirm before running'' None])"

definition evaluate_human_write_decisions ::
    "environment \<Rightarrow> statement_facts \<Rightarrow> env_policy \<Rightarrow> nat option \<Rightarrow> decision list" where
  "evaluate_human_write_decisions env f pol estimated_rows =
     evaluate_human_write_categorical env f pol
     @ human_blast_radius f pol estimated_rows
     @ (if human_approve_writes pol then [human_write_approve env (Some (table_preview f))]
        else if dangerous_effect (facts_effects f) then [dangerous_effect_approval f]
        else [])
     @ [Allow ''human_write_allow'']"

subsection \<open>The verdict\<close>

definition evaluate_unparseable_decisions ::
    "decision list \<Rightarrow> principal \<Rightarrow> environment \<Rightarrow> statement_facts \<Rightarrow> env_policy \<Rightarrow> decision list" where
  "evaluate_unparseable_decisions ds p env f pol =
     (let unparseable = decide_unparseable p pol;
          ds = ds @ [unparseable]
      in if is_agent p then ds
         else if is_allow unparseable then ds @ evaluate_human_dangerous_effects env f pol
         else if human_approve_writes pol then ds @ [human_write_approve env None]
         else ds)"

definition evaluate_categorical_decisions ::
    "principal \<Rightarrow> environment \<Rightarrow> statement_facts \<Rightarrow> bool \<Rightarrow> env_policy \<Rightarrow> decision list" where
  "evaluate_categorical_decisions p env f connection_read_only pol =
     (let e = facts_effects f;
          ds = (if connection_read_only \<and> eff_writes e
                then [Deny ''connection_read_only''
                        ''connection is marked read-only; statements that may write are not permitted'']
                else [])
      in if facts_class f = Unparseable then evaluate_unparseable_decisions ds p env f pol
         else
           let ds = ds @ (if is_multi_statement f \<and> is_agent p \<and> \<not> agent_allow_multi_statement pol
                          then [Deny ''agent_no_multi_statement'' ''agents may not run multi-statement scripts'']
                          else []);
               ds = ds @ (if is_agent p \<and> (facts_class f = Administrative \<or> eff_contains e ADMIN)
                          then [Deny ''agent_admin_denied''
                                  ''agents may not run administrative database operations'']
                          else [])
           in if \<not> eff_writes e \<and> \<not> eff_contains e HOST_OR_FILE_ACCESS then ds @ [Allow ''read_allow'']
              else if is_agent p then ds @ evaluate_agent_write_categorical env f pol
              else ds @ evaluate_human_dangerous_effects env f pol)"

definition evaluate_categorical ::
    "principal \<Rightarrow> environment \<Rightarrow> statement_facts \<Rightarrow> bool \<Rightarrow> env_policy \<Rightarrow> decision option" where
  "evaluate_categorical p env f connection_read_only pol =
     join_all (evaluate_categorical_decisions p env f connection_read_only pol)"

definition evaluate_eligible_write_decisions ::
    "principal \<Rightarrow> environment \<Rightarrow> statement_facts \<Rightarrow> env_policy \<Rightarrow> nat option \<Rightarrow> decision list" where
  "evaluate_eligible_write_decisions p env f pol estimated_rows =
     (if facts_class f = Unparseable then [decide_unparseable p pol]
      else if is_agent p then evaluate_agent_write_decisions env f pol estimated_rows
      else evaluate_human_write_decisions env f pol estimated_rows)"

definition no_policy_rules_applied :: decision where
  "no_policy_rules_applied = Deny ''no_policy_rules_applied'' ''policy evaluation produced no verdict''"

definition evaluate_eligible_write ::
    "principal \<Rightarrow> environment \<Rightarrow> statement_facts \<Rightarrow> env_policy \<Rightarrow> nat option \<Rightarrow> decision" where
  "evaluate_eligible_write p env f pol estimated_rows =
     unwrap_or (join_all (evaluate_eligible_write_decisions p env f pol estimated_rows)) no_policy_rules_applied"

definition evaluate_with_effects ::
    "principal \<Rightarrow> environment \<Rightarrow> statement_facts \<Rightarrow> bool \<Rightarrow> env_policy \<Rightarrow> nat option \<Rightarrow> decision" where
  "evaluate_with_effects p env f connection_read_only pol estimated_rows =
     (let e = facts_effects f;
          ds = evaluate_categorical_decisions p env f connection_read_only pol;
          ds = (if eff_writes e \<or> facts_class f = Unparseable \<or> eff_contains e ADMIN
                   \<or> eff_contains e HOST_OR_FILE_ACCESS \<or> eff_contains e UNKNOWN
                then ds @ evaluate_eligible_write_decisions p env f pol estimated_rows else ds)
      in unwrap_or (join_all ds) no_policy_rules_applied)"

definition evaluate ::
    "principal \<Rightarrow> environment \<Rightarrow> statement_facts \<Rightarrow> bool \<Rightarrow> env_policy \<Rightarrow> nat option \<Rightarrow> decision" where
  "evaluate p env f connection_read_only pol estimated_rows =
     evaluate_with_effects p env f connection_read_only pol estimated_rows"

subsection \<open>Transactions on a shared connection\<close>

fun unclosed_script :: "sql_parser \<Rightarrow> string \<Rightarrow> bool \<Rightarrow> string list \<Rightarrow> bool" where
  "unclosed_script P driver_id is_open [] = is_open"
| "unclosed_script P driver_id is_open (st # rest) =
     (case transaction_control_of P st driver_id of
        Some (CommitControl chain) \<Rightarrow>
          if \<not> is_open \<or> chain then True else unclosed_script P driver_id False rest
      | Some (RollbackControl chain) \<Rightarrow>
          if \<not> is_open \<or> chain then True else unclosed_script P driver_id False rest
      | Some _ \<Rightarrow> if is_open then True else unclosed_script P driver_id True rest
      | None \<Rightarrow>
          if is_open \<and> (facts_class (classify P st driver_id) = Unparseable
                       \<or> (driver_id = ''mysql'' \<and> contains_ddl (classify P st driver_id)))
          then True else unclosed_script P driver_id is_open rest)"

definition has_unclosed_shared_transaction :: "sql_parser \<Rightarrow> string \<Rightarrow> string \<Rightarrow> bool" where
  "has_unclosed_shared_transaction P sql driver_id =
     (if leaves_tsql_transaction_unclosed P sql driver_id then True
      else let statements = script_statements P sql driver_id in
        if length statements < 2 then False else unclosed_script P driver_id False statements)"

definition shared_connection_decision :: "sql_parser \<Rightarrow> string \<Rightarrow> string \<Rightarrow> statement_facts \<Rightarrow> decision option" where
  "shared_connection_decision P sql driver_id f =
     (case implicit_transaction_starter P sql driver_id of
        Some st \<Rightarrow>
          Some (Deny ''transaction_control_needs_session''
            (st @ '' starts a transaction that nothing on a shared connection would end, so the statements ''
             @ ''after it would run inside it. Turn on Session for this editor tab to keep a transaction open ''
             @ ''between statements, or send the whole transaction as one batch''))
      | None \<Rightarrow>
          if (facts_class f = Transaction \<and> \<not> is_multi_statement f) \<or> has_unclosed_shared_transaction P sql driver_id
          then Some (Deny ''transaction_control_needs_session''
            (''BEGIN, COMMIT and ROLLBACK cannot run on a shared connection, because the transaction would not ''
             @ ''cover the statements after it. Turn on Session for this editor tab to keep a transaction ''
             @ ''open between statements, or send the whole transaction as one batch''))
          else None)"

definition interactive_transaction_decision :: "sql_parser \<Rightarrow> string \<Rightarrow> string \<Rightarrow> statement_facts \<Rightarrow> decision option" where
  "interactive_transaction_decision P driver_id sql f =
     (let plain_dml = facts_class f \<in> {Select, Insert, Update, Delete} in
      if driver_id \<noteq> ''mysql''
         \<or> (plain_dml \<and> \<not> contains_ddl f \<and> \<not> contains_unknown_write f)
         \<or> mysql_statement_is_transaction_safe P sql
      then None
      else Some (Deny ''mysql_statement_not_rollback_safe''
             (''This MySQL statement may have effects that the interactive transaction cannot roll back. Run it ''
              @ ''on its own, outside the transaction'')))"

section \<open>Properties\<close>

subsection \<open>From the joined verdict to its parts\<close>

lemma severity_verdict:
  "ds \<noteq> [] \<Longrightarrow> severity (unwrap_or (join_all ds) v) = Max (severity ` set ds)"
  using severity_join_all [of ds] by (auto simp: unwrap_or_def)

lemma verdict_le_iff:
  "ds \<noteq> [] \<Longrightarrow> severity (unwrap_or (join_all ds) v) \<le> n \<longleftrightarrow> (\<forall>d \<in> set ds. severity d \<le> n)"
  by (simp add: severity_verdict)

lemma verdict_allow_iff:
  "ds \<noteq> [] \<Longrightarrow> is_allow (unwrap_or (join_all ds) v) \<longleftrightarrow> list_all is_allow ds"
  using verdict_le_iff [of ds v 0] by (simp add: severity_cases list_all_iff)

lemma verdict_deny_iff:
  "ds \<noteq> [] \<Longrightarrow> is_deny (unwrap_or (join_all ds) v) \<longleftrightarrow> list_ex is_deny ds"
proof -
  assume ne: "ds \<noteq> []"
  have "is_deny d \<longleftrightarrow> \<not> severity d \<le> 1" for d by (cases d) auto
  then show ?thesis using verdict_le_iff [OF ne, of v 1] by (simp add: list_ex_iff)
qed

text \<open>All decisions that \<open>evaluate\<close> joins.\<close>

definition all_decisions ::
    "principal \<Rightarrow> environment \<Rightarrow> statement_facts \<Rightarrow> bool \<Rightarrow> env_policy \<Rightarrow> nat option \<Rightarrow> decision list" where
  "all_decisions p env f ro pol rows =
     evaluate_categorical_decisions p env f ro pol
     @ (if eff_writes (facts_effects f) \<or> facts_class f = Unparseable
           \<or> eff_contains (facts_effects f) HOST_OR_FILE_ACCESS
        then evaluate_eligible_write_decisions p env f pol rows else [])"

lemma evaluate_all_decisions:
  "evaluate p env f ro pol rows = unwrap_or (join_all (all_decisions p env f ro pol rows)) no_policy_rules_applied"
  by (auto simp: evaluate_def evaluate_with_effects_def all_decisions_def eff_writes_contains)

lemma all_decisions_nonempty [simp]: "all_decisions p env f ro pol rows \<noteq> []"
  by (auto simp: all_decisions_def evaluate_categorical_decisions_def evaluate_unparseable_decisions_def
      evaluate_eligible_write_decisions_def evaluate_agent_write_decisions_def evaluate_human_write_decisions_def Let_def)

lemma evaluate_iffs:
  "is_allow (evaluate p env f ro pol rows) \<longleftrightarrow> (list_all is_allow (all_decisions p env f ro pol rows))"
  "is_deny (evaluate p env f ro pol rows) \<longleftrightarrow> (list_ex is_deny (all_decisions p env f ro pol rows))"
  "severity (evaluate p env f ro pol rows) = Max (severity ` set (all_decisions p env f ro pol rows))"
  by (simp_all only: evaluate_all_decisions verdict_allow_iff verdict_deny_iff severity_verdict
      all_decisions_nonempty not_False_eq_True)

text \<open>
  The two stages of the guard agree with the whole evaluation: a statement without a categorical verdict has
  the verdict of its eligible write.
\<close>

lemma evaluate_eligible:
  assumes "evaluate_categorical p env f ro pol = None"
  shows "evaluate_eligible_write p env f pol rows = evaluate p env f ro pol rows"
proof -
  have "evaluate_categorical_decisions p env f ro pol = []"
    using assms severity_join_all unfolding evaluate_categorical_def by fastforce
  then have "all_decisions p env f ro pol rows = evaluate_eligible_write_decisions p env f pol rows"
    using all_decisions_nonempty [of p env f ro pol rows] by (auto simp: all_decisions_def split: if_splits)
  then show ?thesis by (simp add: evaluate_all_decisions evaluate_eligible_write_def)
qed

lemmas rule_defs =
  all_decisions_def evaluate_categorical_decisions_def evaluate_unparseable_decisions_def decide_unparseable_def
  evaluate_eligible_write_decisions_def evaluate_agent_write_decisions_def evaluate_agent_write_categorical_def
  evaluate_human_write_decisions_def evaluate_human_write_categorical_def evaluate_human_dangerous_effects_def
  agent_blast_radius_def human_blast_radius_def dangerous_effect_def dangerous_effect_approval_def
  human_write_approve_def

text \<open>The row budget of a policy: a known estimate within the limit, where there is a limit.\<close>

definition within_blast_radius :: "statement_facts \<Rightarrow> env_policy \<Rightarrow> nat option \<Rightarrow> bool" where
  "within_blast_radius f pol rows =
     (case blast_radius_max_rows pol of
        None \<Rightarrow> True
      | Some limit \<Rightarrow> contains_mutating_dml f \<longrightarrow> (case rows of None \<Rightarrow> False | Some r \<Rightarrow> r \<le> limit))"

lemma agent_blast_radius_allow: "(list_all is_allow (agent_blast_radius f pol rows)) \<longleftrightarrow> within_blast_radius f pol rows"
  by (auto simp: agent_blast_radius_def within_blast_radius_def split: option.splits)

lemma human_blast_radius_allow: "(list_all is_allow (human_blast_radius f pol rows)) \<longleftrightarrow> within_blast_radius f pol rows"
  by (auto simp: human_blast_radius_def within_blast_radius_def split: option.splits)

subsection \<open>When a statement runs unattended\<close>

lemma agent_allowed_iff:
  "is_allow (evaluate (Agent t c m) env f ro pol rows) \<longleftrightarrow>
     facts_class f \<noteq> Unparseable \<and> facts_class f \<noteq> Administrative
     \<and> (\<not> is_multi_statement f \<or> agent_allow_multi_statement pol)
     \<and> \<not> eff_contains (facts_effects f) ADMIN
     \<and> \<not> eff_contains (facts_effects f) HOST_OR_FILE_ACCESS
     \<and> \<not> eff_contains (facts_effects f) UNKNOWN
     \<and> (\<not> eff_writes (facts_effects f)
        \<or> (ro = False \<and> agent_writes pol = WriteAllow \<and> (\<not> contains_ddl f \<or> agent_allow_ddl pol)
           \<and> \<not> contains_unscoped_dml f \<and> within_blast_radius f pol rows))"
proof (cases "facts_class f = Unparseable")
  case True
  then show ?thesis
    by (auto simp: evaluate_iffs rule_defs)
next
  case False
  have written: "(list_all is_allow (evaluate_agent_write_decisions env f pol rows)) \<longleftrightarrow>
      (list_all is_allow (evaluate_agent_write_categorical env f pol))
      \<and> within_blast_radius f pol rows \<and> agent_writes pol = WriteAllow"
    using agent_blast_radius_allow [of f pol rows]
    by (auto simp: evaluate_agent_write_decisions_def split: write_policy.splits)
  have categorical: "(list_all is_allow (evaluate_agent_write_categorical env f pol)) \<longleftrightarrow>
      \<not> eff_contains (facts_effects f) HOST_OR_FILE_ACCESS \<and> agent_writes pol \<noteq> WriteDeny
      \<and> (\<not> contains_ddl f \<or> agent_allow_ddl pol) \<and> \<not> eff_contains (facts_effects f) UNKNOWN
      \<and> \<not> contains_unscoped_dml f"
    by (auto simp: evaluate_agent_write_categorical_def contains_unknown_write_def)
  show ?thesis
    using False written categorical
    by (auto simp: evaluate_iffs all_decisions_def evaluate_categorical_decisions_def
        evaluate_eligible_write_decisions_def eff_writes_contains Let_def)
qed

lemma agent_denied_iff:
  "is_deny (evaluate (Agent t c m) env f ro pol rows) \<longleftrightarrow>
     facts_class f = Unparseable \<or> facts_class f = Administrative \<or> (ro \<and> eff_writes (facts_effects f))
     \<or> (is_multi_statement f \<and> \<not> agent_allow_multi_statement pol)
     \<or> eff_contains (facts_effects f) HOST_OR_FILE_ACCESS
     \<or> eff_contains (facts_effects f) ADMIN \<or> eff_contains (facts_effects f) UNKNOWN
     \<or> (eff_writes (facts_effects f)
        \<and> (agent_writes pol = WriteDeny \<or> (contains_ddl f \<and> \<not> agent_allow_ddl pol)
           \<or> contains_unscoped_dml f \<or> \<not> within_blast_radius f pol rows))"
proof (cases "facts_class f = Unparseable")
  case True
  then show ?thesis
    by (auto simp: evaluate_iffs rule_defs)
next
  case False
  have rows: "list_ex is_deny (agent_blast_radius f pol rows) \<longleftrightarrow> \<not> within_blast_radius f pol rows"
    by (auto simp: agent_blast_radius_def within_blast_radius_def split: option.splits)
  have categorical: "list_ex is_deny (evaluate_agent_write_categorical env f pol) \<longleftrightarrow>
      eff_contains (facts_effects f) HOST_OR_FILE_ACCESS \<or> agent_writes pol = WriteDeny
      \<or> (contains_ddl f \<and> \<not> agent_allow_ddl pol) \<or> eff_contains (facts_effects f) UNKNOWN
      \<or> contains_unscoped_dml f"
    by (auto simp: evaluate_agent_write_categorical_def contains_unknown_write_def)
  show ?thesis
    using False
    by (auto simp: evaluate_iffs all_decisions_def evaluate_categorical_decisions_def rows categorical
        evaluate_eligible_write_decisions_def evaluate_agent_write_decisions_def eff_writes_contains Let_def
        split: write_policy.splits)
qed

lemma human_allowed_iff:
  "is_allow (evaluate (Human s) env f ro pol rows) \<longleftrightarrow>
     (if facts_class f = Unparseable then
        \<not> human_approve_unparseable pol \<and> \<not> dangerous_effect (facts_effects f)
        \<and> (\<not> ro \<or> \<not> eff_writes (facts_effects f))
      else \<not> eff_writes (facts_effects f) \<and> \<not> eff_contains (facts_effects f) HOST_OR_FILE_ACCESS
        \<or> ro = False \<and> \<not> dangerous_effect (facts_effects f)
           \<and> \<not> contains_unscoped_dml f \<and> (\<not> contains_ddl f \<or> \<not> human_approve_ddl pol)
           \<and> within_blast_radius f pol rows \<and> \<not> human_approve_writes pol)"
proof (cases "facts_class f = Unparseable")
  case True
  then show ?thesis
    by (auto simp: evaluate_iffs rule_defs Let_def)
next
  case False
  have written: "(list_all is_allow (evaluate_human_write_decisions env f pol rows)) \<longleftrightarrow>
      \<not> contains_unscoped_dml f \<and> (\<not> contains_ddl f \<or> \<not> human_approve_ddl pol)
      \<and> within_blast_radius f pol rows \<and> \<not> human_approve_writes pol \<and> \<not> dangerous_effect (facts_effects f)"
    using human_blast_radius_allow [of f pol rows]
    by (auto simp: evaluate_human_write_decisions_def evaluate_human_write_categorical_def
        human_write_approve_def dangerous_effect_approval_def)
  show ?thesis
    using False written
    by (auto simp: evaluate_iffs all_decisions_def evaluate_categorical_decisions_def
        evaluate_eligible_write_decisions_def evaluate_human_dangerous_effects_def dangerous_effect_approval_def
        dangerous_effect_def eff_writes_contains Let_def)
qed

lemma human_denied_iff:
  "is_deny (evaluate (Human s) env f ro pol rows) \<longleftrightarrow> ro \<and> eff_writes (facts_effects f)"
proof -
  have "\<not> list_ex is_deny (human_blast_radius f pol rows)"
    by (auto simp: human_blast_radius_def split: option.splits if_splits)
  then show ?thesis
    by (auto simp: evaluate_iffs all_decisions_def evaluate_categorical_decisions_def evaluate_unparseable_decisions_def
        decide_unparseable_def evaluate_eligible_write_decisions_def evaluate_human_write_decisions_def
        evaluate_human_write_categorical_def evaluate_human_dangerous_effects_def dangerous_effect_approval_def
        human_write_approve_def Let_def split: if_splits)
qed

text \<open>
  C20: The exact verdict on an agent's statement. It is allowed without anyone's approval exactly when it
  parses, is not administrative, is a single statement (or the policy permits scripts), has no
  administrative, host-access or unknown effect, and, if it writes, the connection is writable, the policy
  allows agent writes outright (and DDL, where it has some), it holds no unscoped DML, and the rows it
  changes are known and within the blast radius. It is denied exactly when one of the hard conditions
  fails; in between lies only the case of a policy that asks for approval of agent writes.
\<close>

theorem agent_verdict:
  "(is_allow (evaluate (Agent t c m) env f ro pol rows) \<longleftrightarrow>
      \<not> is_deny (evaluate (Agent t c m) env f ro pol rows)
      \<and> \<not> (eff_writes (facts_effects f) \<and> agent_writes pol \<noteq> WriteAllow))
   \<and> (is_deny (evaluate (Agent t c m) env f ro pol rows) \<longleftrightarrow>
      facts_class f = Unparseable \<or> facts_class f = Administrative \<or> (ro \<and> eff_writes (facts_effects f))
      \<or> (is_multi_statement f \<and> \<not> agent_allow_multi_statement pol)
      \<or> eff_contains (facts_effects f) HOST_OR_FILE_ACCESS
      \<or> eff_contains (facts_effects f) ADMIN \<or> eff_contains (facts_effects f) UNKNOWN
      \<or> (eff_writes (facts_effects f)
         \<and> (agent_writes pol = WriteDeny \<or> (contains_ddl f \<and> \<not> agent_allow_ddl pol)
            \<or> contains_unscoped_dml f \<or> \<not> within_blast_radius f pol rows)))"
  by (auto simp: agent_allowed_iff agent_denied_iff)

definition example_update_facts :: statement_facts where
  "example_update_facts = \<lparr>facts_class = Update, facts_effects = WRITES_ROWS, tables = [''accounts''],
     has_where = True, contains_unscoped_dml = False, is_multi_statement = False, parse_error = None\<rparr>"

lemma example_update_effects:
  "eff_writes (facts_effects example_update_facts)" "contains_mutating_dml example_update_facts"
  by code_simp+

theorem agent_verdict_witness:
  "is_deny (evaluate (Agent ''t'' None None) Prod example_update_facts False prod_defaults (Some 1))
   \<and> is_deny (evaluate (Agent ''t'' None None) Local example_update_facts False local_defaults None)"
  using agent_verdict [of "''t''" None None Prod example_update_facts False prod_defaults "Some 1"]
    agent_verdict [of "''t''" None None Local example_update_facts False local_defaults None]
    example_update_effects
  by (simp add: prod_defaults_def local_defaults_def default_policy_def within_blast_radius_def)

text \<open>
  C21: The exact verdict on a human's statement. It is denied exactly when the connection is read-only and
  the statement may write. It runs without confirmation exactly when it is a read without host access, or
  a write on a writable connection with no administrative, host-access or unknown effect, no unscoped
  DML, no DDL that needs approval, a row estimate within the blast radius, and no general approval of
  writes. A statement that does not parse and carries an unknown effect is always asked about.
\<close>

theorem human_verdict:
  "(is_deny (evaluate (Human s) env f ro pol rows) \<longleftrightarrow> ro \<and> eff_writes (facts_effects f))
   \<and> (is_allow (evaluate (Human s) env f ro pol rows) \<longleftrightarrow>
      (if facts_class f = Unparseable then
         \<not> human_approve_unparseable pol \<and> \<not> dangerous_effect (facts_effects f)
         \<and> \<not> (ro \<and> eff_writes (facts_effects f))
       else if eff_writes (facts_effects f) \<or> eff_contains (facts_effects f) HOST_OR_FILE_ACCESS then
         \<not> ro \<and> \<not> dangerous_effect (facts_effects f)
         \<and> \<not> contains_unscoped_dml f \<and> \<not> (contains_ddl f \<and> human_approve_ddl pol)
         \<and> within_blast_radius f pol rows \<and> \<not> human_approve_writes pol
       else True))"
  by (auto simp: human_allowed_iff human_denied_iff)

lemma eff_contains_self: "eff_contains e e"
  by (simp add: eff_contains_def)

text \<open>
  C31: Failing closed on text that does not parse: an agent's unparseable statement is denied and a human's
  needs approval, whatever the environment, the connection and the policy; no policy setting lets it
  run unattended.
\<close>

theorem unparseable_fails_closed:
  "\<not> is_allow (evaluate p env (unparseable msg) ro pol rows)
   \<and> (is_deny (evaluate p env (unparseable msg) ro pol rows) \<longleftrightarrow> is_agent p \<or> ro)"
proof (cases p)
  case (Human s)
  then show ?thesis
    by (auto simp: evaluate_iffs rule_defs unparseable_def eff_writes_contains eff_contains_self)
next
  case (Agent t c m)
  then show ?thesis
    by (auto simp: evaluate_iffs rule_defs unparseable_def Let_def)
qed

subsection \<open>Stricter inputs never give a milder verdict\<close>

fun write_policy_level :: "write_policy \<Rightarrow> nat" where
  "write_policy_level WriteAllow = 0"
| "write_policy_level WriteApprove = 1"
| "write_policy_level WriteDeny = 2"

text \<open>\<open>None\<close> as a limit is no limit, and as an estimate an unknown number of rows.\<close>

fun limit_le :: "nat option \<Rightarrow> nat option \<Rightarrow> bool" where
  "limit_le _ None = True"
| "limit_le None (Some _) = False"
| "limit_le (Some a) (Some b) = (a \<le> b)"

definition at_least_as_strict :: "env_policy \<Rightarrow> env_policy \<Rightarrow> bool" where
  "at_least_as_strict strict lax \<longleftrightarrow>
     write_policy_level (agent_writes lax) \<le> write_policy_level (agent_writes strict)
     \<and> (agent_allow_ddl strict \<longrightarrow> agent_allow_ddl lax)
     \<and> (agent_allow_multi_statement strict \<longrightarrow> agent_allow_multi_statement lax)
     \<and> (human_approve_writes lax \<longrightarrow> human_approve_writes strict)
     \<and> (human_approve_ddl lax \<longrightarrow> human_approve_ddl strict)
     \<and> (human_approve_unparseable lax \<longrightarrow> human_approve_unparseable strict)
     \<and> limit_le (blast_radius_max_rows strict) (blast_radius_max_rows lax)"

lemma within_blast_radius_mono:
  "within_blast_radius f strict rows' \<Longrightarrow> at_least_as_strict strict lax \<Longrightarrow> limit_le rows rows' \<Longrightarrow>
   within_blast_radius f lax rows"
  by (auto simp: within_blast_radius_def at_least_as_strict_def split: option.splits)

lemma severity_mono_iff:
  "severity d \<le> severity e \<longleftrightarrow> (is_allow e \<longrightarrow> is_allow d) \<and> (is_deny d \<longrightarrow> is_deny e)"
  by (cases d; cases e) auto

text \<open>
  C32: Tightening never loosens. Making a policy stricter in any of its settings, marking the connection
  read-only, or estimating more rows (or failing to estimate them) never turns a denial into an approval or an
  approval into permission, for agents and humans alike.
\<close>

theorem stricter_never_milder:
  assumes "at_least_as_strict strict lax" "ro \<longrightarrow> ro'" "limit_le rows rows'"
  shows "severity (evaluate p env f ro lax rows) \<le> severity (evaluate p env f ro' strict rows')"
proof (cases p)
  case (Human s)
  then show ?thesis
    using assms within_blast_radius_mono [of f strict rows' lax rows]
    unfolding severity_mono_iff
    by (auto simp: human_allowed_iff human_denied_iff at_least_as_strict_def split: if_splits)
next
  case (Agent t c m)
  then show ?thesis
    using assms within_blast_radius_mono [of f strict rows' lax rows]
    unfolding severity_mono_iff
    by (cases "agent_writes lax"; cases "agent_writes strict")
      (auto simp: agent_allowed_iff agent_denied_iff at_least_as_strict_def)
qed

theorem stricter_never_milder_witness:
  "at_least_as_strict prod_defaults local_defaults
   \<and> severity (evaluate human_gui Local (unparseable []) False local_defaults (Some 5))
     \<le> severity (evaluate human_gui Local (unparseable []) True prod_defaults None)"
proof -
  have "at_least_as_strict prod_defaults local_defaults"
    by (simp add: at_least_as_strict_def prod_defaults_def local_defaults_def default_policy_def)
  then show ?thesis
    using stricter_never_milder [of prod_defaults local_defaults False True "Some 5" None human_gui Local "unparseable []"]
    by simp
qed

subsection \<open>Whole transactions on a shared connection\<close>

text \<open>
  The control statements of a script are whole transactions: each begins where none is open and ends with
  a plain commit or rollback.
\<close>

fun whole_script :: "transaction_control list \<Rightarrow> bool" where
  "whole_script [] = True"
| "whole_script (b # e # rest) =
     (b \<in> {Begin, BeginReadWrite, BeginReadOnly, BeginReadOnlySnapshot}
      \<and> e \<in> {CommitControl False, RollbackControl False} \<and> whole_script rest)"
| "whole_script [_] = False"

definition script_controls :: "sql_parser \<Rightarrow> string \<Rightarrow> string list \<Rightarrow> transaction_control list" where
  "script_controls P driver_id sts = List.map_filter (\<lambda>st. transaction_control_of P st driver_id) sts"

lemma script_controls_Cons:
  "script_controls P d (st # sts) =
     (case transaction_control_of P st d of None \<Rightarrow> script_controls P d sts | Some c \<Rightarrow> c # script_controls P d sts)"
  by (auto simp: script_controls_def List.map_filter_simps split: option.splits)

lemma unclosed_script_whole:
  "\<not> unclosed_script P d is_open sts \<Longrightarrow>
   whole_script ((if is_open then [Begin] else []) @ script_controls P d sts)"
proof (induction sts arbitrary: is_open)
  case (Cons st sts)
  show ?case
  proof (cases "transaction_control_of P st d")
    case None
    then show ?thesis
      using Cons.prems Cons.IH [of is_open] by (simp add: script_controls_Cons split: if_splits)
  next
    case (Some c)
    then show ?thesis
      using Cons.prems Cons.IH [of True] Cons.IH [of False]
      by (cases c; cases "script_controls P d sts"; cases is_open)
        (auto simp: script_controls_Cons split: if_splits)
  qed
qed (auto simp: script_controls_def List.map_filter_simps)

text \<open>
  C28: A script that a shared connection accepts leaves no transaction open on it. If the shared-connection
  rule makes no objection to a script of at least two statements, the transaction control statements in
  it form whole transactions, each opened outside any other and closed by an unchained commit or
  rollback; and a script of one statement that is accepted is not a transaction statement.
\<close>

theorem shared_connection_closed:
  assumes "shared_connection_decision P sql driver_id f = None"
  shows "(length (script_statements P sql driver_id) \<ge> 2
           \<longrightarrow> whole_script (script_controls P driver_id (script_statements P sql driver_id)))
         \<and> (is_multi_statement f \<or> facts_class f \<noteq> Transaction)
         \<and> (driver_id \<noteq> ''mssql'' \<or> whole_transactions (phrases (scan_tsql P sql)))"
proof -
  have "\<not> has_unclosed_shared_transaction P sql driver_id"
    and f: "is_multi_statement f \<or> facts_class f \<noteq> Transaction"
    using assms by (auto simp: shared_connection_decision_def split: option.splits if_splits)
  then have "\<not> leaves_tsql_transaction_unclosed P sql driver_id"
    and "length (script_statements P sql driver_id) \<ge> 2 \<Longrightarrow>
      \<not> unclosed_script P driver_id False (script_statements P sql driver_id)"
    by (auto simp: has_unclosed_shared_transaction_def Let_def split: if_splits)
  with f show ?thesis
    using unclosed_script_whole [of P driver_id False]
    by (auto simp: leaves_tsql_transaction_unclosed_def leaves_shared_transaction_unclosed_def unclosed_from_iff)
qed

definition example_parser :: sql_parser where
  "example_parser = \<lparr>
     tokenize = (\<lambda>_ _. None),
     parse_sql = (\<lambda>_ sql. if sql = ''BEGIN'' then Inr [StartTransaction [] []]
                         else if sql = ''COMMIT'' then Inr [Commit False] else Inl ''example''),
     sqlite_script = (\<lambda>_. [''BEGIN '', '' COMMIT'']),
     unicode_alnum = (\<lambda>_. False)\<rparr>"

definition example_script_facts :: statement_facts where
  "example_script_facts = (unparseable [])\<lparr>facts_class := Transaction, is_multi_statement := True\<rparr>"

lemma example_script_statements: "script_statements example_parser ''BEGIN ; COMMIT'' ''sqlite'' = [''BEGIN'', ''COMMIT'']"
  by code_simp

lemma example_shared_decision:
  "shared_connection_decision example_parser ''BEGIN ; COMMIT'' ''sqlite'' example_script_facts = None"
  by code_simp

theorem shared_connection_closed_witness:
  "shared_connection_decision example_parser ''BEGIN ; COMMIT'' ''sqlite'' example_script_facts = None
   \<and> whole_script (script_controls example_parser ''sqlite'' [''BEGIN'', ''COMMIT''])"
  using shared_connection_closed [OF example_shared_decision] example_shared_decision
  by (simp add: example_script_statements)

end
