(* ===== verification/Driver_Error.thy ===== *)
theory Driver_Error
  imports Prelude
begin

text \<open>
  \<open>DriverError\<close> (\<open>crates/core/src/error.rs\<close>), and what the guard does with it: the classification of
  errors whose effect on the server is unknown (\<open>is_ambiguous_post_dispatch\<close> of
  \<open>crates/policy/src/guard.rs\<close>) and the withholding of query details from masked agents
  (\<open>sanitize_agent_error\<close> of \<open>crates/policy/src/guard/panic_boundary.rs\<close>).
\<close>

section \<open>Definitions\<close>

datatype driver_error =
    ConnectionRefused
  | AuthFailed
  | Tls string
  | QueryError (query_message: string) (sqlstate: "string option") (position: "nat option")
  | Disconnected
  | ReadOnly
  | PolicyDenied string
  | Unsupported string
  | Internal string
  | Cancelled
  | TimedOut
  | ConcurrentModification
  | OperationOutcomeUnknown driver_error
  | IntegratedAuth string
  | TransactionFailed nat driver_error
  | PartiallyApplied nat driver_error
  | TransactionRollbackFailed nat driver_error driver_error

fun error_display :: "driver_error \<Rightarrow> string" where
  "error_display ConnectionRefused = ''connection refused''"
| "error_display AuthFailed = ''authentication failed''"
| "error_display (Tls m) = ''TLS handshake failed: '' @ m"
| "error_display (QueryError m _ _) = ''query failed: '' @ m"
| "error_display Disconnected = ''connection closed unexpectedly''"
| "error_display ReadOnly = ''connection is read-only; mutations are not permitted''"
| "error_display (PolicyDenied m) = ''policy denied: '' @ m"
| "error_display (Unsupported m) = ''unsupported operation: '' @ m"
| "error_display (Internal m) = ''driver internal error: '' @ m"
| "error_display Cancelled = ''operation cancelled''"
| "error_display TimedOut = ''operation timed out''"
| "error_display ConcurrentModification = ''row changed since it was loaded''"
| "error_display (OperationOutcomeUnknown e) = ''operation outcome is unknown after interruption: '' @ error_display e"
| "error_display (IntegratedAuth m) = ''integrated authentication failed: '' @ m"
| "error_display (TransactionFailed i e) =
     ''transaction failed at statement '' @ show_nat i @ '': '' @ error_display e"
| "error_display (PartiallyApplied i e) =
     ''batch failed at statement '' @ show_nat i @ '' after the statements before it were applied: '' @ error_display e"
| "error_display (TransactionRollbackFailed i e r) =
     ''transaction failed at statement '' @ show_nat i @ '': '' @ error_display e
     @ ''; rollback also failed: '' @ error_display r"

definition non_atomic_batch_failure :: "nat \<Rightarrow> driver_error \<Rightarrow> driver_error" where
  "non_atomic_batch_failure statement_index source =
     (if statement_index = 0 then TransactionFailed statement_index source
      else PartiallyApplied statement_index source)"

definition query_error :: "string \<Rightarrow> driver_error" where
  "query_error m = QueryError m None None"

fun is_ambiguous_post_dispatch :: "driver_error \<Rightarrow> bool" where
  "is_ambiguous_post_dispatch ConnectionRefused = True"
| "is_ambiguous_post_dispatch Disconnected = True"
| "is_ambiguous_post_dispatch AuthFailed = True"
| "is_ambiguous_post_dispatch (IntegratedAuth _) = True"
| "is_ambiguous_post_dispatch (Tls _) = True"
| "is_ambiguous_post_dispatch (Internal _) = True"
| "is_ambiguous_post_dispatch (OperationOutcomeUnknown _) = True"
| "is_ambiguous_post_dispatch (TransactionFailed _ source) = is_ambiguous_post_dispatch source"
| "is_ambiguous_post_dispatch (PartiallyApplied _ source) = is_ambiguous_post_dispatch source"
| "is_ambiguous_post_dispatch (TransactionRollbackFailed _ _ _) = True"
| "is_ambiguous_post_dispatch (QueryError _ _ _) = False"
| "is_ambiguous_post_dispatch ConcurrentModification = False"
| "is_ambiguous_post_dispatch ReadOnly = False"
| "is_ambiguous_post_dispatch (PolicyDenied _) = False"
| "is_ambiguous_post_dispatch (Unsupported _) = False"
| "is_ambiguous_post_dispatch Cancelled = False"
| "is_ambiguous_post_dispatch TimedOut = False"

definition withheld_message :: string where
  "withheld_message = ''query failed; details withheld for masked agent''"

text \<open>\<open>sanitize_agent_error\<close> behind its first test, \<open>should_mask\<close>.\<close>

fun withhold_details :: "driver_error \<Rightarrow> driver_error" where
  "withhold_details (QueryError _ state pos) = QueryError withheld_message state pos"
| "withhold_details (TransactionFailed i source) = TransactionFailed i (withhold_details source)"
| "withhold_details (PartiallyApplied i source) = PartiallyApplied i (withhold_details source)"
| "withhold_details (TransactionRollbackFailed i source rollback_error) =
     TransactionRollbackFailed i (withhold_details source) (withhold_details rollback_error)"
| "withhold_details (OperationOutcomeUnknown source) = OperationOutcomeUnknown (withhold_details source)"
| "withhold_details e = e"

definition sanitize_agent_error :: "bool \<Rightarrow> driver_error \<Rightarrow> driver_error" where
  "sanitize_agent_error should_mask e = (if \<not> should_mask then e else withhold_details e)"

section \<open>Properties\<close>

text \<open>The texts of the database's own query errors anywhere inside an error.\<close>

fun query_messages :: "driver_error \<Rightarrow> string set" where
  "query_messages (QueryError m _ _) = {m}"
| "query_messages (OperationOutcomeUnknown e) = query_messages e"
| "query_messages (TransactionFailed _ e) = query_messages e"
| "query_messages (PartiallyApplied _ e) = query_messages e"
| "query_messages (TransactionRollbackFailed _ e r) = query_messages e \<union> query_messages r"
| "query_messages _ = {}"

lemma withhold_ambiguous [simp]: "is_ambiguous_post_dispatch (withhold_details e) = is_ambiguous_post_dispatch e"
  by (induction e) auto

lemma withhold_messages: "query_messages (withhold_details e) \<subseteq> {withheld_message}"
  by (induction e) auto

lemma withhold_idem: "withhold_details (withhold_details e) = withhold_details e"
  by (induction e) auto

text \<open>
  C33: What a masked agent learns from an error. The error handed to an agent whose results are masked
  carries no text of the database's query errors, however deeply they are nested; the guard's judgement
  whether the operation may have taken effect is the same before and after; and sanitizing twice
  changes nothing more. A caller that is not masked gets the error unchanged.
\<close>

theorem sanitize_agent_error_safe:
  "query_messages (sanitize_agent_error True e) \<subseteq> {withheld_message}
   \<and> is_ambiguous_post_dispatch (sanitize_agent_error m e) = is_ambiguous_post_dispatch e
   \<and> sanitize_agent_error m (sanitize_agent_error m e) = sanitize_agent_error m e
   \<and> sanitize_agent_error False e = e"
  by (simp add: sanitize_agent_error_def withhold_messages withhold_idem)

end
