(* ===== verification/Audit_Log.thy ===== *)
theory Audit_Log
  imports Statement_Facts Policy_Config Driver_Error
begin

text \<open>
  \<open>crates/policy/src/audit.rs\<close>: the audit records, their classification of operations and errors, and
  the lockdown state that connections share (\<open>AuditState\<close>) with the flag cells it aliases. The mappings
  from driver errors to audit statuses are the free functions at the end of \<open>crates/policy/src/guard.rs\<close>.
\<close>

section \<open>Records\<close>

datatype audit_error =
    AuditUnavailable string | Persistence string | UnresolvedWrite | WriteInFlight | Corrupt string

fun audit_error_display :: "audit_error \<Rightarrow> string" where
  "audit_error_display (AuditUnavailable m) = ''audit sink is unavailable: '' @ m"
| "audit_error_display (Persistence m) = ''audit record could not be persisted: '' @ m"
| "audit_error_display UnresolvedWrite = ''an unresolved write outcome blocks this connection''"
| "audit_error_display WriteInFlight = ''another write is still in flight for this connection''"
| "audit_error_display (Corrupt m) = ''audit journal is corrupt: '' @ m"

datatype audit_phase = IntentPhase | OutcomePhase

datatype audit_class =
    ClassRead | ClassMutation | ClassDdl | ClassAdministrative | ClassCommit | ClassRollback | ClassUnknownWrite

definition from_statement :: "statement_class \<Rightarrow> bool \<Rightarrow> audit_class" where
  "from_statement c writes =
     (case c of
        Select \<Rightarrow> if \<not> writes then ClassRead else ClassUnknownWrite
      | Insert \<Rightarrow> ClassMutation
      | Update \<Rightarrow> ClassMutation
      | Delete \<Rightarrow> ClassMutation
      | Ddl \<Rightarrow> ClassDdl
      | Administrative \<Rightarrow> ClassAdministrative
      | Transaction \<Rightarrow> if \<not> writes then ClassRead else ClassUnknownWrite
      | Other \<Rightarrow> if writes then ClassUnknownWrite else ClassRead
      | Unparseable \<Rightarrow> if writes then ClassUnknownWrite else ClassRead)"

definition class_is_write :: "audit_class \<Rightarrow> bool" where
  "class_is_write c \<longleftrightarrow> c \<noteq> ClassRead"

datatype approval_status = ApprovalNotRequired | Approved | ApprovalDenied | ApprovalCancelled | ApprovalTimedOut

datatype preview_state = NotRequested | PreviewAvailable string | PreviewUnavailable

datatype terminal_status =
    StatusPending | StatusSucceeded | StatusFailed | StatusDenied | StatusCancelled | StatusTimedOut | StatusUnknown

datatype tx_outcome = TxNotApplicable | TxPending | TxCommitted | TxRolledBack | TxFailed | TxUnknown

datatype error_category =
    CatPolicy | CatAudit | CatConnection | CatAuthentication | CatTls | CatQuery | CatReadOnly | CatUnsupported
  | CatInternal | CatTransaction | CatCancelled | CatTimeout | CatUnknown

datatype transport_client = BuiltinSsh | SystemOpenSsh

datatype transport_outcome =
    Connected | HostKeyRefused | HostKeyChanged | HostKeyRevoked | AuthenticationFailed | TransportCancelled
  | TransportTimedOut | TlsFailed | ConnectionFailed | OtherFailure

datatype administrative_action = ConnectionBundleExport | ConnectionBundleImport

fun action_code :: "administrative_action \<Rightarrow> string" where
  "action_code ConnectionBundleExport = ''connection_bundle_export''"
| "action_code ConnectionBundleImport = ''connection_bundle_import''"

text \<open>Identifiers (\<open>Uuid\<close>) and instants are numbers.\<close>

type_synonym uuid = nat
type_synonym instant = nat

record audit_event =
  timestamp :: instant
  ev_operation_id :: uuid
  ev_batch_id :: "uuid option"
  ev_phase :: audit_phase
  ev_principal :: principal
  ev_connection_id :: uuid
  ev_connection_name :: string
  ev_environment :: environment
  ev_driver_id :: string
  ev_class :: audit_class
  redacted_sql :: string
  sql_hash :: string
  ev_targets :: "string list"
  ev_decision_rule :: string
  ev_approval :: approval_status
  ev_preview :: preview_state
  ev_status :: terminal_status
  ev_tx_outcome :: tx_outcome
  ev_error_category :: "error_category option"
  ev_error :: "string option"
  ev_rows_affected :: "nat option"
  ev_duration_ms :: "nat option"
  transport_attempt :: "(transport_client \<times> transport_outcome) option"
  administrative_metadata :: "(administrative_action \<times> nat) option"

text \<open>\<open>AuditEvent::administrative_action\<close>; \<open>nil\<close> is the identifier zero.\<close>

definition administrative_event ::
    "(string \<Rightarrow> string) \<Rightarrow> instant \<Rightarrow> uuid \<Rightarrow> administrative_action \<Rightarrow> audit_phase \<Rightarrow> terminal_status \<Rightarrow> nat
     \<Rightarrow> nat option \<Rightarrow> audit_event" where
  "administrative_event sha256_hex now operation_id action phase status affected_count duration_ms = \<lparr>
     timestamp = now, ev_operation_id = operation_id, ev_batch_id = None, ev_phase = phase,
     ev_principal = human_gui, ev_connection_id = 0, ev_connection_name = ''local_settings'',
     ev_environment = Local, ev_driver_id = ''bookie'', ev_class = ClassAdministrative,
     redacted_sql = ''[NOT_APPLICABLE]'', sql_hash = sha256_hex (action_code action), ev_targets = [],
     ev_decision_rule = action_code action, ev_approval = ApprovalNotRequired, ev_preview = NotRequested,
     ev_status = status, ev_tx_outcome = TxNotApplicable, ev_error_category = None, ev_error = None,
     ev_rows_affected = None, ev_duration_ms = duration_ms, transport_attempt = None,
     administrative_metadata = Some (action, min affected_count u64_max) \<rparr>"

fun sanitized_transport_error :: "error_category \<Rightarrow> string" where
  "sanitized_transport_error CatAuthentication = ''ssh_host_key_or_authentication_refused''"
| "sanitized_transport_error CatCancelled = ''connection_attempt_cancelled''"
| "sanitized_transport_error CatTimeout = ''connection_attempt_timed_out''"
| "sanitized_transport_error CatTls = ''tls_verification_failed''"
| "sanitized_transport_error CatConnection = ''transport_connection_failed''"
| "sanitized_transport_error CatUnsupported = ''transport_unsupported''"
| "sanitized_transport_error _ = ''transport_attempt_failed''"

definition transport_event ::
    "(string \<Rightarrow> string) \<Rightarrow> instant \<Rightarrow> uuid \<Rightarrow> principal \<Rightarrow> uuid \<Rightarrow> string \<Rightarrow> environment \<Rightarrow> string
     \<Rightarrow> transport_client \<Rightarrow> transport_outcome \<Rightarrow> terminal_status \<Rightarrow> error_category option \<Rightarrow> nat \<Rightarrow> audit_event" where
  "transport_event sha256_hex now operation_id p connection_id connection_name env driver_id cl outcome status
     category duration_ms = \<lparr>
     timestamp = now, ev_operation_id = operation_id, ev_batch_id = None, ev_phase = OutcomePhase,
     ev_principal = sanitized sha256_hex p, ev_connection_id = connection_id,
     ev_connection_name = connection_name, ev_environment = env, ev_driver_id = driver_id,
     ev_class = ClassAdministrative, redacted_sql = ''[NOT_APPLICABLE]'',
     sql_hash = sha256_hex ''transport_attempt'', ev_targets = [], ev_decision_rule = ''transport_attempt'',
     ev_approval = ApprovalNotRequired, ev_preview = NotRequested, ev_status = status,
     ev_tx_outcome = TxNotApplicable, ev_error_category = category,
     ev_error = map_option sanitized_transport_error category, ev_rows_affected = None,
     ev_duration_ms = Some duration_ms, transport_attempt = Some (cl, outcome),
     administrative_metadata = None \<rparr>"

section \<open>From errors to audit statuses (\<open>guard.rs\<close>)\<close>

fun sanitized_error_detail :: "error_category \<Rightarrow> string" where
  "sanitized_error_detail CatPolicy = ''policy_denied''"
| "sanitized_error_detail CatAudit = ''audit_error''"
| "sanitized_error_detail CatConnection = ''connection_error''"
| "sanitized_error_detail CatAuthentication = ''authentication_error''"
| "sanitized_error_detail CatTls = ''tls_error''"
| "sanitized_error_detail CatQuery = ''query_error''"
| "sanitized_error_detail CatReadOnly = ''read_only''"
| "sanitized_error_detail CatUnsupported = ''unsupported''"
| "sanitized_error_detail CatInternal = ''internal_error''"
| "sanitized_error_detail CatTransaction = ''transaction_error''"
| "sanitized_error_detail CatCancelled = ''cancelled''"
| "sanitized_error_detail CatTimeout = ''timeout''"
| "sanitized_error_detail CatUnknown = ''unknown_error''"

fun category_of :: "driver_error \<Rightarrow> error_category" where
  "category_of ConnectionRefused = CatConnection"
| "category_of Disconnected = CatConnection"
| "category_of AuthFailed = CatAuthentication"
| "category_of (IntegratedAuth _) = CatAuthentication"
| "category_of (Tls _) = CatTls"
| "category_of (QueryError _ _ _) = CatQuery"
| "category_of ConcurrentModification = CatTransaction"
| "category_of ReadOnly = CatReadOnly"
| "category_of (PolicyDenied _) = CatPolicy"
| "category_of (Unsupported _) = CatUnsupported"
| "category_of (Internal _) = CatInternal"
| "category_of Cancelled = CatCancelled"
| "category_of TimedOut = CatTimeout"
| "category_of (OperationOutcomeUnknown _) = CatUnknown"
| "category_of (TransactionFailed _ _) = CatTransaction"
| "category_of (PartiallyApplied _ _) = CatTransaction"
| "category_of (TransactionRollbackFailed _ _ _) = CatUnknown"

fun controlled_error_terminal_status :: "driver_error \<Rightarrow> terminal_status" where
  "controlled_error_terminal_status Cancelled = StatusCancelled"
| "controlled_error_terminal_status TimedOut = StatusTimedOut"
| "controlled_error_terminal_status (OperationOutcomeUnknown _) = StatusUnknown"
| "controlled_error_terminal_status _ = StatusFailed"

definition write_error_outcome :: "driver_error \<Rightarrow> terminal_status \<times> bool" where
  "write_error_outcome e =
     (case e of
        Cancelled \<Rightarrow> (StatusCancelled, False)
      | TimedOut \<Rightarrow> (StatusTimedOut, False)
      | OperationOutcomeUnknown _ \<Rightarrow> (StatusUnknown, True)
      | _ \<Rightarrow> if is_ambiguous_post_dispatch e then (StatusUnknown, True) else (StatusFailed, False))"

definition transaction_error_outcome :: "driver_error \<Rightarrow> terminal_status \<times> tx_outcome \<times> bool" where
  "transaction_error_outcome e =
     (case e of
        Cancelled \<Rightarrow> (StatusCancelled, TxPending, False)
      | TimedOut \<Rightarrow> (StatusTimedOut, TxPending, False)
      | TransactionFailed _ source \<Rightarrow>
          if \<not> is_ambiguous_post_dispatch source then (StatusFailed, TxRolledBack, False)
          else (StatusUnknown, TxUnknown, True)
      | PartiallyApplied _ source \<Rightarrow>
          if \<not> is_ambiguous_post_dispatch source then (StatusFailed, TxFailed, False)
          else (StatusUnknown, TxUnknown, True)
      | _ \<Rightarrow> (StatusUnknown, TxUnknown, True))"

definition interactive_transaction_error_outcome :: "driver_error \<Rightarrow> terminal_status \<times> tx_outcome \<times> bool" where
  "interactive_transaction_error_outcome e =
     (case e of
        QueryError _ _ _ \<Rightarrow> (StatusFailed, TxFailed, False)
      | ReadOnly \<Rightarrow> (StatusFailed, TxFailed, False)
      | _ \<Rightarrow> transaction_error_outcome e)"

section \<open>The lockdown state\<close>

text \<open>
  An \<open>AuditState\<close> holds two atomic flags; generations of a connection share the cell of the first
  (\<open>Arc<AtomicBool>\<close>) and own the second. The flags live in a store of cells, so that the sharing is
  explicit.
\<close>

record audit_state =
  globally_disabled_cell :: nat
  connection_uncertain_cell :: nat

type_synonym flag_store = "bool list"

definition alloc_flag :: "bool \<Rightarrow> flag_store \<Rightarrow> nat \<times> flag_store" where
  "alloc_flag b st = (length st, st @ [b])"

definition new_audit_state :: "flag_store \<Rightarrow> audit_state \<times> flag_store" where
  "new_audit_state st =
     (let (g, st) = alloc_flag False st; (u, st) = alloc_flag False st
      in (\<lparr>globally_disabled_cell = g, connection_uncertain_cell = u\<rparr>, st))"

definition governed_writes_disabled :: "audit_state \<Rightarrow> flag_store \<Rightarrow> bool" where
  "governed_writes_disabled a st \<longleftrightarrow> st ! globally_disabled_cell a \<or> st ! connection_uncertain_cell a"

definition disable_governed_writes :: "audit_state \<Rightarrow> flag_store \<Rightarrow> flag_store" where
  "disable_governed_writes a st = st[connection_uncertain_cell a := True]"

definition disable_globally :: "audit_state \<Rightarrow> flag_store \<Rightarrow> flag_store" where
  "disable_globally a st = st[globally_disabled_cell a := True]"

definition disable_after_audit_failure :: "audit_state \<Rightarrow> flag_store \<Rightarrow> flag_store" where
  "disable_after_audit_failure a st = disable_globally a st"

definition with_governed_writes_disabled :: "flag_store \<Rightarrow> audit_state \<times> flag_store" where
  "with_governed_writes_disabled st = (let (a, st) = new_audit_state st in (a, disable_globally a st))"

definition new_connection_generation_with_writes_disabled ::
    "audit_state \<Rightarrow> bool \<Rightarrow> flag_store \<Rightarrow> audit_state \<times> flag_store" where
  "new_connection_generation_with_writes_disabled a disabled st =
     (let (u, st) = alloc_flag disabled st
      in (\<lparr>globally_disabled_cell = globally_disabled_cell a, connection_uncertain_cell = u\<rparr>, st))"

definition new_connection_generation :: "audit_state \<Rightarrow> flag_store \<Rightarrow> audit_state \<times> flag_store" where
  "new_connection_generation a st = new_connection_generation_with_writes_disabled a False st"

text \<open>\<open>PendingWrite\<close>: the guard value of a write in progress; its \<open>Drop\<close> locks the connection down.\<close>

record pending_write =
  armed :: bool
  dispatched :: "bool option"

definition pending_write_new :: pending_write where
  "pending_write_new = \<lparr>armed = True, dispatched = None\<rparr>"

definition pending_write_after_dispatch :: "bool \<Rightarrow> pending_write" where
  "pending_write_after_dispatch flag = \<lparr>armed = True, dispatched = Some flag\<rparr>"

definition disarm :: "pending_write \<Rightarrow> pending_write" where
  "disarm w = w\<lparr>armed := False\<rparr>"

definition drop_pending_write :: "audit_state \<Rightarrow> pending_write \<Rightarrow> flag_store \<Rightarrow> flag_store" where
  "drop_pending_write a w st =
     (if armed w \<and> (case dispatched w of None \<Rightarrow> True | Some flag \<Rightarrow> flag) then disable_governed_writes a st else st)"

section \<open>Properties\<close>

subsection \<open>Errors\<close>

lemma write_error_outcome_iff:
  "snd (write_error_outcome e) \<longleftrightarrow> is_ambiguous_post_dispatch e"
  "fst (write_error_outcome e) = StatusUnknown \<longleftrightarrow> is_ambiguous_post_dispatch e"
  by (cases e; simp add: write_error_outcome_def)+

lemma transaction_error_outcome_iff:
  "is_ambiguous_post_dispatch e \<Longrightarrow> snd (snd (transaction_error_outcome e))"
  "fst (transaction_error_outcome e) = StatusUnknown \<longleftrightarrow> snd (snd (transaction_error_outcome e))"
  by (cases e; simp add: transaction_error_outcome_def)+

lemma interactive_transaction_error_outcome_iff:
  "is_ambiguous_post_dispatch e \<Longrightarrow> snd (snd (interactive_transaction_error_outcome e))"
  "fst (interactive_transaction_error_outcome e) = StatusUnknown
   \<longleftrightarrow> snd (snd (interactive_transaction_error_outcome e))"
  by (cases e; simp add: interactive_transaction_error_outcome_def transaction_error_outcome_def)+



subsection \<open>Generations\<close>

text \<open>
  The states a process can build: every journal starts with \<open>new_audit_state\<close>, every connection generation
  derives from a state that exists, and any state may be locked down at any time.
\<close>

inductive lockdown_step :: "flag_store \<times> audit_state list \<Rightarrow> flag_store \<times> audit_state list \<Rightarrow> bool" where
  Journal: "new_audit_state st = (a, st') \<Longrightarrow> lockdown_step (st, as) (st', a # as)"
| Generation:
    "a \<in> set as \<Longrightarrow> new_connection_generation_with_writes_disabled a d st = (b, st')
     \<Longrightarrow> lockdown_step (st, as) (st', b # as)"
| Uncertain: "a \<in> set as \<Longrightarrow> lockdown_step (st, as) (disable_governed_writes a st, as)"
| Global: "a \<in> set as \<Longrightarrow> lockdown_step (st, as) (disable_globally a st, as)"
| Dropped: "a \<in> set as \<Longrightarrow> lockdown_step (st, as) (drop_pending_write a w st, as)"

inductive_simps lockdown_step_simps: "lockdown_step (st, as) c"

definition lockdown_reachable :: "flag_store \<times> audit_state list \<Rightarrow> bool" where
  "lockdown_reachable c \<longleftrightarrow> lockdown_step\<^sup>*\<^sup>* ([], []) c"

definition separate :: "flag_store \<times> audit_state list \<Rightarrow> bool" where
  "separate c \<longleftrightarrow>
     (case c of (st, as) \<Rightarrow>
        (\<forall>a \<in> set as. globally_disabled_cell a < length st \<and> connection_uncertain_cell a < length st)
        \<and> (\<forall>a \<in> set as. \<forall>b \<in> set as. globally_disabled_cell a \<noteq> connection_uncertain_cell b)
        \<and> distinct (map connection_uncertain_cell as))"

lemmas audit_state_defs =
  new_audit_state_def new_connection_generation_with_writes_disabled_def alloc_flag_def
  disable_governed_writes_def disable_globally_def drop_pending_write_def governed_writes_disabled_def

lemma separate_step: "lockdown_step c d \<Longrightarrow> separate c \<Longrightarrow> separate d"
  by (induction rule: lockdown_step.induct) (fastforce simp: separate_def audit_state_defs Let_def)+

lemma separate_reachable: "lockdown_reachable c \<Longrightarrow> separate c"
  unfolding lockdown_reachable_def
  by (induction rule: rtranclp_induct) (auto simp: separate_step, simp add: separate_def)

lemma locked_step:
  "lockdown_step (st, as) (st', as') \<Longrightarrow> separate (st, as) \<Longrightarrow> b \<in> set as \<Longrightarrow> governed_writes_disabled b st
   \<Longrightarrow> b \<in> set as' \<and> governed_writes_disabled b st'"
  by (auto simp: lockdown_step_simps audit_state_defs Let_def separate_def nth_append nth_list_update
      split: if_splits)

lemma locked_forever:
  "lockdown_step\<^sup>*\<^sup>* c d \<Longrightarrow> separate c \<Longrightarrow> b \<in> set (snd c) \<Longrightarrow> governed_writes_disabled b (fst c)
   \<Longrightarrow> b \<in> set (snd d) \<and> governed_writes_disabled b (fst d) \<and> separate d"
proof (induction rule: rtranclp_induct)
  case (step d e)
  then show ?case
    using locked_step [of "fst d" "snd d" "fst e" "snd e" b] separate_step [of d e] by simp
qed simp

lemma uncertain_cell_inj:
  "separate (st, as) \<Longrightarrow> a \<in> set as \<Longrightarrow> b \<in> set as \<Longrightarrow> a \<noteq> b \<Longrightarrow> connection_uncertain_cell a \<noteq> connection_uncertain_cell b"
  by (auto simp: separate_def distinct_map dest: inj_onD)

text \<open>
  C26: Lockdowns have the scope they are meant to have. In every state a process can reach: locking down one
  connection generation leaves every other generation as it was; a journal failure locks down every
  generation of that journal and no generation of another journal; a fresh generation starts writable exactly
  when its journal is intact; and no step of the process ever unlocks a state.
\<close>

theorem lockdown_scope:
  assumes "lockdown_reachable (st, as)" "a \<in> set as" "b \<in> set as"
  shows "(a \<noteq> b \<longrightarrow> governed_writes_disabled b (disable_governed_writes a st) = governed_writes_disabled b st)
    \<and> (globally_disabled_cell a = globally_disabled_cell b \<longrightarrow> governed_writes_disabled b (disable_globally a st))
    \<and> (globally_disabled_cell a \<noteq> globally_disabled_cell b \<longrightarrow>
         governed_writes_disabled b (disable_globally a st) = governed_writes_disabled b st)
    \<and> (case new_connection_generation a st of (c, st') \<Rightarrow>
         governed_writes_disabled c st' \<longleftrightarrow> st ! globally_disabled_cell a)
    \<and> (\<forall>st' as'. lockdown_step\<^sup>*\<^sup>* (st, as) (st', as') \<longrightarrow>
         governed_writes_disabled b st \<longrightarrow> governed_writes_disabled b st')"
proof -
  have sep: "separate (st, as)" using assms(1) by (rule separate_reachable)
  have "\<forall>st' as'. lockdown_step\<^sup>*\<^sup>* (st, as) (st', as') \<longrightarrow>
      governed_writes_disabled b st \<longrightarrow> governed_writes_disabled b st'"
    using locked_forever [OF _ sep] assms(3) by fastforce
  moreover have "globally_disabled_cell b \<noteq> connection_uncertain_cell a" "globally_disabled_cell a \<noteq> connection_uncertain_cell b"
    "globally_disabled_cell a < length st" "globally_disabled_cell b < length st"
    "connection_uncertain_cell a < length st" "connection_uncertain_cell b < length st"
    using sep assms(2,3) by (auto simp: separate_def)
  ultimately show ?thesis
    using uncertain_cell_inj [OF sep assms(2,3)]
    by (auto simp: audit_state_defs new_connection_generation_def Let_def nth_append nth_list_update)
qed

lemma example_lockdown_reachable:
  "lockdown_reachable ([False, False, False],
     [\<lparr>globally_disabled_cell = 0, connection_uncertain_cell = 2\<rparr>, \<lparr>globally_disabled_cell = 0, connection_uncertain_cell = 1\<rparr>])"
  (is "lockdown_reachable ?c")
proof -
  let ?j = "\<lparr>globally_disabled_cell = 0, connection_uncertain_cell = 1\<rparr>"
  have "lockdown_step ([], []) ([False, False], [?j])"
    by (rule Journal) (simp add: new_audit_state_def alloc_flag_def)
  moreover have "lockdown_step ([False, False], [?j]) ?c"
    by (rule Generation [where a = ?j and d = False])
      (simp_all add: new_connection_generation_with_writes_disabled_def alloc_flag_def)
  ultimately show ?thesis
    unfolding lockdown_reachable_def by (meson rtranclp.rtrancl_refl rtranclp.rtrancl_into_rtrancl)
qed

theorem lockdown_scope_witness:
  "governed_writes_disabled \<lparr>globally_disabled_cell = 0, connection_uncertain_cell = 1\<rparr>
     (disable_governed_writes \<lparr>globally_disabled_cell = 0, connection_uncertain_cell = 2\<rparr> [False, False, False]) = False"
  using lockdown_scope [OF example_lockdown_reachable, of
      "\<lparr>globally_disabled_cell = 0, connection_uncertain_cell = 2\<rparr>"
      "\<lparr>globally_disabled_cell = 0, connection_uncertain_cell = 1\<rparr>"]
  by (simp add: governed_writes_disabled_def)

end
