(* ===== verification/Query_Values.thy ===== *)
theory Query_Values
  imports Prelude Sql_Lex "HOL-Library.Word"
begin

text \<open>
  \<open>crates/core/src/query.rs\<close>: catalogue records, cell values, result sets, and the budget that bounds
  the rows, cells and bytes a query may materialise.
\<close>

section \<open>Definitions\<close>

subsection \<open>Catalogue records\<close>

record table_info =
  ti_schema :: "string option"
  ti_name :: string

record qualified_type_name =
  qt_schema :: string
  qt_name :: string

record index_info =
  ix_name :: string
  ix_columns :: "string list"
  ix_unique :: bool
  ix_primary :: bool
  ix_predicate :: "string option"
  ix_constraint :: "string option"
  has_expression_key :: bool

record foreign_key_info =
  fk_name :: string
  fk_columns :: "string list"
  ref_schema :: "string option"
  ref_table :: string
  ref_columns :: "string list"
  on_delete :: "string option"
  on_update :: "string option"

record inbound_foreign_key_info =
  ifk_name :: string
  source_schema :: "string option"
  source_table :: string
  source_columns :: "string list"
  target_columns :: "string list"

record column_info =
  col_name :: string
  data_type :: string
  nullable :: bool
  primary_key :: bool
  is_auto_increment :: bool
  default_value :: "string option"
  is_generated :: bool
  col_comment :: "string option"
  collation :: "string option"
  enum_type :: "qualified_type_name option"
  domain_type :: "qualified_type_name option"

subsection \<open>Values\<close>

text \<open>\<open>serde_json::Value\<close>: numbers by their text, objects by their entries in iteration order.\<close>

datatype json =
    JNull | JBool bool | JNumber string | JString string | JArray "json list" | JObject "(string \<times> json) list"

text \<open>
  \<open>Value\<close>. An \<open>i64\<close> is an integer, an \<open>f64\<close> its bit pattern, a \<open>Decimal\<close> its printed form, and the
  \<open>chrono\<close> dates and times are numbers, of which the code here inspects nothing.
\<close>

datatype cell =
    Null
  | Bool bool
  | Int64 int
  | Float "64 word"
  | Text string
  | Bytes string
  | Date int
  | Time int
  | DateTime int
  | TimestampTz int
  | Decimal string
  | Uuid nat
  | Json json
  | JsonText string
  | Undecodable string

definition partial_mark :: string where
  "partial_mark = '' bytes'' @ [CHR 0x01]"

definition partial_value :: "nat \<Rightarrow> string \<Rightarrow> cell" where
  "partial_value byte_count prefix = Undecodable (''partial '' @ show_nat byte_count @ partial_mark @ prefix)"

definition parse_partial :: "string \<Rightarrow> (nat \<times> string) option" where
  "parse_partial type_name =
     (if \<not> starts_with ''partial '' type_name then None
      else let rest = drop (length ''partial '') type_name in
        case find_sub partial_mark rest of
          None \<Rightarrow> None
        | Some i \<Rightarrow>
            (case parse_u64 (take i rest) of
               None \<Rightarrow> None
             | Some n \<Rightarrow> Some (n, drop (i + length partial_mark) rest)))"

definition MISSING_FIELD :: string where "MISSING_FIELD = ''missing BSON field''"

fun is_missing_field :: "cell \<Rightarrow> bool" where
  "is_missing_field (Undecodable kind) = (kind = MISSING_FIELD)"
| "is_missing_field _ = False"

subsection \<open>Results\<close>

record query_result =
  result_columns :: "column_info list"
  result_rows :: "cell list list"
  result_truncated :: bool

record query_cursor_page =
  page_result :: query_result
  has_next_page :: bool

record query_result_batch =
  result_sets :: "query_result list"
  batch_truncated :: bool

definition batch_single :: "query_result \<Rightarrow> query_result_batch" where
  "batch_single r = \<lparr>result_sets = [r], batch_truncated = result_truncated r\<rparr>"

definition into_first :: "query_result_batch \<Rightarrow> query_result" where
  "into_first b =
     (let first = (case result_sets b of
                     [] \<Rightarrow> \<lparr>result_columns = [], result_rows = [], result_truncated = batch_truncated b\<rparr>
                   | r # _ \<Rightarrow> r)
      in first\<lparr>result_truncated := batch_truncated b \<or> result_truncated first\<rparr>)"

definition retained_rows :: "query_result_batch \<Rightarrow> nat" where
  "retained_rows b = sum_list (map (\<lambda>r. length (result_rows r)) (result_sets b))"

record exec_result =
  rows_affected :: nat

subsection \<open>The result budget\<close>

definition MAX_QUERY_ROWS :: nat where "MAX_QUERY_ROWS = 1000000"
definition MAX_QUERY_RESULT_CELLS :: nat where "MAX_QUERY_RESULT_CELLS = 10000000"
definition MAX_QUERY_RESULT_BYTES :: nat where "MAX_QUERY_RESULT_BYTES = 64 * 1024 * 1024"
definition MAX_QUERY_CURSOR_PAGE_ROWS :: nat where "MAX_QUERY_CURSOR_PAGE_ROWS = 5000"

text \<open>\<open>usize\<close> is 64 bits wide.\<close>

definition saturating_add :: "nat \<Rightarrow> nat \<Rightarrow> nat" where
  "saturating_add a b = min (a + b) u64_max"

definition saturating_mul :: "nat \<Rightarrow> nat \<Rightarrow> nat" where
  "saturating_mul a b = min (a * b) u64_max"

text \<open>
  The memory layout of the compiled program: the sizes of the types and the capacity that the allocator gave
  to a text, a byte vector or a JSON array, which are at least their lengths.
\<close>

record layout =
  size_of_value :: nat
  size_of_row :: nat
  size_of_json :: nat
  size_of_entry :: nat
  text_capacity :: "string \<Rightarrow> nat"
  array_capacity :: "json list \<Rightarrow> nat"

fun json_heap_size :: "layout \<Rightarrow> json \<Rightarrow> nat" where
  "json_heap_size L (JString s) = text_capacity L s"
| "json_heap_size L (JArray vs) =
     saturating_add (saturating_mul (array_capacity L vs) (size_of_json L))
       (foldl saturating_add 0 (map (json_heap_size L) vs))"
| "json_heap_size L (JObject es) =
     foldl saturating_add 0
       (concat (map (\<lambda>(k, n). [size_of_entry L, text_capacity L k, n]) (map (\<lambda>(k, v). (k, json_heap_size L v)) es)))"
| "json_heap_size L _ = 0"

fun value_size :: "layout \<Rightarrow> cell \<Rightarrow> nat" where
  "value_size L (Text s) = text_capacity L s"
| "value_size L (JsonText s) = text_capacity L s"
| "value_size L (Undecodable s) = text_capacity L s"
| "value_size L (Bytes b) = text_capacity L b"
| "value_size L (Json v) = saturating_add (size_of_json L) (json_heap_size L v)"
| "value_size L _ = 0"

definition row_size_from_parts :: "layout \<Rightarrow> nat \<Rightarrow> nat \<Rightarrow> nat" where
  "row_size_from_parts L cells payload_bytes =
     saturating_add (saturating_add (saturating_mul cells (size_of_value L)) (size_of_row L)) payload_bytes"

definition row_size :: "layout \<Rightarrow> cell list \<Rightarrow> nat" where
  "row_size L row =
     row_size_from_parts L (length row) (foldl (\<lambda>total v. saturating_add total (value_size L v)) 0 row)"

definition estimated_row_bytes :: "layout \<Rightarrow> query_result \<Rightarrow> nat" where
  "estimated_row_bytes L r = foldl (\<lambda>total row. saturating_add total (row_size L row)) 0 (result_rows r)"

record query_result_budget =
  b_rows :: nat
  b_cells :: nat
  b_bytes :: nat

definition budget_default :: query_result_budget where
  "budget_default = \<lparr>b_rows = 0, b_cells = 0, b_bytes = 0\<rparr>"

definition can_admit :: "query_result_budget \<Rightarrow> nat \<Rightarrow> nat \<Rightarrow> bool" where
  "can_admit b cells row_bytes \<longleftrightarrow>
     b_rows b < MAX_QUERY_ROWS \<and> saturating_add (b_cells b) cells \<le> MAX_QUERY_RESULT_CELLS
     \<and> saturating_add (b_bytes b) row_bytes \<le> MAX_QUERY_RESULT_BYTES"

definition admit :: "layout \<Rightarrow> query_result_budget \<Rightarrow> cell list \<Rightarrow> bool \<times> query_result_budget" where
  "admit L b row =
     (let row_bytes = row_size L row in
      if \<not> can_admit b (length row) row_bytes then (False, b)
      else (True, \<lparr>b_rows = b_rows b + 1, b_cells = b_cells b + length row, b_bytes = b_bytes b + row_bytes\<rparr>))"

definition decode_and_admit_row ::
    "layout \<Rightarrow> query_result_budget \<Rightarrow> nat \<Rightarrow> nat \<Rightarrow> ('e + cell list) \<Rightarrow> ('e + cell list option) \<times> query_result_budget" where
  "decode_and_admit_row L b cell_count payload_bytes decoded =
     (if \<not> can_admit b cell_count (row_size_from_parts L cell_count payload_bytes) then (Inr None, b)
      else case decoded of
             Inl e \<Rightarrow> (Inl e, b)
           | Inr row \<Rightarrow> (let (ok, b') = admit L b row in (Inr (if ok then Some row else None), b')))"

section \<open>Properties\<close>

lemma saturating_add_le: "c < u64_max \<Longrightarrow> saturating_add a b \<le> c \<longleftrightarrow> a + b \<le> c"
  by (auto simp: saturating_add_def min_def)

lemma limits_below_usize: "MAX_QUERY_RESULT_CELLS < u64_max" "MAX_QUERY_RESULT_BYTES < u64_max"
  by (simp_all add: MAX_QUERY_RESULT_CELLS_def MAX_QUERY_RESULT_BYTES_def u64_max_def)

text \<open>The rows that a driver keeps when it offers each row of a stream to the budget in turn.\<close>

fun admit_all :: "layout \<Rightarrow> query_result_budget \<Rightarrow> cell list list \<Rightarrow> cell list list \<times> query_result_budget" where
  "admit_all L b [] = ([], b)"
| "admit_all L b (row # rows) =
     (let (ok, b') = admit L b row; (kept, b'') = admit_all L b' rows
      in (if ok then row # kept else kept, b''))"

definition within_budget :: "query_result_budget \<Rightarrow> bool" where
  "within_budget b \<longleftrightarrow> b_rows b \<le> MAX_QUERY_ROWS \<and> b_cells b \<le> MAX_QUERY_RESULT_CELLS \<and> b_bytes b \<le> MAX_QUERY_RESULT_BYTES"

lemma admit_within: "within_budget b \<Longrightarrow> within_budget (snd (admit L b row))"
  by (auto simp: admit_def can_admit_def within_budget_def saturating_add_le limits_below_usize Let_def)

lemma admit_all_accounts:
  assumes "admit_all L b rows = (kept, b')" "within_budget b"
  shows "within_budget b' \<and> b_rows b' = b_rows b + length kept
    \<and> b_cells b' = b_cells b + sum_list (map length kept)
    \<and> b_bytes b' = b_bytes b + sum_list (map (row_size L) kept)"
  using assms
proof (induction rows arbitrary: b kept b')
  case (Cons row rows)
  obtain ok c where c: "admit L b row = (ok, c)" by fastforce
  obtain kept' where "admit_all L c rows = (kept', b')" "kept = (if ok then row # kept' else kept')"
    using Cons.prems(1) c by (auto split: prod.splits)
  moreover have "within_budget c" using admit_within [OF Cons.prems(2)] c by (metis snd_conv)
  moreover have "if ok then b_rows c = b_rows b + 1 \<and> b_cells c = b_cells b + length row
        \<and> b_bytes c = b_bytes b + row_size L row else c = b"
    using c by (auto simp: admit_def Let_def split: if_splits)
  ultimately show ?case
    using Cons.IH by fastforce
qed simp

text \<open>
  C36: The result budget bounds what is kept. However many rows a driver offers, the rows it keeps number at
  most \<open>MAX_QUERY_ROWS\<close>, hold at most \<open>MAX_QUERY_RESULT_CELLS\<close> cells and take at most
  \<open>MAX_QUERY_RESULT_BYTES\<close> bytes by the size estimate; the counters of the budget are exactly the totals
  of the kept rows, so the saturating arithmetic never hides an overflow.
\<close>

theorem budget_bounds_result:
  "within_budget (snd (admit_all L budget_default rows))
   \<and> b_rows (snd (admit_all L budget_default rows)) = length (fst (admit_all L budget_default rows))
   \<and> b_cells (snd (admit_all L budget_default rows)) = sum_list (map length (fst (admit_all L budget_default rows)))
   \<and> b_bytes (snd (admit_all L budget_default rows)) = sum_list (map (row_size L) (fst (admit_all L budget_default rows)))"
  using admit_all_accounts [of L budget_default rows "fst (admit_all L budget_default rows)" "snd (admit_all L budget_default rows)"]
  by (simp add: budget_default_def within_budget_def)

subsection \<open>Partial values\<close>

lemma digits_value_append: "digits_value a (xs @ [c]) = 10 * digits_value a xs + digit_value c"
  by (induction xs arbitrary: a) auto

lemma digit_char_props: "d < 10 \<Longrightarrow> is_digit (digit_char d) \<and> digit_value (digit_char d) = d"
  by (simp add: is_digit_def digit_char_def digit_value_def)

lemma show_nat_props: "list_all is_digit (show_nat n) \<and> show_nat n \<noteq> [] \<and> digits_value 0 (show_nat n) = n"
proof (induction n rule: show_nat.induct)
  case (1 n)
  show ?case
  proof (cases "n < 10")
    case True
    then show ?thesis by (subst (1 2 3) show_nat.simps) (simp add: digit_char_props)
  next
    case False
    with 1 show ?thesis
      by (subst (1 2 3) show_nat.simps) (simp add: digit_char_props digits_value_append)
  qed
qed

lemma parse_show_nat: "n \<le> u64_max \<Longrightarrow> parse_u64 (show_nat n) = Some n"
  using show_nat_props [of n]
  by (cases "show_nat n") (auto simp: parse_u64_def is_digit_def)

lemma find_sub_append:
  "p \<noteq> [] \<Longrightarrow> hd p \<notin> set s \<Longrightarrow> find_sub p (s @ p @ r) = Some (length s)"
proof (induction s)
  case Nil
  then show ?case by (cases p) (auto simp: starts_with_def)
next
  case (Cons c s)
  then show ?case by (cases p) (auto simp: starts_with_def)
qed

text \<open>
  C37: The placeholder for a value read only in part keeps what it says: parsing the type name of
  \<open>partial_value\<close> gives back the byte count and the prefix, whatever the prefix contains, for every
  count a \<open>u64\<close> holds.
\<close>

theorem partial_value_roundtrip:
  assumes "byte_count \<le> u64_max"
  shows "\<exists>kind. partial_value byte_count prefix = Undecodable kind \<and> parse_partial kind = Some (byte_count, prefix)"
proof -
  have "CHR '' '' \<notin> set (show_nat byte_count)"
    using show_nat_props [of byte_count] by (auto simp: list_all_iff is_digit_def)
  then have "find_sub partial_mark (show_nat byte_count @ partial_mark @ prefix) = Some (length (show_nat byte_count))"
    by (intro find_sub_append) (simp_all add: partial_mark_def)
  then show ?thesis
    using assms by (simp add: partial_value_def parse_partial_def starts_with_def parse_show_nat)
qed

theorem partial_value_roundtrip_witness:
  "\<exists>kind. partial_value 70000 ''abc'' = Undecodable kind \<and> parse_partial kind = Some (70000, ''abc'')"
  using partial_value_roundtrip [of 70000 "''abc''"] by (simp add: u64_max_def)

end
