(* ===== verification/Masking.thy ===== *)
theory Masking
  imports Query_Values Policy_Config
begin

text \<open>
  \<open>crates/policy/src/mask.rs\<close>: redaction of sensitive columns and of sensitive keys nested in JSON cells.
  Compiling and matching glob patterns (\<open>glob\<close>), Unicode lower-casing and JSON parsing and printing
  (\<open>serde_json\<close>) are library code, passed as the record \<open>mask_lib\<close>.
\<close>

section \<open>Definitions\<close>

record mask_lib =
  pattern_valid :: "string \<Rightarrow> bool"
  pattern_matches :: "string \<Rightarrow> string \<Rightarrow> bool"
  to_lowercase :: "string \<Rightarrow> string"
  json_from_str :: "string \<Rightarrow> json option"
  json_to_string :: "json \<Rightarrow> string option"

definition REDACTED :: string where "REDACTED = ''***REDACTED***''"

text \<open>\<open>SensitivePatterns\<close>: the compiled patterns.\<close>

type_synonym sensitive_patterns = "string list"

definition patterns_new :: "mask_lib \<Rightarrow> string list \<Rightarrow> sensitive_patterns" where
  "patterns_new M patterns = filter (pattern_valid M) (map (to_lowercase M) patterns)"

definition matches :: "mask_lib \<Rightarrow> sensitive_patterns \<Rightarrow> string \<Rightarrow> bool" where
  "matches M ps column_name = (let name = to_lowercase M column_name in list_ex (\<lambda>p. pattern_matches M p name) ps)"

fun json_is_null :: "json \<Rightarrow> bool" where
  "json_is_null JNull = True"
| "json_is_null _ = False"

text \<open>
  \<open>redact_json\<close>: the value is updated in place and the flag tells whether anything changed. The list
  functions are its loops over the items of an array and the entries of an object.
\<close>

fun redact_json :: "mask_lib \<Rightarrow> sensitive_patterns \<Rightarrow> json \<Rightarrow> json \<times> bool"
  and redact_items :: "mask_lib \<Rightarrow> sensitive_patterns \<Rightarrow> json list \<Rightarrow> bool \<Rightarrow> json list \<times> bool"
  and redact_entries :: "mask_lib \<Rightarrow> sensitive_patterns \<Rightarrow> (string \<times> json) list \<Rightarrow> bool \<Rightarrow> (string \<times> json) list \<times> bool" where
  "redact_json M ps (JObject es) = (let (es', changed) = redact_entries M ps es False in (JObject es', changed))"
| "redact_json M ps (JArray vs) = (let (vs', changed) = redact_items M ps vs False in (JArray vs', changed))"
| "redact_json M ps v = (v, False)"
| "redact_items M ps [] changed = ([], changed)"
| "redact_items M ps (v # vs) changed =
     (let (v', c) = redact_json M ps v; (vs', changed') = redact_items M ps vs (c \<or> changed)
      in (v' # vs', changed'))"
| "redact_entries M ps [] changed = ([], changed)"
| "redact_entries M ps ((k, v) # es) changed =
     (if matches M ps k \<and> \<not> json_is_null v then
        (let (es', changed') = redact_entries M ps es True in ((k, JString REDACTED) # es', changed'))
      else
        (let (v', c) = redact_json M ps v; (es', changed') = redact_entries M ps es (changed \<or> c)
         in ((k, v') # es', changed')))"

definition redact_nested :: "mask_lib \<Rightarrow> sensitive_patterns \<Rightarrow> cell \<Rightarrow> cell" where
  "redact_nested M ps c =
     (case c of
        Json v \<Rightarrow> Json (fst (redact_json M ps v))
      | JsonText t \<Rightarrow>
          (case json_from_str M t of
             None \<Rightarrow> JsonText t
           | Some v \<Rightarrow>
               (let (v', changed) = redact_json M ps v in
                if changed then (case json_to_string M v' of Some t' \<Rightarrow> JsonText t' | None \<Rightarrow> JsonText t)
                else JsonText t))
      | _ \<Rightarrow> c)"

definition get_or_false :: "bool list \<Rightarrow> nat \<Rightarrow> bool" where
  "get_or_false bs i = (if i < length bs then bs ! i else False)"

definition sensitive_columns ::
    "mask_lib \<Rightarrow> sensitive_patterns \<Rightarrow> column_info list \<Rightarrow> bool list option \<Rightarrow> bool list" where
  "sensitive_columns M ps cols positions =
     map (\<lambda>(i, c). matches M ps (col_name c)
                   \<or> (case positions of None \<Rightarrow> False | Some s \<Rightarrow> get_or_false s i))
       (enumerate 0 cols)"

definition mask_cell :: "mask_lib \<Rightarrow> sensitive_patterns \<Rightarrow> bool \<Rightarrow> cell \<Rightarrow> cell" where
  "mask_cell M ps sensitive c =
     (if c = Null then Null else if sensitive then Text REDACTED else redact_nested M ps c)"

definition mask_row :: "mask_lib \<Rightarrow> sensitive_patterns \<Rightarrow> bool list \<Rightarrow> cell list \<Rightarrow> cell list" where
  "mask_row M ps sensitive row = map (\<lambda>(i, c). mask_cell M ps (get_or_false sensitive i) c) (enumerate 0 row)"

definition mask :: "mask_lib \<Rightarrow> sensitive_patterns \<Rightarrow> query_result \<Rightarrow> bool list option \<Rightarrow> query_result" where
  "mask M ps result positions =
     (let sensitive = sensitive_columns M ps (result_columns result) positions in
      if ps = [] \<and> \<not> list_ex id sensitive then result
      else result\<lparr>result_rows := map (mask_row M ps sensitive) (result_rows result)\<rparr>)"

definition column_is_sensitive :: "mask_lib \<Rightarrow> string \<Rightarrow> string list \<Rightarrow> bool" where
  "column_is_sensitive M column_name patterns = matches M (patterns_new M patterns) column_name"

definition apply_masking :: "mask_lib \<Rightarrow> query_result \<Rightarrow> string list \<Rightarrow> bool list option \<Rightarrow> query_result" where
  "apply_masking M result patterns positions = mask M (patterns_new M patterns) result positions"

section \<open>Properties\<close>

subsection \<open>JSON\<close>

text \<open>No sensitive key of the value, at any depth, holds anything but null or the redaction mark.\<close>

fun json_clean :: "mask_lib \<Rightarrow> sensitive_patterns \<Rightarrow> json \<Rightarrow> bool"
  and items_clean :: "mask_lib \<Rightarrow> sensitive_patterns \<Rightarrow> json list \<Rightarrow> bool"
  and entries_clean :: "mask_lib \<Rightarrow> sensitive_patterns \<Rightarrow> (string \<times> json) list \<Rightarrow> bool" where
  "json_clean M ps (JObject es) = entries_clean M ps es"
| "json_clean M ps (JArray vs) = items_clean M ps vs"
| "json_clean M ps _ = True"
| "items_clean M ps [] = True"
| "items_clean M ps (v # vs) = (json_clean M ps v \<and> items_clean M ps vs)"
| "entries_clean M ps [] = True"
| "entries_clean M ps ((k, v) # es) =
     ((if matches M ps k then v = JNull \<or> v = JString REDACTED else json_clean M ps v) \<and> entries_clean M ps es)"

lemma json_is_null_iff [simp]: "json_is_null v \<longleftrightarrow> v = JNull"
  by (cases v) auto

lemma redact_clean:
  "json_clean M ps (fst (redact_json M ps v))"
  "items_clean M ps (fst (redact_items M ps vs c))"
  "entries_clean M ps (fst (redact_entries M ps es c))"
  by (induction M ps v and M ps vs c and M ps es c rule: redact_json_redact_items_redact_entries.induct)
    (auto split: prod.splits)

lemma redact_unchanged:
  "\<not> snd (redact_json M ps v) \<Longrightarrow> fst (redact_json M ps v) = v"
  "\<not> snd (redact_items M ps vs c) \<Longrightarrow> fst (redact_items M ps vs c) = vs \<and> \<not> c"
  "\<not> snd (redact_entries M ps es c) \<Longrightarrow> fst (redact_entries M ps es c) = es \<and> \<not> c"
  by (induction M ps v and M ps vs c and M ps es c rule: redact_json_redact_items_redact_entries.induct)
    (auto split: prod.splits if_splits)

lemma redact_of_clean:
  "json_clean M ps v \<Longrightarrow> fst (redact_json M ps v) = v"
  "items_clean M ps vs \<Longrightarrow> fst (redact_items M ps vs c) = vs"
  "entries_clean M ps es \<Longrightarrow> fst (redact_entries M ps es c) = es"
  by (induction M ps v and M ps vs c and M ps es c rule: redact_json_redact_items_redact_entries.induct)
    (auto split: prod.splits if_splits)

text \<open>
  Two values that differ at most in what their sensitive keys hold: the same shape and keys, equal
  contents everywhere else, and null under the same sensitive keys.
\<close>

fun json_similar :: "mask_lib \<Rightarrow> sensitive_patterns \<Rightarrow> json \<Rightarrow> json \<Rightarrow> bool"
  and items_similar :: "mask_lib \<Rightarrow> sensitive_patterns \<Rightarrow> json list \<Rightarrow> json list \<Rightarrow> bool"
  and entries_similar :: "mask_lib \<Rightarrow> sensitive_patterns \<Rightarrow> (string \<times> json) list \<Rightarrow> (string \<times> json) list \<Rightarrow> bool" where
  "json_similar M ps (JObject es) w = (case w of JObject es' \<Rightarrow> entries_similar M ps es es' | _ \<Rightarrow> False)"
| "json_similar M ps (JArray vs) w = (case w of JArray ws \<Rightarrow> items_similar M ps vs ws | _ \<Rightarrow> False)"
| "json_similar M ps v w = (v = w)"
| "items_similar M ps [] ws = (ws = [])"
| "items_similar M ps (v # vs) ws =
     (case ws of [] \<Rightarrow> False | w # ws' \<Rightarrow> json_similar M ps v w \<and> items_similar M ps vs ws')"
| "entries_similar M ps [] fs = (fs = [])"
| "entries_similar M ps ((k, v) # es) fs =
     (case fs of [] \<Rightarrow> False
      | (k', v') # fs' \<Rightarrow>
          k = k' \<and> (if matches M ps k then (v = JNull \<longleftrightarrow> v' = JNull) else json_similar M ps v v')
          \<and> entries_similar M ps es fs')"

lemma redact_similar:
  "json_similar M ps v w \<Longrightarrow> redact_json M ps v = redact_json M ps w"
  "items_similar M ps vs ws \<Longrightarrow> redact_items M ps vs c = redact_items M ps ws c"
  "entries_similar M ps es fs \<Longrightarrow> redact_entries M ps es c = redact_entries M ps fs c"
proof (induction M ps v w and M ps vs ws and M ps es fs arbitrary: and c and c
    rule: json_similar_items_similar_entries_similar.induct)
  case (7 M ps k v es fs)
  then show ?case
    by (cases "v = JNull") (auto split: list.splits prod.splits if_splits)
qed (auto split: json.splits list.splits)

subsection \<open>Result sets\<close>

fun cell_similar :: "mask_lib \<Rightarrow> sensitive_patterns \<Rightarrow> bool \<Rightarrow> cell \<Rightarrow> cell \<Rightarrow> bool" where
  "cell_similar M ps sensitive c c' \<longleftrightarrow>
     (if sensitive then (c = Null \<longleftrightarrow> c' = Null)
      else c = c'
        \<or> (case (c, c') of
             (Json v, Json w) \<Rightarrow> json_similar M ps v w
           | (JsonText t, JsonText u) \<Rightarrow>
               (case (json_from_str M t, json_from_str M u) of
                  (Some v, Some w) \<Rightarrow>
                    json_similar M ps v w \<and> snd (redact_json M ps v) \<and> snd (redact_json M ps w)
                | _ \<Rightarrow> False)
           | _ \<Rightarrow> False))"

lemma cell_similar_cases:
  assumes "cell_similar M ps b c c'"
  obtains (same) "c = c'"
  | (hidden) "b" "c = Null \<longleftrightarrow> c' = Null"
  | (json) v w where "\<not> b" "c = Json v" "c' = Json w" "json_similar M ps v w"
  | (parsed) t u v w where "\<not> b" "c = JsonText t" "c' = JsonText u" "json_from_str M t = Some v" "json_from_str M u = Some w"
      "json_similar M ps v w" "snd (redact_json M ps v)" "snd (redact_json M ps w)"
  using assms by (auto split: if_splits cell.splits option.splits)

lemma mask_cell_similar:
  assumes "cell_similar M ps b c c'" "\<And>v. json_to_string M v \<noteq> None"
  shows "mask_cell M ps b c = mask_cell M ps b c'"
  using assms(1)
proof (cases rule: cell_similar_cases)
  case (parsed t u v w)
  obtain s where s: "json_to_string M (fst (redact_json M ps w)) = Some s"
    using assms(2) by blast
  from parsed show ?thesis
    by (simp add: mask_cell_def redact_nested_def redact_similar(1) case_prod_beta s)
next
  case (json v w)
  then show ?thesis by (simp add: mask_cell_def redact_nested_def redact_similar(1))
qed (auto simp: mask_cell_def)

text \<open>
  Two results that an agent may not tell apart: the same columns, the same numbers of rows and cells,
  and cells that differ only behind sensitive columns or sensitive keys.
\<close>

definition results_similar ::
    "mask_lib \<Rightarrow> sensitive_patterns \<Rightarrow> bool list option \<Rightarrow> query_result \<Rightarrow> query_result \<Rightarrow> bool" where
  "results_similar M ps positions r r' \<longleftrightarrow>
     result_columns r = result_columns r' \<and> result_truncated r = result_truncated r'
     \<and> list_all2 (list_all2 (\<lambda>(i, c) (_, c').
           cell_similar M ps (get_or_false (sensitive_columns M ps (result_columns r) positions) i) c c'))
         (map (enumerate 0) (result_rows r)) (map (enumerate 0) (result_rows r'))"

lemma mask_row_similar:
  assumes "list_all2 (\<lambda>(i, c) (_, c'). cell_similar M ps (get_or_false sens i) c c') (enumerate n row) (enumerate n row')"
    and "\<And>v. json_to_string M v \<noteq> None"
  shows "map (\<lambda>(i, c). mask_cell M ps (get_or_false sens i) c) (enumerate n row)
       = map (\<lambda>(i, c). mask_cell M ps (get_or_false sens i) c) (enumerate n row')"
  using assms(1)
proof (induction row arbitrary: row' n)
  case (Cons c row)
  then obtain c' row'' where "row' = c' # row''" by (cases row') auto
  with Cons show ?case using mask_cell_similar [OF _ assms(2)] by auto
qed simp

lemma redact_nothing_flag:
  "snd (redact_json M ps v) \<Longrightarrow> ps \<noteq> []"
  "snd (redact_items M ps vs c) \<Longrightarrow> ps \<noteq> [] \<or> c"
  "snd (redact_entries M ps es c) \<Longrightarrow> ps \<noteq> [] \<or> c"
  by (induction M ps v and M ps vs c and M ps es c rule: redact_json_redact_items_redact_entries.induct)
    (auto simp: matches_def split: prod.splits if_splits)

lemma redact_nothing: "redact_json M [] v = (v, False)"
  using redact_nothing_flag(1) [of M "[]" v] redact_unchanged(1) [of M "[]" v]
  by (cases "redact_json M [] v") auto

lemma mask_cell_nothing: "mask_cell M [] False c = c"
  by (cases c) (auto simp: mask_cell_def redact_nested_def redact_nothing split: option.splits)

lemma map_enumerate_value: "map (\<lambda>(i, c). c) (enumerate n row) = row"
  by (induction row arbitrary: n) auto

lemma nothing_sensitive:
  assumes "\<not> list_ex id sens"
  shows "mask_row M [] sens row = row"
proof -
  have "get_or_false sens i = False" for i
    using assms unfolding get_or_false_def list_ex_iff by (metis id_apply nth_mem)
  then show ?thesis
    by (simp add: mask_row_def mask_cell_nothing map_enumerate_value)
qed

lemma map_nothing_sensitive: "\<not> list_ex id sens \<Longrightarrow> map (mask_row M [] sens) rows = rows"
  by (simp add: map_idI nothing_sensitive)

text \<open>
  C22: Masking reveals nothing about what it hides. If two results of a query differ only in the contents
  of sensitive columns (by name or by position) and of sensitive keys inside JSON cells, then the masked
  results are equal, so an agent that sees masked results cannot tell the two apart. The JSON printer is
  assumed to print every value.
\<close>

theorem mask_noninterference:
  assumes "results_similar M (patterns_new M patterns) positions r r'"
    and "\<And>v. json_to_string M v \<noteq> None"
  shows "apply_masking M r patterns positions = apply_masking M r' patterns positions"
proof -
  let ?ps = "patterns_new M patterns"
  let ?sens = "sensitive_columns M ?ps (result_columns r) positions"
  have "list_all2 (\<lambda>row row'. mask_row M ?ps ?sens row = mask_row M ?ps ?sens row') (result_rows r) (result_rows r')"
    using assms(1) unfolding results_similar_def
    by (auto simp: list_all2_map1 list_all2_map2 mask_row_def elim!: list_all2_mono
        intro!: mask_row_similar [OF _ assms(2)])
  then have "map (mask_row M ?ps ?sens) (result_rows r) = map (mask_row M ?ps ?sens) (result_rows r')"
    by (induction rule: list_all2_induct) auto
  note rows = this
  have same: "result_columns r = result_columns r'" "result_truncated r = result_truncated r'"
    using assms(1) by (simp_all add: results_similar_def)
  show ?thesis
  proof (cases "?ps = [] \<and> \<not> list_ex id ?sens")
    case True
    then have none: "\<not> list_ex id ?sens" and ps: "?ps = []" by blast+
    have "map (mask_row M ?ps ?sens) xs = xs" for xs
      using map_nothing_sensitive [OF none] by (simp only: ps)
    then have "result_rows r = result_rows r'" using rows by metis
    with same have "r = r'" by simp
    then show ?thesis by simp
  next
    case False
    have "mask M ?ps x positions = x\<lparr>result_rows := map (mask_row M ?ps ?sens) (result_rows x)\<rparr>"
      if "result_columns x = result_columns r" for x
      unfolding mask_def Let_def that by (rule if_not_P [OF False])
    from this [OF refl] this [OF same(1) [symmetric]] show ?thesis
      unfolding apply_masking_def using rows same by simp
  qed
qed

text \<open>An example library: a pattern matches the names that contain it, its stars left out, and no text is JSON.\<close>

definition example_mask_lib :: mask_lib where
  "example_mask_lib = \<lparr>pattern_valid = (\<lambda>_. True), pattern_matches = (\<lambda>p n. find_sub (filter (\<lambda>c. c \<noteq> CHR ''*'') p) n \<noteq> None), to_lowercase = (\<lambda>s. s),
     json_from_str = (\<lambda>_. None), json_to_string = (\<lambda>_. Some [])\<rparr>"

definition example_column :: "string \<Rightarrow> column_info" where
  "example_column n = \<lparr>col_name = n, data_type = ''text'', nullable = True, primary_key = False,
     is_auto_increment = False, default_value = None, is_generated = False, col_comment = None,
     collation = None, enum_type = None, domain_type = None\<rparr>"

definition example_result :: "string \<Rightarrow> query_result" where
  "example_result secret = \<lparr>result_columns = [example_column ''pan'', example_column ''id''],
     result_rows = [[Text secret, Int64 1]], result_truncated = False\<rparr>"

theorem mask_noninterference_witness:
  "apply_masking example_mask_lib (example_result ''a'') [''pan''] None
   = apply_masking example_mask_lib (example_result ''b'') [''pan''] None"
proof (rule mask_noninterference)
  show "results_similar example_mask_lib (patterns_new example_mask_lib [''pan'']) None (example_result ''a'') (example_result ''b'')"
    by (simp add: results_similar_def example_result_def example_column_def example_mask_lib_def patterns_new_def
        sensitive_columns_def matches_def get_or_false_def starts_with_def)
qed (simp_all add: example_mask_lib_def patterns_new_def)

subsection \<open>What a masked result holds\<close>

lemma length_sensitive_columns [simp]: "length (sensitive_columns M ps cols positions) = length cols"
  by (simp add: sensitive_columns_def)

lemma mask_row_nth: "i < length row \<Longrightarrow> mask_row M ps sens row ! i = mask_cell M ps (get_or_false sens i) (row ! i)"
  by (simp add: mask_row_def nth_enumerate_eq)

lemma length_mask_row [simp]: "length (mask_row M ps sens row) = length row"
  by (simp add: mask_row_def)

lemma sensitive_column_name:
  "i < length cols \<Longrightarrow> matches M ps (col_name (cols ! i)) \<Longrightarrow> get_or_false (sensitive_columns M ps cols positions) i"
  by (simp add: get_or_false_def sensitive_columns_def nth_enumerate_eq)

lemma sensitive_column_position:
  "i < length cols \<Longrightarrow> i < length s \<Longrightarrow> s ! i \<Longrightarrow> get_or_false (sensitive_columns M ps cols (Some s)) i"
  by (simp add: get_or_false_def sensitive_columns_def nth_enumerate_eq)

text \<open>No cell of a row holds sensitive content: marked columns are null or redacted, JSON cells are clean.\<close>

definition row_clean :: "mask_lib \<Rightarrow> sensitive_patterns \<Rightarrow> bool list \<Rightarrow> cell list \<Rightarrow> bool" where
  "row_clean M ps sens row \<longleftrightarrow>
     (\<forall>i < length row.
        (get_or_false sens i \<longrightarrow> row ! i = Null \<or> row ! i = Text REDACTED)
        \<and> (\<forall>v. row ! i = Json v \<longrightarrow> json_clean M ps v)
        \<and> (\<forall>t v. row ! i = JsonText t \<longrightarrow> json_from_str M t = Some v \<longrightarrow> json_clean M ps v))"

lemma clean_nothing: "json_clean M [] v" "items_clean M [] vs" "entries_clean M [] es"
  by (induction M "[] :: sensitive_patterns" v and M "[] :: sensitive_patterns" vs and M "[] :: sensitive_patterns" es
      rule: json_clean_items_clean_entries_clean.induct) (auto simp: matches_def)

lemma redact_nested_kinds:
  "redact_nested M ps c = Null \<longleftrightarrow> c = Null"
  "redact_nested M ps c = Json v \<Longrightarrow> json_clean M ps v"
  using redact_clean(1) by (auto simp: redact_nested_def split: cell.splits option.splits prod.splits if_splits)

text \<open>The JSON library prints the redacted form of every value it parsed, and reads it back.\<close>

definition json_faithful :: "mask_lib \<Rightarrow> sensitive_patterns \<Rightarrow> bool" where
  "json_faithful M ps \<longleftrightarrow>
     (\<forall>t v. json_from_str M t = Some v \<longrightarrow>
        (\<exists>s. json_to_string M (fst (redact_json M ps v)) = Some s
             \<and> json_from_str M s = Some (fst (redact_json M ps v))))"

lemma redact_nested_text:
  assumes "redact_nested M ps c = JsonText t" "json_from_str M t = Some v" "json_faithful M ps"
  shows "json_clean M ps v"
proof -
  obtain t0 where c: "c = JsonText t0"
    using assms(1) by (auto simp: redact_nested_def split: cell.splits)
  show ?thesis
  proof (cases "json_from_str M t0")
    case None
    then show ?thesis using assms(1,2) c by (simp add: redact_nested_def)
  next
    case (Some w)
    then obtain s where "json_to_string M (fst (redact_json M ps w)) = Some s"
      "json_from_str M s = Some (fst (redact_json M ps w))"
      using assms(3) by (auto simp: json_faithful_def)
    then show ?thesis
      using assms(1,2) c Some redact_clean(1) [of M ps w] redact_unchanged(1) [of M ps w]
      by (cases "snd (redact_json M ps w)") (auto simp: redact_nested_def case_prod_beta)
  qed
qed

lemma mask_clean:
  assumes "json_faithful M ps"
  shows "result_columns (mask M ps r positions) = result_columns r
    \<and> result_truncated (mask M ps r positions) = result_truncated r
    \<and> map length (result_rows (mask M ps r positions)) = map length (result_rows r)
    \<and> list_all (row_clean M ps (sensitive_columns M ps (result_columns r) positions)) (result_rows (mask M ps r positions))"
proof -
  let ?sens = "sensitive_columns M ps (result_columns r) positions"
  have masked: "row_clean M ps ?sens (mask_row M ps ?sens row)" for row
    unfolding row_clean_def
    using redact_nested_kinds(2) redact_nested_text [OF _ _ assms]
    by (auto simp: mask_row_nth mask_cell_def split: if_splits)
  show ?thesis
  proof (cases "ps = [] \<and> \<not> list_ex id ?sens")
    case True
    have "mask_row M ps ?sens row = row" for row
      using True nothing_sensitive [of ?sens M row] by metis
    then have "row_clean M ps ?sens row" for row
      using masked [of row] by simp
    moreover have "mask M ps r positions = r"
      unfolding mask_def Let_def by (rule if_P [OF True])
    ultimately show ?thesis by (simp add: list_all_iff)
  next
    case False
    have "mask M ps r positions = r\<lparr>result_rows := map (mask_row M ps ?sens) (result_rows r)\<rparr>"
      unfolding mask_def Let_def by (rule if_not_P [OF False])
    then show ?thesis using masked by (auto simp: list_all_iff)
  qed
qed

text \<open>
  C23: A masked result is clean and keeps its shape. Columns, row count, cell counts and the truncation flag
  are those of the original; every cell of a sensitive column is null or the redaction mark; and no JSON
  cell, nor any text cell that parses as JSON, has a sensitive key with anything but null or the
  mark under it, at any depth. The hypothesis is on the JSON library: it prints the redacted form of a value
  it parsed, and reads that form back.
\<close>

theorem masked_result_clean:
  assumes "json_faithful M (patterns_new M patterns)"
  shows "result_columns (apply_masking M r patterns positions) = result_columns r
    \<and> result_truncated (apply_masking M r patterns positions) = result_truncated r
    \<and> map length (result_rows (apply_masking M r patterns positions)) = map length (result_rows r)
    \<and> (\<forall>row \<in> set (result_rows (apply_masking M r patterns positions)).
         row_clean M (patterns_new M patterns)
           (sensitive_columns M (patterns_new M patterns) (result_columns r) positions) row)"
  using mask_clean [OF assms, of r positions] by (simp add: apply_masking_def list_all_iff)

definition example_json :: "json \<Rightarrow> json" where
  "example_json v = JObject [(''id'', JNumber ''1''), (''pan'', v)]"

definition example_json_lib :: mask_lib where
  "example_json_lib = example_mask_lib\<lparr>
     json_from_str := (\<lambda>t. if t = ''A'' then Some (example_json (JString ''4111''))
                          else if t = ''B'' then Some (example_json (JString REDACTED)) else None),
     json_to_string := (\<lambda>v. if v = example_json (JString REDACTED) then Some ''B'' else None)\<rparr>"

lemma example_json_redacted:
  "fst (redact_json example_json_lib [''pan''] (example_json (JString s))) = example_json (JString REDACTED)"
  by (simp add: example_json_def matches_def example_json_lib_def example_mask_lib_def starts_with_def)

lemma example_json_patterns [simp]: "patterns_new example_json_lib [''pan''] = [''pan'']"
  by (simp add: patterns_new_def example_json_lib_def example_mask_lib_def)

lemma example_json_faithful: "json_faithful example_json_lib [''pan'']"
  unfolding json_faithful_def
  using example_json_redacted [of "''4111''"] example_json_redacted [of REDACTED]
  by (auto simp: example_json_lib_def split: if_splits)

theorem masked_result_clean_witness:
  "json_faithful example_json_lib (patterns_new example_json_lib [''pan''])
   \<and> map length (result_rows (apply_masking example_json_lib (example_result ''x'') [''pan''] None)) = [2]"
  using masked_result_clean [of example_json_lib "[''pan'']" "example_result ''x''" None] example_json_faithful
  by (simp add: example_result_def)

text \<open>
  C34: The built-in patterns cannot be configured away. Whatever a configuration lists as its own mask
  patterns, a result masked with the patterns in force has every cell under a column whose name matches
  a built-in pattern either null or redacted.
\<close>

theorem default_patterns_always_mask:
  assumes "p \<in> set DEFAULT_SENSITIVE_PATTERNS" "pattern_valid M (to_lowercase M p)"
    and "i < length (result_columns r)"
    and "pattern_matches M (to_lowercase M p) (to_lowercase M (col_name (result_columns r ! i)))"
    and "row \<in> set (result_rows (apply_masking M r (effective_mask_patterns cfg) positions))" "i < length row"
  shows "row ! i = Null \<or> row ! i = Text REDACTED"
proof -
  let ?ps = "patterns_new M (effective_mask_patterns cfg)"
  let ?sens = "sensitive_columns M ?ps (result_columns r) positions"
  have "to_lowercase M p \<in> set ?ps"
    using assms(1,2) by (auto simp: patterns_new_def set_effective_mask_patterns)
  then have ps: "?ps \<noteq> []" and "matches M ?ps (col_name (result_columns r ! i))"
    using assms(4) by (auto simp: matches_def list_ex_iff)
  then have sens: "get_or_false ?sens i"
    using assms(3) by (intro sensitive_column_name)
  obtain row0 where "row = mask_row M ?ps ?sens row0"
    using assms(5) ps by (auto simp: apply_masking_def mask_def Let_def)
  then show ?thesis
    using sens assms(6) by (simp add: mask_row_nth mask_cell_def)
qed

lemma example_default_masked:
  "result_rows (apply_masking example_mask_lib (example_result ''x'')
     (effective_mask_patterns \<lparr>environments = Map.empty, connection_overrides = Map.empty, mask_patterns = []\<rparr>) None)
   = [[Text REDACTED, Int64 1]]"
  by code_simp

theorem default_patterns_always_mask_witness:
  "[Text REDACTED, Int64 1] ! 0 = Null \<or> [Text REDACTED, Int64 1] ! 0 = Text REDACTED"
  by (rule default_patterns_always_mask [of "''*pan*''" example_mask_lib 0 "example_result ''x''" _
        "\<lparr>environments = Map.empty, connection_overrides = Map.empty, mask_patterns = []\<rparr>" None])
    (simp_all add: example_default_masked, simp_all add: DEFAULT_SENSITIVE_PATTERNS_def example_mask_lib_def
      example_result_def example_column_def starts_with_def)

end
