(* ===== verification/Statement_Analysis.thy ===== *)
theory Statement_Analysis
  imports Classification Masking
begin

text \<open>
  The analysis of a statement text: \<open>analyze_statement\<close> and \<open>classify\<close> of \<open>crates/policy/src/classify.rs\<close>, the
  rewriting of a mutation into a row count (\<open>blast_radius.rs\<close>), the columns of a result that show sensitive data
  (\<open>sensitive_projection.rs\<close>, \<open>projection_sources.rs\<close>) and the notifications of \<open>catalog_effect.rs\<close>.
\<close>

section \<open>Definitions\<close>

subsection \<open>Row counts (\<open>blast_radius.rs\<close>)\<close>

definition count_fn :: "string \<Rightarrow> string" where
  "count_fn driver_id = (if driver_id = ''mssql'' then ''COUNT_BIG(*)'' else ''count(*)'')"

definition table_names_from_factor :: "table_factor \<Rightarrow> string list" where
  "table_names_from_factor factor = (case factor of Table name _ _ _ _ \<Rightarrow> [name] | _ \<Rightarrow> [])"

definition table_names_from_with_joins :: "(table_factor, expr) table_with_joins \<Rightarrow> string list" where
  "table_names_from_with_joins t =
     table_names_from_factor (relation t) @ concat (map (\<lambda>j. table_names_from_factor (join_relation j)) (joins t))"

definition build_count_sql ::
    "(table_factor, expr) table_with_joins list \<Rightarrow> string option \<Rightarrow> string list \<Rightarrow> string \<Rightarrow> blast_radius_result" where
  "build_count_sql sources printed_where names driver_id =
     (let table_sql = join '', '' (map printed_source sources);
          where_sql = (case printed_where of Some s \<Rightarrow> '' WHERE '' @ s | None \<Rightarrow> [])
      in \<lparr>count_sql = ''SELECT '' @ count_fn driver_id @ '' FROM '' @ table_sql @ where_sql, br_tables = names\<rparr>)"

definition count_sql_for_insert :: "query table_object \<Rightarrow> query option \<Rightarrow> string \<Rightarrow> blast_radius_rewrite option" where
  "count_sql_for_insert target source driver_id =
     (case (case target of TableName name \<Rightarrow> Some [name] | TableFunction name \<Rightarrow> Some [name] | TableQuery _ \<Rightarrow> None) of
        None \<Rightarrow> None
      | Some names \<Rightarrow>
          (case source of
             None \<Rightarrow> Some (Known 1)
           | Some q \<Rightarrow>
               (case query_body q of
                  Values rows \<Rightarrow> Some (Known rows)
                | _ \<Rightarrow> Some (CountQuery
                    \<lparr>count_sql = ''SELECT '' @ count_fn driver_id @ '' FROM ('' @ printed_query q
                                   @ '') AS blast_radius_estimate'',
                     br_tables = names\<rparr>))))"

text \<open>The \<open>WHERE\<close> expression as it is printed.\<close>

definition printed_where :: "expr option \<Rightarrow> string \<Rightarrow> string option" where
  "printed_where sel printed = map_option (\<lambda>_. printed) sel"

definition rewrite_for_statement :: "statement \<Rightarrow> string \<Rightarrow> blast_radius_rewrite option" where
  "rewrite_for_statement st driver_id =
     (case st of
        UpdateStatement target others sel printed \<Rightarrow>
          (let sources = target # others
           in Some (CountQuery (build_count_sql sources (printed_where sel printed)
                (concat (map table_names_from_with_joins sources)) driver_id)))
      | DeleteStatement _ listed others sel printed \<Rightarrow>
          (let sources = listed @ others
           in Some (CountQuery (build_count_sql sources (printed_where sel printed)
                (concat (map table_names_from_with_joins sources)) driver_id)))
      | InsertStatement target source \<Rightarrow> count_sql_for_insert target source driver_id
      | _ \<Rightarrow> None)"

definition known_rows_of :: "blast_radius_rewrite option \<Rightarrow> nat option" where
  "known_rows_of r = (case r of Some (Known rows) \<Rightarrow> Some rows | _ \<Rightarrow> None)"

definition analyze_blast_radius :: "statement list \<Rightarrow> string \<Rightarrow> blast_radius_rewrite option \<times> nat option list" where
  "analyze_blast_radius statements driver_id =
     (case statements of
        [st] \<Rightarrow> (let r = rewrite_for_statement st driver_id in (r, [known_rows_of r]))
      | _ \<Rightarrow>
          (let known = map (\<lambda>st. known_rows_of (rewrite_for_statement st driver_id)) statements;
               all_known = (statements \<noteq> [] \<and> list_all (\<lambda>k. k \<noteq> None) known);
               total = sum_list (map (\<lambda>k. case k of Some rows \<Rightarrow> rows | None \<Rightarrow> 0) known)
           in (if all_known then Some (Known total) else None, known)))"

subsection \<open>Sensitive columns (\<open>sensitive_projection.rs\<close>, \<open>projection_sources.rs\<close>)\<close>

definition source_record :: "mask_lib \<Rightarrow> table_factor \<Rightarrow> string option" where
  "source_record M factor =
     (case factor of
        Table _ final aliased has_args has_json_path \<Rightarrow>
          if has_args \<or> has_json_path then None
          else (case aliased of
                  Some (TableAlias name has_columns) \<Rightarrow> if has_columns then None else Some (to_lowercase M name)
                | None \<Rightarrow> map_option (to_lowercase M) final)
      | _ \<Rightarrow> None)"

text \<open>\<open>Iterator::collect\<close> into an \<open>Option\<close>.\<close>

fun collect_options :: "'a option list \<Rightarrow> 'a list option" where
  "collect_options [] = Some []"
| "collect_options (x # xs) =
     (case x of None \<Rightarrow> None | Some v \<Rightarrow> map_option ((#) v) (collect_options xs))"

definition source_records :: "mask_lib \<Rightarrow> select \<Rightarrow> string list option" where
  "source_records M s =
     collect_options (map (source_record M) (concat (map (\<lambda>t. relation t # map join_relation (joins t)) (select_from s))))"

text \<open>Whether the token at the head of the list is a subquery or a whole source record.\<close>

definition token_references_record :: "mask_lib \<Rightarrow> string list \<Rightarrow> token \<Rightarrow> token list \<Rightarrow> bool" where
  "token_references_record M records t rest =
     (case t of
        Word value _ k \<Rightarrow>
          k = KwSELECT \<or> k = KwWITH
          \<or> (to_lowercase M value \<in> set records
              \<and> (nth_opt rest 0 \<noteq> Some Period \<or> nth_opt rest 1 = Some Mul))
      | _ \<Rightarrow> False)"

fun tokens_reference_record :: "mask_lib \<Rightarrow> string list \<Rightarrow> token list \<Rightarrow> bool" where
  "tokens_reference_record M records [] = False"
| "tokens_reference_record M records (t # rest) =
     (token_references_record M records t rest \<or> tokens_reference_record M records rest)"

definition references_record :: "sql_parser \<Rightarrow> mask_lib \<Rightarrow> string \<Rightarrow> string list \<Rightarrow> bool" where
  "references_record P M rendered records =
     (case tokenize P GenericDialect rendered of
        None \<Rightarrow> True
      | Some tokens \<Rightarrow> tokens_reference_record M records (filter (\<lambda>t. \<not> is_whitespace t) tokens))"

text \<open>The positions of a text in another, left to right without overlap (\<open>str::match_indices\<close>).\<close>

function match_indices :: "string \<Rightarrow> string \<Rightarrow> nat \<Rightarrow> nat list" where
  "match_indices s p i =
     (if p = [] \<or> length s \<le> i then []
      else if starts_with p (drop i s) then i # match_indices s p (i + length p)
      else match_indices s p (i + 1))"
  by pat_completeness auto
termination
  by (relation "measure (\<lambda>(s, _, i). length s - i)") (auto simp flip: length_greater_0_conv)

definition trim_start :: "string \<Rightarrow> string" where
  "trim_start s = strip_start white_space_encodings s"

definition contains_function_call :: "string \<Rightarrow> string \<Rightarrow> bool" where
  "contains_function_call sql name =
     list_ex (\<lambda>start.
         let preceding_boundary = (start = 0
               \<or> (let c = sql ! (start - 1) in \<not> is_ascii_alphanumeric c \<and> c \<noteq> CHR ''_''));
             after_name = trim_start (drop (start + length name) sql);
             after_name = (if starts_with [double_quote] after_name then drop 1 after_name else after_name)
         in preceding_boundary \<and> starts_with ''('' (trim_start after_name))
       (match_indices sql name 0)"

definition record_functions :: "string list" where
  "record_functions =
     [''row_to_json'', ''to_json'', ''to_jsonb'', ''json_agg'', ''jsonb_agg'', ''json_object_agg'', ''jsonb_object_agg'',
      ''json_build_object'', ''jsonb_build_object'', ''json_object'', ''jsonb_object'', ''table_to_xml'',
      ''table_to_xml_and_xmlschema'', ''schema_to_xml'', ''schema_to_xml_and_xmlschema'', ''database_to_xml'',
      ''database_to_xml_and_xmlschema'', ''query_to_xml'', ''query_to_xml_and_xmlschema'', ''cursor_to_xml'',
      ''cursor_to_xml_and_xmlschema'']"

definition record_serialization_constructor :: "string \<Rightarrow> bool" where
  "record_serialization_constructor lowered = list_ex (contains_function_call lowered) record_functions"

text \<open>The characters of a text, as their encodings.\<close>

fun utf8_chars :: "string \<Rightarrow> string list" where
  "utf8_chars [] = []"
| "utf8_chars (c # cs) =
     (case utf8_chars cs of
        (d # ds) # rest \<Rightarrow> if is_continuation_byte d then (c # d # ds) # rest else [c] # (d # ds) # rest
      | rest \<Rightarrow> [c] # rest)"

definition text_identifiers :: "(string \<Rightarrow> bool) \<Rightarrow> string \<Rightarrow> string list" where
  "text_identifiers alnum text =
     filter (\<lambda>s. s \<noteq> []) (map concat (split_on (\<lambda>ch. \<not> (alnum ch \<or> ch = ''_'')) (utf8_chars text)))"

definition expr_references_sensitive :: "sql_parser \<Rightarrow> mask_lib \<Rightarrow> string \<Rightarrow> sensitive_patterns \<Rightarrow> bool" where
  "expr_references_sensitive P M rendered patterns =
     (let lowered = to_ascii_lowercase rendered in
      record_serialization_constructor lowered
      \<or> list_ex (matches M patterns) (text_identifiers (unicode_alnum P) rendered))"

text \<open>\<open>select_projection_sensitivity\<close>: a lone wildcard over one derived table shows what that table shows.\<close>

definition projected_text :: "expr select_item \<Rightarrow> string option" where
  "projected_text item =
     (case item of
        UnnamedExpr _ printed \<Rightarrow> Some printed
      | ExprWithAlias _ printed \<Rightarrow> Some printed
      | ExprWithAliases _ printed \<Rightarrow> Some printed
      | Wildcard \<Rightarrow> None
      | QualifiedWildcard \<Rightarrow> None)"

definition only_derived_source :: "select \<Rightarrow> query option" where
  "only_derived_source s =
     (case select_from s of
        [t] \<Rightarrow> if joins t \<noteq> [] then None else (case relation t of Derived q \<Rightarrow> Some q | _ \<Rightarrow> None)
      | _ \<Rightarrow> None)"

definition is_lone_wildcard :: "select \<Rightarrow> bool" where
  "is_lone_wildcard s = (case projection s of [item] \<Rightarrow> item = Wildcard \<or> item = QualifiedWildcard | _ \<Rightarrow> False)"

definition listed_sensitivity :: "sql_parser \<Rightarrow> mask_lib \<Rightarrow> sensitive_patterns \<Rightarrow> select \<Rightarrow> bool list option" where
  "listed_sensitivity P M patterns s =
     Option.bind (source_records M s) (\<lambda>records.
       collect_options (map (\<lambda>item. map_option (\<lambda>printed.
           expr_references_sensitive P M printed patterns \<or> references_record P M printed records)
         (projected_text item)) (projection s)))"

lemma only_derived_smaller:
  assumes "only_derived_source s = Some q"
  shows "size q < size s"
proof -
  obtain t where "select_from s = [t]" "relation t = Derived q"
    using assms by (auto simp: only_derived_source_def split: list.splits if_splits table_factor.splits)
  then show ?thesis using select_parts_smaller(3) [of t s "Derived q"] by simp
qed

function select_projection_sensitivity :: "sql_parser \<Rightarrow> mask_lib \<Rightarrow> sensitive_patterns \<Rightarrow> query \<Rightarrow> bool list option" where
  "select_projection_sensitivity P M patterns q =
     (if cte_tables q \<noteq> None then None
      else case query_body q of
        SelectBody s \<Rightarrow>
          if is_lone_wildcard s then
            (case only_derived_source s of
               None \<Rightarrow> None
             | Some subquery \<Rightarrow> select_projection_sensitivity P M patterns subquery)
          else listed_sensitivity P M patterns s
      | _ \<Rightarrow> None)"
  by pat_completeness auto
termination
proof (relation "measure (\<lambda>(_, _, _, q). size q)")
  fix P M patterns q s subquery
  assume "query_body q = SelectBody s" "only_derived_source s = Some subquery"
  then show "((P, M, patterns, subquery), (P, M, patterns, q)) \<in> measure (\<lambda>(_, _, _, q). size q)"
    using only_derived_smaller [of s subquery] by (cases q) simp
qed simp

declare select_projection_sensitivity.simps [simp del]

definition projection_from_statements ::
    "sql_parser \<Rightarrow> mask_lib \<Rightarrow> statement list \<Rightarrow> sensitive_patterns \<Rightarrow> bool list option" where
  "projection_from_statements P M statements patterns =
     (case statements of [Query q] \<Rightarrow> select_projection_sensitivity P M patterns q | _ \<Rightarrow> None)"

subsection \<open>The analysis of a text\<close>

definition is_savepoint_rollback :: "statement \<Rightarrow> bool" where
  "is_savepoint_rollback st = (case st of Rollback _ (Some _) \<Rightarrow> True | _ \<Rightarrow> False)"

definition analyze_statement_inner ::
    "sql_parser \<Rightarrow> mask_lib \<Rightarrow> string \<Rightarrow> string \<Rightarrow> sensitive_patterns option \<Rightarrow> bool \<Rightarrow> statement_analysis" where
  "analyze_statement_inner P M sql driver_id masks include_execution_plans =
     (case parsed_facts P sql driver_id of
        Inl message \<Rightarrow> failed_analysis message
      | Inr (statements, f) \<Rightarrow>
          (let (blast, known) = analyze_blast_radius statements driver_id
           in \<lparr>facts = f,
               rolls_back_to_savepoint = list_ex is_savepoint_rollback statements,
               blast_radius = (if include_execution_plans then blast else None),
               sensitive_positions =
                 (if include_execution_plans
                  then Option.bind masks (projection_from_statements P M statements) else None),
               known_statement_rows = (if include_execution_plans then known else [])\<rparr>))"

definition analyze_statement ::
    "sql_parser \<Rightarrow> mask_lib \<Rightarrow> string \<Rightarrow> string \<Rightarrow> sensitive_patterns option \<Rightarrow> statement_analysis" where
  "analyze_statement P M sql driver_id masks = analyze_statement_inner P M sql driver_id masks True"

lemma classify_is_analysis: "classify P sql driver_id = facts (analyze_statement_inner P M sql driver_id None False)"
  by (simp add: classify_def analyze_statement_inner_def failed_analysis_def split: sum.splits prod.splits)

lemma analysis_facts: "facts (analyze_statement P M sql driver_id masks) = classify P sql driver_id"
  by (simp add: analyze_statement_def classify_def analyze_statement_inner_def failed_analysis_def split: sum.splits prod.splits)

subsection \<open>Catalog notifications (\<open>catalog_effect.rs\<close>)\<close>

datatype catalog_effect = NoCatalogEffect | DdlEffect | BeginEffect | CommitEffect bool | RollbackEffect bool

definition catalog_effect_of :: "sql_parser \<Rightarrow> string \<Rightarrow> string \<Rightarrow> catalog_effect" where
  "catalog_effect_of P sql driver_id =
     (case parse_sql P (dialect_for driver_id) sql of
        Inr [st] \<Rightarrow>
          (case st of
             StartTransaction _ _ \<Rightarrow> BeginEffect
           | Commit chain \<Rightarrow> CommitEffect chain
           | Rollback chain None \<Rightarrow> RollbackEffect chain
           | _ \<Rightarrow> if contains_ddl (classify P sql driver_id) then DdlEffect else NoCatalogEffect)
      | _ \<Rightarrow> NoCatalogEffect)"

section \<open>Properties\<close>

text \<open>
  C17: Whatever the text, the facts that a statement is a write are also in its effects: a text that the guard runs
  as a write (by its class, as an unreadable text included) is a write for the policy rules (by its effects).
\<close>

theorem writes_are_effects:
  "facts_writes (facts (analyze_statement P M sql driver_id masks))
   \<Longrightarrow> eff_writes (facts_effects (facts (analyze_statement P M sql driver_id masks)))"
  unfolding analysis_facts by (rule classified_writes)

theorem writes_are_effects_witness:
  "eff_writes (facts_effects (facts (analyze_statement example_calls example_mask_lib ''D'' ''postgres'' None)))"
proof -
  have "facts_writes (facts (analyze_statement example_calls example_mask_lib ''D'' ''postgres'' None))" by code_simp
  then show ?thesis by (rule writes_are_effects)
qed

subsection \<open>Row counts\<close>

lemma known_rows_insert:
  "known_rows_of (rewrite_for_statement st driver_id) = Some rows \<Longrightarrow> \<exists>target source. st = InsertStatement target source"
  by (cases st) (auto simp: rewrite_for_statement_def known_rows_of_def Let_def)

text \<open>
  A row count is taken as known without asking the database only when every statement of the text is an
  \<open>INSERT\<close> whose rows are counted from its literal \<open>VALUES\<close>, and it is then the total of the known counts.
\<close>

lemma known_total:
  assumes "analyze_blast_radius statements driver_id = (Some (Known n), known)"
  shows "list_all (\<lambda>k. k \<noteq> None) known \<and> n = sum_list (map the known) \<and> length known = length statements
    \<and> list_all (\<lambda>st. case st of InsertStatement _ _ \<Rightarrow> True | _ \<Rightarrow> False) statements"
proof (cases "\<exists>st. statements = [st]")
  case True
  with assms show ?thesis
    using known_rows_insert by (fastforce simp: analyze_blast_radius_def known_rows_of_def Let_def split: option.splits)
next
  case False
  then have k: "known = map (\<lambda>st. known_rows_of (rewrite_for_statement st driver_id)) statements"
    and all: "list_all (\<lambda>k. k \<noteq> None) known"
    and n: "n = sum_list (map (\<lambda>k. case k of Some rows \<Rightarrow> rows | None \<Rightarrow> 0) known)"
    using assms by (auto simp: analyze_blast_radius_def Let_def split: list.splits if_splits)
  have "list_all (\<lambda>st. case st of InsertStatement _ _ \<Rightarrow> True | _ \<Rightarrow> False) statements"
    unfolding list_all_iff
  proof
    fix st assume "st \<in> set statements"
    then have "known_rows_of (rewrite_for_statement st driver_id) \<noteq> None" using all k by (auto simp: list_all_iff)
    then show "case st of InsertStatement _ _ \<Rightarrow> True | _ \<Rightarrow> False" using known_rows_insert by fastforce
  qed
  moreover have "map (\<lambda>k. case k of Some rows \<Rightarrow> rows | None \<Rightarrow> 0) known = map the known"
    using all by (auto simp: list_all_iff)
  then have "n = sum_list (map the known)" by (simp only: n)
  moreover have "length known = length statements" using k by simp
  ultimately show ?thesis using all by blast
qed

subsection \<open>Sensitive columns\<close>

lemma collect_options_some:
  "collect_options xs = Some ys \<longleftrightarrow> xs = map Some ys"
  by (induction xs arbitrary: ys) (auto split: option.splits)


text \<open>\<open>SELECT c FROM t\<close> with the pattern \<open>c\<close>.\<close>

definition example_projection :: query where
  "example_projection = MkQuery None (SelectBody (MkSelect [UnnamedExpr (Identifier ''c'') ''c''] False
     [TableWithJoins (Table ''t'' (Some ''t'') None False False) [] ''t''] None None)) 0 []"

definition example_words :: sql_parser where
  "example_words = example_calls\<lparr>unicode_alnum := (\<lambda>ch. list_all is_ascii_alphanumeric ch)\<rparr>"

lemma example_projection_marks:
  "select_projection_sensitivity example_words example_mask_lib [''c''] example_projection = Some [True]"
  by code_simp


end
