(* ===== verification/Operation_Control.thy ===== *)
theory Operation_Control
  imports Driver_Error
begin

text \<open>
  \<open>crates/core/src/operation.rs\<close>: cancellation, deadlines, and the classification of interrupted
  operations. Time is a number of milliseconds. A future is the instant at which it completes and its value,
  or \<open>None\<close> when it never does; \<open>select!\<close> takes the branch that is ready first, and among
  branches ready at the same instant the one polled first.
\<close>

section \<open>Definitions\<close>

subsection \<open>Futures\<close>

type_synonym 'a future = "(nat \<times> 'a) option"

text \<open>\<open>biased\<close> selection: the earliest branch, ties in the order of the list.\<close>

fun select_biased :: "(nat option \<times> 'b) list \<Rightarrow> (nat \<times> 'b) option" where
  "select_biased [] = None"
| "select_biased ((None, x) # rest) = select_biased rest"
| "select_biased ((Some t, x) # rest) =
     (case select_biased rest of
        None \<Rightarrow> Some (t, x)
      | Some (u, y) \<Rightarrow> if t \<le> u then Some (t, x) else Some (u, y))"

text \<open>When a branch is ready that completes at \<open>t\<close>, polled from \<open>now\<close> on.\<close>

definition ready_at :: "nat \<Rightarrow> nat option \<Rightarrow> nat option" where
  "ready_at now t = map_option (max now) t"

subsection \<open>Controls\<close>

record operation_control =
  cancelled_at :: "nat option"
  deadline :: "nat option"

definition is_cancelled :: "operation_control \<Rightarrow> nat \<Rightarrow> bool" where
  "is_cancelled c now = (case cancelled_at c of None \<Rightarrow> False | Some t \<Rightarrow> t \<le> now)"

definition CONTROL_SETUP_TIMEOUT :: nat where "CONTROL_SETUP_TIMEOUT = 2000"
definition CANCELLATION_DISPATCH_TIMEOUT :: nat where "CANCELLATION_DISPATCH_TIMEOUT = 2000"
definition CANCELLATION_GRACE :: nat where "CANCELLATION_GRACE = 5000"

definition with_timeout :: "nat \<Rightarrow> nat \<Rightarrow> operation_control" where
  "with_timeout now timeout = \<lparr>cancelled_at = None, deadline = Some (now + timeout)\<rparr>"

datatype interruption = InterruptCancelled | InterruptTimedOut

fun into_error :: "interruption \<Rightarrow> driver_error" where
  "into_error InterruptCancelled = Cancelled"
| "into_error InterruptTimedOut = TimedOut"

definition check_pre_dispatch :: "operation_control \<Rightarrow> nat \<Rightarrow> driver_error + unit" where
  "check_pre_dispatch c now =
     (if is_cancelled c now then Inl Cancelled
      else if (case deadline c of None \<Rightarrow> False | Some d \<Rightarrow> d \<le> now) then Inl TimedOut
      else Inr ())"

subsection \<open>Running under a control\<close>

definition run_controlled_setup :: "'a future \<Rightarrow> operation_control \<Rightarrow> nat \<Rightarrow> (driver_error + 'a) future" where
  "run_controlled_setup operation c now =
     (case check_pre_dispatch c now of
        Inl e \<Rightarrow> Some (now, Inl e)
      | Inr _ \<Rightarrow>
          (let ceiling = now + CONTROL_SETUP_TIMEOUT;
               setup_deadline = (case deadline c of None \<Rightarrow> ceiling | Some d \<Rightarrow> min d ceiling)
           in select_biased
                ([(ready_at now (cancelled_at c), Inl Cancelled), (Some setup_deadline, Inl TimedOut)]
                 @ (case operation of None \<Rightarrow> [] | Some (t, x) \<Rightarrow> [(ready_at now (Some t), Inr x)]))))"

definition unknown_outcome :: "driver_error \<Rightarrow> driver_error" where
  "unknown_outcome e = OperationOutcomeUnknown e"

definition classify_interrupted ::
    "driver_error + 'a \<Rightarrow> interruption \<Rightarrow> (driver_error \<Rightarrow> bool) \<Rightarrow> driver_error + 'a" where
  "classify_interrupted result i confirms =
     (case result of
        Inr _ \<Rightarrow> Inl (unknown_outcome (into_error i))
      | Inl e \<Rightarrow> if confirms e then Inl (into_error i) else Inl (unknown_outcome e))"

text \<open>\<open>tokio::time::timeout\<close> started at \<open>from\<close>: the value if it comes within the limit, else \<open>None\<close>.\<close>

definition timeout_future :: "nat \<Rightarrow> nat \<Rightarrow> 'a future \<Rightarrow> nat \<times> 'a option" where
  "timeout_future start limit f =
     (case f of
        None \<Rightarrow> (start + limit, None)
      | Some (t, x) \<Rightarrow> if max start t \<le> start + limit then (max start t, Some x) else (start + limit, None))"

text \<open>
  The part of \<open>run_server_cancellable\<close> after the interruption at \<open>t0\<close>. The second \<open>select!\<close> is
  not biased: \<open>operation_first\<close> says which branch it happens to poll first.
\<close>

definition after_interruption ::
    "bool \<Rightarrow> (driver_error + 'a) future \<Rightarrow> (driver_error + unit) future \<Rightarrow> (driver_error \<Rightarrow> bool) \<Rightarrow> interruption \<Rightarrow> nat
     \<Rightarrow> nat \<times> (driver_error + 'a)" where
  "after_interruption operation_first operation cancellation confirms i t0 =
     (let (dispatch_at, dispatch_result) = timeout_future t0 CANCELLATION_DISPATCH_TIMEOUT cancellation;
          operation_wins = (case ready_at t0 (map_option fst operation) of
                              None \<Rightarrow> False
                            | Some t \<Rightarrow> if operation_first then t \<le> dispatch_at else t < dispatch_at)
      in case operation of
           Some (t, result) \<Rightarrow>
             if operation_wins then
               (if dispatch_result = None then (dispatch_at, Inl (unknown_outcome (into_error i)))
                else (dispatch_at, classify_interrupted result i confirms))
             else if dispatch_result = None then (dispatch_at, Inl (unknown_outcome (into_error i)))
             else (case timeout_future dispatch_at CANCELLATION_GRACE operation of
                     (u, Some result) \<Rightarrow> (u, classify_interrupted result i confirms)
                   | (u, None) \<Rightarrow> (u, Inl (unknown_outcome (into_error i))))
         | None \<Rightarrow>
             if dispatch_result = None then (dispatch_at, Inl (unknown_outcome (into_error i)))
             else (dispatch_at + CANCELLATION_GRACE, Inl (unknown_outcome (into_error i))))"

definition run_server_cancellable ::
    "bool \<Rightarrow> (driver_error + 'a) future \<Rightarrow> (nat \<Rightarrow> (driver_error + unit) future) \<Rightarrow> (driver_error \<Rightarrow> bool)
     \<Rightarrow> operation_control \<Rightarrow> nat \<Rightarrow> (driver_error + 'a) future" where
  "run_server_cancellable operation_first operation cancellation confirms c now =
     (case check_pre_dispatch c now of
        Inl e \<Rightarrow> Some (now, Inl e)
      | Inr _ \<Rightarrow>
          (case select_biased
                  [(ready_at now (map_option fst operation), None),
                   (ready_at now (cancelled_at c), Some InterruptCancelled),
                   (ready_at now (deadline c), Some InterruptTimedOut)] of
             None \<Rightarrow> None
           | Some (t, None) \<Rightarrow> map_option (\<lambda>(_, r). (t, r)) operation
           | Some (t, Some i) \<Rightarrow>
               Some (after_interruption operation_first operation (cancellation t) confirms i t)))"

definition run_controlled :: "(driver_error + 'a) future \<Rightarrow> operation_control \<Rightarrow> nat \<Rightarrow> (driver_error + 'a) future" where
  "run_controlled operation c now =
     (if is_cancelled c now then Some (now, Inl Cancelled)
      else if (case deadline c of None \<Rightarrow> False | Some d \<Rightarrow> d \<le> now) then Some (now, Inl TimedOut)
      else
        select_biased
          ([(ready_at now (cancelled_at c), Inl (unknown_outcome Cancelled))]
           @ (case deadline c of None \<Rightarrow> [] | Some d \<Rightarrow> [(Some d, Inl (unknown_outcome TimedOut))])
           @ (case operation of None \<Rightarrow> [] | Some (t, r) \<Rightarrow> [(ready_at now (Some t), r)])))"

section \<open>Properties\<close>

lemma select_biased_None: "select_biased xs = None \<longleftrightarrow> (\<forall>p \<in> set xs. fst p = None)"
  by (induction xs rule: select_biased.induct) (auto split: option.splits)

lemma select_biased_Some:
  "select_biased xs = Some (t, x) \<Longrightarrow>
   (Some t, x) \<in> set xs \<and> (\<forall>u y. (Some u, y) \<in> set xs \<longrightarrow> t \<le> u)"
proof (induction xs arbitrary: t x rule: select_biased.induct)
  case (3 u y rest)
  show ?case
  proof (cases "select_biased rest")
    case None
    then have "\<forall>p \<in> set rest. fst p = None" by (simp add: select_biased_None)
    with None 3(2) show ?thesis by fastforce
  next
    case (Some p)
    obtain v z where p: "p = (v, z)" by fastforce
    have "(Some v, z) \<in> set rest \<and> (\<forall>u y. (Some u, y) \<in> set rest \<longrightarrow> v \<le> u)"
      using 3(1) Some p by blast
    with Some p 3(2) show ?thesis
      by (cases "u \<le> v") (auto intro: order_trans)
  qed
qed auto

lemma after_interruption_poll_order:
  "after_interruption True operation cancellation confirms i t0 = after_interruption False operation cancellation confirms i t0"
proof (cases operation)
  case None
  then show ?thesis by (simp add: after_interruption_def ready_at_def)
next
  case (Some p)
  obtain t r where p: "p = (t, r)" by fastforce
  obtain d res where d: "timeout_future t0 CANCELLATION_DISPATCH_TIMEOUT cancellation = (d, res)" by fastforce
  have "max t0 t = d \<Longrightarrow> timeout_future d CANCELLATION_GRACE operation = (d, Some r)"
    using Some p by (auto simp: timeout_future_def CANCELLATION_GRACE_def)
  then show ?thesis
    using Some p d by (auto simp: after_interruption_def ready_at_def)
qed

lemma timeout_future_bound: "timeout_future s l f = (t, r) \<Longrightarrow> s \<le> t \<and> t \<le> s + l"
  by (auto simp: timeout_future_def split: option.splits if_splits)

lemma timeout_future_value: "timeout_future s l f = (t, Some x) \<Longrightarrow> \<exists>u. f = Some (u, x)"
  by (auto simp: timeout_future_def split: option.splits if_splits)

lemma after_interruption_bound:
  "fst (after_interruption b operation cancellation confirms i t0) \<le> t0 + CANCELLATION_DISPATCH_TIMEOUT + CANCELLATION_GRACE"
  by (auto simp: after_interruption_def split: prod.splits option.splits if_splits dest!: timeout_future_bound)

lemma after_interruption_result:
  "(\<exists>e. snd (after_interruption b operation cancellation confirms i t0) = Inl (unknown_outcome e))
   \<or> (\<exists>u e. operation = Some (u, Inl e) \<and> confirms e
        \<and> snd (after_interruption b operation cancellation confirms i t0) = Inl (into_error i))"
  by (auto simp: after_interruption_def classify_interrupted_def split: prod.splits option.splits if_splits sum.splits
      dest!: timeout_future_value)

text \<open>
  C29: The outcome reported for an interruptible operation is honest. The result is one of: the interruption
  error itself, before anything was sent; the operation's own result, when it finished no later than any
  interruption; an unknown outcome; or the plain interruption error, and then the operation ended with an error
  that the driver recognises as the server's confirmation that it stopped. In particular success is only
  ever reported when the operation succeeded, and a write that was interrupted is never reported as merely cancelled
  on the strength of the request alone.
\<close>

theorem server_cancellable_honest:
  assumes "run_server_cancellable b operation cancellation confirms c now = Some (t, r)"
  shows "(\<exists>e. check_pre_dispatch c now = Inl e \<and> r = Inl e \<and> t = now)
    \<or> (\<exists>u. operation = Some (u, r) \<and> t = max now u
         \<and> (\<forall>x. cancelled_at c = Some x \<or> deadline c = Some x \<longrightarrow> t \<le> max now x))
    \<or> (\<exists>e. r = Inl (unknown_outcome e))
    \<or> (\<exists>i u e. r = Inl (into_error i) \<and> operation = Some (u, Inl e) \<and> confirms e)"
proof (cases "check_pre_dispatch c now")
  case (Inl e)
  then show ?thesis using assms by (simp add: run_server_cancellable_def)
next
  case (Inr _)
  let ?arms = "[(ready_at now (map_option fst operation), None),
      (ready_at now (cancelled_at c), Some InterruptCancelled), (ready_at now (deadline c), Some InterruptTimedOut)]"
  obtain t0 w where w: "select_biased ?arms = Some (t0, w)"
    using assms Inr by (auto simp: run_server_cancellable_def split: option.splits)
  show ?thesis
  proof (cases w)
    case None
    with w assms Inr have r: "map_option (\<lambda>(_, r). (t0, r)) operation = Some (t, r)"
      by (simp add: run_server_cancellable_def)
    have "(Some t0, w) \<in> set ?arms" and least: "\<forall>u y. (Some u, y) \<in> set ?arms \<longrightarrow> t0 \<le> u"
      using select_biased_Some [OF w] by blast+
    then have "ready_at now (map_option fst operation) = Some t0" using None by auto
    moreover have "t \<le> max now x" if "cancelled_at c = Some x \<or> deadline c = Some x" for x
      using least that r by (auto simp: ready_at_def)
    ultimately show ?thesis
      using r by (auto simp: ready_at_def)
  next
    case (Some i)
    then show ?thesis
      using assms Inr w after_interruption_result [of b operation "cancellation t0" confirms i t0]
      by (auto simp: run_server_cancellable_def)
  qed
qed

text \<open>
  C30: An interrupted operation always returns. When the control is cancelled or its deadline passes at \<open>x\<close>, the
  call returns at most \<open>CANCELLATION_DISPATCH_TIMEOUT\<close> plus \<open>CANCELLATION_GRACE\<close> after \<open>x\<close> (or after the
  start, if that is later), even if neither the operation nor the cancellation request ever completes, and
  the result does not depend on which of two simultaneous branches is polled first.
\<close>

theorem server_cancellable_returns:
  assumes "cancelled_at c = Some x \<or> deadline c = Some x"
  shows "\<exists>t r. run_server_cancellable b operation cancellation confirms c now = Some (t, r)
     \<and> t \<le> max now x + CANCELLATION_DISPATCH_TIMEOUT + CANCELLATION_GRACE
     \<and> run_server_cancellable (\<not> b) operation cancellation confirms c now = Some (t, r)"
proof (cases "check_pre_dispatch c now")
  case (Inl e)
  then show ?thesis by (auto simp: run_server_cancellable_def)
next
  case (Inr _)
  let ?arms = "[(ready_at now (map_option fst operation), None),
      (ready_at now (cancelled_at c), Some InterruptCancelled), (ready_at now (deadline c), Some InterruptTimedOut)]"
  have ready: "\<exists>y. (Some (max now x), y) \<in> set ?arms"
    using assms by (auto simp: ready_at_def)
  then have "select_biased ?arms \<noteq> None"
    unfolding select_biased_None by force
  then obtain t0 w where w: "select_biased ?arms = Some (t0, w)" by auto
  then have t0: "t0 \<le> max now x" and mem: "(Some t0, w) \<in> set ?arms"
    using ready select_biased_Some [OF w] by blast+
  have order: "after_interruption (\<not> b) operation k confirms i t0 = after_interruption b operation k confirms i t0" for i k
    using after_interruption_poll_order [of operation k confirms i t0] by (cases b) simp_all
  show ?thesis
  proof (cases w)
    case None
    then obtain u r where "operation = Some (u, r)" using mem by (cases operation) (auto simp: ready_at_def)
    then show ?thesis using None Inr w t0 by (simp add: run_server_cancellable_def)
  next
    case (Some i)
    then show ?thesis
      using Inr w t0 order after_interruption_bound [of b operation "cancellation t0" confirms i t0]
      by (cases "after_interruption b operation (cancellation t0) confirms i t0")
        (auto simp: run_server_cancellable_def)
  qed
qed

theorem server_cancellable_honest_witness:
  "run_server_cancellable True (Some (20, Inl (query_error ''canceling statement''))) (\<lambda>_. Some (12, Inr ()))
     (\<lambda>e. e = query_error ''canceling statement'') \<lparr>cancelled_at = Some 10, deadline = None\<rparr> 0
   = Some (20, Inl Cancelled :: driver_error + nat)"
  (is "?run = Some (20, Inl Cancelled)")
proof -
  have run: "?run = Some (20, Inl Cancelled)"
    by (simp add: run_server_cancellable_def check_pre_dispatch_def is_cancelled_def ready_at_def
        after_interruption_def timeout_future_def CANCELLATION_DISPATCH_TIMEOUT_def CANCELLATION_GRACE_def
        classify_interrupted_def)
  from server_cancellable_honest [OF run] run show ?thesis by blast
qed

theorem server_cancellable_returns_witness:
  "\<exists>t r. run_server_cancellable True None (\<lambda>_. None) (\<lambda>_. False) \<lparr>cancelled_at = Some 10, deadline = None\<rparr> 0
      = Some (t, r :: driver_error + nat) \<and> t \<le> 7010"
  using server_cancellable_returns [of "\<lparr>cancelled_at = Some 10, deadline = None\<rparr>" 10 True None "\<lambda>_. None" "\<lambda>_. False" 0]
  by (auto simp: CANCELLATION_DISPATCH_TIMEOUT_def CANCELLATION_GRACE_def)

end
