(* ===== verification/Guard_World.thy ===== *)
theory Guard_World
  imports Rules Audit_Log Statement_Analysis Operation_Control
begin

text \<open>
  What the policy guard acts on: its context (\<open>GuardContext\<close> and \<open>PolicyGuard\<close> of
  \<open>crates/policy/src/guard.rs\<close>), the parties it calls (the audit sink, the approval sink and the inner
  connection, the traits of \<open>audit.rs\<close>, \<open>approval.rs\<close> and \<open>crates/core/src/connection.rs\<close>,
  \<open>transaction.rs\<close> and \<open>session.rs\<close>), and the world that records the calls.

  The parties are parameters. Each is a function from the trace of everything that happened so far to its
  reply, so a party may behave in any way, depend on the past, fail, panic, or leave the guard waiting until
  its future is dropped. While the guard waits, other tasks of the process may lock the connection or the
  journal down.
\<close>

section \<open>Calls and events\<close>

datatype catalog_object_kind = Routine | Trigger | SequenceKind | Extension | Role | TypeKind | Grant

fun kind_as_str :: "catalog_object_kind \<Rightarrow> string" where
  "kind_as_str Routine = ''routine''"
| "kind_as_str Trigger = ''trigger''"
| "kind_as_str SequenceKind = ''sequence''"
| "kind_as_str Extension = ''extension''"
| "kind_as_str Role = ''role''"
| "kind_as_str TypeKind = ''type''"
| "kind_as_str Grant = ''grant''"

definition is_schema_scoped :: "catalog_object_kind \<Rightarrow> bool" where
  "is_schema_scoped k \<longleftrightarrow> k \<notin> {Extension, Role}"

record catalog_object =
  co_kind :: catalog_object_kind
  co_schema :: "string option"
  co_name :: string
  co_detail :: "string option"

record approval_request =
  ar_principal :: principal
  ar_environment :: environment
  ar_connection_id :: uuid
  ar_connection_name :: string
  ar_sql :: string
  ar_facts :: statement_facts
  ar_rule :: string
  ar_reason :: string
  ar_preview :: "string option"
  ar_estimated_rows :: "nat option"

datatype approval_outcome = AllowOnce | DenyRequest

text \<open>
  A call of the inner connection, of one of its transactions or of one of its sessions (both by handle). The
  optional parameters and the optional control tell the variants of a method apart, e.g. \<open>query\<close>,
  \<open>query_params\<close>, \<open>query_controlled\<close> and \<open>query_params_controlled\<close>.
\<close>

type_synonym params = "cell list option"
type_synonym ctl = "operation_control option"

text \<open>
  The texts with which a session controls its transaction go to the same method of the driver's session as its
  queries; here they are calls of their own, with the control they are recognised as.
\<close>

datatype session_control = ControlBegin | ControlCommit | ControlRollback

datatype driver_call =
    CallListDatabases ctl
  | CallListTables ctl
  | CallListViews ctl
  | CallListObjects catalog_object_kind "string option" ctl
  | CallFetchColumns "string option" string ctl
  | CallFetchRows "string option" string nat nat ctl
  | CallFetchIndexes "string option" string ctl
  | CallFetchForeignKeys "string option" string ctl
  | CallFetchInboundForeignKeys "string option" string ctl
  | CallFetchEnumLabels string string ctl
  | CallServerVersion
  | CallPing
  | CallLexicalSettings operation_control
  | CallOpenSession
  | CallBegin ctl
  | CallQuery string params ctl
  | CallResultSets string "cell list" operation_control
  | CallExecute string params ctl
  | CallExecuteInTransaction "(string \<times> cell list) list" "nat list option" ctl
  | CallTxQuery nat string params ctl
  | CallTxExecute nat string params ctl
  | CallTxCommit nat
  | CallTxRollback nat ctl
  | CallSessionQuery nat string "cell list" operation_control
  | CallSessionResultSets nat string "cell list" operation_control
  | CallSessionControl nat session_control string operation_control
  | CallOpenCursor nat string "cell list" operation_control
  | CallFetchCursor nat nat operation_control
  | CallCloseCursor nat nat operation_control
  | CallSessionLexicalSettings nat operation_control
  | CallCompletionColumns nat "string option" string operation_control
  | CallSessionClose nat

text \<open>\<open>batch_text\<close>: the statements of a batch as one script.\<close>

definition batch_text :: "(string \<times> cell list) list \<Rightarrow> string" where
  "batch_text statements =
     join [CHR 0x0A, CHR '';'', CHR 0x0A] (map (\<lambda>(sql, _). trim_end_matches (CHR '';'') (trim sql)) statements)"

text \<open>Which of the guard's two boundaries a call goes through: \<open>caught_read\<close> or \<open>caught_write\<close>.\<close>

datatype boundary = ReadBoundary | WriteBoundary

text \<open>
  The events of a trace. A dispatch carries the identifier of the audited operation on whose behalf it is
  made, if there is one. An audit record carries the sink's answer.
\<close>

datatype event =
    Recorded audit_event "audit_error option"
  | RecordAbandoned audit_event
  | ApprovalAsked approval_request
  | ApprovalAnswered approval_request approval_outcome
  | TokenCancelled
  | Dispatched boundary "uuid option" driver_call
  | FaultReported string

type_synonym trace = "event list"

section \<open>The parties\<close>

text \<open>A reply after some milliseconds, a panic, or the caller's future dropped while it waited.\<close>

datatype 'a reply = Answer nat 'a | Panicked nat | Abandoned nat

type_synonym 'a driver_reply = "(driver_error + 'a) reply"

record driver =
  drv_supports_server_cancellation :: "trace \<Rightarrow> bool option"
  drv_list_databases :: "trace \<Rightarrow> ctl \<Rightarrow> string list driver_reply"
  drv_list_tables :: "trace \<Rightarrow> ctl \<Rightarrow> table_info list driver_reply"
  drv_list_views :: "trace \<Rightarrow> ctl \<Rightarrow> table_info list driver_reply"
  drv_list_objects :: "trace \<Rightarrow> catalog_object_kind \<Rightarrow> string option \<Rightarrow> ctl \<Rightarrow> catalog_object list driver_reply"
  drv_fetch_columns :: "trace \<Rightarrow> string option \<Rightarrow> string \<Rightarrow> ctl \<Rightarrow> column_info list driver_reply"
  drv_fetch_rows :: "trace \<Rightarrow> string option \<Rightarrow> string \<Rightarrow> nat \<Rightarrow> nat \<Rightarrow> ctl \<Rightarrow> query_result driver_reply"
  drv_fetch_indexes :: "trace \<Rightarrow> string option \<Rightarrow> string \<Rightarrow> ctl \<Rightarrow> index_info list driver_reply"
  drv_fetch_foreign_keys :: "trace \<Rightarrow> string option \<Rightarrow> string \<Rightarrow> ctl \<Rightarrow> foreign_key_info list driver_reply"
  drv_fetch_inbound_foreign_keys ::
    "trace \<Rightarrow> string option \<Rightarrow> string \<Rightarrow> ctl \<Rightarrow> inbound_foreign_key_info list driver_reply"
  drv_fetch_enum_labels :: "trace \<Rightarrow> string \<Rightarrow> string \<Rightarrow> ctl \<Rightarrow> string list driver_reply"
  drv_server_version :: "trace \<Rightarrow> string option driver_reply"
  drv_ping :: "trace \<Rightarrow> unit driver_reply"
  drv_lexical_settings :: "trace \<Rightarrow> operation_control \<Rightarrow> nat option driver_reply"
  drv_open_session :: "trace \<Rightarrow> nat driver_reply"
  drv_begin :: "trace \<Rightarrow> ctl \<Rightarrow> nat driver_reply"
  drv_query :: "trace \<Rightarrow> string \<Rightarrow> params \<Rightarrow> ctl \<Rightarrow> query_result driver_reply"
  drv_query_result_sets :: "trace \<Rightarrow> string \<Rightarrow> cell list \<Rightarrow> operation_control \<Rightarrow> query_result_batch driver_reply"
  drv_execute :: "trace \<Rightarrow> string \<Rightarrow> params \<Rightarrow> ctl \<Rightarrow> exec_result driver_reply"
  drv_execute_in_transaction ::
    "trace \<Rightarrow> (string \<times> cell list) list \<Rightarrow> nat list option \<Rightarrow> ctl \<Rightarrow> nat list driver_reply"
  drv_tx_query :: "trace \<Rightarrow> nat \<Rightarrow> string \<Rightarrow> params \<Rightarrow> ctl \<Rightarrow> query_result driver_reply"
  drv_tx_execute :: "trace \<Rightarrow> nat \<Rightarrow> string \<Rightarrow> params \<Rightarrow> ctl \<Rightarrow> exec_result driver_reply"
  drv_tx_commit :: "trace \<Rightarrow> nat \<Rightarrow> unit driver_reply"
  drv_tx_rollback :: "trace \<Rightarrow> nat \<Rightarrow> ctl \<Rightarrow> unit driver_reply"
  drv_session_query :: "trace \<Rightarrow> nat \<Rightarrow> string \<Rightarrow> cell list \<Rightarrow> operation_control \<Rightarrow> query_result driver_reply"
  drv_session_result_sets ::
    "trace \<Rightarrow> nat \<Rightarrow> string \<Rightarrow> cell list \<Rightarrow> operation_control \<Rightarrow> query_result_batch driver_reply"
  drv_session_open_cursor :: "trace \<Rightarrow> nat \<Rightarrow> string \<Rightarrow> cell list \<Rightarrow> operation_control \<Rightarrow> nat driver_reply"
  drv_session_fetch_cursor :: "trace \<Rightarrow> nat \<Rightarrow> nat \<Rightarrow> operation_control \<Rightarrow> query_cursor_page driver_reply"
  drv_session_close_cursor :: "trace \<Rightarrow> nat \<Rightarrow> nat \<Rightarrow> operation_control \<Rightarrow> unit driver_reply"
  drv_session_lexical_settings :: "trace \<Rightarrow> nat \<Rightarrow> operation_control \<Rightarrow> nat option driver_reply"
  drv_session_completion_columns ::
    "trace \<Rightarrow> nat \<Rightarrow> string option \<Rightarrow> string \<Rightarrow> operation_control \<Rightarrow> string list driver_reply"
  drv_session_usable :: "trace \<Rightarrow> nat \<Rightarrow> bool option"
  drv_session_close :: "trace \<Rightarrow> nat \<Rightarrow> unit driver_reply"

text \<open>
  A guard: its context, its parties, and the library code it calls.
\<close>

record guard =
  ctx_connection_id :: uuid
  ctx_connection_name :: string
  ctx_driver_id :: string
  ctx_environment :: environment
  ctx_read_only :: bool
  ctx_principal :: principal
  ctx_policy :: policy_config
  guard_masks :: "sensitive_patterns option"
  has_fault_sink :: bool
  parser :: sql_parser
  mask_library :: mask_lib
  sha256_hex :: "string \<Rightarrow> string"
  uuid_to_string :: "uuid \<Rightarrow> string"
  audit_sink :: "trace \<Rightarrow> audit_event \<Rightarrow> (audit_error + unit) reply"
  approval_sink :: "trace \<Rightarrow> approval_request \<Rightarrow> approval_outcome reply"
  inner :: driver
  other_tasks :: "trace \<Rightarrow> bool \<times> bool"

section \<open>The world\<close>

text \<open>
  \<open>PolicySession\<close> of \<open>crates/policy/src/guard/session.rs\<close>, without the guard it belongs to: the driver's session
  by handle, the open transaction, the active cursor, whether the session is retired, and the further result sets
  of the statement that runs.
\<close>

record cursor_audit =
  ca_operation_id :: uuid
  ca_batch_id :: uuid
  ca_sql :: string
  ca_targets :: "string list"
  ca_decision_rule :: string
  ca_approval :: approval_status
  ca_preview :: preview_state
  ca_analysis :: statement_analysis

record active_cursor =
  ac_id :: nat
  ac_audit :: cursor_audit
  ac_complete :: bool

record open_batch =
  ob_id :: uuid
  ob_read_only :: bool
  ob_wrote :: bool
  ob_uncertain :: bool
  ob_aborted :: bool

record policy_session =
  ss_inner :: nat
  ss_batch :: "open_batch option"
  ss_cursor :: "active_cursor option"
  ss_retired :: bool
  ss_collect :: bool
  ss_sets :: "query_result list"

text \<open>
  The state behind the guard: the time, the next identifier, what happened so far, the two lockdown flags and the
  guarded sessions. Each session has an identity of its own, whatever handle the driver gave it.
\<close>

record world =
  now :: nat
  next_id :: uuid
  trace :: trace
  globally_disabled :: bool
  connection_uncertain :: bool
  sessions :: "uuid \<Rightarrow> policy_session"

type_synonym ('a, 'e) run = "('a, 'e, world) gm"

definition writes_disabled :: "world \<Rightarrow> bool" where
  "writes_disabled w \<longleftrightarrow> globally_disabled w \<or> connection_uncertain w"

definition emit :: "event \<Rightarrow> world \<Rightarrow> world" where
  "emit e w = w\<lparr>trace := trace w @ [e]\<rparr>"

definition lock_connection :: "world \<Rightarrow> world" where
  "lock_connection w = w\<lparr>connection_uncertain := True\<rparr>"

definition lock_globally :: "world \<Rightarrow> world" where
  "lock_globally w = w\<lparr>globally_disabled := True\<rparr>"

text \<open>The guard waits: time passes, and other tasks may lock down.\<close>

definition suspend :: "guard \<Rightarrow> nat \<Rightarrow> world \<Rightarrow> world" where
  "suspend g elapsed w =
     w\<lparr>now := now w + elapsed,
       globally_disabled := globally_disabled w \<or> fst (other_tasks g (trace w)),
       connection_uncertain := connection_uncertain w \<or> snd (other_tasks g (trace w))\<rparr>"

text \<open>\<open>Uuid::new_v4\<close>.\<close>

definition fresh_id :: "(uuid, 'e) run" where
  "fresh_id w = (Ok (next_id w), w\<lparr>next_id := next_id w + 1\<rparr>)"

definition update_session :: "uuid \<Rightarrow> (policy_session \<Rightarrow> policy_session) \<Rightarrow> (unit, 'e) run" where
  "update_session s f = gmodify (\<lambda>w. w\<lparr>sessions := (sessions w)(s := f (sessions w s))\<rparr>)"

text \<open>\<open>AuditSink::record\<close>.\<close>

definition sink_record :: "guard \<Rightarrow> audit_event \<Rightarrow> (unit, audit_error) run" where
  "sink_record g ev w =
     (case audit_sink g (trace w) ev of
        Answer t (Inr _) \<Rightarrow> (Ok (), emit (Recorded ev None) (suspend g t w))
      | Answer t (Inl e) \<Rightarrow> (Err e, emit (Recorded ev (Some e)) (suspend g t w))
      | Panicked t \<Rightarrow> (Gone, emit (RecordAbandoned ev) (suspend g t w))
      | Abandoned t \<Rightarrow> (Gone, emit (RecordAbandoned ev) (suspend g t w)))"

text \<open>A call of the driver, and how it fails.\<close>

datatype driver_failure = DriverFailed driver_error | DriverPanicked

definition dispatch ::
    "guard \<Rightarrow> boundary \<Rightarrow> uuid option \<Rightarrow> driver_call \<Rightarrow> (trace \<Rightarrow> 'a driver_reply) \<Rightarrow> ('a, driver_failure) run" where
  "dispatch g b opid call f w =
     (let w1 = emit (Dispatched b opid call) w in
      case f (trace w) of
        Answer t (Inr x) \<Rightarrow> (Ok x, suspend g t w1)
      | Answer t (Inl e) \<Rightarrow> (Err (DriverFailed e), suspend g t w1)
      | Panicked t \<Rightarrow> (Err DriverPanicked, suspend g t w1)
      | Abandoned t \<Rightarrow> (Gone, suspend g t w1))"

text \<open>
  A block that holds an armed \<open>PendingWrite\<close>, disarmed by its last statement: leaving it early, by an error
  or because the future is dropped, runs the destructor, which locks the connection.
\<close>

definition armed_scope :: "('a, 'e) run \<Rightarrow> ('a, 'e) run" where
  "armed_scope m w =
     (case m w of
        (Ok x, w') \<Rightarrow> (Ok x, w')
      | (Err e, w') \<Rightarrow> (Err e, lock_connection w')
      | (Gone, w') \<Rightarrow> (Gone, lock_connection w'))"

end
