(* ===== verification/Guard_Core.thy ===== *)
theory Guard_Core
  imports Guard_World
begin

text \<open>
  \<open>crates/policy/src/guard.rs\<close>: authorization, blast-radius estimates, audit records, the handling of
  audit failures and the masking of results; and \<open>crates/policy/src/guard/panic_boundary.rs\<close>: the
  boundaries through which the driver is called.
\<close>

section \<open>Operations and their records\<close>

record audit_operation =
  op_id :: uuid
  op_batch :: "uuid option"
  op_sql :: string
  op_class :: audit_class
  op_targets :: "string list"
  op_rule :: string
  op_approval :: approval_status
  op_preview :: preview_state

record audit_outcome =
  out_status :: terminal_status
  out_tx :: tx_outcome
  out_rows :: "nat option"
  out_category :: "error_category option"
  out_duration :: nat

record authorization =
  auth_decision :: decision
  auth_analysis :: statement_analysis
  auth_approval :: approval_status
  auth_preview :: preview_state

datatype transaction_audit_mode = AtomicBatch | Interactive

text \<open>\<open>Counter\<close>: on what the rows of a mutation are counted.\<close>

datatype counter = CountOnConnection | CountInTransaction nat | CountInSession nat

definition BLAST_RADIUS_TIMEOUT :: nat where "BLAST_RADIUS_TIMEOUT = 30000"

definition effective_policy :: "guard \<Rightarrow> env_policy" where
  "effective_policy g = for_connection (ctx_policy g) (uuid_to_string g (ctx_connection_id g)) (ctx_environment g)"

text \<open>\<open>PolicyGuard::new\<close> and \<open>with_fault_sink\<close>.\<close>

definition policy_guard_new :: "guard \<Rightarrow> guard" where
  "policy_guard_new g =
     (let masks_results = is_agent (ctx_principal g) \<and> mask_agent_results (effective_policy g)
      in g\<lparr>guard_masks := (if masks_results
                           then Some (patterns_new (mask_library g) (effective_mask_patterns (ctx_policy g)))
                           else None),
           has_fault_sink := False\<rparr>)"

definition with_fault_sink :: "guard \<Rightarrow> guard" where
  "with_fault_sink g = g\<lparr>has_fault_sink := True\<rparr>"

definition should_mask :: "guard \<Rightarrow> bool" where
  "should_mask g \<longleftrightarrow> guard_masks g \<noteq> None"

definition guard_analyze :: "guard \<Rightarrow> string \<Rightarrow> statement_analysis" where
  "guard_analyze g sql = analyze_statement (parser g) (mask_library g) sql (ctx_driver_id g) (guard_masks g)"

definition operation ::
    "guard \<Rightarrow> string \<Rightarrow> uuid option \<Rightarrow> statement_facts \<Rightarrow> decision \<Rightarrow> approval_status \<Rightarrow> preview_state
     \<Rightarrow> (audit_operation, 'e) run" where
  "operation g sql batch_id f d approval pstate =
     gbind fresh_id (\<lambda>i. gret \<lparr>op_id = i, op_batch = batch_id, op_sql = sql,
       op_class = from_statement (facts_class f) (facts_writes f), op_targets = tables f,
       op_rule = rule_name d, op_approval = approval, op_preview = pstate\<rparr>)"

definition metadata_operation :: "string \<Rightarrow> string list \<Rightarrow> (audit_operation, 'e) run" where
  "metadata_operation name targets =
     gbind fresh_id (\<lambda>i. gret \<lparr>op_id = i, op_batch = None, op_sql = name, op_class = ClassRead,
       op_targets = targets, op_rule = ''metadata_read'', op_approval = ApprovalNotRequired,
       op_preview = NotRequested\<rparr>)"

definition table_metadata_operation :: "string \<Rightarrow> string option \<Rightarrow> string \<Rightarrow> (audit_operation, 'e) run" where
  "table_metadata_operation name schema table =
     metadata_operation name [case schema of None \<Rightarrow> table | Some s \<Rightarrow> s @ ''.'' @ table]"

definition catalog_target :: "catalog_object_kind \<Rightarrow> string option \<Rightarrow> string list" where
  "catalog_target kind schema =
     (case schema of
        Some s \<Rightarrow> if is_schema_scoped kind then [kind_as_str kind @ '':'' @ s] else [kind_as_str kind]
      | None \<Rightarrow> [kind_as_str kind])"

definition commit_operation :: "uuid \<Rightarrow> (audit_operation, 'e) run" where
  "commit_operation batch_id =
     gbind fresh_id (\<lambda>i. gret \<lparr>op_id = i, op_batch = Some batch_id, op_sql = ''COMMIT'', op_class = ClassCommit,
       op_targets = [], op_rule = ''transaction_commit'', op_approval = ApprovalNotRequired,
       op_preview = NotRequested\<rparr>)"

definition audit_record ::
    "guard \<Rightarrow> audit_operation \<Rightarrow> audit_phase \<Rightarrow> terminal_status \<Rightarrow> tx_outcome \<Rightarrow> nat option \<Rightarrow> error_category option
     \<Rightarrow> nat option \<Rightarrow> (unit, audit_error) run" where
  "audit_record g op phase status tx rows category duration_ms =
     gbind (gget now) (\<lambda>t.
       sink_record g \<lparr>timestamp = t, ev_operation_id = op_id op, ev_batch_id = op_batch op, ev_phase = phase,
         ev_principal = sanitized (sha256_hex g) (ctx_principal g), ev_connection_id = ctx_connection_id g,
         ev_connection_name = ctx_connection_name g, ev_environment = ctx_environment g,
         ev_driver_id = ctx_driver_id g, ev_class = op_class op, redacted_sql = ''[REDACTED]'',
         sql_hash = sha256_hex g (op_sql op), ev_targets = op_targets op, ev_decision_rule = op_rule op,
         ev_approval = op_approval op, ev_preview = op_preview op, ev_status = status, ev_tx_outcome = tx,
         ev_error_category = category, ev_error = map_option sanitized_error_detail category,
         ev_rows_affected = rows, ev_duration_ms = duration_ms, transport_attempt = None,
         administrative_metadata = None\<rparr>)"

definition record_outcome :: "guard \<Rightarrow> audit_operation \<Rightarrow> audit_outcome \<Rightarrow> (unit, audit_error) run" where
  "record_outcome g op out =
     audit_record g op OutcomePhase (out_status out) (out_tx out) (out_rows out) (out_category out)
       (Some (out_duration out))"

definition denied_outcome :: audit_outcome where
  "denied_outcome = \<lparr>out_status = StatusDenied, out_tx = TxNotApplicable, out_rows = None,
     out_category = Some CatPolicy, out_duration = 0\<rparr>"

definition record_intent :: "guard \<Rightarrow> audit_operation \<Rightarrow> (unit, audit_error) run" where
  "record_intent g op =
     gtry (audit_record g op IntentPhase StatusPending
             (if op_class op = ClassCommit \<or> op_class op = ClassRollback then TxPending else TxNotApplicable)
             None None None)
       (\<lambda>result.
          if result = Inl UnresolvedWrite \<or> result = Inl WriteInFlight then
            gbind (gmodify (if result = Inl UnresolvedWrite then lock_connection else id)) (\<lambda>_.
            gtry (record_outcome g op denied_outcome) (\<lambda>recorded.
            gbind (gmodify (if recorded = Inr () then id else lock_globally)) (\<lambda>_.
            gresult result)))
          else gresult result)"

section \<open>Availability and audit failures\<close>

definition lockdown_message :: string where
  "lockdown_message = ''governed writes are disabled because a prior audit outcome could not be persisted''"

definition require_governed_write_available :: "(unit, driver_error) run" where
  "require_governed_write_available w =
     (if writes_disabled w then (Err (PolicyDenied lockdown_message), w) else (Ok (), w))"

definition governed_write_refusal :: "world \<Rightarrow> decision option" where
  "governed_write_refusal w =
     (case fst (require_governed_write_available w) of
        Err e \<Rightarrow> Some (Deny ''governed_write_lockdown''
                        (case e of PolicyDenied m \<Rightarrow> m | _ \<Rightarrow> error_display e))
      | _ \<Rightarrow> None)"

definition map_error :: "('e \<Rightarrow> 'f) \<Rightarrow> ('a, 'e) run \<Rightarrow> ('a, 'f) run" where
  "map_error f m = gtry m (\<lambda>r. case r of Inl e \<Rightarrow> gfail (f e) | Inr x \<Rightarrow> gret x)"

definition intent_denied :: "audit_error \<Rightarrow> driver_error" where
  "intent_denied e =
     PolicyDenied (''operation denied because audit intent could not be persisted: '' @ audit_error_display e)"

definition local_human :: "guard \<Rightarrow> bool" where
  "local_human g \<longleftrightarrow> \<not> is_agent (ctx_principal g) \<and> ctx_environment g \<in> {Local, Dev}"

definition prepare_governed_read :: "guard \<Rightarrow> audit_operation \<Rightarrow> (unit, driver_error) run" where
  "prepare_governed_read g op =
     (if local_human g then gret () else map_error intent_denied (record_intent g op))"

definition allows_unaudited_local_write :: "guard \<Rightarrow> bool" where
  "allows_unaudited_local_write g \<longleftrightarrow> local_human g \<and> human_allow_unaudited_writes (effective_policy g)"

definition intent_is_required :: "guard \<Rightarrow> bool" where
  "intent_is_required g \<longleftrightarrow> \<not> allows_unaudited_local_write g"

definition handle_intent_failure :: "guard \<Rightarrow> audit_error + unit \<Rightarrow> (unit, driver_error) run" where
  "handle_intent_failure g result =
     (case result of
        Inr _ \<Rightarrow> gret ()
      | Inl UnresolvedWrite \<Rightarrow>
          gfail (PolicyDenied (''operation denied because an unresolved write outcome blocks this connection: ''
                               @ audit_error_display UnresolvedWrite))
      | Inl WriteInFlight \<Rightarrow>
          gfail (PolicyDenied (''operation denied because another write is still in flight for this connection: ''
                               @ audit_error_display WriteInFlight))
      | Inl e \<Rightarrow> if intent_is_required g then gfail (intent_denied e) else gret ())"

definition handle_non_execution_audit_failure :: "audit_error + unit \<Rightarrow> (unit, driver_error) run" where
  "handle_non_execution_audit_failure result =
     (case result of
        Inr _ \<Rightarrow> gret ()
      | Inl e \<Rightarrow> gfail (PolicyDenied (''operation denied because audit recording failed: '' @ audit_error_display e)))"

definition handle_read_audit_failure :: "guard \<Rightarrow> audit_error + unit \<Rightarrow> (unit, driver_error) run" where
  "handle_read_audit_failure g result =
     (case result of
        Inr _ \<Rightarrow> gret ()
      | Inl e \<Rightarrow>
          if is_agent (ctx_principal g)
          then gfail (Internal (''audit recording failed after read execution: '' @ audit_error_display e))
          else gret ())"

definition handle_write_outcome_failure :: "audit_error + unit \<Rightarrow> (unit, driver_error) run" where
  "handle_write_outcome_failure result =
     (case result of
        Inr _ \<Rightarrow> gret ()
      | Inl e \<Rightarrow>
          gbind (gmodify lock_globally) (\<lambda>_.
          gfail (Internal (''audit outcome could not be persisted; the operation may have succeeded and further ''
                           @ ''governed writes are disabled: '' @ audit_error_display e))))"

section \<open>The driver boundary (\<open>panic_boundary.rs\<close>)\<close>

definition report_fault :: "guard \<Rightarrow> string \<Rightarrow> world \<Rightarrow> world" where
  "report_fault g name = (if has_fault_sink g then emit (FaultReported name) else id)"

definition panic_message :: "string \<Rightarrow> string" where
  "panic_message name = ''the driver stopped unexpectedly during '' @ name"

definition report_if_disconnected :: "guard \<Rightarrow> string \<Rightarrow> driver_error \<Rightarrow> world \<Rightarrow> world" where
  "report_if_disconnected g name e = (if e = Disconnected then report_fault g name else id)"

definition caught_read :: "guard \<Rightarrow> string \<Rightarrow> ('a, driver_failure) run \<Rightarrow> ('a, driver_error) run" where
  "caught_read g name execute =
     gtry execute (\<lambda>r. case r of
        Inr x \<Rightarrow> gret x
      | Inl (DriverFailed e) \<Rightarrow>
          gbind (gmodify (report_if_disconnected g name e)) (\<lambda>_. gfail (sanitize_agent_error (should_mask g) e))
      | Inl DriverPanicked \<Rightarrow>
          gbind (gmodify (report_fault g name)) (\<lambda>_. gfail (Internal (panic_message name))))"

definition caught_write :: "guard \<Rightarrow> string \<Rightarrow> ('a, driver_failure) run \<Rightarrow> ('a, driver_error) run" where
  "caught_write g name execute =
     gtry execute (\<lambda>r. case r of
        Inr x \<Rightarrow> gret x
      | Inl (DriverFailed e) \<Rightarrow>
          gbind (gmodify (report_if_disconnected g name e)) (\<lambda>_. gfail (sanitize_agent_error (should_mask g) e))
      | Inl DriverPanicked \<Rightarrow>
          gbind (gmodify (report_fault g name)) (\<lambda>_.
          gfail (OperationOutcomeUnknown (Internal (panic_message name)))))"

definition caught_sync :: "guard \<Rightarrow> string \<Rightarrow> (trace \<Rightarrow> 'a option) \<Rightarrow> ('a option, 'e) run" where
  "caught_sync g name f w =
     (case f (trace w) of
        Some x \<Rightarrow> (Ok (Some x), w)
      | None \<Rightarrow> (Ok None, report_fault g name w))"

section \<open>Masking of results\<close>

definition mask_result_for_analysis :: "guard \<Rightarrow> statement_analysis option \<Rightarrow> query_result \<Rightarrow> query_result" where
  "mask_result_for_analysis g a result =
     (case guard_masks g of
        None \<Rightarrow> result
      | Some patterns \<Rightarrow>
          (let n = length (result_columns result);
               positions = map_option (\<lambda>a.
                 (case sensitive_positions a of
                    Some ps \<Rightarrow> if length ps = n then ps else replicate n True
                  | None \<Rightarrow> replicate n True)) a
           in mask (mask_library g) patterns result positions))"

definition mask_result :: "guard \<Rightarrow> query_result \<Rightarrow> query_result" where
  "mask_result g result = mask_result_for_analysis g None result"

definition mask_result_batch_for_analysis :: "guard \<Rightarrow> statement_analysis \<Rightarrow> query_result_batch \<Rightarrow> query_result_batch" where
  "mask_result_batch_for_analysis g a batch =
     (if \<not> should_mask g then batch
      else \<lparr>result_sets = map (mask_result_for_analysis g (Some a)) (result_sets batch),
            batch_truncated = batch_truncated batch\<rparr>)"

section \<open>Audit of results\<close>

definition elapsed_since :: "nat \<Rightarrow> world \<Rightarrow> nat" where
  "elapsed_since start w = now w - start"

definition succeeded_outcome :: "nat option \<Rightarrow> nat \<Rightarrow> audit_outcome" where
  "succeeded_outcome rows duration = \<lparr>out_status = StatusSucceeded, out_tx = TxNotApplicable, out_rows = rows,
     out_category = None, out_duration = duration\<rparr>"

definition failed_outcome :: "terminal_status \<Rightarrow> tx_outcome \<Rightarrow> driver_error \<Rightarrow> nat \<Rightarrow> audit_outcome" where
  "failed_outcome status tx e duration = \<lparr>out_status = status, out_tx = tx, out_rows = None,
     out_category = Some (category_of e), out_duration = duration\<rparr>"

definition audit_read_result ::
    "guard \<Rightarrow> audit_operation \<Rightarrow> nat \<Rightarrow> driver_error + 'a \<Rightarrow> nat option \<Rightarrow> (unit, driver_error) run" where
  "audit_read_result g op start result rows =
     gbind (gget (elapsed_since start)) (\<lambda>d.
     gtry (record_outcome g op
             (case result of
                Inr _ \<Rightarrow> succeeded_outcome rows d
              | Inl e \<Rightarrow> failed_outcome StatusFailed TxNotApplicable e d))
       (handle_read_audit_failure g))"

definition audit_controlled_read_result ::
    "guard \<Rightarrow> audit_operation \<Rightarrow> nat \<Rightarrow> driver_error + 'a \<Rightarrow> nat option \<Rightarrow> (unit, driver_error) run" where
  "audit_controlled_read_result g op start result rows =
     gbind (gget (elapsed_since start)) (\<lambda>d.
     gtry (record_outcome g op
             (case result of
                Inr _ \<Rightarrow> succeeded_outcome rows d
              | Inl e \<Rightarrow> failed_outcome (controlled_error_terminal_status e) TxNotApplicable e d))
       (handle_read_audit_failure g))"

definition audit_transaction_result ::
    "guard \<Rightarrow> audit_operation \<Rightarrow> nat \<Rightarrow> driver_error + 'a \<Rightarrow> nat option \<Rightarrow> transaction_audit_mode
     \<Rightarrow> (unit, driver_error) run" where
  "audit_transaction_result g op start result rows mode =
     gbind (gget (elapsed_since start)) (\<lambda>d.
     gtry (case result of
             Inr _ \<Rightarrow> record_outcome g op (succeeded_outcome rows d)
           | Inl e \<Rightarrow>
               (let (status, tx, disables) = (case mode of
                      AtomicBatch \<Rightarrow> transaction_error_outcome e
                    | Interactive \<Rightarrow> interactive_transaction_error_outcome e)
                in gbind (gmodify (if disables then lock_connection else id)) (\<lambda>_.
                   record_outcome g op (failed_outcome status tx e d))))
       (\<lambda>audit_result.
          if (case result of Inl _ \<Rightarrow> True | Inr _ \<Rightarrow> False) \<or> class_is_write (op_class op)
          then handle_write_outcome_failure audit_result
          else handle_read_audit_failure g audit_result))"

definition audit_write_result ::
    "guard \<Rightarrow> audit_operation \<Rightarrow> nat \<Rightarrow> driver_error + 'a \<Rightarrow> nat option \<Rightarrow> (unit, driver_error) run" where
  "audit_write_result g op start result rows =
     gbind (gget (elapsed_since start)) (\<lambda>d.
     gtry (case result of
             Inr _ \<Rightarrow> record_outcome g op (succeeded_outcome rows d)
           | Inl e \<Rightarrow>
               (let (status, disables) = write_error_outcome e
                in gbind (gmodify (if disables then lock_connection else id)) (\<lambda>_.
                   record_outcome g op (failed_outcome status TxNotApplicable e d))))
       handle_write_outcome_failure)"

section \<open>Authorization\<close>

text \<open>
  The wait for an approval. With a control the \<open>select!\<close> is biased: a cancelled token or a passed deadline
  wins before the sink is even asked.
\<close>

definition approval_time :: "'a reply \<Rightarrow> nat" where
  "approval_time r = (case r of Answer t _ \<Rightarrow> t | Panicked t \<Rightarrow> t | Abandoned t \<Rightarrow> t)"

definition approval_result :: "'a reply \<Rightarrow> ('a, driver_error) outcome" where
  "approval_result r = (case r of Answer _ x \<Rightarrow> Ok x | _ \<Rightarrow> Gone)"

definition approval_answered :: "approval_request \<Rightarrow> approval_outcome reply \<Rightarrow> world \<Rightarrow> world" where
  "approval_answered req r = (case r of Answer _ x \<Rightarrow> emit (ApprovalAnswered req x) | _ \<Rightarrow> id)"

definition await_approval :: "guard \<Rightarrow> approval_request \<Rightarrow> ctl \<Rightarrow> (approval_outcome, driver_error) run" where
  "await_approval g req control w =
     (let reply = approval_sink g (trace w) req;
          asked = emit (ApprovalAsked req) w
      in case control of
           None \<Rightarrow> (approval_result reply, approval_answered req reply (suspend g (approval_time reply) asked))
         | Some c \<Rightarrow>
             if is_cancelled c (now w) then (Err Cancelled, w)
             else if (case deadline c of None \<Rightarrow> False | Some d \<Rightarrow> d \<le> now w) then (Err TimedOut, emit TokenCancelled w)
             else
               case select_biased
                 [(cancelled_at c, Some (Err Cancelled)), (deadline c, Some (Err TimedOut)),
                  (Some (now w + approval_time reply), None)] of
                 Some (t, Some (Err TimedOut)) \<Rightarrow> (Err TimedOut, emit TokenCancelled (suspend g (t - now w) asked))
               | Some (t, Some r) \<Rightarrow> (r, suspend g (t - now w) asked)
               | Some (t, None) \<Rightarrow>
                   (approval_result reply, approval_answered req reply (suspend g (t - now w) asked))
               | None \<Rightarrow> (Gone, asked))"

text \<open>The record of a refusal or of an interrupted approval, and the error it returns.\<close>

definition record_refusal ::
    "guard \<Rightarrow> string \<Rightarrow> statement_facts \<Rightarrow> decision \<Rightarrow> approval_status \<Rightarrow> preview_state \<Rightarrow> audit_outcome \<Rightarrow> driver_error
     \<Rightarrow> ('a, driver_error) run" where
  "record_refusal g sql f d approval pstate out e =
     gbind (operation g sql None f d approval pstate) (\<lambda>op.
     gtry (record_outcome g op out) (\<lambda>audit_result.
     gbind (handle_non_execution_audit_failure audit_result) (\<lambda>_.
     gfail e)))"

definition interrupted_approval :: "driver_error \<Rightarrow> approval_status" where
  "interrupted_approval e =
     (case e of Cancelled \<Rightarrow> ApprovalCancelled | TimedOut \<Rightarrow> ApprovalTimedOut | _ \<Rightarrow> ApprovalDenied)"

definition resolve_authorization ::
    "guard \<Rightarrow> string \<Rightarrow> statement_analysis \<Rightarrow> decision \<Rightarrow> nat option \<Rightarrow> ctl \<Rightarrow> (authorization, driver_error) run" where
  "resolve_authorization g sql a d estimated_rows control =
     (case d of
        Allow rule \<Rightarrow>
          gret \<lparr>auth_decision = d, auth_analysis = a, auth_approval = ApprovalNotRequired,
                auth_preview = NotRequested\<rparr>
      | Deny rule msg \<Rightarrow>
          record_refusal g sql (facts a) d ApprovalNotRequired NotRequested denied_outcome (PolicyDenied msg)
      | RequireApproval rule why shown \<Rightarrow>
          (let req = \<lparr>ar_principal = ctx_principal g, ar_environment = ctx_environment g,
                      ar_connection_id = ctx_connection_id g, ar_connection_name = ctx_connection_name g,
                      ar_sql = sql, ar_facts = facts a, ar_rule = rule, ar_reason = why,
                      ar_preview = shown, ar_estimated_rows = estimated_rows\<rparr>;
               pstate = (case shown of Some v \<Rightarrow> PreviewAvailable v | None \<Rightarrow> PreviewUnavailable)
           in gtry (await_approval g req control) (\<lambda>outcome.
              case outcome of
                Inl e \<Rightarrow>
                  record_refusal g sql (facts a) d (interrupted_approval e) pstate
                    (failed_outcome (controlled_error_terminal_status e) TxNotApplicable e 0) e
              | Inr AllowOnce \<Rightarrow>
                  gret \<lparr>auth_decision = Allow (rule @ '':approved''), auth_analysis = a, auth_approval = Approved,
                        auth_preview = pstate\<rparr>
              | Inr DenyRequest \<Rightarrow>
                  record_refusal g sql (facts a) d ApprovalDenied pstate denied_outcome
                    (PolicyDenied (''approval denied: '' @ why)))))"

definition enforced_batch_rows :: "statement_analysis \<Rightarrow> nat list \<Rightarrow> nat option" where
  "enforced_batch_rows a expect_one =
     foldl (\<lambda>total (i, rows).
        case total of
          None \<Rightarrow> None
        | Some n \<Rightarrow> if i \<in> set expect_one then Some (n + 1) else map_option (\<lambda>r. n + r) rows)
       (Some 0) (enumerate 0 (known_statement_rows a))"

definition count_call :: "guard \<Rightarrow> counter \<Rightarrow> uuid \<Rightarrow> string \<Rightarrow> operation_control \<Rightarrow> (query_result, driver_failure) run" where
  "count_call g c opid sql control =
     (case c of
        CountInSession h \<Rightarrow>
          dispatch g ReadBoundary (Some opid) (CallSessionQuery h sql [] control)
            (\<lambda>tr. drv_session_query (inner g) tr h sql [] control)
      | CountInTransaction h \<Rightarrow>
          dispatch g ReadBoundary (Some opid) (CallTxQuery h sql None (Some control))
            (\<lambda>tr. drv_tx_query (inner g) tr h sql None (Some control))
      | CountOnConnection \<Rightarrow>
          dispatch g ReadBoundary (Some opid) (CallQuery sql None (Some control))
            (\<lambda>tr. drv_query (inner g) tr sql None (Some control)))"

definition count_of_cell :: "cell \<Rightarrow> nat option" where
  "count_of_cell c =
     (case c of
        Int64 v \<Rightarrow> if 0 \<le> v then Some (nat v) else None
      | Decimal v \<Rightarrow> parse_u64 v
      | Text v \<Rightarrow> parse_u64 v
      | _ \<Rightarrow> None)"

definition first_cell :: "query_result \<Rightarrow> cell option" where
  "first_cell r = (case result_rows r of (c # _) # _ \<Rightarrow> Some c | _ \<Rightarrow> None)"

definition estimate_blast_radius ::
    "guard \<Rightarrow> statement_analysis \<Rightarrow> ctl \<Rightarrow> counter \<Rightarrow> (nat option, driver_error) run" where
  "estimate_blast_radius g a control c =
     (case blast_radius a of
        None \<Rightarrow> gret None
      | Some (Known rows) \<Rightarrow> gret (Some rows)
      | Some (CountQuery rewrite) \<Rightarrow>
          gbind (metadata_operation ''BLAST RADIUS ESTIMATE'' (tables (facts a))) (\<lambda>op.
          gbind (map_error intent_denied (record_intent g op)) (\<lambda>_.
          gbind (gget now) (\<lambda>start.
          gbind (gget (\<lambda>w. unwrap_or control (with_timeout (now w) BLAST_RADIUS_TIMEOUT))) (\<lambda>used.
          gtry (caught_read g ''BLAST RADIUS COUNT'' (count_call g c (op_id op) (count_sql rewrite) used)) (\<lambda>result.
          gbind (gget (elapsed_since start)) (\<lambda>d.
          gbind (map_error (\<lambda>e. PolicyDenied (''operation denied because blast-radius audit outcome could not be persisted: ''
                                              @ audit_error_display e))
                   (record_outcome g op
                      (case result of
                         Inr r \<Rightarrow> succeeded_outcome (Some (length (result_rows r))) d
                       | Inl e \<Rightarrow> failed_outcome (controlled_error_terminal_status e) TxNotApplicable e d))) (\<lambda>_.
          gret (case result of
                  Inl _ \<Rightarrow> None
                | Inr r \<Rightarrow> (case first_cell r of None \<Rightarrow> None | Some cell \<Rightarrow> count_of_cell cell))))))))))"

definition authorize_with_bound ::
    "guard \<Rightarrow> string \<Rightarrow> statement_analysis \<Rightarrow> nat option \<Rightarrow> ctl \<Rightarrow> counter \<Rightarrow> (authorization, driver_error) run" where
  "authorize_with_bound g sql a enforced_rows control c w =
     (let f = facts a; e = facts_effects f; pol = effective_policy g in
      if evaluate_categorical (ctx_principal g) (ctx_environment g) f (ctx_read_only g) pol \<noteq> None then
        resolve_authorization g sql a
          (evaluate_with_effects (ctx_principal g) (ctx_environment g) f (ctx_read_only g) pol None) None control w
      else
        case governed_write_refusal w of
          Some d \<Rightarrow> resolve_authorization g sql a d None control w
        | None \<Rightarrow>
            gbind
              (if contains_mutating_dml f \<and> facts_class f \<noteq> Administrative \<and> \<not> eff_contains e ADMIN
                  \<and> \<not> eff_contains e UNKNOWN \<and> blast_radius_max_rows pol \<noteq> None
               then (case enforced_rows of Some rows \<Rightarrow> gret (Some rows) | None \<Rightarrow> estimate_blast_radius g a control c)
               else gret None)
              (\<lambda>estimated_rows.
                 resolve_authorization g sql a
                   (evaluate_eligible_write (ctx_principal g) (ctx_environment g) f pol estimated_rows)
                   estimated_rows control) w)"

definition authorize_analysis ::
    "guard \<Rightarrow> string \<Rightarrow> statement_analysis \<Rightarrow> nat option \<Rightarrow> ctl \<Rightarrow> (authorization, driver_error) run" where
  "authorize_analysis g sql a enforced_rows control =
     (case shared_connection_decision (parser g) sql (ctx_driver_id g) (facts a) of
        Some d \<Rightarrow> resolve_authorization g sql a d None control
      | None \<Rightarrow> authorize_with_bound g sql a enforced_rows control CountOnConnection)"

definition authorize :: "guard \<Rightarrow> string \<Rightarrow> ctl \<Rightarrow> (authorization, driver_error) run" where
  "authorize g sql control = authorize_analysis g sql (guard_analyze g sql) None control"

definition authorize_in_transaction :: "guard \<Rightarrow> string \<Rightarrow> ctl \<Rightarrow> nat \<Rightarrow> (authorization, driver_error) run" where
  "authorize_in_transaction g sql control h =
     (let a = guard_analyze g sql in
      case interactive_transaction_decision (parser g) (ctx_driver_id g) sql (facts a) of
        Some d \<Rightarrow> resolve_authorization g sql a d None control
      | None \<Rightarrow>
          (case (if ctx_driver_id g \<noteq> ''mysql''
                 then shared_connection_decision (parser g) sql (ctx_driver_id g) (facts a) else None) of
             Some d \<Rightarrow> resolve_authorization g sql a d None control
           | None \<Rightarrow> authorize_with_bound g sql a None control (CountInTransaction h)))"

definition authorize_classified ::
    "guard \<Rightarrow> string \<Rightarrow> statement_analysis \<Rightarrow> ctl \<Rightarrow> counter \<Rightarrow> (authorization, driver_error) run" where
  "authorize_classified g sql a control c = authorize_with_bound g sql a None control c"

end
