(* ===== verification/Guard_Logic.thy ===== *)
theory Guard_Logic
  imports Guard_Core
begin

text \<open>
  A small program logic for the guard's state-passing functions, and the invariant that every function of
  \<open>Guard_Core\<close> keeps: driver calls are made only under a persisted intent (or a documented exemption), never
  through the write boundary while writes are locked down, and audit records carry neither statement text nor
  agent tokens.
\<close>

section \<open>Triples\<close>

text \<open>
  From a world that satisfies \<open>P\<close>, the run ends with a value and a world that satisfy \<open>Q\<close>, or with an
  error that satisfies \<open>X\<close>, or is dropped in a world that satisfies \<open>D\<close>.
\<close>

fun ended ::
    "('a \<Rightarrow> world \<Rightarrow> bool) \<Rightarrow> ('e \<Rightarrow> world \<Rightarrow> bool) \<Rightarrow> (world \<Rightarrow> bool) \<Rightarrow> ('a, 'e) outcome \<times> world \<Rightarrow> bool" where
  "ended Q X D (Ok x, w) = Q x w"
| "ended Q X D (Err e, w) = X e w"
| "ended Q X D (Gone, w) = D w"

lemma ended_cases:
  obtains (ok) x w where "p = (Ok x, w)" | (err) e w where "p = (Err e, w)" | (gone) w where "p = (Gone, w)"
proof (cases p)
  case (Pair r w)
  then show ?thesis using that by (cases r) auto
qed

definition hoare ::
    "(world \<Rightarrow> bool) \<Rightarrow> ('a, 'e) run \<Rightarrow> ('a \<Rightarrow> world \<Rightarrow> bool) \<Rightarrow> ('e \<Rightarrow> world \<Rightarrow> bool) \<Rightarrow> (world \<Rightarrow> bool) \<Rightarrow> bool" where
  "hoare P m Q X D \<longleftrightarrow> (\<forall>w. P w \<longrightarrow> ended Q X D (m w))"

lemma hoareI: "(\<And>w. P w \<Longrightarrow> ended Q X D (m w)) \<Longrightarrow> hoare P m Q X D"
  by (simp add: hoare_def)

lemma hoareD: "hoare P m Q X D \<Longrightarrow> P w \<Longrightarrow> ended Q X D (m w)"
  by (simp add: hoare_def)

lemma ended_mono:
  assumes "ended Q' X' D' p" "\<And>x w. Q' x w \<Longrightarrow> Q x w" "\<And>e w. X' e w \<Longrightarrow> X e w" "\<And>w. D' w \<Longrightarrow> D w"
  shows "ended Q X D p"
  using assms by (cases p rule: ended_cases) simp_all

lemma hoare_conseq:
  assumes "hoare P' m Q' X' D'" "\<And>w. P w \<Longrightarrow> P' w"
    and "\<And>x w. Q' x w \<Longrightarrow> Q x w" "\<And>e w. X' e w \<Longrightarrow> X e w" "\<And>w. D' w \<Longrightarrow> D w"
  shows "hoare P m Q X D"
  by (rule hoareI, rule ended_mono [OF hoareD [OF assms(1)]]) (simp_all add: assms)

lemma hoare_gret: "hoare (Q x) (gret x) Q X D"
  by (simp add: hoare_def gret_def)

lemma hoare_gfail: "hoare (X e) (gfail e) Q X D"
  by (simp add: hoare_def gfail_def)

lemma hoare_gresult: "hoare (\<lambda>w. case r of Inl e \<Rightarrow> X e w | Inr x \<Rightarrow> Q x w) (gresult r) Q X D"
  by (cases r) (simp_all add: hoare_def gresult_def gret_def gfail_def)

lemma hoare_gbind:
  assumes "hoare P m Q X D" "\<And>x. hoare (Q x) (f x) R X D"
  shows "hoare P (gbind m f) R X D"
proof (rule hoareI)
  fix w assume "P w"
  with assms(1) have "ended Q X D (m w)" by (rule hoareD)
  then show "ended R X D (gbind m f w)"
    using hoareD [OF assms(2)] by (cases "m w" rule: ended_cases) (simp_all add: gbind_def)
qed

lemma hoare_gtry:
  assumes "hoare P m (\<lambda>x. Q (Inr x)) (\<lambda>e. Q (Inl e)) D" "\<And>r. hoare (Q r) (f r) R X D"
  shows "hoare P (gtry m f) R X D"
proof (rule hoareI)
  fix w assume "P w"
  with assms(1) have "ended (\<lambda>x. Q (Inr x)) (\<lambda>e. Q (Inl e)) D (m w)" by (rule hoareD)
  then show "ended R X D (gtry m f w)"
    using hoareD [OF assms(2)] by (cases "m w" rule: ended_cases) (simp_all add: gtry_def)
qed

lemma hoare_gget: "hoare (\<lambda>w. Q (f w) w) (gget f) Q X D"
  by (simp add: hoare_def gget_def)

lemma hoare_gmodify: "hoare (\<lambda>w. Q () (f w)) (gmodify f) Q X D"
  by (simp add: hoare_def gmodify_def)

lemma hoare_armed_scope:
  assumes "hoare P m Q (\<lambda>e w. X e (lock_connection w)) (\<lambda>w. D (lock_connection w))"
  shows "hoare P (armed_scope m) Q X D"
proof (rule hoareI)
  fix w assume "P w"
  with assms have "ended Q (\<lambda>e w. X e (lock_connection w)) (\<lambda>w. D (lock_connection w)) (m w)" by (rule hoareD)
  then show "ended Q X D (armed_scope m w)"
    by (cases "m w" rule: ended_cases) (simp_all add: armed_scope_def)
qed

lemma hoare_if:
  assumes "c \<Longrightarrow> hoare P m Q X D" "\<not> c \<Longrightarrow> hoare P n Q X D"
  shows "hoare P (if c then m else n) Q X D"
  using assms by simp

lemma hoare_map_error: "hoare P m Q (\<lambda>e. X (h e)) D \<Longrightarrow> hoare P (map_error h m) Q X D"
  unfolding map_error_def
  by (rule hoare_gtry [where Q = "\<lambda>r w. case r of Inl e \<Rightarrow> X (h e) w | Inr x \<Rightarrow> Q x w"])
    (auto simp: hoare_def gret_def gfail_def split: sum.splits)

lemma hoare_false: "hoare (\<lambda>_. False) m Q X D"
  by (simp add: hoare_def)

section \<open>Keeping an invariant\<close>

definition keeps :: "(world \<Rightarrow> bool) \<Rightarrow> ('a, 'e) run \<Rightarrow> bool" where
  "keeps I m \<longleftrightarrow> hoare I m (\<lambda>_. I) (\<lambda>_. I) I"

named_theorems keeps_intro

lemma keeps_iff:
  fixes m :: "('a, 'e) run"
  shows "keeps I m \<longleftrightarrow> (\<forall>w. I w \<longrightarrow> I (snd (m w)))"
proof -
  have "ended (\<lambda>_. I) (\<lambda>_. I) I p \<longleftrightarrow> I (snd p)" for p :: "('a, 'e) outcome \<times> world"
    by (cases p rule: ended_cases) simp_all
  then show ?thesis by (simp add: keeps_def hoare_def)
qed

lemma keeps_gret [keeps_intro]: "keeps I (gret x)"
  by (simp add: keeps_iff gret_def)

lemma keeps_gfail [keeps_intro]: "keeps I (gfail e)"
  by (simp add: keeps_iff gfail_def)

lemma keeps_gresult [keeps_intro]: "keeps I (gresult r)"
  by (auto simp: keeps_iff gresult_def gret_def gfail_def split: sum.splits)

lemma keeps_gget [keeps_intro]: "keeps I (gget f)"
  by (simp add: keeps_iff gget_def)

lemma keeps_gbind [keeps_intro]: "keeps I m \<Longrightarrow> (\<And>x. keeps I (f x)) \<Longrightarrow> keeps I (gbind m f)"
  unfolding keeps_def by (rule hoare_gbind)

lemma keeps_gtry [keeps_intro]: "keeps I m \<Longrightarrow> (\<And>r. keeps I (f r)) \<Longrightarrow> keeps I (gtry m f)"
  unfolding keeps_def by (rule hoare_gtry)

lemma keeps_if [keeps_intro]: "(c \<Longrightarrow> keeps I m) \<Longrightarrow> (\<not> c \<Longrightarrow> keeps I n) \<Longrightarrow> keeps I (if c then m else n)"
  by simp

lemma keeps_case_sum [keeps_intro]:
  "(\<And>e. keeps I (f e)) \<Longrightarrow> (\<And>x. keeps I (h x)) \<Longrightarrow> keeps I (case r of Inl e \<Rightarrow> f e | Inr x \<Rightarrow> h x)"
  by (cases r) auto

lemma keeps_case_option [keeps_intro]:
  "keeps I m \<Longrightarrow> (\<And>x. keeps I (h x)) \<Longrightarrow> keeps I (case r of None \<Rightarrow> m | Some x \<Rightarrow> h x)"
  by (cases r) auto

lemma keeps_case_prod [keeps_intro]: "(\<And>a b. keeps I (f a b)) \<Longrightarrow> keeps I (case p of (a, b) \<Rightarrow> f a b)"
  by (cases p) auto

lemma keeps_map_error [keeps_intro]: "keeps I m \<Longrightarrow> keeps I (map_error f m)"
  unfolding map_error_def by (intro keeps_intro)

text \<open>An error handler that may use what it knows about the failure.\<close>

lemma keeps_gbind_known:
  assumes "hoare I m (\<lambda>x w. I w \<and> K x w) (\<lambda>_. I) I"
    and "\<And>x. hoare (\<lambda>w. I w \<and> K x w) (f x) (\<lambda>_. I) (\<lambda>_. I) I"
  shows "keeps I (gbind m f)"
  unfolding keeps_def using assms by (rule hoare_gbind)

lemma keeps_gtry_known:
  assumes "hoare I m (\<lambda>x w. I w \<and> K (Inr x) w) (\<lambda>e w. I w \<and> K (Inl e) w) I"
    and "\<And>r. hoare (\<lambda>w. I w \<and> K r w) (f r) (\<lambda>_. I) (\<lambda>_. I) I"
  shows "keeps I (gtry m f)"
  unfolding keeps_def using assms by (rule hoare_gtry)

section \<open>The invariant of the guard\<close>

text \<open>
  Calls that the guard makes without an audited operation: opening a transaction or a session, closing a session,
  pinging the server and reading its lexical settings.
\<close>

fun is_unaudited_call :: "boundary \<Rightarrow> driver_call \<Rightarrow> bool" where
  "is_unaudited_call ReadBoundary CallPing = True"
| "is_unaudited_call ReadBoundary (CallLexicalSettings _) = True"
| "is_unaudited_call ReadBoundary CallOpenSession = True"
| "is_unaudited_call ReadBoundary (CallSessionLexicalSettings _ _) = True"
| "is_unaudited_call ReadBoundary (CallSessionClose _) = True"
| "is_unaudited_call WriteBoundary (CallBegin _) = True"
| "is_unaudited_call WriteBoundary (CallSessionControl _ ControlBegin _ _) = True"
| "is_unaudited_call _ _ = False"

fun is_rollback :: "driver_call \<Rightarrow> bool" where
  "is_rollback (CallTxRollback _ _) = True"
| "is_rollback (CallSessionControl _ ControlRollback _ _) = True"
| "is_rollback _ = False"

fun ends_transaction :: "driver_call \<Rightarrow> bool" where
  "ends_transaction (CallTxRollback _ _) = True"
| "ends_transaction (CallTxCommit _) = True"
| "ends_transaction (CallSessionControl _ ControlCommit _ _) = True"
| "ends_transaction (CallSessionControl _ ControlRollback _ _) = True"
| "ends_transaction _ = False"

fun call_statement :: "driver_call \<Rightarrow> string option" where
  "call_statement (CallQuery sql _ _) = Some sql"
| "call_statement (CallResultSets sql _ _) = Some sql"
| "call_statement (CallExecute sql _ _) = Some sql"
| "call_statement (CallExecuteInTransaction statements _ _) = Some (batch_text statements)"
| "call_statement (CallTxQuery _ sql _ _) = Some sql"
| "call_statement (CallTxExecute _ sql _ _) = Some sql"
| "call_statement (CallSessionQuery _ sql _ _) = Some sql"
| "call_statement (CallSessionResultSets _ sql _ _) = Some sql"
| "call_statement (CallOpenCursor _ sql _ _) = Some sql"
| "call_statement _ = None"

text \<open>
  A text that a session sends on as transaction control is one: the session's own check recognised it, or it is the
  session's own \<open>COMMIT\<close> or \<open>ROLLBACK\<close>.
\<close>

definition control_recognised :: "guard \<Rightarrow> session_control \<Rightarrow> string \<Rightarrow> bool" where
  "control_recognised g kind sql \<longleftrightarrow>
     (case transaction_control_of (parser g) sql (ctx_driver_id g) of
        Some Begin \<Rightarrow> kind = ControlBegin
      | Some BeginReadWrite \<Rightarrow> kind = ControlBegin \<and> \<not> ctx_read_only g
      | Some BeginReadOnlySnapshot \<Rightarrow> kind = ControlBegin
      | Some (CommitControl _) \<Rightarrow> kind = ControlCommit
      | Some (RollbackControl _) \<Rightarrow> kind = ControlRollback
      | _ \<Rightarrow> False)
     \<or> kind = ControlCommit \<and> sql = ''COMMIT'' \<or> kind = ControlRollback \<and> sql = ''ROLLBACK''"

definition control_ok :: "guard \<Rightarrow> driver_call \<Rightarrow> bool" where
  [simp]: "control_ok g c = (case c of CallSessionControl _ kind sql _ \<Rightarrow> control_recognised g kind sql | _ \<Rightarrow> True)"

text \<open>An accepted record of the intent to run the operation.\<close>

definition intent_recorded :: "uuid \<Rightarrow> trace \<Rightarrow> bool" where
  "intent_recorded i tr \<longleftrightarrow>
     (\<exists>ev. Recorded ev None \<in> set tr \<and> ev_phase ev = IntentPhase \<and> ev_operation_id ev = i)"

definition outcome_recorded :: "uuid \<Rightarrow> trace \<Rightarrow> bool" where
  "outcome_recorded i tr \<longleftrightarrow>
     (\<exists>ev. Recorded ev None \<in> set tr \<and> ev_phase ev = OutcomePhase \<and> ev_operation_id ev = i)"

text \<open>Who may go without one: humans on a local connection, for reads always and for writes by policy.\<close>

definition intent_waived :: "guard \<Rightarrow> boundary \<Rightarrow> driver_call \<Rightarrow> bool" where
  "intent_waived g b c =
     (case b of
        ReadBoundary \<Rightarrow> local_human g
      | WriteBoundary \<Rightarrow> allows_unaudited_local_write g \<and> \<not> ends_transaction c)"

text \<open>What a record may hold: no statement text, and the principal without its token.\<close>

definition record_redacted :: "guard \<Rightarrow> audit_event \<Rightarrow> bool" where
  "record_redacted g ev \<longleftrightarrow>
     redacted_sql ev = ''[REDACTED]'' \<and> ev_principal ev = sanitized (sha256_hex g) (ctx_principal g)
     \<and> ev_error ev = map_option sanitized_error_detail (ev_error_category ev)"

text \<open>
  What the policy says about a statement, for some number of rows estimated for it; and that it was permitted to
  run: allowed outright, or sent for approval and approved once, for this statement, this rule and this reason.
\<close>

definition verdict :: "guard \<Rightarrow> string \<Rightarrow> nat option \<Rightarrow> decision" where
  "verdict g sql rows =
     evaluate (ctx_principal g) (ctx_environment g) (facts (guard_analyze g sql)) (ctx_read_only g)
       (effective_policy g) rows"

definition permitted :: "guard \<Rightarrow> trace \<Rightarrow> string \<Rightarrow> bool" where
  "permitted g tr sql \<longleftrightarrow>
     (\<exists>rows. is_allow (verdict g sql rows)
        \<or> (\<exists>rule why shown req.
             verdict g sql rows = RequireApproval rule why shown
             \<and> ApprovalAnswered req AllowOnce \<in> set tr \<and> ar_sql req = sql \<and> ar_rule req = rule
             \<and> ar_reason req = why \<and> ar_preview req = shown \<and> ar_estimated_rows req = rows))"

text \<open>The count that estimates how many rows a statement changes.\<close>

definition is_count_query :: "guard \<Rightarrow> string \<Rightarrow> bool" where
  "is_count_query g sql \<longleftrightarrow>
     (\<exists>s r. blast_radius (guard_analyze g s) = Some (CountQuery r) \<and> count_sql r = sql)"

definition statement_ok :: "guard \<Rightarrow> trace \<Rightarrow> boundary \<Rightarrow> driver_call \<Rightarrow> bool" where
  "statement_ok g tr b c =
     (case call_statement c of
        None \<Rightarrow> True
      | Some sql \<Rightarrow> permitted g tr sql \<or> (b = ReadBoundary \<and> is_count_query g sql))"

definition event_ok :: "guard \<Rightarrow> bool \<Rightarrow> trace \<Rightarrow> event \<Rightarrow> bool" where
  "event_ok g locked tr e =
     (case e of
        Recorded ev _ \<Rightarrow> record_redacted g ev
      | RecordAbandoned ev \<Rightarrow> record_redacted g ev
      | Dispatched b None c \<Rightarrow> is_unaudited_call b c \<and> control_ok g c
      | Dispatched b (Some i) c \<Rightarrow>
          (intent_recorded i tr \<or> intent_waived g b c) \<and> statement_ok g tr b c \<and> control_ok g c
          \<and> \<not> (locked \<and> b = WriteBoundary \<and> \<not> is_rollback c)
      | _ \<Rightarrow> True)"

fun events_ok :: "guard \<Rightarrow> bool \<Rightarrow> trace \<Rightarrow> trace \<Rightarrow> bool" where
  "events_ok g locked tr [] = True"
| "events_ok g locked tr (e # es) = (event_ok g locked tr e \<and> events_ok g locked (tr @ [e]) es)"

text \<open>Calls that write: the end of a transaction, and statements that are classified as writes.\<close>

definition call_writes :: "guard \<Rightarrow> driver_call \<Rightarrow> bool" where
  "call_writes g c =
     (case call_statement c of
        None \<Rightarrow> True
      | Some sql \<Rightarrow> facts_writes (facts (guard_analyze g sql)))"

text \<open>
  Every write among some events has its outcome recorded, or writes are locked down, except for writes that are
  still \<open>pending\<close>.
\<close>

definition writes_accounted :: "guard \<Rightarrow> (uuid \<times> driver_call) set \<Rightarrow> trace \<Rightarrow> world \<Rightarrow> bool" where
  "writes_accounted g pending es w \<longleftrightarrow>
     (\<forall>i c. Dispatched WriteBoundary (Some i) c \<in> set es \<longrightarrow> call_writes g c
        \<longrightarrow> (i, c) \<in> pending \<or> outcome_recorded i (trace w) \<or> writes_disabled w)"

text \<open>The cursor of a session was opened on behalf of an operation whose intent is on record, or needs none.\<close>

definition cursors_accounted :: "guard \<Rightarrow> world \<Rightarrow> bool" where
  "cursors_accounted g w \<longleftrightarrow>
     (\<forall>s c. ss_cursor (sessions w s) = Some c
        \<longrightarrow> intent_recorded (ca_operation_id (ac_audit c)) (trace w) \<or> local_human g)"

text \<open>
  The world behind a starting trace \<open>tr0\<close>: only permitted events were added, their writes are accounted for, if
  writes were locked down at the start they still are, the cursors of sessions are accounted for, the operations \<open>ids\<close> have their intent recorded, and the
  statements \<open>sqls\<close> are permitted.
\<close>

definition guarded ::
    "guard \<Rightarrow> trace \<Rightarrow> bool \<Rightarrow> (uuid \<times> driver_call) set \<Rightarrow> uuid set \<Rightarrow> string set \<Rightarrow> world \<Rightarrow> bool" where
  "guarded g tr0 locked pending ids sqls w \<longleftrightarrow>
     (\<exists>es. trace w = tr0 @ es \<and> events_ok g locked tr0 es \<and> writes_accounted g pending es w)
     \<and> (locked \<longrightarrow> writes_disabled w) \<and> cursors_accounted g w
     \<and> (\<forall>i\<in>ids. intent_recorded i (trace w)) \<and> (\<forall>s\<in>sqls. permitted g (trace w) s)"

lemma events_ok_append:
  "events_ok g locked tr (es @ fs) \<longleftrightarrow> events_ok g locked tr es \<and> events_ok g locked (tr @ es) fs"
  by (induction es arbitrary: tr) auto

lemma intent_recorded_mono: "intent_recorded i tr \<Longrightarrow> intent_recorded i (tr @ es)"
  by (auto simp: intent_recorded_def)

lemma outcome_recorded_mono: "outcome_recorded i tr \<Longrightarrow> outcome_recorded i (tr @ es)"
  by (auto simp: outcome_recorded_def)

lemma permitted_mono: "permitted g tr sql \<Longrightarrow> permitted g (tr @ es) sql"
  unfolding permitted_def set_append by blast

lemma trace_simps [simp]:
  "trace (suspend h t w) = trace w" "trace (lock_connection w) = trace w" "trace (lock_globally w) = trace w"
  "trace (emit e w) = trace w @ [e]"
  by (simp_all add: suspend_def lock_connection_def lock_globally_def emit_def)

lemma writes_disabled_simps [simp]:
  "writes_disabled (lock_connection w)" "writes_disabled (lock_globally w)" "writes_disabled (emit e w) = writes_disabled w"
  "writes_disabled (w\<lparr>next_id := n\<rparr>) = writes_disabled w" "writes_disabled (w\<lparr>sessions := ss\<rparr>) = writes_disabled w"
  by (simp_all add: writes_disabled_def lock_connection_def lock_globally_def emit_def)

lemma sessions_simps [simp]:
  "sessions (suspend h t w) = sessions w" "sessions (lock_connection w) = sessions w"
  "sessions (lock_globally w) = sessions w" "sessions (emit e w) = sessions w"
  by (simp_all add: suspend_def lock_connection_def lock_globally_def emit_def)

lemma cursors_accounted_mono:
  "cursors_accounted g w \<Longrightarrow> sessions w' = sessions w \<Longrightarrow> trace w' = trace w @ es \<Longrightarrow> cursors_accounted g w'"
  unfolding cursors_accounted_def using intent_recorded_mono by metis

lemma writes_disabled_suspend: "writes_disabled w \<Longrightarrow> writes_disabled (suspend h t w)"
  by (auto simp: writes_disabled_def suspend_def)

lemma writes_accounted_step:
  assumes "writes_accounted g pending es w" "trace w' = trace w @ fs" "writes_disabled w \<Longrightarrow> writes_disabled w'"
    and "\<And>i c. Dispatched WriteBoundary (Some i) c \<in> set gs \<Longrightarrow> (i, c) \<in> pending"
  shows "writes_accounted g pending (es @ gs) w'"
  using assms outcome_recorded_mono unfolding writes_accounted_def by fastforce

lemma guarded_emit:
  assumes "guarded g tr0 locked pending ids sqls w" "event_ok g locked (trace w) e"
    and "\<And>i c. e = Dispatched WriteBoundary (Some i) c \<Longrightarrow> (i, c) \<in> pending"
  shows "guarded g tr0 locked pending ids sqls (emit e w)"
proof -
  from assms(1) obtain es where es: "trace w = tr0 @ es" "events_ok g locked tr0 es" "writes_accounted g pending es w"
    by (auto simp: guarded_def)
  have "writes_accounted g pending (es @ [e]) (emit e w)"
    by (rule writes_accounted_step [OF es(3)]) (use assms(3) in auto)
  then have "trace (emit e w) = tr0 @ (es @ [e]) \<and> events_ok g locked tr0 (es @ [e])
      \<and> writes_accounted g pending (es @ [e]) (emit e w)"
    using es assms(2) by (simp add: events_ok_append)
  then show ?thesis
    using assms(1) cursors_accounted_mono [of g w "emit e w" "[e]"] unfolding guarded_def
    by (metis intent_recorded_mono permitted_mono sessions_simps(4) trace_simps(4) writes_disabled_simps(3))
qed

lemma guarded_same_trace:
  assumes "guarded g tr0 locked pending ids sqls w" "trace w' = trace w" "writes_disabled w \<Longrightarrow> writes_disabled w'"
    and "sessions w' = sessions w \<or> cursors_accounted g w'"
  shows "guarded g tr0 locked pending ids sqls w'"
proof -
  have "cursors_accounted g w'"
    using assms(1,2,4) cursors_accounted_mono [of g w w' "[]"] by (auto simp: guarded_def)
  then show ?thesis
    using assms writes_accounted_step [of g pending _ w w' "[]" "[]"] unfolding guarded_def by fastforce
qed

lemma guarded_simps [intro]:
  "guarded g tr0 locked pending ids sqls w \<Longrightarrow> guarded g tr0 locked pending ids sqls (suspend h t w)"
  "guarded g tr0 locked pending ids sqls w \<Longrightarrow> guarded g tr0 locked pending ids sqls (lock_connection w)"
  "guarded g tr0 locked pending ids sqls w \<Longrightarrow> guarded g tr0 locked pending ids sqls (lock_globally w)"
  "guarded g tr0 locked pending ids sqls w \<Longrightarrow> guarded g tr0 locked pending ids sqls (w\<lparr>next_id := n\<rparr>)"
  by (erule guarded_same_trace; simp add: writes_disabled_suspend)+

text \<open>A session's state changes, and a cursor it now has is one that it had or whose operation is eligible.\<close>

lemma guarded_session:
  assumes "guarded g tr0 locked pending ids sqls w"
    and "\<And>c. ss_cursor s' = Some c \<Longrightarrow> (\<exists>d. ss_cursor (sessions w s) = Some d
        \<and> ca_operation_id (ac_audit d) = ca_operation_id (ac_audit c))
      \<or> ca_operation_id (ac_audit c) \<in> ids \<or> local_human g"
  shows "guarded g tr0 locked pending ids sqls (w\<lparr>sessions := (sessions w)(s := s')\<rparr>)"
proof (rule guarded_same_trace [OF assms(1)])
  have "cursors_accounted g w" "\<forall>i\<in>ids. intent_recorded i (trace w)" using assms(1) by (simp_all add: guarded_def)
  with assms(2) have "cursors_accounted g (w\<lparr>sessions := (sessions w)(s := s')\<rparr>)"
    by (fastforce simp: cursors_accounted_def)
  then show "sessions (w\<lparr>sessions := (sessions w)(s := s')\<rparr>) = sessions w
      \<or> cursors_accounted g (w\<lparr>sessions := (sessions w)(s := s')\<rparr>)" ..
qed simp_all

lemma guarded_add_id:
  "guarded g tr0 locked pending (insert i ids) sqls w
   \<longleftrightarrow> guarded g tr0 locked pending ids sqls w \<and> intent_recorded i (trace w)"
  by (auto simp: guarded_def)

lemma guarded_add_statement:
  "guarded g tr0 locked pending ids (insert s sqls) w
   \<longleftrightarrow> guarded g tr0 locked pending ids sqls w \<and> permitted g (trace w) s"
  by (auto simp: guarded_def)

text \<open>A pending write is accounted for once its outcome is recorded or the connection is locked.\<close>

lemma guarded_settle:
  assumes "guarded g tr0 locked ({i} \<times> C \<union> pending) ids sqls w"
    and "\<And>c. c \<in> C \<Longrightarrow> call_writes g c \<Longrightarrow> outcome_recorded i (trace w) \<or> writes_disabled w"
  shows "guarded g tr0 locked pending ids sqls w"
  using assms unfolding guarded_def writes_accounted_def by fastforce

lemma guarded_pending: "guarded g tr0 locked pending ids sqls w \<Longrightarrow> guarded g tr0 locked (P \<union> pending) ids sqls w"
  unfolding guarded_def writes_accounted_def by fastforce

end
