(* ===== verification/Guard_Laws.thy ===== *)
theory Guard_Laws
  imports Guard_Logic
begin

text \<open>
  The functions of \<open>Guard_Core\<close>, proved once for every invariant that survives what they do besides calling the
  driver (the locale \<open>quiet_invariant\<close>), and then for the guard's invariant: an accepted intent puts its
  operation among those that may call the driver, and an authorization puts its statement among those that may
  run.
\<close>

section \<open>Invariants that survive everything but driver calls\<close>

definition quiet_event :: "guard \<Rightarrow> event \<Rightarrow> bool" where
  "quiet_event g e =
     (case e of
        Dispatched _ _ _ \<Rightarrow> False
      | Recorded ev _ \<Rightarrow> record_redacted g ev
      | RecordAbandoned ev \<Rightarrow> record_redacted g ev
      | _ \<Rightarrow> True)"

lemma keeps_gmodify: "(\<And>w. I w \<Longrightarrow> I (f w)) \<Longrightarrow> keeps I (gmodify f)"
  by (simp add: keeps_iff gmodify_def)

lemma keeps_case_failure [keeps_intro]:
  "(\<And>e. keeps I (f e)) \<Longrightarrow> keeps I m \<Longrightarrow> keeps I (case r of DriverFailed e \<Rightarrow> f e | DriverPanicked \<Rightarrow> m)"
  by (cases r) auto

text \<open>A run that never succeeds.\<close>

definition never_ok :: "('a, 'e) run \<Rightarrow> bool" where
  "never_ok m \<longleftrightarrow> (\<forall>w x w'. m w \<noteq> (Ok x, w'))"

lemma never_ok_gfail: "never_ok (gfail e)"
  by (simp add: never_ok_def gfail_def)

lemma never_ok_gbind: "(\<And>x. never_ok (f x)) \<Longrightarrow> never_ok (gbind m f)"
  by (auto simp: never_ok_def gbind_def split: prod.splits outcome.splits)

lemma never_ok_gtry: "(\<And>r. never_ok (f r)) \<Longrightarrow> never_ok (gtry m f)"
  by (auto simp: never_ok_def gtry_def split: prod.splits outcome.splits)

lemmas never_ok_intros = never_ok_gfail never_ok_gbind never_ok_gtry

lemma keeps_failing:
  assumes "keeps I m" "never_ok m"
  shows "hoare I m Q (\<lambda>_. I) I"
proof (rule hoareI)
  fix w assume "I w"
  with assms(1) have "ended (\<lambda>_. I) (\<lambda>_. I) I (m w)" by (auto simp: keeps_def dest: hoareD)
  then show "ended Q (\<lambda>_. I) I (m w)"
    using assms(2) by (cases "m w" rule: ended_cases) (auto simp: never_ok_def)
qed

lemma select_biased_mem: "select_biased bs = Some (t, x) \<Longrightarrow> x \<in> snd ` set bs"
  by (induction bs arbitrary: t x rule: select_biased.induct) (auto split: option.splits if_splits)

lemma never_ok_record_refusal: "never_ok (record_refusal g sql f d approval pstate out e)"
  unfolding record_refusal_def by (intro never_ok_intros)

locale quiet_invariant =
  fixes g :: guard and I :: "world \<Rightarrow> bool"
  assumes survives_wait: "I w \<Longrightarrow> I (suspend g t w)"
    and survives_connection_lock: "I w \<Longrightarrow> I (lock_connection w)"
    and survives_global_lock: "I w \<Longrightarrow> I (lock_globally w)"
    and survives_fresh_id: "I w \<Longrightarrow> I (w\<lparr>next_id := n\<rparr>)"
    and survives_event: "I w \<Longrightarrow> quiet_event g e \<Longrightarrow> I (emit e w)"
begin

lemma keeps_fresh_id [keeps_intro]: "keeps I fresh_id"
  by (simp add: keeps_iff fresh_id_def survives_fresh_id)

lemma keeps_locks [keeps_intro]:
  "keeps I (gmodify (if c then lock_connection else id))"
  "keeps I (gmodify (if c then id else lock_globally))"
  "keeps I (gmodify lock_connection)"
  "keeps I (gmodify lock_globally)"
  by (intro keeps_gmodify; auto simp: survives_connection_lock survives_global_lock)+

lemma sink_record_hoare:
  assumes "record_redacted g ev"
  shows "hoare I (sink_record g ev) (\<lambda>_ w. I w \<and> Recorded ev None \<in> set (trace w)) (\<lambda>_. I) I"
proof (rule hoareI)
  fix w assume "I w"
  then have "I (emit e (suspend g t w))" if "quiet_event g e" for e t
    using that by (intro survives_event survives_wait)
  then show "ended (\<lambda>_ w. I w \<and> Recorded ev None \<in> set (trace w)) (\<lambda>_. I) I (sink_record g ev w)"
    using assms by (simp add: sink_record_def quiet_event_def split: reply.splits sum.splits)
qed

lemma audit_record_hoare:
  "hoare I (audit_record g op phase status tx rows category d)
    (\<lambda>_ w. I w \<and> (\<exists>ev. Recorded ev None \<in> set (trace w) \<and> ev_phase ev = phase \<and> ev_operation_id ev = op_id op))
    (\<lambda>_. I) I"
  unfolding audit_record_def
  by (rule hoare_gbind [OF hoare_gget], rule hoare_conseq [OF sink_record_hoare])
    (auto simp: record_redacted_def)

lemma record_outcome_hoare:
  "hoare I (record_outcome g op out) (\<lambda>_ w. I w \<and> outcome_recorded (op_id op) (trace w)) (\<lambda>_. I) I"
  unfolding record_outcome_def outcome_recorded_def by (rule audit_record_hoare)

lemma keeps_audit_record [keeps_intro]: "keeps I (audit_record g op phase status tx rows category d)"
  unfolding keeps_def by (rule hoare_conseq [OF audit_record_hoare]) auto

lemma keeps_record_outcome [keeps_intro]: "keeps I (record_outcome g op out)"
  unfolding record_outcome_def by (intro keeps_intro)

lemma record_intent_hoare:
  "hoare I (record_intent g op) (\<lambda>_ w. I w \<and> intent_recorded (op_id op) (trace w)) (\<lambda>_. I) I"
  unfolding record_intent_def
proof (rule hoare_gtry)
  let ?Q = "\<lambda>r w. I w \<and> (\<forall>u. r = Inr u \<longrightarrow> intent_recorded (op_id op) (trace w))"
  show "hoare I (audit_record g op IntentPhase StatusPending
      (if op_class op = ClassCommit \<or> op_class op = ClassRollback then TxPending else TxNotApplicable) None None None)
    (\<lambda>x. ?Q (Inr x)) (\<lambda>e. ?Q (Inl e)) I"
    by (rule hoare_conseq [OF audit_record_hoare]) (auto simp: intent_recorded_def)
  fix r :: "audit_error + unit"
  let ?refused = "gbind (gmodify (if r = Inl UnresolvedWrite then lock_connection else id)) (\<lambda>_.
        gtry (record_outcome g op denied_outcome) (\<lambda>recorded.
        gbind (gmodify (if recorded = Inr () then id else lock_globally)) (\<lambda>_. gresult r)))"
  have refused: "hoare I ?refused Q (\<lambda>_. I) I" if "r = Inl UnresolvedWrite \<or> r = Inl WriteInFlight" for Q
  proof (rule keeps_failing)
    show "keeps I ?refused" by (intro keeps_intro)
    have "never_ok (gresult r :: (unit, audit_error) run)"
      using that by (auto simp: gresult_def intro: never_ok_gfail)
    then show "never_ok ?refused" by (intro never_ok_gbind never_ok_gtry)
  qed
  show "hoare (?Q r) (if r = Inl UnresolvedWrite \<or> r = Inl WriteInFlight then ?refused else gresult r)
      (\<lambda>_ w. I w \<and> intent_recorded (op_id op) (trace w)) (\<lambda>_. I) I"
  proof (rule hoare_if)
    assume "r = Inl UnresolvedWrite \<or> r = Inl WriteInFlight"
    then show "hoare (?Q r) ?refused (\<lambda>_ w. I w \<and> intent_recorded (op_id op) (trace w)) (\<lambda>_. I) I"
      by (rule hoare_conseq [OF refused]) simp_all
  next
    show "hoare (?Q r) (gresult r) (\<lambda>_ w. I w \<and> intent_recorded (op_id op) (trace w)) (\<lambda>_. I) I"
      by (rule hoare_conseq [OF hoare_gresult]) (auto split: sum.splits)
  qed
qed

lemma keeps_record_intent [keeps_intro]: "keeps I (record_intent g op)"
  unfolding keeps_def by (rule hoare_conseq [OF record_intent_hoare]) auto

lemma keeps_report [keeps_intro]:
  "keeps I (gmodify (report_fault h name))"
  "keeps I (gmodify (report_if_disconnected h name e))"
  by (intro keeps_gmodify;
      auto simp: report_fault_def report_if_disconnected_def quiet_event_def intro!: survives_event)+

lemma keeps_caught [keeps_intro]:
  "keeps I m \<Longrightarrow> keeps I (caught_read h name m)"
  "keeps I m \<Longrightarrow> keeps I (caught_write h name m)"
  unfolding caught_read_def caught_write_def by (intro keeps_intro; assumption)+

lemma keeps_caught_sync [keeps_intro]: "keeps I (caught_sync h name f)"
  by (auto simp: keeps_iff caught_sync_def report_fault_def quiet_event_def split: option.splits
      intro!: survives_event)

lemma keeps_armed_scope [keeps_intro]: "keeps I m \<Longrightarrow> keeps I (armed_scope m)"
  unfolding keeps_def
  by (rule hoare_armed_scope, erule hoare_conseq) (auto simp: survives_connection_lock)

lemma keeps_handlers [keeps_intro]:
  "keeps I (handle_non_execution_audit_failure r)"
  "keeps I (handle_read_audit_failure h r)"
  "keeps I (handle_write_outcome_failure r)"
  "keeps I (handle_intent_failure h r)"
  unfolding handle_non_execution_audit_failure_def handle_read_audit_failure_def handle_write_outcome_failure_def
    handle_intent_failure_def
  by (cases r; (simp split: audit_error.split)?; intro keeps_intro conjI allI impI)+

lemma keeps_audit_results [keeps_intro]:
  "keeps I (audit_read_result g op start result rows)"
  "keeps I (audit_controlled_read_result g op start result rows)"
  "keeps I (audit_write_result g op start result rows)"
  "keeps I (audit_transaction_result g op start result rows mode)"
  unfolding audit_read_result_def audit_controlled_read_result_def audit_write_result_def audit_transaction_result_def
    Let_def
  by (intro keeps_intro)+

lemma write_outcome_failure_hoare:
  "hoare (\<lambda>w. case r of Inl _ \<Rightarrow> I w | Inr _ \<Rightarrow> I w \<and> K w) (handle_write_outcome_failure r)
    (\<lambda>_ w. I w \<and> K w) (\<lambda>_. I) I"
proof (cases r)
  case (Inl e)
  have "never_ok (handle_write_outcome_failure r)"
    unfolding handle_write_outcome_failure_def Inl sum.case by (intro never_ok_intros)
  from keeps_failing [OF keeps_handlers(3) this] show ?thesis by (simp add: Inl)
qed (simp add: handle_write_outcome_failure_def hoare_def gret_def)

lemma recorded_or_fails:
  assumes "hoare I m (\<lambda>_ w. I w \<and> outcome_recorded i (trace w)) (\<lambda>_. I) I"
  shows "hoare I (gtry m handle_write_outcome_failure) (\<lambda>_ w. I w \<and> outcome_recorded i (trace w)) (\<lambda>_. I) I"
  by (rule hoare_gtry [where Q = "\<lambda>r w. case r of Inl _ \<Rightarrow> I w | Inr _ \<Rightarrow> I w \<and> outcome_recorded i (trace w)"])
    (use assms in \<open>simp_all add: write_outcome_failure_hoare\<close>)

lemma locked_outcome_hoare:
  "hoare I (gbind (gmodify (if c then lock_connection else id)) (\<lambda>_. record_outcome g op out))
    (\<lambda>_ w. I w \<and> outcome_recorded (op_id op) (trace w)) (\<lambda>_. I) I"
  using keeps_locks(1) unfolding keeps_def by (rule hoare_gbind) (rule record_outcome_hoare)

lemma audit_write_result_hoare:
  "hoare I (audit_write_result g op start result rows) (\<lambda>_ w. I w \<and> outcome_recorded (op_id op) (trace w)) (\<lambda>_. I) I"
  unfolding audit_write_result_def
  by (rule hoare_gbind [OF hoare_gget], rule recorded_or_fails)
    (auto simp: Let_def record_outcome_hoare locked_outcome_hoare split: sum.split prod.split)

lemma audit_transaction_result_hoare:
  assumes "class_is_write (op_class op)"
  shows "hoare I (audit_transaction_result g op start result rows mode)
    (\<lambda>_ w. I w \<and> outcome_recorded (op_id op) (trace w)) (\<lambda>_. I) I"
  unfolding audit_transaction_result_def
  by (rule hoare_gbind [OF hoare_gget], simp only: assms simp_thms if_True, rule recorded_or_fails)
    (auto simp: Let_def record_outcome_hoare locked_outcome_hoare split: sum.split prod.split)

lemma operation_hoare:
  "hoare I (operation h sql batch f d approval pstate)
    (\<lambda>op w. I w \<and> op_class op = from_statement (facts_class f) (facts_writes f)) (\<lambda>_. I) I"
  by (auto simp: operation_def hoare_def gbind_def gret_def fresh_id_def survives_fresh_id)

lemma keeps_operations [keeps_intro]:
  "keeps I (operation h sql batch f d approval pstate)"
  "keeps I (metadata_operation name targets)"
  "keeps I (table_metadata_operation name schema table)"
  "keeps I (commit_operation b)"
  unfolding operation_def metadata_operation_def table_metadata_operation_def commit_operation_def
  by (intro keeps_intro)+

lemma survives_approval:
  assumes "I w"
  shows "I (suspend g t (emit (ApprovalAsked req) w))"
    and "I (approval_answered req reply (suspend g t (emit (ApprovalAsked req) w)))"
    and "I (emit TokenCancelled w)"
    and "I (emit TokenCancelled (suspend g t (emit (ApprovalAsked req) w)))"
    and "I (emit (ApprovalAsked req) w)"
  using assms
  by (auto simp: approval_answered_def quiet_event_def split: reply.splits intro!: survives_event survives_wait)

lemma await_approval_hoare:
  "hoare I (await_approval g req control) (\<lambda>x w. I w \<and> ApprovalAnswered req x \<in> set (trace w))
    (\<lambda>e w. I w \<and> e \<in> {Cancelled, TimedOut}) I"
  (is "hoare I _ ?Q ?X I")
proof (rule hoareI)
  fix w assume I: "I w"
  let ?reply = "approval_sink g (trace w) req" and ?asked = "emit (ApprovalAsked req) w"
  have answered: "ended ?Q ?X I (approval_result ?reply, approval_answered req ?reply (suspend g t ?asked))" for t
    using survives_approval(2) [OF I, of req ?reply t]
    by (cases ?reply) (auto simp: approval_result_def approval_answered_def)
  show "ended ?Q ?X I (await_approval g req control w)"
  proof (cases control)
    case None
    then show ?thesis using answered by (simp add: await_approval_def Let_def)
  next
    case (Some c)
    let ?branches = "[(cancelled_at c, Some (Err Cancelled)), (deadline c, Some (Err TimedOut)),
        (Some (now w + approval_time ?reply), None)] :: (nat option \<times> (approval_outcome, driver_error) outcome option) list"
    have "x \<in> {Some (Err Cancelled), Some (Err TimedOut), None}" if "select_biased ?branches = Some (t, x)" for t x
      using select_biased_mem [OF that] by auto
    then show ?thesis
      using answered survives_approval [OF I] I
      by (cases "select_biased ?branches") (fastforce simp: await_approval_def Some Let_def)+
  qed
qed

lemma keeps_await_approval [keeps_intro]: "keeps I (await_approval g req control)"
  unfolding keeps_def by (rule hoare_conseq [OF await_approval_hoare]) auto

lemma keeps_record_refusal [keeps_intro]: "keeps I (record_refusal g sql f d approval pstate out e)"
  unfolding record_refusal_def by (intro keeps_intro)

lemmas refusal_hoare = keeps_failing [OF keeps_record_refusal never_ok_record_refusal]

lemma resolve_denied_hoare:
  "is_deny d \<Longrightarrow> hoare I (resolve_authorization g sql a d rows control) Q (\<lambda>_. I) I"
  by (cases d) (simp_all add: resolve_authorization_def refusal_hoare)

lemma keeps_resolve_authorization [keeps_intro]: "keeps I (resolve_authorization g sql a d rows control)"
  by (cases d; simp add: resolve_authorization_def Let_def; intro keeps_intro;
      simp split: approval_outcome.split; intro keeps_intro conjI impI)

lemma resolve_authorization_hoare:
  assumes "d = verdict g sql rows"
  shows "hoare I (resolve_authorization g sql a d rows control)
    (\<lambda>auth w. I w \<and> permitted g (trace w) sql \<and> auth_analysis auth = a) (\<lambda>_. I) I"
  (is "hoare I _ ?Q _ _")
proof (cases d)
  case (Allow rule)
  with assms have "permitted g tr sql" for tr unfolding permitted_def by (metis is_allow.simps(1))
  then show ?thesis
    by (simp add: resolve_authorization_def Allow hoare_def gret_def)
next
  case (Deny rule msg)
  then show ?thesis by (simp add: resolve_denied_hoare)
next
  case (RequireApproval rule why shown)
  let ?req = "\<lparr>ar_principal = ctx_principal g, ar_environment = ctx_environment g,
      ar_connection_id = ctx_connection_id g, ar_connection_name = ctx_connection_name g, ar_sql = sql,
      ar_facts = facts a, ar_rule = rule, ar_reason = why, ar_preview = shown, ar_estimated_rows = rows\<rparr>"
  let ?R = "\<lambda>r w. I w \<and> (\<forall>x. r = Inr x \<longrightarrow> ApprovalAnswered ?req x \<in> set (trace w))"
  have approved: "permitted g tr sql" if "ApprovalAnswered ?req AllowOnce \<in> set tr" for tr
    unfolding permitted_def using that assms RequireApproval by (intro exI disjI2) auto
  show ?thesis
    unfolding resolve_authorization_def RequireApproval decision.case Let_def
  proof (rule hoare_gtry [where Q = ?R], rule hoare_conseq [OF await_approval_hoare], goal_cases)
    case (5 r)
    then show ?case
      by (cases r) (auto simp: hoare_def gret_def approved
          intro!: refusal_hoare [THEN hoareD] split: approval_outcome.splits)
  qed auto
qed

end

section \<open>The guard's invariant\<close>

lemma guarded_quiet: "quiet_invariant g (guarded g tr0 locked pending ids sqls)"
proof
  fix w e
  assume "guarded g tr0 locked pending ids sqls w" "quiet_event g e"
  then show "guarded g tr0 locked pending ids sqls (emit e w)"
    by (intro guarded_emit) (auto simp: quiet_event_def event_ok_def split: event.splits)
qed auto

interpretation guarded: quiet_invariant g "guarded g tr0 locked pending ids sqls" for g tr0 locked pending ids sqls
  by (rule guarded_quiet)

lemma record_intent_eligible:
  "hoare (guarded g tr0 locked pending ids sqls) (record_intent g op)
    (\<lambda>_. guarded g tr0 locked pending (insert (op_id op) ids) sqls)
    (\<lambda>_. guarded g tr0 locked pending ids sqls) (guarded g tr0 locked pending ids sqls)"
  by (rule hoare_conseq [OF guarded.record_intent_hoare]) (auto simp: guarded_add_id)

text \<open>Steps that make more operations or statements eligible, and what they return.\<close>

lemma guarded_subset:
  "guarded g tr0 locked pending ids' sqls' w \<Longrightarrow> ids \<subseteq> ids' \<Longrightarrow> sqls \<subseteq> sqls'
   \<Longrightarrow> guarded g tr0 locked pending ids sqls w"
  by (auto simp: guarded_def)

lemma keeps_gbind_eligible:
  assumes "hoare (guarded g tr0 locked pending ids sqls) m (\<lambda>x w. guarded g tr0 locked pending ids' sqls' w \<and> K x)
      (\<lambda>_. guarded g tr0 locked pending ids sqls) (guarded g tr0 locked pending ids sqls)"
    and "\<And>x. K x \<Longrightarrow> keeps (guarded g tr0 locked pending ids' sqls') (f x)"
    and "ids \<subseteq> ids'" "sqls \<subseteq> sqls'"
  shows "keeps (guarded g tr0 locked pending ids sqls) (gbind m f)"
  unfolding keeps_def
proof (rule hoare_gbind [OF assms(1)])
  fix x
  show "hoare (\<lambda>w. guarded g tr0 locked pending ids' sqls' w \<and> K x) (f x) (\<lambda>_. guarded g tr0 locked pending ids sqls)
      (\<lambda>_. guarded g tr0 locked pending ids sqls) (guarded g tr0 locked pending ids sqls)"
  proof (cases "K x")
    case True
    from assms(2) [OF this] show ?thesis
      unfolding keeps_def by (rule hoare_conseq) (auto intro: guarded_subset [OF _ assms(3,4)])
  qed (simp add: hoare_def)
qed

lemma keeps_gbind_intent:
  assumes "\<And>x. keeps (guarded g tr0 locked pending (insert (op_id op) ids) sqls) (f x)"
  shows "keeps (guarded g tr0 locked pending ids sqls) (gbind (map_error h (record_intent g op)) f)"
proof (rule keeps_gbind_eligible [where K = "\<lambda>_. True"])
  show "hoare (guarded g tr0 locked pending ids sqls) (map_error h (record_intent g op))
      (\<lambda>x w. guarded g tr0 locked pending (insert (op_id op) ids) sqls w \<and> True)
      (\<lambda>_. guarded g tr0 locked pending ids sqls) (guarded g tr0 locked pending ids sqls)"
    by (rule hoare_map_error, rule hoare_conseq [OF record_intent_eligible]) auto
qed (use assms in auto)

lemma keeps_gbind_prepared_read:
  assumes "\<And>x ids'. ids \<subseteq> ids' \<Longrightarrow> op_id op \<in> ids' \<or> local_human g
      \<Longrightarrow> keeps (guarded g tr0 locked pending ids' sqls) (f x)"
  shows "keeps (guarded g tr0 locked pending ids sqls) (gbind (prepare_governed_read g op) f)"
proof (cases "local_human g")
  case True
  then show ?thesis
    using assms [of ids] by (simp add: prepare_governed_read_def keeps_gbind keeps_gret)
next
  case False
  then show ?thesis
    using assms [OF subset_insertI]
    by (auto simp: prepare_governed_read_def intro!: keeps_gbind_intent)
qed

lemma keeps_gtry_write_intent:
  assumes "\<And>x ids'. ids \<subseteq> ids' \<Longrightarrow> op_id op \<in> ids' \<or> allows_unaudited_local_write g
      \<Longrightarrow> keeps (guarded g tr0 locked pending ids' sqls) (f x)"
  shows "keeps (guarded g tr0 locked pending ids sqls)
      (gtry (record_intent g op) (\<lambda>r. gbind (handle_intent_failure g r) f))"
  unfolding keeps_def
proof (rule hoare_gtry)
  let ?I = "guarded g tr0 locked pending ids sqls" and ?J = "guarded g tr0 locked pending (insert (op_id op) ids) sqls"
  let ?Q = "\<lambda>r w. case r of Inr _ \<Rightarrow> ?J w | Inl _ \<Rightarrow> ?I w"
  show "hoare ?I (record_intent g op) (\<lambda>x. ?Q (Inr x)) (\<lambda>e. ?Q (Inl e)) ?I"
    by (rule hoare_conseq [OF record_intent_eligible]) auto
  fix r :: "audit_error + unit"
  show "hoare (?Q r) (gbind (handle_intent_failure g r) f) (\<lambda>_. ?I) (\<lambda>_. ?I) ?I"
  proof (cases r)
    case (Inr u)
    have "keeps ?J (gbind (handle_intent_failure g r) f)"
      using assms [OF subset_insertI] by (auto simp: handle_intent_failure_def Inr intro!: keeps_intro)
    then show ?thesis
      unfolding keeps_def by (rule hoare_conseq) (auto simp: Inr guarded_add_id)
  next
    case (Inl e)
    have "keeps ?I (gbind (handle_intent_failure g r) f)"
      using assms [of ids]
      by (cases "intent_is_required g"; cases e)
        (auto simp: handle_intent_failure_def intent_is_required_def Inl gbind_def gfail_def gret_def keeps_iff)
    then show ?thesis unfolding keeps_def by (rule hoare_conseq) (auto simp: Inl)
  qed
qed

section \<open>Calls of the driver\<close>

definition may_dispatch :: "guard \<Rightarrow> bool \<Rightarrow> uuid set \<Rightarrow> string set \<Rightarrow> boundary \<Rightarrow> uuid \<Rightarrow> driver_call \<Rightarrow> bool" where
  "may_dispatch g locked ids sqls b i c \<longleftrightarrow>
     (i \<in> ids \<or> intent_waived g b c)
     \<and> (case call_statement c of
          None \<Rightarrow> True
        | Some s \<Rightarrow> s \<in> sqls \<or> (b = ReadBoundary \<and> is_count_query g s))
     \<and> control_ok g c \<and> \<not> (locked \<and> b = WriteBoundary \<and> \<not> is_rollback c)"

lemma keeps_dispatch_event:
  assumes "\<And>w. guarded g tr0 locked pending ids sqls w \<Longrightarrow> event_ok g locked (trace w) (Dispatched b i c)"
    and "\<And>j. b = WriteBoundary \<Longrightarrow> i = Some j \<Longrightarrow> (j, c) \<in> pending"
  shows "keeps (guarded g tr0 locked pending ids sqls) (dispatch g b i c f)"
  unfolding keeps_iff
proof (intro allI impI)
  fix w assume "guarded g tr0 locked pending ids sqls w"
  then have "guarded g tr0 locked pending ids sqls (suspend g t (emit (Dispatched b i c) w))" for t
    using assms by (intro guarded_simps guarded_emit) auto
  then show "guarded g tr0 locked pending ids sqls (snd (dispatch g b i c f w))"
    by (simp add: dispatch_def Let_def split: reply.splits sum.splits)
qed

lemma keeps_dispatch:
  assumes "may_dispatch g locked ids sqls b i c" "b = WriteBoundary \<Longrightarrow> (i, c) \<in> pending"
  shows "keeps (guarded g tr0 locked pending ids sqls) (dispatch g b (Some i) c f)"
  by (rule keeps_dispatch_event)
    (use assms in \<open>auto simp: may_dispatch_def event_ok_def statement_ok_def guarded_def
      simp del: control_ok_def split: option.splits\<close>)

lemmas keeps_dispatch_read = keeps_dispatch [where b = ReadBoundary, simplified]
lemmas keeps_dispatch_write = keeps_dispatch [where b = WriteBoundary, simplified]

lemma keeps_dispatch_unaudited:
  "is_unaudited_call b c \<Longrightarrow> control_ok g c \<Longrightarrow> keeps (guarded g tr0 locked pending ids sqls) (dispatch g b None c f)"
  by (rule keeps_dispatch_event) (simp_all add: event_ok_def del: control_ok_def)

lemma keeps_gbind_available:
  assumes "\<And>x. \<not> locked \<Longrightarrow> keeps (guarded g tr0 locked pending ids sqls) (f x)"
  shows "keeps (guarded g tr0 locked pending ids sqls) (gbind require_governed_write_available f)"
proof (cases locked)
  case True
  then show ?thesis
    by (auto simp: keeps_iff gbind_def require_governed_write_available_def guarded_def)
next
  case False
  then show ?thesis
    using assms by (auto simp: keeps_iff gbind_def require_governed_write_available_def)
qed

section \<open>Authorization\<close>

lemma resolve_eligible:
  "d = verdict g sql rows \<Longrightarrow>
   hoare (guarded g tr0 locked pending ids sqls) (resolve_authorization g sql a d rows control)
    (\<lambda>auth w. guarded g tr0 locked pending ids (insert sql sqls) w \<and> auth_analysis auth = a)
    (\<lambda>_. guarded g tr0 locked pending ids sqls) (guarded g tr0 locked pending ids sqls)"
  by (rule hoare_conseq [OF guarded.resolve_authorization_hoare]) (auto simp: guarded_add_statement)

lemma count_call_keeps:
  assumes "i \<in> ids" "is_count_query g sql"
  shows "keeps (guarded g tr0 locked pending ids sqls) (count_call g c i sql control)"
  unfolding count_call_def
  by (cases c) (simp_all, (intro keeps_dispatch; simp add: may_dispatch_def assms)+)

lemma keeps_estimate_blast_radius [keeps_intro]:
  assumes "a = guard_analyze g sql"
  shows "keeps (guarded g tr0 locked pending ids sqls) (estimate_blast_radius g a control c)"
proof (cases "blast_radius a")
  case (Some r)
  show ?thesis
  proof (cases r)
    case (CountQuery q)
    with Some assms have "is_count_query g (count_sql q)" unfolding is_count_query_def by blast
    then show ?thesis
      unfolding estimate_blast_radius_def Some CountQuery option.case blast_radius_rewrite.case
      by (intro keeps_gbind [OF guarded.keeps_operations(2)] keeps_gbind_intent)
        (intro keeps_intro count_call_keeps; simp)
  qed (simp add: estimate_blast_radius_def Some keeps_gret)
qed (simp add: estimate_blast_radius_def keeps_gret)

lemma authorize_with_bound_hoare:
  assumes "a = guard_analyze g sql"
  shows "hoare (guarded g tr0 locked pending ids sqls) (authorize_with_bound g sql a enforced control c)
    (\<lambda>auth w. guarded g tr0 locked pending ids (insert sql sqls) w \<and> auth_analysis auth = a)
    (\<lambda>_. guarded g tr0 locked pending ids sqls) (guarded g tr0 locked pending ids sqls)"
  (is "hoare ?I _ ?Q _ _")
proof (rule hoareI)
  fix w assume I: "?I w"
  let ?f = "facts a" and ?pol = "effective_policy g"
  let ?cat = "evaluate_categorical (ctx_principal g) (ctx_environment g) ?f (ctx_read_only g) ?pol"
  show "ended ?Q (\<lambda>_. ?I) ?I (authorize_with_bound g sql a enforced control c w)"
  proof (cases "?cat = None")
    case False
    have "evaluate_with_effects (ctx_principal g) (ctx_environment g) ?f (ctx_read_only g) ?pol None
        = verdict g sql None"
      by (simp add: verdict_def evaluate_def assms)
    with False show ?thesis
      using hoareD [OF resolve_eligible I] by (simp add: authorize_with_bound_def Let_def)
  next
    case True
    show ?thesis
    proof (cases "governed_write_refusal w")
      case (Some d)
      then have "is_deny d"
        by (auto simp: governed_write_refusal_def split: outcome.splits)
      then show ?thesis
        using True Some hoareD [OF guarded.resolve_denied_hoare I] by (simp add: authorize_with_bound_def Let_def)
    next
      case None
      let ?est = "if contains_mutating_dml ?f \<and> facts_class ?f \<noteq> Administrative
              \<and> \<not> eff_contains (facts_effects ?f) ADMIN \<and> \<not> eff_contains (facts_effects ?f) UNKNOWN
              \<and> blast_radius_max_rows ?pol \<noteq> None
            then (case enforced of Some rows \<Rightarrow> gret (Some rows) | None \<Rightarrow> estimate_blast_radius g a control c)
            else gret None"
      have "keeps ?I ?est" by (intro keeps_intro) (rule assms)
      then have "hoare ?I (gbind ?est (\<lambda>rows. resolve_authorization g sql a
          (evaluate_eligible_write (ctx_principal g) (ctx_environment g) ?f ?pol rows) rows control)) ?Q (\<lambda>_. ?I) ?I"
        unfolding keeps_def
        by (rule hoare_gbind)
          (rule resolve_eligible, use evaluate_eligible [OF True] assms in \<open>simp add: verdict_def\<close>)
      from hoareD [OF this I] show ?thesis
        using True None by (simp add: authorize_with_bound_def Let_def)
    qed
  qed
qed

lemma transaction_refusals:
  "shared_connection_decision P sql driver f = Some d \<Longrightarrow> is_deny d"
  "interactive_transaction_decision P driver sql f = Some d \<Longrightarrow> is_deny d"
  by (auto simp: shared_connection_decision_def interactive_transaction_decision_def Let_def
      split: option.splits if_splits)

lemma authorize_analysis_hoare:
  assumes "a = guard_analyze g sql"
  shows "hoare (guarded g tr0 locked pending ids sqls) (authorize_analysis g sql a enforced control)
    (\<lambda>auth w. guarded g tr0 locked pending ids (insert sql sqls) w \<and> auth_analysis auth = a)
    (\<lambda>_. guarded g tr0 locked pending ids sqls) (guarded g tr0 locked pending ids sqls)"
  unfolding authorize_analysis_def
  by (auto split: option.split intro: authorize_with_bound_hoare [OF assms] guarded.resolve_denied_hoare transaction_refusals)

lemma authorize_hoare:
  "hoare (guarded g tr0 locked pending ids sqls) (authorize g sql control)
    (\<lambda>auth w. guarded g tr0 locked pending ids (insert sql sqls) w \<and> auth_analysis auth = guard_analyze g sql)
    (\<lambda>_. guarded g tr0 locked pending ids sqls) (guarded g tr0 locked pending ids sqls)"
  unfolding authorize_def by (rule authorize_analysis_hoare) simp

lemma authorize_in_transaction_hoare:
  "hoare (guarded g tr0 locked pending ids sqls) (authorize_in_transaction g sql control h)
    (\<lambda>auth w. guarded g tr0 locked pending ids (insert sql sqls) w \<and> auth_analysis auth = guard_analyze g sql)
    (\<lambda>_. guarded g tr0 locked pending ids sqls) (guarded g tr0 locked pending ids sqls)"
  unfolding authorize_in_transaction_def Let_def
  by (auto split: option.split intro: authorize_with_bound_hoare [OF refl] guarded.resolve_denied_hoare transaction_refusals)

section \<open>Armed writes\<close>

text \<open>\<open>facts.writes()\<close> and the class that is recorded agree on what is a write.\<close>

lemma class_is_write_from_statement:
  "facts_writes f \<Longrightarrow> class_is_write (from_statement (facts_class f) (facts_writes f))"
  by (cases "facts_class f") (simp_all add: facts_writes_def from_statement_def class_is_write_def)

text \<open>The scope of a pending write ends with its outcome on record or with the connection locked.\<close>

lemma keeps_armed_scope_settles:
  assumes "hoare (guarded g tr0 locked ({i} \<times> C \<union> pending) ids sqls) m
      (\<lambda>_ w. guarded g tr0 locked ({i} \<times> C \<union> pending) ids sqls w \<and> ((\<exists>c\<in>C. call_writes g c) \<longrightarrow> outcome_recorded i (trace w)))
      (\<lambda>_. guarded g tr0 locked ({i} \<times> C \<union> pending) ids sqls) (guarded g tr0 locked ({i} \<times> C \<union> pending) ids sqls)"
  shows "keeps (guarded g tr0 locked pending ids sqls) (armed_scope m)"
  unfolding keeps_def
  by (rule hoare_armed_scope, rule hoare_conseq [OF assms])
    (auto intro: guarded_pending guarded_settle)

end
