(* ===== verification/Guard_Connection.thy ===== *)
theory Guard_Connection
  imports Guard_Laws
begin

text \<open>
  The guarded connection, \<open>impl Connection for PolicyGuard\<close> in \<open>crates/policy/src/guard/connection.rs\<close>, one
  definition per method, and that every method keeps the guard's invariant. The methods of one family share
  their body, which the source repeats: a metadata read, a query, a write, an atomic batch.
\<close>

section \<open>Metadata reads\<close>

text \<open>\<open>check_pre_dispatch(control)?\<close>, where the method has a control.\<close>

definition pre_dispatch :: "ctl \<Rightarrow> (unit, driver_error) run" where
  "pre_dispatch control w =
     (case control of
        None \<Rightarrow> (Ok (), w)
      | Some c \<Rightarrow> (case check_pre_dispatch c (now w) of Inl e \<Rightarrow> (Err e, w) | Inr _ \<Rightarrow> (Ok (), w)))"

definition audit_read ::
    "guard \<Rightarrow> ctl \<Rightarrow> audit_operation \<Rightarrow> nat \<Rightarrow> driver_error + 'a \<Rightarrow> nat option \<Rightarrow> (unit, driver_error) run" where
  "audit_read g control op start result rows =
     (case control of
        None \<Rightarrow> audit_read_result g op start result rows
      | Some _ \<Rightarrow> audit_controlled_read_result g op start result rows)"

text \<open>
  The body of a metadata read: the intent, the call, what \<open>post\<close> makes of its value, the record of the outcome
  with the number of \<open>rows\<close>, and the result.
\<close>

definition governed_read ::
    "guard \<Rightarrow> ctl \<Rightarrow> string \<Rightarrow> audit_operation \<Rightarrow> driver_call \<Rightarrow> (trace \<Rightarrow> 'a driver_reply) \<Rightarrow> ('a \<Rightarrow> 'a) \<Rightarrow> ('a \<Rightarrow> nat option)
     \<Rightarrow> ('a, driver_error) run" where
  "governed_read g control name op call reply post rows =
     gbind (prepare_governed_read g op) (\<lambda>_.
     gbind (gget now) (\<lambda>start.
     gtry (caught_read g name (dispatch g ReadBoundary (Some (op_id op)) call reply)) (\<lambda>r.
     let result = map_result post r in
     gbind (audit_read g control op start result (Option.bind (result_ok result) rows)) (\<lambda>_.
     gresult result))))"

definition metadata_read ::
    "guard \<Rightarrow> ctl \<Rightarrow> string \<Rightarrow> (audit_operation, driver_error) run \<Rightarrow> driver_call \<Rightarrow> (trace \<Rightarrow> 'a driver_reply) \<Rightarrow> ('a \<Rightarrow> 'a)
     \<Rightarrow> ('a \<Rightarrow> nat option) \<Rightarrow> ('a, driver_error) run" where
  "metadata_read g control name new_operation call reply post rows =
     gbind (pre_dispatch control) (\<lambda>_.
     gbind new_operation (\<lambda>op.
     governed_read g control name op call reply post rows))"

abbreviation "counted xs \<equiv> Some (length xs)"

definition supports_server_cancellation :: "guard \<Rightarrow> (bool, 'e) run" where
  "supports_server_cancellation g =
     gbind (caught_sync g ''SERVER CANCELLATION CAPABILITY'' (drv_supports_server_cancellation (inner g)))
       (\<lambda>r. gret (unwrap_or r False))"

definition list_databases :: "guard \<Rightarrow> (string list, driver_error) run" where
  "list_databases g =
     metadata_read g None ''LIST DATABASES'' (metadata_operation ''LIST DATABASES'' [])
       (CallListDatabases None) (\<lambda>tr. drv_list_databases (inner g) tr None) id counted"

definition list_databases_controlled :: "guard \<Rightarrow> operation_control \<Rightarrow> (string list, driver_error) run" where
  "list_databases_controlled g c =
     metadata_read g (Some c) ''LIST DATABASES'' (metadata_operation ''LIST DATABASES'' [])
       (CallListDatabases (Some c)) (\<lambda>tr. drv_list_databases (inner g) tr (Some c)) id counted"

definition list_tables :: "guard \<Rightarrow> (table_info list, driver_error) run" where
  "list_tables g =
     metadata_read g None ''LIST TABLES'' (metadata_operation ''LIST TABLES'' [])
       (CallListTables None) (\<lambda>tr. drv_list_tables (inner g) tr None) id counted"

definition list_tables_controlled :: "guard \<Rightarrow> operation_control \<Rightarrow> (table_info list, driver_error) run" where
  "list_tables_controlled g c =
     metadata_read g (Some c) ''LIST TABLES'' (metadata_operation ''LIST TABLES'' [])
       (CallListTables (Some c)) (\<lambda>tr. drv_list_tables (inner g) tr (Some c)) id counted"

definition list_views :: "guard \<Rightarrow> (table_info list, driver_error) run" where
  "list_views g =
     metadata_read g None ''LIST VIEWS'' (metadata_operation ''LIST VIEWS'' [])
       (CallListViews None) (\<lambda>tr. drv_list_views (inner g) tr None) id counted"

definition list_views_controlled :: "guard \<Rightarrow> operation_control \<Rightarrow> (table_info list, driver_error) run" where
  "list_views_controlled g c =
     metadata_read g (Some c) ''LIST VIEWS'' (metadata_operation ''LIST VIEWS'' [])
       (CallListViews (Some c)) (\<lambda>tr. drv_list_views (inner g) tr (Some c)) id counted"

definition list_objects ::
    "guard \<Rightarrow> catalog_object_kind \<Rightarrow> string option \<Rightarrow> (catalog_object list, driver_error) run" where
  "list_objects g kind schema =
     metadata_read g None ''LIST OBJECTS'' (metadata_operation ''LIST OBJECTS'' (catalog_target kind schema))
       (CallListObjects kind schema None) (\<lambda>tr. drv_list_objects (inner g) tr kind schema None) id counted"

definition list_objects_controlled ::
    "guard \<Rightarrow> catalog_object_kind \<Rightarrow> string option \<Rightarrow> operation_control \<Rightarrow> (catalog_object list, driver_error) run" where
  "list_objects_controlled g kind schema c =
     metadata_read g (Some c) ''LIST OBJECTS'' (metadata_operation ''LIST OBJECTS'' (catalog_target kind schema))
       (CallListObjects kind schema (Some c)) (\<lambda>tr. drv_list_objects (inner g) tr kind schema (Some c)) id counted"

definition fetch_columns :: "guard \<Rightarrow> string option \<Rightarrow> string \<Rightarrow> (column_info list, driver_error) run" where
  "fetch_columns g schema table =
     metadata_read g None ''FETCH COLUMNS'' (table_metadata_operation ''FETCH COLUMNS'' schema table)
       (CallFetchColumns schema table None) (\<lambda>tr. drv_fetch_columns (inner g) tr schema table None) id counted"

definition fetch_columns_controlled ::
    "guard \<Rightarrow> string option \<Rightarrow> string \<Rightarrow> operation_control \<Rightarrow> (column_info list, driver_error) run" where
  "fetch_columns_controlled g schema table c =
     metadata_read g (Some c) ''FETCH COLUMNS'' (table_metadata_operation ''FETCH COLUMNS'' schema table)
       (CallFetchColumns schema table (Some c)) (\<lambda>tr. drv_fetch_columns (inner g) tr schema table (Some c)) id counted"

definition fetch_rows :: "guard \<Rightarrow> string option \<Rightarrow> string \<Rightarrow> nat \<Rightarrow> nat \<Rightarrow> (query_result, driver_error) run" where
  "fetch_rows g schema table offset limit =
     metadata_read g None ''FETCH ROWS'' (table_metadata_operation ''FETCH ROWS'' schema table)
       (CallFetchRows schema table offset limit None)
       (\<lambda>tr. drv_fetch_rows (inner g) tr schema table offset limit None)
       (mask_result g) (\<lambda>r. counted (result_rows r))"

definition fetch_rows_controlled ::
    "guard \<Rightarrow> string option \<Rightarrow> string \<Rightarrow> nat \<Rightarrow> nat \<Rightarrow> operation_control \<Rightarrow> (query_result, driver_error) run" where
  "fetch_rows_controlled g schema table offset limit c =
     metadata_read g (Some c) ''FETCH ROWS'' (table_metadata_operation ''FETCH ROWS'' schema table)
       (CallFetchRows schema table offset limit (Some c))
       (\<lambda>tr. drv_fetch_rows (inner g) tr schema table offset limit (Some c))
       (mask_result g) (\<lambda>r. counted (result_rows r))"

definition fetch_indexes ::
    "guard \<Rightarrow> string option \<Rightarrow> string \<Rightarrow> (index_info list, driver_error) run" where
  "fetch_indexes g schema table =
     metadata_read g None ''FETCH INDEXES'' (table_metadata_operation ''FETCH INDEXES'' schema table)
       (CallFetchIndexes schema table None) (\<lambda>tr. drv_fetch_indexes (inner g) tr schema table None) id counted"

definition fetch_indexes_controlled ::
    "guard \<Rightarrow> string option \<Rightarrow> string \<Rightarrow> operation_control \<Rightarrow> (index_info list, driver_error) run" where
  "fetch_indexes_controlled g schema table c =
     metadata_read g (Some c) ''FETCH INDEXES'' (table_metadata_operation ''FETCH INDEXES'' schema table)
       (CallFetchIndexes schema table (Some c)) (\<lambda>tr. drv_fetch_indexes (inner g) tr schema table (Some c)) id counted"

definition fetch_foreign_keys ::
    "guard \<Rightarrow> string option \<Rightarrow> string \<Rightarrow> (foreign_key_info list, driver_error) run" where
  "fetch_foreign_keys g schema table =
     metadata_read g None ''FETCH FOREIGN KEYS'' (table_metadata_operation ''FETCH FOREIGN KEYS'' schema table)
       (CallFetchForeignKeys schema table None) (\<lambda>tr. drv_fetch_foreign_keys (inner g) tr schema table None) id counted"

definition fetch_foreign_keys_controlled ::
    "guard \<Rightarrow> string option \<Rightarrow> string \<Rightarrow> operation_control \<Rightarrow> (foreign_key_info list, driver_error) run" where
  "fetch_foreign_keys_controlled g schema table c =
     metadata_read g (Some c) ''FETCH FOREIGN KEYS'' (table_metadata_operation ''FETCH FOREIGN KEYS'' schema table)
       (CallFetchForeignKeys schema table (Some c)) (\<lambda>tr. drv_fetch_foreign_keys (inner g) tr schema table (Some c)) id counted"

definition fetch_inbound_foreign_keys ::
    "guard \<Rightarrow> string option \<Rightarrow> string \<Rightarrow> (inbound_foreign_key_info list, driver_error) run" where
  "fetch_inbound_foreign_keys g schema table =
     metadata_read g None ''FETCH INBOUND FOREIGN KEYS'' (table_metadata_operation ''FETCH INBOUND FOREIGN KEYS'' schema table)
       (CallFetchInboundForeignKeys schema table None) (\<lambda>tr. drv_fetch_inbound_foreign_keys (inner g) tr schema table None) id counted"

definition fetch_inbound_foreign_keys_controlled ::
    "guard \<Rightarrow> string option \<Rightarrow> string \<Rightarrow> operation_control \<Rightarrow> (inbound_foreign_key_info list, driver_error) run" where
  "fetch_inbound_foreign_keys_controlled g schema table c =
     metadata_read g (Some c) ''FETCH INBOUND FOREIGN KEYS'' (table_metadata_operation ''FETCH INBOUND FOREIGN KEYS'' schema table)
       (CallFetchInboundForeignKeys schema table (Some c)) (\<lambda>tr. drv_fetch_inbound_foreign_keys (inner g) tr schema table (Some c)) id counted"

definition fetch_enum_labels ::
    "guard \<Rightarrow> string \<Rightarrow> string \<Rightarrow> (string list, driver_error) run" where
  "fetch_enum_labels g schema name =
     metadata_read g None ''FETCH ENUM LABELS'' (metadata_operation ''FETCH ENUM LABELS'' [schema @ ''.'' @ name])
       (CallFetchEnumLabels schema name None) (\<lambda>tr. drv_fetch_enum_labels (inner g) tr schema name None) id counted"

definition fetch_enum_labels_controlled ::
    "guard \<Rightarrow> string \<Rightarrow> string \<Rightarrow> operation_control \<Rightarrow> (string list, driver_error) run" where
  "fetch_enum_labels_controlled g schema name c =
     metadata_read g (Some c) ''FETCH ENUM LABELS'' (metadata_operation ''FETCH ENUM LABELS'' [schema @ ''.'' @ name])
       (CallFetchEnumLabels schema name (Some c)) (\<lambda>tr. drv_fetch_enum_labels (inner g) tr schema name (Some c)) id counted"

definition server_version :: "guard \<Rightarrow> (string option, driver_error) run" where
  "server_version g =
     metadata_read g None ''SERVER VERSION'' (metadata_operation ''SERVER VERSION'' [])
       CallServerVersion (drv_server_version (inner g)) id (\<lambda>_. None)"

definition ping :: "guard \<Rightarrow> (unit, driver_error) run" where
  "ping g = caught_read g ''PING'' (dispatch g ReadBoundary None CallPing (drv_ping (inner g)))"

definition lexical_settings_controlled :: "guard \<Rightarrow> operation_control \<Rightarrow> (nat option, driver_error) run" where
  "lexical_settings_controlled g c =
     caught_read g ''LEXICAL SETTINGS''
       (dispatch g ReadBoundary None (CallLexicalSettings c) (\<lambda>tr. drv_lexical_settings (inner g) tr c))"

definition close :: "guard \<Rightarrow> (unit, driver_error) run" where
  "close g = gret ()"

section \<open>Statements\<close>

text \<open>The operation of an authorized statement.\<close>

definition authorized_operation ::
    "guard \<Rightarrow> string \<Rightarrow> uuid option \<Rightarrow> authorization \<Rightarrow> (audit_operation, 'e) run" where
  "authorized_operation g sql batch_id auth =
     operation g sql batch_id (facts (auth_analysis auth)) (auth_decision auth) (auth_approval auth) (auth_preview auth)"

text \<open>
  The tail of every write: the armed scope around the call through the write boundary, the record of its outcome,
  and the result, which is returned only after the scope was disarmed.
\<close>

definition armed_call ::
    "('a, driver_error) run \<Rightarrow> ('a \<Rightarrow> 'a) \<Rightarrow> (driver_error + 'a \<Rightarrow> (unit, driver_error) run) \<Rightarrow> ('a, driver_error) run" where
  "armed_call execution post audit =
     gbind (armed_scope
       (gtry execution (\<lambda>r.
        let result = map_result post r in
        gbind (audit result) (\<lambda>_. gret result)))) gresult"

definition armed_write ::
    "guard \<Rightarrow> string \<Rightarrow> audit_operation \<Rightarrow> driver_call \<Rightarrow> (trace \<Rightarrow> 'a driver_reply) \<Rightarrow> ('a \<Rightarrow> 'a)
     \<Rightarrow> (driver_error + 'a \<Rightarrow> (unit, driver_error) run) \<Rightarrow> ('a, driver_error) run" where
  "armed_write g name op call reply post audit =
     armed_call (caught_write g name (dispatch g WriteBoundary (Some (op_id op)) call reply)) post audit"

definition execute_write ::
    "guard \<Rightarrow> string \<Rightarrow> uuid option \<Rightarrow> authorization \<Rightarrow> driver_call \<Rightarrow> (trace \<Rightarrow> exec_result driver_reply)
     \<Rightarrow> (exec_result, driver_error) run" where
  "execute_write g sql batch_id auth call reply =
     gbind require_governed_write_available (\<lambda>_.
     gbind (authorized_operation g sql batch_id auth) (\<lambda>op.
     gtry (record_intent g op) (\<lambda>recorded.
     gbind (handle_intent_failure g recorded) (\<lambda>_.
     gbind (gget now) (\<lambda>start.
     armed_write g ''a write statement'' op call reply id (\<lambda>result.
       audit_write_result g op start result (map_option rows_affected (result_ok result))))))))"

definition execute_query_write ::
    "guard \<Rightarrow> string \<Rightarrow> uuid option \<Rightarrow> authorization \<Rightarrow> driver_call \<Rightarrow> (trace \<Rightarrow> query_result driver_reply)
     \<Rightarrow> (query_result, driver_error) run" where
  "execute_query_write g sql batch_id auth call reply =
     gbind require_governed_write_available (\<lambda>_.
     gbind (authorized_operation g sql batch_id auth) (\<lambda>op.
     gtry (record_intent g op) (\<lambda>recorded.
     gbind (handle_intent_failure g recorded) (\<lambda>_.
     gbind (gget now) (\<lambda>start.
     armed_write g ''a write statement'' op call reply (mask_result_for_analysis g (Some (auth_analysis auth)))
       (\<lambda>result. audit_write_result g op start result
          (map_option (\<lambda>r. length (result_rows r)) (result_ok result))))))))"

subsection \<open>Queries\<close>

definition governed_query ::
    "guard \<Rightarrow> string \<Rightarrow> string \<Rightarrow> params \<Rightarrow> ctl \<Rightarrow> (query_result, driver_error) run" where
  "governed_query g name sql ps control =
     gbind (authorize g sql control) (\<lambda>auth.
     if facts_writes (facts (auth_analysis auth)) then
       execute_query_write g sql None auth (CallQuery sql ps control) (\<lambda>tr. drv_query (inner g) tr sql ps control)
     else
       gbind (authorized_operation g sql None auth) (\<lambda>op.
       governed_read g control name op (CallQuery sql ps control) (\<lambda>tr. drv_query (inner g) tr sql ps control)
         (mask_result_for_analysis g (Some (auth_analysis auth))) (\<lambda>r. counted (result_rows r))))"

definition query :: "guard \<Rightarrow> string \<Rightarrow> (query_result, driver_error) run" where
  "query g sql = governed_query g ''QUERY'' sql None None"

definition query_controlled :: "guard \<Rightarrow> string \<Rightarrow> operation_control \<Rightarrow> (query_result, driver_error) run" where
  "query_controlled g sql c = governed_query g ''QUERY'' sql None (Some c)"

definition query_params :: "guard \<Rightarrow> string \<Rightarrow> cell list \<Rightarrow> (query_result, driver_error) run" where
  "query_params g sql ps = governed_query g ''QUERY PARAMS'' sql (Some ps) None"

definition query_params_controlled ::
    "guard \<Rightarrow> string \<Rightarrow> cell list \<Rightarrow> operation_control \<Rightarrow> (query_result, driver_error) run" where
  "query_params_controlled g sql ps c = governed_query g ''QUERY PARAMS'' sql (Some ps) (Some c)"

definition query_result_sets_controlled ::
    "guard \<Rightarrow> string \<Rightarrow> cell list \<Rightarrow> operation_control \<Rightarrow> (query_result_batch, driver_error) run" where
  "query_result_sets_controlled g sql ps c =
     gbind (authorize g sql (Some c)) (\<lambda>auth.
     gbind (authorized_operation g sql None auth) (\<lambda>op.
     gbind (gget now) (\<lambda>start.
     let call = CallResultSets sql ps c;
         reply = (\<lambda>tr. drv_query_result_sets (inner g) tr sql ps c);
         post = mask_result_batch_for_analysis g (auth_analysis auth)
     in if facts_writes (facts (auth_analysis auth)) then
          gbind require_governed_write_available (\<lambda>_.
          gtry (record_intent g op) (\<lambda>recorded.
          gbind (handle_intent_failure g recorded) (\<lambda>_.
          armed_write g ''a write statement'' op call reply post (\<lambda>result.
            audit_write_result g op start result (map_option retained_rows (result_ok result))))))
        else
          gbind (prepare_governed_read g op) (\<lambda>_.
          gtry (caught_read g ''QUERY RESULT SETS'' (dispatch g ReadBoundary (Some (op_id op)) call reply)) (\<lambda>r.
          let result = map_result post r in
          gbind (audit_controlled_read_result g op start result (map_option retained_rows (result_ok result))) (\<lambda>_.
          gresult result))))))"

subsection \<open>Writes\<close>

definition governed_execute :: "guard \<Rightarrow> string \<Rightarrow> params \<Rightarrow> ctl \<Rightarrow> (exec_result, driver_error) run" where
  "governed_execute g sql ps control =
     gbind (authorize g sql control) (\<lambda>auth.
     execute_write g sql None auth (CallExecute sql ps control) (\<lambda>tr. drv_execute (inner g) tr sql ps control))"

definition execute :: "guard \<Rightarrow> string \<Rightarrow> (exec_result, driver_error) run" where
  "execute g sql = governed_execute g sql None None"

definition execute_controlled :: "guard \<Rightarrow> string \<Rightarrow> operation_control \<Rightarrow> (exec_result, driver_error) run" where
  "execute_controlled g sql c = governed_execute g sql None (Some c)"

definition execute_params :: "guard \<Rightarrow> string \<Rightarrow> cell list \<Rightarrow> (exec_result, driver_error) run" where
  "execute_params g sql ps = governed_execute g sql (Some ps) None"

definition execute_params_controlled ::
    "guard \<Rightarrow> string \<Rightarrow> cell list \<Rightarrow> operation_control \<Rightarrow> (exec_result, driver_error) run" where
  "execute_params_controlled g sql ps c = governed_execute g sql (Some ps) (Some c)"

text \<open>The body of an atomic batch, behind its authorization.\<close>

definition governed_batch ::
    "guard \<Rightarrow> string \<Rightarrow> (string \<times> cell list) list \<Rightarrow> nat list option \<Rightarrow> ctl \<Rightarrow> authorization
     \<Rightarrow> (nat list, driver_error) run" where
  "governed_batch g name statements expect_one control auth =
     gbind require_governed_write_available (\<lambda>_.
     gbind fresh_id (\<lambda>batch_id.
     gbind (authorized_operation g (batch_text statements) (Some batch_id) auth) (\<lambda>op.
     gtry (record_intent g op) (\<lambda>recorded.
     gbind (handle_intent_failure g recorded) (\<lambda>_.
     gbind (gget now) (\<lambda>start.
     armed_write g name op (CallExecuteInTransaction statements expect_one control)
       (\<lambda>tr. drv_execute_in_transaction (inner g) tr statements expect_one control) id (\<lambda>result.
       audit_transaction_result g op start result (map_option sum_list (result_ok result)) AtomicBatch)))))))"

definition execute_in_transaction :: "guard \<Rightarrow> (string \<times> cell list) list \<Rightarrow> (nat list, driver_error) run" where
  "execute_in_transaction g statements =
     gbind (authorize g (batch_text statements) None)
       (governed_batch g ''EXECUTE IN TRANSACTION'' statements None None)"

definition execute_in_transaction_controlled ::
    "guard \<Rightarrow> (string \<times> cell list) list \<Rightarrow> operation_control \<Rightarrow> (nat list, driver_error) run" where
  "execute_in_transaction_controlled g statements c =
     gbind (pre_dispatch (Some c)) (\<lambda>_.
     gbind (authorize g (batch_text statements) (Some c))
       (governed_batch g ''EXECUTE IN TRANSACTION'' statements None (Some c)))"

definition execute_in_transaction_checked ::
    "guard \<Rightarrow> (string \<times> cell list) list \<Rightarrow> nat list \<Rightarrow> (nat list, driver_error) run" where
  "execute_in_transaction_checked g statements expect_one =
     (if expect_one = [] then execute_in_transaction g statements
      else
        (let combined = batch_text statements; a = guard_analyze g combined
         in gbind (authorize_analysis g combined a (enforced_batch_rows a expect_one) None)
              (governed_batch g ''EXECUTE CHECKED TRANSACTION'' statements (Some expect_one) None)))"

definition execute_in_transaction_checked_controlled ::
    "guard \<Rightarrow> (string \<times> cell list) list \<Rightarrow> nat list \<Rightarrow> operation_control \<Rightarrow> (nat list, driver_error) run" where
  "execute_in_transaction_checked_controlled g statements expect_one c =
     (if expect_one = [] then execute_in_transaction_controlled g statements c
      else
        gbind (pre_dispatch (Some c)) (\<lambda>_.
        let combined = batch_text statements; a = guard_analyze g combined
        in gbind (authorize_analysis g combined a (enforced_batch_rows a expect_one) (Some c))
             (governed_batch g ''EXECUTE CHECKED TRANSACTION'' statements (Some expect_one) (Some c))))"

subsection \<open>Transactions and sessions\<close>

text \<open>\<open>PolicyTransaction\<close>: the driver's transaction, by handle, and the batch of its records.\<close>

record policy_transaction =
  tx_handle :: nat
  tx_batch :: uuid

definition wrap_begin :: "guard \<Rightarrow> driver_error + nat \<Rightarrow> (policy_transaction, driver_error) run" where
  "wrap_begin g r =
     gbind (gmodify (if (case r of Inl (OperationOutcomeUnknown _) \<Rightarrow> True | _ \<Rightarrow> False)
                     then lock_connection else id)) (\<lambda>_.
     gbind (gresult r) (\<lambda>h.
     gbind fresh_id (\<lambda>batch_id.
     gret \<lparr>tx_handle = h, tx_batch = batch_id\<rparr>)))"

definition governed_begin :: "guard \<Rightarrow> ctl \<Rightarrow> (policy_transaction, driver_error) run" where
  "governed_begin g control =
     gtry (caught_write g ''BEGIN'' (dispatch g WriteBoundary None (CallBegin control)
             (\<lambda>tr. drv_begin (inner g) tr control)))
       (wrap_begin g)"

definition begin_transaction :: "guard \<Rightarrow> (policy_transaction, driver_error) run" where
  "begin_transaction g = governed_begin g None"

definition begin_controlled :: "guard \<Rightarrow> operation_control \<Rightarrow> (policy_transaction, driver_error) run" where
  "begin_controlled g c = governed_begin g (Some c)"

text \<open>\<open>wrap_session\<close>: a guarded session around the driver's session \<open>h\<close>.\<close>

definition new_session :: "nat \<Rightarrow> policy_session" where
  "new_session h = \<lparr>ss_inner = h, ss_batch = None, ss_cursor = None, ss_retired = False, ss_collect = False, ss_sets = []\<rparr>"

definition wrap_session :: "nat \<Rightarrow> (uuid, 'e) run" where
  "wrap_session h = gbind fresh_id (\<lambda>s. gbind (update_session s (\<lambda>_. new_session h)) (\<lambda>_. gret s))"

definition open_session :: "guard \<Rightarrow> (uuid, driver_error) run" where
  "open_session g =
     gbind (caught_read g ''OPEN SESSION'' (dispatch g ReadBoundary None CallOpenSession (drv_open_session (inner g))))
       wrap_session"

section \<open>Every method keeps the invariant\<close>

named_theorems guard_methods

lemma keeps_pre_dispatch [keeps_intro]: "keeps I (pre_dispatch control)"
  by (auto simp: keeps_iff pre_dispatch_def split: option.splits sum.splits)

lemma keeps_audit_read [keeps_intro]:
  "keeps (guarded g tr0 locked pending ids sqls) (audit_read g control op start result rows)"
  unfolding audit_read_def by (intro keeps_intro)

lemma keeps_let: "keeps I (f x) \<Longrightarrow> keeps I (let y = x in f y)"
  by (simp add: Let_def)

lemma may_read:
  "op_id op \<in> ids \<or> local_human g \<Longrightarrow> (\<And>s. call_statement call = Some s \<Longrightarrow> s \<in> sqls)
   \<Longrightarrow> control_ok g call \<Longrightarrow> may_dispatch g locked ids sqls ReadBoundary (op_id op) call"
  by (auto simp: may_dispatch_def intent_waived_def split: option.splits)

lemma may_write:
  "op_id op \<in> ids \<or> allows_unaudited_local_write g \<and> \<not> ends_transaction call \<Longrightarrow> \<not> locked
   \<Longrightarrow> (\<And>s. call_statement call = Some s \<Longrightarrow> s \<in> sqls)
   \<Longrightarrow> control_ok g call \<Longrightarrow> may_dispatch g locked ids sqls WriteBoundary (op_id op) call"
  by (auto simp: may_dispatch_def intent_waived_def split: option.splits)

lemma keeps_governed_read:
  assumes "\<And>s. call_statement call = Some s \<Longrightarrow> s \<in> sqls" "control_ok g call"
  shows "keeps (guarded g tr0 locked pending ids sqls) (governed_read g control name op call reply post rows)"
  unfolding governed_read_def
  by (intro keeps_gbind_prepared_read keeps_gbind keeps_gtry guarded.keeps_caught keeps_dispatch_read may_read keeps_let
      keeps_intro assms)

lemma keeps_metadata_read:
  assumes "call_statement call = None" "control_ok g call" "\<And>ids. keeps (guarded g tr0 locked pending ids sqls) new_operation"
  shows "keeps (guarded g tr0 locked pending ids sqls) (metadata_read g control name new_operation call reply post rows)"
  unfolding metadata_read_def using assms by (intro keeps_intro keeps_governed_read) auto

lemma keeps_armed_call:
  assumes "keeps (guarded g tr0 locked ({op_id op} \<times> C \<union> pending) ids sqls) execution"
    and "\<And>r. hoare (guarded g tr0 locked ({op_id op} \<times> C \<union> pending) ids sqls) (audit r)
      (\<lambda>_ w. guarded g tr0 locked ({op_id op} \<times> C \<union> pending) ids sqls w
         \<and> ((\<exists>c\<in>C. call_writes g c) \<longrightarrow> outcome_recorded (op_id op) (trace w)))
      (\<lambda>_. guarded g tr0 locked ({op_id op} \<times> C \<union> pending) ids sqls)
      (guarded g tr0 locked ({op_id op} \<times> C \<union> pending) ids sqls)"
  shows "keeps (guarded g tr0 locked pending ids sqls) (armed_call execution post audit)"
  unfolding armed_call_def
proof (intro keeps_gbind keeps_armed_scope_settles [where i = "op_id op" and C = C] keeps_gresult)
  let ?I = "guarded g tr0 locked ({op_id op} \<times> C \<union> pending) ids sqls"
  show "hoare ?I (gtry execution (\<lambda>r. let result = map_result post r in gbind (audit result) (\<lambda>_. gret result)))
      (\<lambda>_ w. ?I w \<and> ((\<exists>c\<in>C. call_writes g c) \<longrightarrow> outcome_recorded (op_id op) (trace w))) (\<lambda>_. ?I) ?I"
    using assms(1) unfolding keeps_def Let_def
    by (rule hoare_gtry) (rule hoare_gbind [OF assms(2)], rule hoare_gret)
qed

lemma keeps_armed_write:
  assumes "may_dispatch g locked ids sqls WriteBoundary (op_id op) call"
    and "\<And>r. hoare (guarded g tr0 locked (insert (op_id op, call) pending) ids sqls) (audit r)
      (\<lambda>_ w. guarded g tr0 locked (insert (op_id op, call) pending) ids sqls w
         \<and> (call_writes g call \<longrightarrow> outcome_recorded (op_id op) (trace w)))
      (\<lambda>_. guarded g tr0 locked (insert (op_id op, call) pending) ids sqls)
      (guarded g tr0 locked (insert (op_id op, call) pending) ids sqls)"
  shows "keeps (guarded g tr0 locked pending ids sqls) (armed_write g name op call reply post audit)"
  unfolding armed_write_def
  by (rule keeps_armed_call [where op = op and C = "{call}"], intro guarded.keeps_caught keeps_dispatch_write assms)
    (use assms(2) in simp_all)

text \<open>The audits of a write, as \<open>keeps_armed_write\<close> needs them.\<close>

lemma audit_accounts:
  "hoare (guarded g tr0 locked pending ids sqls) (audit_write_result g op start r rows)
    (\<lambda>_ w. guarded g tr0 locked pending ids sqls w \<and> (K \<longrightarrow> outcome_recorded (op_id op) (trace w)))
    (\<lambda>_. guarded g tr0 locked pending ids sqls) (guarded g tr0 locked pending ids sqls)"
  "(K \<Longrightarrow> class_is_write (op_class op)) \<Longrightarrow>
   hoare (guarded g tr0 locked pending ids sqls) (audit_transaction_result g op start r rows mode)
    (\<lambda>_ w. guarded g tr0 locked pending ids sqls w \<and> (K \<longrightarrow> outcome_recorded (op_id op) (trace w)))
    (\<lambda>_. guarded g tr0 locked pending ids sqls) (guarded g tr0 locked pending ids sqls)"
  using guarded.keeps_audit_results(4) [of g tr0 locked pending ids sqls op start r rows mode]
  by (cases K; fastforce intro: hoare_conseq [OF guarded.audit_write_result_hoare]
      hoare_conseq [OF guarded.audit_transaction_result_hoare] simp: keeps_def)+

lemma keeps_authorized_operation [keeps_intro]:
  "keeps (guarded g tr0 locked pending ids sqls) (authorized_operation h sql batch auth)"
  unfolding authorized_operation_def by (intro keeps_intro)

lemma keeps_gbind_operation:
  assumes "auth_analysis auth = guard_analyze g sql"
    and "\<And>op. (facts_writes (facts (guard_analyze g sql)) \<Longrightarrow> class_is_write (op_class op))
      \<Longrightarrow> keeps (guarded g tr0 locked pending ids sqls) (f op)"
  shows "keeps (guarded g tr0 locked pending ids sqls) (gbind (authorized_operation g sql batch auth) f)"
  unfolding authorized_operation_def assms(1)
  by (rule keeps_gbind_eligible [OF guarded.operation_hoare])
    (use assms(2) class_is_write_from_statement in auto)

lemma keeps_metadata_methods [guard_methods]:
  "keeps (guarded g tr0 locked pending ids sqls) (list_databases g)"
  "keeps (guarded g tr0 locked pending ids sqls) (list_databases_controlled g c)"
  "keeps (guarded g tr0 locked pending ids sqls) (list_tables g)"
  "keeps (guarded g tr0 locked pending ids sqls) (list_tables_controlled g c)"
  "keeps (guarded g tr0 locked pending ids sqls) (list_views g)"
  "keeps (guarded g tr0 locked pending ids sqls) (list_views_controlled g c)"
  "keeps (guarded g tr0 locked pending ids sqls) (list_objects g kind schema)"
  "keeps (guarded g tr0 locked pending ids sqls) (list_objects_controlled g kind schema c)"
  "keeps (guarded g tr0 locked pending ids sqls) (fetch_columns g schema table)"
  "keeps (guarded g tr0 locked pending ids sqls) (fetch_columns_controlled g schema table c)"
  "keeps (guarded g tr0 locked pending ids sqls) (fetch_rows g schema table offset limit)"
  "keeps (guarded g tr0 locked pending ids sqls) (fetch_rows_controlled g schema table offset limit c)"
  "keeps (guarded g tr0 locked pending ids sqls) (fetch_indexes g schema table)"
  "keeps (guarded g tr0 locked pending ids sqls) (fetch_indexes_controlled g schema table c)"
  "keeps (guarded g tr0 locked pending ids sqls) (fetch_foreign_keys g schema table)"
  "keeps (guarded g tr0 locked pending ids sqls) (fetch_foreign_keys_controlled g schema table c)"
  "keeps (guarded g tr0 locked pending ids sqls) (fetch_inbound_foreign_keys g schema table)"
  "keeps (guarded g tr0 locked pending ids sqls) (fetch_inbound_foreign_keys_controlled g schema table c)"
  "keeps (guarded g tr0 locked pending ids sqls) (fetch_enum_labels g enum_schema name)"
  "keeps (guarded g tr0 locked pending ids sqls) (fetch_enum_labels_controlled g enum_schema name c)"
  "keeps (guarded g tr0 locked pending ids sqls) (server_version g)"
  unfolding list_databases_def list_databases_controlled_def list_tables_def list_tables_controlled_def
    list_views_def list_views_controlled_def list_objects_def list_objects_controlled_def fetch_columns_def
    fetch_columns_controlled_def fetch_rows_def fetch_rows_controlled_def fetch_indexes_def
    fetch_indexes_controlled_def fetch_foreign_keys_def fetch_foreign_keys_controlled_def
    fetch_inbound_foreign_keys_def fetch_inbound_foreign_keys_controlled_def fetch_enum_labels_def
    fetch_enum_labels_controlled_def server_version_def
  by (rule keeps_metadata_read, simp, simp, intro keeps_intro)+

lemma keeps_update_session:
  assumes "\<And>ss c. ss_cursor (f ss) = Some c \<Longrightarrow> (\<exists>d. ss_cursor ss = Some d
        \<and> ca_operation_id (ac_audit d) = ca_operation_id (ac_audit c))
      \<or> ca_operation_id (ac_audit c) \<in> ids \<or> local_human g"
  shows "keeps (guarded g tr0 locked pending ids sqls) (update_session s f)"
  unfolding update_session_def by (rule keeps_gmodify, erule guarded_session) (rule assms)

lemma keeps_wrap_session [keeps_intro]: "keeps (guarded g tr0 locked pending ids sqls) (wrap_session h)"
  unfolding wrap_session_def by (intro keeps_intro keeps_update_session) (simp add: new_session_def)

lemma keeps_unaudited_methods [guard_methods]:
  "keeps (guarded g tr0 locked pending ids sqls) (supports_server_cancellation g)"
  "keeps (guarded g tr0 locked pending ids sqls) (ping g)"
  "keeps (guarded g tr0 locked pending ids sqls) (lexical_settings_controlled g c)"
  "keeps (guarded g tr0 locked pending ids sqls) (close g)"
  "keeps (guarded g tr0 locked pending ids sqls) (open_session g)"
  "keeps (guarded g tr0 locked pending ids sqls) (begin_transaction g)"
  "keeps (guarded g tr0 locked pending ids sqls) (begin_controlled g c)"
  unfolding supports_server_cancellation_def ping_def lexical_settings_controlled_def close_def open_session_def
    begin_transaction_def begin_controlled_def governed_begin_def wrap_begin_def
  by (intro keeps_intro keeps_dispatch_unaudited; simp)+

subsection \<open>Statements\<close>

lemma keeps_gbind_authorized:
  assumes "\<And>auth. auth_analysis auth = guard_analyze g sql
      \<Longrightarrow> keeps (guarded g tr0 locked pending ids (insert sql sqls)) (f auth)"
  shows "keeps (guarded g tr0 locked pending ids sqls) (gbind (authorize g sql control) f)"
  by (rule keeps_gbind_eligible [OF authorize_hoare]) (use assms in auto)

lemma keeps_writes:
  assumes "call_statement call = Some sql" "sql \<in> sqls" "\<not> ends_transaction call" "control_ok g call"
  shows "keeps (guarded g tr0 locked pending ids sqls) (execute_write g sql batch auth call reply)"
    and "keeps (guarded g tr0 locked pending ids sqls) (execute_query_write g sql batch auth call qreply)"
  unfolding execute_write_def execute_query_write_def
  by (intro keeps_gbind_available keeps_gbind [OF keeps_authorized_operation] keeps_gtry_write_intent keeps_gbind
      [OF keeps_gget] keeps_armed_write may_write audit_accounts; use assms in auto)+

lemma keeps_queries [guard_methods]:
  "keeps (guarded g tr0 locked pending ids sqls) (query g sql)"
  "keeps (guarded g tr0 locked pending ids sqls) (query_controlled g sql c)"
  "keeps (guarded g tr0 locked pending ids sqls) (query_params g sql ps)"
  "keeps (guarded g tr0 locked pending ids sqls) (query_params_controlled g sql ps c)"
  unfolding query_def query_controlled_def query_params_def query_params_controlled_def governed_query_def
  by (intro keeps_gbind_authorized keeps_if keeps_writes keeps_gbind [OF keeps_authorized_operation]
      keeps_governed_read; simp)+

lemma keeps_result_sets [guard_methods]:
  "keeps (guarded g tr0 locked pending ids sqls) (query_result_sets_controlled g sql ps c)"
  unfolding query_result_sets_controlled_def Let_def
  by (intro keeps_gbind_authorized keeps_gbind [OF keeps_authorized_operation] keeps_gbind [OF keeps_gget] keeps_if
      keeps_gbind_available keeps_gtry_write_intent keeps_armed_write may_write keeps_gbind_prepared_read keeps_gtry
      guarded.keeps_caught keeps_dispatch_read may_read keeps_gbind [OF guarded.keeps_audit_results(2)] keeps_gresult
      audit_accounts(1); simp)

lemma keeps_executes [guard_methods]:
  "keeps (guarded g tr0 locked pending ids sqls) (execute g sql)"
  "keeps (guarded g tr0 locked pending ids sqls) (execute_controlled g sql c)"
  "keeps (guarded g tr0 locked pending ids sqls) (execute_params g sql ps)"
  "keeps (guarded g tr0 locked pending ids sqls) (execute_params_controlled g sql ps c)"
  unfolding execute_def execute_controlled_def execute_params_def execute_params_controlled_def governed_execute_def
  by (intro keeps_gbind_authorized keeps_writes; simp)+

lemma keeps_governed_batch:
  assumes "batch_text statements \<in> sqls" "auth_analysis auth = guard_analyze g (batch_text statements)"
  shows "keeps (guarded g tr0 locked pending ids sqls) (governed_batch g name statements expect_one control auth)"
  unfolding governed_batch_def
  by (intro keeps_gbind_available keeps_gbind [OF guarded.keeps_fresh_id] keeps_gbind_operation
      keeps_gtry_write_intent keeps_gbind [OF keeps_gget] keeps_armed_write may_write audit_accounts(2))
    (use assms in \<open>auto simp: call_writes_def\<close>)

lemma keeps_gbind_authorized_analysis:
  assumes "\<And>auth. auth_analysis auth = guard_analyze g sql
      \<Longrightarrow> keeps (guarded g tr0 locked pending ids (insert sql sqls)) (f auth)"
  shows "keeps (guarded g tr0 locked pending ids sqls)
      (gbind (authorize_analysis g sql (guard_analyze g sql) enforced control) f)"
  by (rule keeps_gbind_eligible [OF authorize_analysis_hoare]) (use assms in auto)

lemma keeps_batches [guard_methods]:
  "keeps (guarded g tr0 locked pending ids sqls) (execute_in_transaction g statements)"
  "keeps (guarded g tr0 locked pending ids sqls) (execute_in_transaction_controlled g statements c)"
  "keeps (guarded g tr0 locked pending ids sqls) (execute_in_transaction_checked g statements expect_one)"
  "keeps (guarded g tr0 locked pending ids sqls) (execute_in_transaction_checked_controlled g statements expect_one c)"
  unfolding execute_in_transaction_checked_def execute_in_transaction_checked_controlled_def
    execute_in_transaction_def execute_in_transaction_controlled_def Let_def
  by (intro keeps_if keeps_gbind [OF keeps_pre_dispatch] keeps_gbind_authorized keeps_gbind_authorized_analysis
      keeps_governed_batch; simp)+

end
