(* ===== verification/Guard_Transaction.thy ===== *)
theory Guard_Transaction
  imports Guard_Connection
begin

text \<open>
  The guarded transaction, \<open>impl Transaction for PolicyTransaction\<close> in
  \<open>crates/policy/src/guard/connection.rs\<close>: statements inside an interactive transaction, its commit and its
  rollback.
\<close>

section \<open>Statements in a transaction\<close>

definition run_transaction_query ::
    "guard \<Rightarrow> uuid \<Rightarrow> string \<Rightarrow> authorization \<Rightarrow> string \<Rightarrow> driver_call \<Rightarrow> (trace \<Rightarrow> query_result driver_reply)
     \<Rightarrow> (query_result, driver_error) run" where
  "run_transaction_query g batch_id sql auth name call reply =
     gbind (authorized_operation g sql (Some batch_id) auth) (\<lambda>op.
     let post = mask_result_for_analysis g (Some (auth_analysis auth));
         rows = (\<lambda>result. map_option (\<lambda>r. length (result_rows r)) (result_ok result))
     in if facts_writes (facts (auth_analysis auth)) then
          gbind require_governed_write_available (\<lambda>_.
          gtry (record_intent g op) (\<lambda>recorded.
          gbind (handle_intent_failure g recorded) (\<lambda>_.
          gbind (gget now) (\<lambda>start.
          armed_write g name op call reply post (\<lambda>result.
            audit_transaction_result g op start result (rows result) Interactive)))))
        else
          gbind (prepare_governed_read g op) (\<lambda>_.
          gbind (gget now) (\<lambda>start.
          gtry (caught_read g name (dispatch g ReadBoundary (Some (op_id op)) call reply)) (\<lambda>r.
          let result = map_result post r in
          gbind (audit_transaction_result g op start result (rows result) Interactive) (\<lambda>_.
          gresult result)))))"

definition governed_tx_query ::
    "guard \<Rightarrow> policy_transaction \<Rightarrow> string \<Rightarrow> string \<Rightarrow> params \<Rightarrow> ctl \<Rightarrow> (query_result, driver_error) run" where
  "governed_tx_query g tx name sql ps control =
     gbind (authorize_in_transaction g sql control (tx_handle tx)) (\<lambda>auth.
     run_transaction_query g (tx_batch tx) sql auth name (CallTxQuery (tx_handle tx) sql ps control)
       (\<lambda>tr. drv_tx_query (inner g) tr (tx_handle tx) sql ps control))"

definition tx_query :: "guard \<Rightarrow> policy_transaction \<Rightarrow> string \<Rightarrow> (query_result, driver_error) run" where
  "tx_query g tx sql = governed_tx_query g tx ''QUERY'' sql None None"

definition tx_query_controlled ::
    "guard \<Rightarrow> policy_transaction \<Rightarrow> string \<Rightarrow> operation_control \<Rightarrow> (query_result, driver_error) run" where
  "tx_query_controlled g tx sql c = governed_tx_query g tx ''QUERY'' sql None (Some c)"

definition tx_query_params :: "guard \<Rightarrow> policy_transaction \<Rightarrow> string \<Rightarrow> cell list \<Rightarrow> (query_result, driver_error) run" where
  "tx_query_params g tx sql ps = governed_tx_query g tx ''QUERY PARAMS'' sql (Some ps) None"

definition tx_query_params_controlled ::
    "guard \<Rightarrow> policy_transaction \<Rightarrow> string \<Rightarrow> cell list \<Rightarrow> operation_control \<Rightarrow> (query_result, driver_error) run" where
  "tx_query_params_controlled g tx sql ps c = governed_tx_query g tx ''QUERY PARAMS'' sql (Some ps) (Some c)"

definition governed_tx_execute ::
    "guard \<Rightarrow> policy_transaction \<Rightarrow> string \<Rightarrow> string \<Rightarrow> params \<Rightarrow> ctl \<Rightarrow> (exec_result, driver_error) run" where
  "governed_tx_execute g tx name sql ps control =
     gbind (authorize_in_transaction g sql control (tx_handle tx)) (\<lambda>auth.
     gbind require_governed_write_available (\<lambda>_.
     gbind (authorized_operation g sql (Some (tx_batch tx)) auth) (\<lambda>op.
     gtry (record_intent g op) (\<lambda>recorded.
     gbind (handle_intent_failure g recorded) (\<lambda>_.
     gbind (gget now) (\<lambda>start.
     armed_write g name op (CallTxExecute (tx_handle tx) sql ps control)
       (\<lambda>tr. drv_tx_execute (inner g) tr (tx_handle tx) sql ps control) id (\<lambda>result.
       audit_transaction_result g op start result (map_option rows_affected (result_ok result)) Interactive)))))))"

definition tx_execute :: "guard \<Rightarrow> policy_transaction \<Rightarrow> string \<Rightarrow> (exec_result, driver_error) run" where
  "tx_execute g tx sql = governed_tx_execute g tx ''EXECUTE'' sql None None"

definition tx_execute_controlled ::
    "guard \<Rightarrow> policy_transaction \<Rightarrow> string \<Rightarrow> operation_control \<Rightarrow> (exec_result, driver_error) run" where
  "tx_execute_controlled g tx sql c = governed_tx_execute g tx ''EXECUTE'' sql None (Some c)"

definition tx_execute_params :: "guard \<Rightarrow> policy_transaction \<Rightarrow> string \<Rightarrow> cell list \<Rightarrow> (exec_result, driver_error) run" where
  "tx_execute_params g tx sql ps = governed_tx_execute g tx ''EXECUTE PARAMS'' sql (Some ps) None"

definition tx_execute_params_controlled ::
    "guard \<Rightarrow> policy_transaction \<Rightarrow> string \<Rightarrow> cell list \<Rightarrow> operation_control \<Rightarrow> (exec_result, driver_error) run" where
  "tx_execute_params_controlled g tx sql ps c = governed_tx_execute g tx ''EXECUTE PARAMS'' sql (Some ps) (Some c)"

section \<open>Commit and rollback\<close>

text \<open>
  The end of a transaction: whatever \<open>ends\<close> is judged by \<open>judge\<close> into a status, a transaction outcome and
  whether the connection is locked.
\<close>

definition record_ending ::
    "guard \<Rightarrow> audit_operation \<Rightarrow> nat \<Rightarrow> tx_outcome \<Rightarrow> (driver_error \<Rightarrow> bool) \<Rightarrow> driver_error + unit \<Rightarrow> (unit, driver_error) run" where
  "record_ending g op start done_outcome ambiguous result =
     (let (status, tx, disables, category) =
        (case result of
           Inr _ \<Rightarrow> (StatusSucceeded, done_outcome, False, None)
         | Inl e \<Rightarrow> if ambiguous e then (StatusUnknown, TxUnknown, True, Some (category_of e))
                    else (StatusFailed, TxFailed, False, Some (category_of e)))
      in gbind (gmodify (if disables then lock_connection else id)) (\<lambda>_.
         gbind (gget (elapsed_since start)) (\<lambda>d.
         gtry (record_outcome g op \<lparr>out_status = status, out_tx = tx, out_rows = None, out_category = category,
             out_duration = d\<rparr>)
           handle_write_outcome_failure)))"

definition ending_denied :: "string \<Rightarrow> audit_error \<Rightarrow> driver_error" where
  "ending_denied what e =
     PolicyDenied (what @ '' denied because audit intent could not be persisted: '' @ audit_error_display e)"

definition commit :: "guard \<Rightarrow> policy_transaction \<Rightarrow> (unit, driver_error) run" where
  "commit g tx =
     gbind require_governed_write_available (\<lambda>_.
     gbind (commit_operation (tx_batch tx)) (\<lambda>op.
     gbind (map_error (ending_denied ''commit'') (record_intent g op)) (\<lambda>_.
     gbind (gget now) (\<lambda>start.
     armed_write g ''COMMIT'' op (CallTxCommit (tx_handle tx)) (\<lambda>tr. drv_tx_commit (inner g) tr (tx_handle tx)) id
       (record_ending g op start TxCommitted is_ambiguous_post_dispatch)))))"

definition rollback_operation :: "uuid \<Rightarrow> (audit_operation, 'e) run" where
  "rollback_operation batch_id =
     gbind fresh_id (\<lambda>i. gret \<lparr>op_id = i, op_batch = Some batch_id, op_sql = ''ROLLBACK'',
       op_class = ClassRollback, op_targets = [], op_rule = ''transaction_rollback'',
       op_approval = ApprovalNotRequired, op_preview = NotRequested\<rparr>)"

definition governed_rollback ::
    "guard \<Rightarrow> policy_transaction \<Rightarrow> ctl \<Rightarrow> (driver_error \<Rightarrow> bool) \<Rightarrow> (unit, driver_error) run" where
  "governed_rollback g tx control ambiguous =
     gbind (rollback_operation (tx_batch tx)) (\<lambda>op.
     gbind (map_error (ending_denied ''rollback'') (record_intent g op)) (\<lambda>_.
     gbind (gget now) (\<lambda>start.
     armed_write g ''ROLLBACK'' op (CallTxRollback (tx_handle tx) control)
       (\<lambda>tr. drv_tx_rollback (inner g) tr (tx_handle tx) control) id
       (record_ending g op start TxRolledBack ambiguous))))"

definition rollback :: "guard \<Rightarrow> policy_transaction \<Rightarrow> (unit, driver_error) run" where
  "rollback g tx = governed_rollback g tx None is_ambiguous_post_dispatch"

definition rollback_controlled :: "guard \<Rightarrow> policy_transaction \<Rightarrow> operation_control \<Rightarrow> (unit, driver_error) run" where
  "rollback_controlled g tx c = governed_rollback g tx (Some c) (\<lambda>_. True)"

section \<open>Every method keeps the invariant\<close>

lemma keeps_gbind_authorized_tx:
  assumes "\<And>auth. auth_analysis auth = guard_analyze g sql
      \<Longrightarrow> keeps (guarded g tr0 locked pending ids (insert sql sqls)) (f auth)"
  shows "keeps (guarded g tr0 locked pending ids sqls) (gbind (authorize_in_transaction g sql control h) f)"
  by (rule keeps_gbind_eligible [OF authorize_in_transaction_hoare]) (use assms in auto)

lemma keeps_tx_queries [guard_methods]:
  "keeps (guarded g tr0 locked pending ids sqls) (tx_query g tx sql)"
  "keeps (guarded g tr0 locked pending ids sqls) (tx_query_controlled g tx sql c)"
  "keeps (guarded g tr0 locked pending ids sqls) (tx_query_params g tx sql ps)"
  "keeps (guarded g tr0 locked pending ids sqls) (tx_query_params_controlled g tx sql ps c)"
  unfolding tx_query_def tx_query_controlled_def tx_query_params_def tx_query_params_controlled_def
    governed_tx_query_def run_transaction_query_def Let_def
  by (intro keeps_gbind_authorized_tx keeps_gbind_operation keeps_gbind [OF keeps_gget] keeps_if
      keeps_gbind_available keeps_gtry_write_intent keeps_armed_write may_write keeps_gbind_prepared_read keeps_gtry
      guarded.keeps_caught keeps_dispatch_read may_read keeps_gbind [OF guarded.keeps_audit_results(4)] keeps_gresult
      audit_accounts(2); simp)+

lemma keeps_tx_executes [guard_methods]:
  "keeps (guarded g tr0 locked pending ids sqls) (tx_execute g tx sql)"
  "keeps (guarded g tr0 locked pending ids sqls) (tx_execute_controlled g tx sql c)"
  "keeps (guarded g tr0 locked pending ids sqls) (tx_execute_params g tx sql ps)"
  "keeps (guarded g tr0 locked pending ids sqls) (tx_execute_params_controlled g tx sql ps c)"
  unfolding tx_execute_def tx_execute_controlled_def tx_execute_params_def tx_execute_params_controlled_def
    governed_tx_execute_def
  by (intro keeps_gbind_authorized_tx keeps_gbind_available keeps_gbind_operation
      keeps_gtry_write_intent keeps_gbind [OF keeps_gget] keeps_armed_write may_write audit_accounts(2);
      simp add: call_writes_def)+

lemma record_ending_accounts:
  "hoare (guarded g tr0 locked pending ids sqls) (record_ending g op start d ambiguous result)
    (\<lambda>_ w. guarded g tr0 locked pending ids sqls w \<and> (K \<longrightarrow> outcome_recorded (op_id op) (trace w)))
    (\<lambda>_. guarded g tr0 locked pending ids sqls) (guarded g tr0 locked pending ids sqls)"
proof -
  let ?I = "guarded g tr0 locked pending ids sqls"
  have ending: "hoare ?I (gbind (gmodify (if c then lock_connection else id)) (\<lambda>_. gbind (gget (elapsed_since start)) (\<lambda>d.
      gtry (record_outcome g op (out d)) handle_write_outcome_failure)))
      (\<lambda>_ w. ?I w \<and> outcome_recorded (op_id op) (trace w)) (\<lambda>_. ?I) ?I" for c out
    using guarded.keeps_locks(1) unfolding keeps_def
    by (rule hoare_gbind)
      (rule hoare_gbind [OF hoare_gget], rule guarded.recorded_or_fails, rule guarded.record_outcome_hoare)
  show ?thesis
    unfolding record_ending_def Let_def case_prod_beta by (rule hoare_conseq [OF ending]) auto
qed

lemma keeps_rollback_operation [keeps_intro]: "keeps (guarded g tr0 locked pending ids sqls) (rollback_operation b)"
  unfolding rollback_operation_def by (intro keeps_intro)

lemma keeps_endings [guard_methods]:
  "keeps (guarded g tr0 locked pending ids sqls) (commit g tx)"
  "keeps (guarded g tr0 locked pending ids sqls) (rollback g tx)"
  "keeps (guarded g tr0 locked pending ids sqls) (rollback_controlled g tx c)"
  unfolding commit_def rollback_def rollback_controlled_def governed_rollback_def
  by (intro keeps_gbind_available keeps_gbind [OF guarded.keeps_operations(4)]
      keeps_gbind [OF keeps_rollback_operation] keeps_gbind_intent keeps_gbind [OF keeps_gget] keeps_armed_write
      record_ending_accounts; simp add: may_dispatch_def)+

end
