(* ===== verification/Guard_Session.thy ===== *)
theory Guard_Session
  imports Guard_Transaction
begin

text \<open>
  The guarded session, \<open>impl Session for PolicySession\<close> in \<open>crates/policy/src/guard/session.rs\<close> and
  \<open>session/refusal.rs\<close>: statements on one connection of the server with the transactions that the caller opens
  and ends by statements of its own, read-only snapshots and cursors. A session is named by its identity \<open>s\<close>;
  its state is in the world.
\<close>

section \<open>State\<close>

definition CLOSE_ROLLBACK_TIMEOUT :: nat where "CLOSE_ROLLBACK_TIMEOUT = 10000"
definition CLOSE_CURSOR_TIMEOUT :: nat where "CLOSE_CURSOR_TIMEOUT = 5000"

abbreviation the_session :: "uuid \<Rightarrow> (policy_session, 'e) run" where
  "the_session s \<equiv> gget (\<lambda>w. sessions w s)"

definition cursor_operation :: "cursor_audit \<Rightarrow> audit_operation" where
  "cursor_operation audit = \<lparr>op_id = ca_operation_id audit, op_batch = Some (ca_batch_id audit), op_sql = ca_sql audit,
     op_class = ClassRead, op_targets = ca_targets audit, op_rule = ca_decision_rule audit,
     op_approval = ca_approval audit, op_preview = ca_preview audit\<rparr>"

text \<open>\<open>OpenBatch::new\<close>.\<close>

definition new_batch :: "bool \<Rightarrow> (open_batch, 'e) run" where
  "new_batch read_only =
     gbind fresh_id (\<lambda>i. gret \<lparr>ob_id = i, ob_read_only = read_only, ob_wrote = False, ob_uncertain = False,
       ob_aborted = False\<rparr>)"

definition set_batch :: "uuid \<Rightarrow> open_batch option \<Rightarrow> (unit, 'e) run" where
  "set_batch s b = update_session s (ss_batch_update (\<lambda>_. b))"

definition set_cursor :: "uuid \<Rightarrow> active_cursor option \<Rightarrow> (unit, 'e) run" where
  "set_cursor s c = update_session s (ss_cursor_update (\<lambda>_. c))"

definition retire :: "uuid \<Rightarrow> (unit, 'e) run" where
  "retire s = update_session s (ss_retired_update (\<lambda>_. True))"

definition session_is_usable :: "guard \<Rightarrow> uuid \<Rightarrow> (bool, 'e) run" where
  "session_is_usable g s =
     gbind (the_session s) (\<lambda>ss.
     if ss_retired ss then gret False
     else
       gbind (caught_sync g ''SESSION STATUS'' (\<lambda>tr. drv_session_usable (inner g) tr (ss_inner ss))) (\<lambda>r.
       case r of
         Some usable \<Rightarrow> gret usable
       | None \<Rightarrow> gbind (retire s) (\<lambda>_. gret False)))"

definition transaction_open :: "uuid \<Rightarrow> (bool, 'e) run" where
  "transaction_open s = gbind (the_session s) (\<lambda>ss. gret (ss_batch ss \<noteq> None))"

section \<open>Refusals (\<open>session/refusal.rs\<close>)\<close>

definition refuse :: "guard \<Rightarrow> uuid \<Rightarrow> string \<Rightarrow> string \<Rightarrow> driver_error \<Rightarrow> ('a, driver_error) run" where
  "refuse g s sql rule e =
     gbind (the_session s) (\<lambda>ss.
     gbind (operation g sql (map_option ob_id (ss_batch ss)) (facts (guard_analyze g sql)) (Deny rule (error_display e))
              ApprovalNotRequired NotRequested) (\<lambda>op.
     gtry (record_outcome g op denied_outcome) (\<lambda>recorded.
     gbind (handle_non_execution_audit_failure recorded) (\<lambda>_.
     gfail e))))"

definition refuse_policy :: "guard \<Rightarrow> uuid \<Rightarrow> string \<Rightarrow> string \<Rightarrow> string \<Rightarrow> ('a, driver_error) run" where
  "refuse_policy g s sql rule msg = refuse g s sql rule (PolicyDenied msg)"

definition require_query_ready :: "guard \<Rightarrow> uuid \<Rightarrow> string \<Rightarrow> (unit, driver_error) run" where
  "require_query_ready g s sql =
     gbind (the_session s) (\<lambda>ss.
     if ss_cursor ss \<noteq> None then
       refuse_policy g s sql ''query_cursor_active'' ''close the active query cursor before using the session''
     else
       gbind (session_is_usable g s) (\<lambda>usable.
       if \<not> usable then
         refuse_policy g s sql ''retired_session''
           ''the session was retired after a connection fault and cannot run another statement''
       else gret ()))"

definition require_writable :: "guard \<Rightarrow> uuid \<Rightarrow> string \<Rightarrow> (unit, driver_error) run" where
  "require_writable g s sql =
     gtry require_governed_write_available (\<lambda>r. case r of
       Inr _ \<Rightarrow> gret ()
     | Inl e \<Rightarrow> refuse g s sql ''governed_write_lockdown'' e)"

section \<open>Notes on the session\<close>

definition note_disconnect :: "uuid \<Rightarrow> driver_error + 'a \<Rightarrow> (unit, 'e) run" where
  "note_disconnect s result = (case result of Inl Disconnected \<Rightarrow> retire s | _ \<Rightarrow> gret ())"

definition leaves_uncertain :: "driver_error \<Rightarrow> bool" where
  "leaves_uncertain e =
     (case e of
        Cancelled \<Rightarrow> True
      | TimedOut \<Rightarrow> True
      | OperationOutcomeUnknown _ \<Rightarrow> True
      | Disconnected \<Rightarrow> True
      | _ \<Rightarrow> False)"

definition note_statement :: "guard \<Rightarrow> uuid \<Rightarrow> bool \<Rightarrow> bool \<Rightarrow> driver_error + query_result \<Rightarrow> (unit, 'e) run" where
  "note_statement g s writes to_savepoint result =
     gbind (note_disconnect s result) (\<lambda>_.
     gbind (the_session s) (\<lambda>ss.
     case ss_batch ss of
       None \<Rightarrow> gret ()
     | Some batch \<Rightarrow>
         (let failed = (case result of Inl _ \<Rightarrow> True | Inr _ \<Rightarrow> False);
              unsure = (case result of Inl e \<Rightarrow> leaves_uncertain e | Inr _ \<Rightarrow> False)
          in set_batch s (Some (batch\<lparr>
               ob_wrote := ob_wrote batch \<or> writes,
               ob_uncertain := ob_uncertain batch \<or> unsure,
               ob_aborted := (if ctx_driver_id g = ''postgres'' \<and> (failed \<or> to_savepoint) then failed
                              else ob_aborted batch)\<rparr>)))))"

definition note_cursor_error :: "guard \<Rightarrow> uuid \<Rightarrow> driver_error \<Rightarrow> (unit, 'e) run" where
  "note_cursor_error g s e =
     gbind (case e of Disconnected \<Rightarrow> retire s | OperationOutcomeUnknown _ \<Rightarrow> retire s | _ \<Rightarrow> gret ()) (\<lambda>_.
     gbind (the_session s) (\<lambda>ss.
     case ss_batch ss of
       None \<Rightarrow> gret ()
     | Some batch \<Rightarrow>
         set_batch s (Some (batch\<lparr>
           ob_uncertain := ob_uncertain batch \<or> (\<not> ob_read_only batch
             \<and> (case e of Cancelled \<Rightarrow> True | TimedOut \<Rightarrow> True | OperationOutcomeUnknown _ \<Rightarrow> True | _ \<Rightarrow> False)),
           ob_aborted := (if ctx_driver_id g = ''postgres'' then True else ob_aborted batch)\<rparr>))))"

section \<open>Statements\<close>

definition first_result_set :: "query_result_batch \<Rightarrow> query_result" where
  "first_result_set batch =
     (case result_sets batch of
        [] \<Rightarrow> \<lparr>result_columns = [], result_rows = [], result_truncated = batch_truncated batch\<rparr>
      | r # _ \<Rightarrow> r\<lparr>result_truncated := result_truncated r \<or> batch_truncated batch\<rparr>)"

definition inner_statement ::
    "guard \<Rightarrow> uuid \<Rightarrow> boundary \<Rightarrow> uuid \<Rightarrow> statement_analysis \<Rightarrow> string \<Rightarrow> cell list \<Rightarrow> operation_control
     \<Rightarrow> (query_result, driver_failure) run" where
  "inner_statement g s b opid a sql ps control =
     gbind (the_session s) (\<lambda>ss.
     if \<not> ss_collect ss then
       dispatch g b (Some opid) (CallSessionQuery (ss_inner ss) sql ps control)
         (\<lambda>tr. drv_session_query (inner g) tr (ss_inner ss) sql ps control)
     else
       gbind (dispatch g b (Some opid) (CallSessionResultSets (ss_inner ss) sql ps control)
                (\<lambda>tr. drv_session_result_sets (inner g) tr (ss_inner ss) sql ps control)) (\<lambda>batch.
       gbind (update_session s (ss_sets_update (\<lambda>sets. sets
                @ map (mask_result_for_analysis g (Some a)) (drop 1 (result_sets batch))))) (\<lambda>_.
       gret (first_result_set batch))))"

definition rows_in :: "query_result \<Rightarrow> query_result list \<Rightarrow> nat" where
  "rows_in first extra_sets = length (result_rows first) + sum_list (map (\<lambda>r. length (result_rows r)) extra_sets)"

text \<open>The audit of a statement, with the rows of all its result sets.\<close>

definition with_rows ::
    "uuid \<Rightarrow> (driver_error + query_result \<Rightarrow> nat option \<Rightarrow> (unit, driver_error) run) \<Rightarrow> driver_error + query_result
     \<Rightarrow> (unit, driver_error) run" where
  "with_rows s audit result =
     gbind (the_session s) (\<lambda>ss. audit result (map_option (\<lambda>r. rows_in r (ss_sets ss)) (result_ok result)))"

definition session_read ::
    "guard \<Rightarrow> uuid \<Rightarrow> audit_operation \<Rightarrow> authorization \<Rightarrow> string \<Rightarrow> cell list \<Rightarrow> operation_control
     \<Rightarrow> (nat \<Rightarrow> driver_error + query_result \<Rightarrow> nat option \<Rightarrow> (unit, driver_error) run) \<Rightarrow> (query_result, driver_error) run" where
  "session_read g s op auth sql ps control audit =
     gbind (prepare_governed_read g op) (\<lambda>_.
     gbind (gget now) (\<lambda>start.
     gtry (caught_read g ''SESSION QUERY''
             (inner_statement g s ReadBoundary (op_id op) (auth_analysis auth) sql ps control)) (\<lambda>r.
     let result = map_result (mask_result_for_analysis g (Some (auth_analysis auth))) r in
     gbind (with_rows s (audit start) result) (\<lambda>_.
     gresult result))))"

definition session_write ::
    "guard \<Rightarrow> uuid \<Rightarrow> audit_operation \<Rightarrow> authorization \<Rightarrow> string \<Rightarrow> cell list \<Rightarrow> operation_control
     \<Rightarrow> (nat \<Rightarrow> driver_error + query_result \<Rightarrow> nat option \<Rightarrow> (unit, driver_error) run) \<Rightarrow> (query_result, driver_error) run" where
  "session_write g s op auth sql ps control audit =
     gtry (record_intent g op) (\<lambda>recorded.
     gbind (handle_intent_failure g recorded) (\<lambda>_.
     gbind (gget now) (\<lambda>start.
     armed_call (caught_write g ''SESSION QUERY''
         (inner_statement g s WriteBoundary (op_id op) (auth_analysis auth) sql ps control))
       (mask_result_for_analysis g (Some (auth_analysis auth))) (with_rows s (audit start)))))"

definition batch_statement ::
    "guard \<Rightarrow> uuid \<Rightarrow> string \<Rightarrow> cell list \<Rightarrow> operation_control \<Rightarrow> authorization \<Rightarrow> uuid \<Rightarrow> (query_result, driver_error) run" where
  "batch_statement g s sql ps control auth batch_id =
     (let writes = facts_writes (facts (auth_analysis auth))
      in gbind (if writes then require_writable g s sql else gret ()) (\<lambda>_.
         gbind (authorized_operation g sql (Some batch_id) auth) (\<lambda>op.
         (if writes then session_write else session_read) g s op auth sql ps control
           (\<lambda>start result rows. audit_transaction_result g op start result rows Interactive))))"

definition lone_write ::
    "guard \<Rightarrow> uuid \<Rightarrow> string \<Rightarrow> cell list \<Rightarrow> operation_control \<Rightarrow> authorization \<Rightarrow> (query_result, driver_error) run" where
  "lone_write g s sql ps control auth =
     gbind (require_writable g s sql) (\<lambda>_.
     gbind (authorized_operation g sql None auth) (\<lambda>op.
     session_write g s op auth sql ps control (audit_write_result g op)))"

definition lone_read ::
    "guard \<Rightarrow> uuid \<Rightarrow> string \<Rightarrow> cell list \<Rightarrow> operation_control \<Rightarrow> authorization \<Rightarrow> (query_result, driver_error) run" where
  "lone_read g s sql ps control auth =
     gbind (authorized_operation g sql None auth) (\<lambda>op.
     session_read g s op auth sql ps control (audit_controlled_read_result g op))"

definition external_effects :: effects where
  "external_effects = eff_union SESSION_STATE HOST_OR_FILE_ACCESS"

definition session_statement ::
    "guard \<Rightarrow> uuid \<Rightarrow> string \<Rightarrow> cell list \<Rightarrow> operation_control \<Rightarrow> (query_result, driver_error) run" where
  "session_statement g s sql ps control =
     (let a = guard_analyze g sql; e = facts_effects (facts a)
      in gbind (the_session s) (\<lambda>ss.
         if (case ss_batch ss of
               None \<Rightarrow> False
             | Some batch \<Rightarrow> ob_read_only batch \<and> (eff_writes e \<or> eff_contains e external_effects))
         then refuse g s sql ''read_only_snapshot_refusal'' ReadOnly
         else
           gbind (authorize_classified g sql a (Some control) (CountInSession (ss_inner ss))) (\<lambda>auth.
           let writes = facts_writes (facts (auth_analysis auth)) in
           gtry (case ss_batch ss of
                   Some batch \<Rightarrow> batch_statement g s sql ps control auth (ob_id batch)
                 | None \<Rightarrow> if writes then lone_write g s sql ps control auth else lone_read g s sql ps control auth)
             (\<lambda>result.
              gbind (note_statement g s writes (rolls_back_to_savepoint (auth_analysis auth)) result) (\<lambda>_.
              gresult result)))))"

section \<open>Transactions\<close>

definition control_call ::
    "guard \<Rightarrow> boundary \<Rightarrow> uuid option \<Rightarrow> policy_session \<Rightarrow> session_control \<Rightarrow> string \<Rightarrow> operation_control
     \<Rightarrow> (query_result, driver_failure) run" where
  "control_call g b opid ss kind sql control =
     dispatch g b opid (CallSessionControl (ss_inner ss) kind sql control)
       (\<lambda>tr. drv_session_query (inner g) tr (ss_inner ss) sql [] control)"

definition nested_begin :: "guard \<Rightarrow> uuid \<Rightarrow> string \<Rightarrow> ('a, driver_error) run" where
  "nested_begin g s sql =
     refuse_policy g s sql ''nested_transaction'' ''a transaction is already open on this session; nested BEGIN is refused''"

definition opened_batch :: "uuid \<Rightarrow> bool \<Rightarrow> driver_error + query_result \<Rightarrow> (unit, 'e) run" where
  "opened_batch s read_only result =
     (case result of
        Inr _ \<Rightarrow> gbind (new_batch read_only) (\<lambda>b. set_batch s (Some b))
      | Inl _ \<Rightarrow> gret ())"

definition session_begin :: "guard \<Rightarrow> uuid \<Rightarrow> string \<Rightarrow> operation_control \<Rightarrow> (query_result, driver_error) run" where
  "session_begin g s sql control =
     gbind (the_session s) (\<lambda>ss.
     if ss_batch ss \<noteq> None then nested_begin g s sql
     else
       gtry (caught_write g ''BEGIN'' (control_call g WriteBoundary None ss ControlBegin sql control)) (\<lambda>result.
       gbind (note_disconnect s result) (\<lambda>_.
       gbind (opened_batch s False result) (\<lambda>_.
       gresult result))))"

definition begin_read_only :: "guard \<Rightarrow> uuid \<Rightarrow> string \<Rightarrow> operation_control \<Rightarrow> (query_result, driver_error) run" where
  "begin_read_only g s sql control =
     (if ctx_driver_id g \<noteq> ''postgres'' then
        refuse_policy g s sql ''snapshot_engine''
          ''read-only session transactions are currently supported only by PostgreSQL''
      else
        gbind (the_session s) (\<lambda>ss.
        if ss_batch ss \<noteq> None then nested_begin g s sql
        else
          gbind (operation g sql None (facts (guard_analyze g sql)) (Allow ''read_only_snapshot'') ApprovalNotRequired
                   NotRequested) (\<lambda>op.
          gbind (prepare_governed_read g op) (\<lambda>_.
          gbind (gget now) (\<lambda>start.
          gtry (caught_read g ''BEGIN READ ONLY'' (control_call g ReadBoundary (Some (op_id op)) ss ControlBegin sql control))
            (\<lambda>result.
             gbind (note_disconnect s result) (\<lambda>_.
             gbind (opened_batch s True result) (\<lambda>_.
             gbind (audit_controlled_read_result g op start result
                      (map_option (\<lambda>r. length (result_rows r)) (result_ok result))) (\<lambda>_.
             gresult result))))))))) "

datatype finish_kind = FinishCommit | FinishRollback

fun finish_control :: "finish_kind \<Rightarrow> session_control" where
  "finish_control FinishCommit = ControlCommit"
| "finish_control FinishRollback = ControlRollback"

definition finish_operation :: "finish_kind \<Rightarrow> uuid \<Rightarrow> (audit_operation, 'e) run" where
  "finish_operation kind batch_id =
     (case kind of FinishCommit \<Rightarrow> commit_operation batch_id | FinishRollback \<Rightarrow> rollback_operation batch_id)"

definition finish_outcome ::
    "finish_kind \<Rightarrow> bool \<Rightarrow> driver_error + query_result \<Rightarrow> terminal_status \<times> tx_outcome \<times> error_category option \<times> bool" where
  "finish_outcome kind aborted result =
     (case result of
        Inr _ \<Rightarrow>
          (StatusSucceeded,
           (case kind of FinishCommit \<Rightarrow> if aborted then TxRolledBack else TxCommitted | FinishRollback \<Rightarrow> TxRolledBack),
           None, False)
      | Inl Cancelled \<Rightarrow> (StatusCancelled, TxPending, Some CatCancelled, False)
      | Inl TimedOut \<Rightarrow> (StatusTimedOut, TxPending, Some CatTimeout, False)
      | Inl e \<Rightarrow>
          if is_ambiguous_post_dispatch e then (StatusUnknown, TxUnknown, Some (category_of e), True)
          else (StatusFailed, TxFailed, Some (category_of e), False))"

text \<open>What the outcome says in the end: a read-only transaction that wrote nothing ends with its connection.\<close>

definition finish_judgement ::
    "finish_kind \<Rightarrow> open_batch \<Rightarrow> driver_error + query_result
     \<Rightarrow> terminal_status \<times> tx_outcome \<times> error_category option \<times> bool \<times> bool" where
  "finish_judgement kind batch result =
     (let (status, tx, category, ambiguous) = finish_outcome kind (ob_aborted batch) result;
          read_only_ended = (ambiguous \<and> ob_read_only batch \<and> \<not> ob_wrote batch)
      in if read_only_ended then (StatusFailed, TxRolledBack, category, False, True)
         else (status, tx, category, ambiguous, False))"

text \<open>The transaction that is open after an attempt to end one.\<close>

definition next_batch ::
    "finish_kind \<Rightarrow> bool \<Rightarrow> open_batch \<Rightarrow> bool \<Rightarrow> bool \<Rightarrow> driver_error + query_result \<Rightarrow> (open_batch option, 'e) run" where
  "next_batch kind chain batch ambiguous read_only_ended result =
     (let retryable = (case result of Inl Cancelled \<Rightarrow> True | Inl TimedOut \<Rightarrow> True | _ \<Rightarrow> False) in
      if read_only_ended then gret None
      else case result of
        Inr _ \<Rightarrow> if chain then gbind (new_batch (ob_read_only batch)) (\<lambda>b. gret (Some b)) else gret None
      | Inl _ \<Rightarrow>
          if kind = FinishCommit \<and> \<not> ambiguous \<and> \<not> retryable then gret None
          else gret (Some (batch\<lparr>ob_uncertain := ob_uncertain batch \<or> ambiguous\<rparr>)))"

definition finish_call ::
    "guard \<Rightarrow> uuid \<Rightarrow> string \<Rightarrow> operation_control \<Rightarrow> finish_kind \<Rightarrow> bool \<Rightarrow> open_batch \<Rightarrow> policy_session \<Rightarrow> audit_operation \<Rightarrow> nat
     \<Rightarrow> (driver_error + (query_result \<times> tx_outcome), driver_error) run" where
  "finish_call g s sql control kind chain batch ss op start =
     gtry (caught_write g (op_sql op)
             (control_call g WriteBoundary (Some (op_id op)) ss (finish_control kind) sql control)) (\<lambda>result.
     gbind (note_disconnect s result) (\<lambda>_.
     let (status, tx, category, ambiguous, read_only_ended) = finish_judgement kind batch result in
     gbind (gmodify (if ambiguous then lock_connection else id)) (\<lambda>_.
     gbind (gget (elapsed_since start)) (\<lambda>d.
     gtry (record_outcome g op \<lparr>out_status = status, out_tx = tx, out_rows = None, out_category = category,
             out_duration = d\<rparr>) (\<lambda>audit_result.
     gbind (gbind (next_batch kind chain batch ambiguous read_only_ended result) (set_batch s)) (\<lambda>_.
     gbind (handle_write_outcome_failure audit_result) (\<lambda>_.
     gret (map_result (\<lambda>r. (r, tx)) result))))))))"

text \<open>The body of \<open>finish\<close> once the open transaction is known.\<close>

definition finish_open ::
    "guard \<Rightarrow> uuid \<Rightarrow> string \<Rightarrow> operation_control \<Rightarrow> finish_kind \<Rightarrow> bool \<Rightarrow> policy_session \<Rightarrow> open_batch
     \<Rightarrow> (query_result \<times> tx_outcome, driver_error) run" where
  "finish_open g s sql control kind chain ss batch =
     gbind (if kind = FinishCommit then require_writable g s sql else gret ()) (\<lambda>_.
     gbind (finish_operation kind (ob_id batch)) (\<lambda>op.
     gbind (map_error (ending_denied (op_sql op)) (record_intent g op)) (\<lambda>_.
     gbind (gget now) (\<lambda>start.
     gbind (armed_scope (finish_call g s sql control kind chain batch ss op start)) gresult))))"

definition finish ::
    "guard \<Rightarrow> uuid \<Rightarrow> string \<Rightarrow> operation_control \<Rightarrow> finish_kind \<Rightarrow> bool \<Rightarrow> (query_result \<times> tx_outcome, driver_error) run" where
  "finish g s sql control kind chain =
     gbind (the_session s) (\<lambda>ss.
     case ss_batch ss of
       None \<Rightarrow> refuse_policy g s sql ''missing_transaction'' ''no transaction is open on this session''
     | Some batch \<Rightarrow> finish_open g s sql control kind chain ss batch)"

section \<open>The query method\<close>

definition session_query ::
    "guard \<Rightarrow> uuid \<Rightarrow> string \<Rightarrow> cell list \<Rightarrow> operation_control \<Rightarrow> (query_result, driver_error) run" where
  "session_query g s sql ps control =
     gbind (require_query_ready g s sql) (\<lambda>_.
     case transaction_control_of (parser g) sql (ctx_driver_id g) of
       Some BeginReadWrite \<Rightarrow>
         if ctx_read_only g then
           refuse_policy g s sql ''connection_read_only''
             ''read-write transactions are not allowed on a read-only connection''
         else session_begin g s sql control
     | Some Begin \<Rightarrow> session_begin g s sql control
     | Some BeginReadOnly \<Rightarrow>
         refuse_policy g s sql ''snapshot_isolation''
           ''read-only sessions require REPEATABLE READ or SERIALIZABLE isolation''
     | Some BeginReadOnlySnapshot \<Rightarrow> begin_read_only g s sql control
     | Some (CommitControl chain) \<Rightarrow> gbind (finish g s sql control FinishCommit chain) (\<lambda>r. gret (fst r))
     | Some (RollbackControl chain) \<Rightarrow> gbind (finish g s sql control FinishRollback chain) (\<lambda>r. gret (fst r))
     | None \<Rightarrow>
         if hides_transaction_control (parser g) sql (ctx_driver_id g) then
           refuse_policy g s sql ''hidden_transaction_control''
             ''send BEGIN, COMMIT and ROLLBACK as separate statements so the session can track the transaction''
         else session_statement g s sql ps control)"

datatype session_commit_outcome = SessionCommitted | SessionRolledBack

definition session_commit :: "guard \<Rightarrow> uuid \<Rightarrow> operation_control \<Rightarrow> (session_commit_outcome, driver_error) run" where
  "session_commit g s control =
     gbind (require_query_ready g s ''COMMIT'') (\<lambda>_.
     gbind (finish g s ''COMMIT'' control FinishCommit False) (\<lambda>r.
     case snd r of
       TxCommitted \<Rightarrow> gret SessionCommitted
     | TxRolledBack \<Rightarrow> gret SessionRolledBack
     | _ \<Rightarrow> gfail (OperationOutcomeUnknown (Unsupported ''unconfirmed session commit outcome''))))"

definition session_result_sets ::
    "guard \<Rightarrow> uuid \<Rightarrow> string \<Rightarrow> cell list \<Rightarrow> operation_control \<Rightarrow> (query_result_batch, driver_error) run" where
  "session_result_sets g s sql ps control =
     gbind (update_session s (\<lambda>ss. ss\<lparr>ss_collect := True, ss_sets := []\<rparr>)) (\<lambda>_.
     gtry (session_query g s sql ps control) (\<lambda>first.
     gbind (update_session s (ss_collect_update (\<lambda>_. False))) (\<lambda>_.
     gbind (the_session s) (\<lambda>ss.
     gbind (update_session s (ss_sets_update (\<lambda>_. []))) (\<lambda>_.
     gbind (gresult first) (\<lambda>r.
     let sets = r # ss_sets ss
     in gret \<lparr>result_sets = sets, batch_truncated = list_ex result_truncated sets\<rparr>))))))"

section \<open>Cursors\<close>

definition audit_cursor_result ::
    "guard \<Rightarrow> cursor_audit \<Rightarrow> nat \<Rightarrow> driver_error + 'a \<Rightarrow> nat option \<Rightarrow> terminal_status \<Rightarrow> (unit, driver_error) run" where
  "audit_cursor_result g audit start result rows status =
     gbind (gget (elapsed_since start)) (\<lambda>d.
     gtry (record_outcome g (cursor_operation audit)
             \<lparr>out_status = (case result of Inl e \<Rightarrow> controlled_error_terminal_status e | Inr _ \<Rightarrow> status),
              out_tx = TxNotApplicable, out_rows = rows, out_category = map_option category_of (result_err result),
              out_duration = d\<rparr>)
       (handle_read_audit_failure g))"

definition audit_cursor_error :: "guard \<Rightarrow> cursor_audit \<Rightarrow> nat \<Rightarrow> driver_error \<Rightarrow> (unit, driver_error) run" where
  "audit_cursor_error g audit start e =
     gbind (gget (elapsed_since start)) (\<lambda>d.
     gtry (record_outcome g (cursor_operation audit)
             \<lparr>out_status = controlled_error_terminal_status e, out_tx = TxNotApplicable, out_rows = None,
              out_category = Some (category_of e), out_duration = d\<rparr>)
       (handle_read_audit_failure g))"

definition open_authorized_cursor ::
    "guard \<Rightarrow> uuid \<Rightarrow> string \<Rightarrow> cell list \<Rightarrow> operation_control \<Rightarrow> cursor_audit \<Rightarrow> (nat, driver_error) run" where
  "open_authorized_cursor g s sql ps control audit =
     gbind (prepare_governed_read g (cursor_operation audit)) (\<lambda>_.
     gbind (gget now) (\<lambda>start.
     gbind (the_session s) (\<lambda>ss.
     gtry (caught_read g ''SESSION OPEN QUERY CURSOR''
             (dispatch g ReadBoundary (Some (op_id (cursor_operation audit))) (CallOpenCursor (ss_inner ss) sql ps control)
                (\<lambda>tr. drv_session_open_cursor (inner g) tr (ss_inner ss) sql ps control))) (\<lambda>result.
     case result of
       Inr i \<Rightarrow>
         gbind (set_cursor s (Some \<lparr>ac_id = i, ac_audit = audit, ac_complete = False\<rparr>)) (\<lambda>_. gret i)
     | Inl e \<Rightarrow>
         gtry (audit_cursor_error g audit start e) (\<lambda>audit_result.
         gbind (note_cursor_error g s e) (\<lambda>_.
         gbind (gresult audit_result) (\<lambda>_.
         gfail e)))))))"

definition open_query_cursor ::
    "guard \<Rightarrow> uuid \<Rightarrow> string \<Rightarrow> cell list \<Rightarrow> operation_control \<Rightarrow> (nat, driver_error) run" where
  "open_query_cursor g s sql ps control =
     gbind (session_is_usable g s) (\<lambda>usable.
     if \<not> usable then
       refuse_policy g s sql ''retired_session'' ''the session was retired and cannot open a query cursor''
     else
       gbind (the_session s) (\<lambda>ss.
       case ss_batch ss of
         None \<Rightarrow> refuse_policy g s sql ''query_cursor_requires_read_snapshot'' ''query cursors require a read-only snapshot''
       | Some batch \<Rightarrow>
           if \<not> ob_read_only batch then
             refuse_policy g s sql ''query_cursor_requires_read_snapshot'' ''query cursors require a read-only snapshot''
           else if ss_cursor ss \<noteq> None then
             refuse_policy g s sql ''query_cursor_already_open'' ''only one query cursor may be open per session''
           else if \<not> is_single_read (facts (guard_analyze g sql)) then
             refuse_policy g s sql ''query_cursor_requires_single_read'' ''query cursors require one read-only statement''
           else
             gbind (authorize_classified g sql (guard_analyze g sql) (Some control) CountOnConnection) (\<lambda>auth.
             gbind fresh_id (\<lambda>i.
             open_authorized_cursor g s sql ps control
               \<lparr>ca_operation_id = i, ca_batch_id = ob_id batch, ca_sql = sql, ca_targets = tables (facts (auth_analysis auth)),
                ca_decision_rule = rule_name (auth_decision auth), ca_approval = auth_approval auth,
                ca_preview = auth_preview auth, ca_analysis = auth_analysis auth\<rparr>))))"

definition cursor_call_close :: "guard \<Rightarrow> uuid \<Rightarrow> cursor_audit \<Rightarrow> nat \<Rightarrow> (unit, driver_error) run" where
  "cursor_call_close g s audit i =
     gbind (the_session s) (\<lambda>ss.
     gbind (gget (\<lambda>w. with_timeout (now w) CLOSE_CURSOR_TIMEOUT)) (\<lambda>control.
     caught_read g ''SESSION CLOSE QUERY CURSOR''
       (dispatch g ReadBoundary (Some (op_id (cursor_operation audit))) (CallCloseCursor (ss_inner ss) i control)
          (\<lambda>tr. drv_session_close_cursor (inner g) tr (ss_inner ss) i control))))"

definition close_cursor_driver :: "guard \<Rightarrow> uuid \<Rightarrow> cursor_audit \<Rightarrow> nat \<Rightarrow> (unit, driver_error) run" where
  "close_cursor_driver g s audit i =
     gtry (cursor_call_close g s audit i) (\<lambda>result.
     gbind (set_cursor s None) (\<lambda>_.
     case result of
       Inl _ \<Rightarrow> retire s
     | Inr _ \<Rightarrow> gbind (session_is_usable g s) (\<lambda>usable. if \<not> usable then retire s else gret ())))"

text \<open>The body of \<open>fetch_query_cursor_page\<close> once the active cursor is found.\<close>

definition fetch_active_page ::
    "guard \<Rightarrow> uuid \<Rightarrow> policy_session \<Rightarrow> cursor_audit \<Rightarrow> nat \<Rightarrow> operation_control \<Rightarrow> (query_cursor_page, driver_error) run" where
  "fetch_active_page g s ss audit i control =
     gbind (gget now) (\<lambda>start.
     gtry (caught_read g ''SESSION FETCH QUERY CURSOR PAGE''
             (dispatch g ReadBoundary (Some (op_id (cursor_operation audit))) (CallFetchCursor (ss_inner ss) i control)
                (\<lambda>tr. drv_session_fetch_cursor (inner g) tr (ss_inner ss) i control))) (\<lambda>r.
     let result = map_result (\<lambda>page. page\<lparr>page_result :=
            mask_result_for_analysis g (Some (ca_analysis audit)) (page_result page)\<rparr>) r;
         status = (case result of
             Inr page \<Rightarrow> if has_next_page page then StatusPending else StatusSucceeded
           | Inl e \<Rightarrow> controlled_error_terminal_status e)
     in gtry (audit_cursor_result g audit start result
                (map_option (\<lambda>page. length (result_rows (page_result page))) (result_ok result)) status)
          (\<lambda>audit_result.
           case result of
             Inl e \<Rightarrow>
               gbind (note_cursor_error g s e) (\<lambda>_.
               gbind (close_cursor_driver g s audit i) (\<lambda>_.
               gbind (gresult audit_result) (\<lambda>_.
               gfail e)))
           | Inr page \<Rightarrow>
               (case audit_result of
                  Inl e \<Rightarrow> gbind (close_cursor_driver g s audit i) (\<lambda>_. gfail e)
                | Inr _ \<Rightarrow>
                    gbind (if has_next_page page then gret ()
                           else update_session s (ss_cursor_update (map_option (ac_complete_update (\<lambda>_. True)))))
                      (\<lambda>_. gret page)))))"

definition fetch_query_cursor_page :: "guard \<Rightarrow> uuid \<Rightarrow> nat \<Rightarrow> operation_control \<Rightarrow> (query_cursor_page, driver_error) run" where
  "fetch_query_cursor_page g s i control =
     gbind (the_session s) (\<lambda>ss.
     case ss_cursor ss of
       None \<Rightarrow> gfail (Unsupported ''forward-only cursor is not active in this session'')
     | Some cursor \<Rightarrow>
         if ac_id cursor \<noteq> i then gfail (Unsupported ''forward-only cursor is not active in this session'')
         else
           fetch_active_page g s ss (ac_audit cursor) i control)"

definition close_active_cursor :: "guard \<Rightarrow> uuid \<Rightarrow> nat \<Rightarrow> terminal_status option \<Rightarrow> (unit, driver_error) run" where
  "close_active_cursor g s i terminal_status =
     gbind (the_session s) (\<lambda>ss.
     case ss_cursor ss of
       None \<Rightarrow> gfail (Unsupported ''forward-only cursor is not active in this session'')
     | Some cursor \<Rightarrow>
         if ac_id cursor \<noteq> i then gfail (Unsupported ''forward-only cursor is not active in this session'')
         else
           gbind (set_cursor s None) (\<lambda>_.
           gbind (gget now) (\<lambda>start.
           gtry (cursor_call_close g s (ac_audit cursor) i) (\<lambda>result.
           gtry (case terminal_status of
                   Some status \<Rightarrow>
                     if \<not> ac_complete cursor
                     then audit_cursor_result g (ac_audit cursor) start result None
                            (case result of Inl e \<Rightarrow> controlled_error_terminal_status e | Inr _ \<Rightarrow> status)
                     else gret ()
                 | None \<Rightarrow> gret ()) (\<lambda>audit_result.
           case audit_result of
             Inl e \<Rightarrow> gbind (retire s) (\<lambda>_. gfail e)
           | Inr _ \<Rightarrow>
               gbind (case result of Inl _ \<Rightarrow> retire s | Inr _ \<Rightarrow> gret ()) (\<lambda>_.
               gresult result))))))"

definition close_query_cursor :: "guard \<Rightarrow> uuid \<Rightarrow> nat \<Rightarrow> operation_control \<Rightarrow> (unit, driver_error) run" where
  "close_query_cursor g s i control = close_active_cursor g s i (Some StatusCancelled)"

section \<open>Metadata\<close>

definition session_lexical_settings :: "guard \<Rightarrow> uuid \<Rightarrow> operation_control \<Rightarrow> (nat option, driver_error) run" where
  "session_lexical_settings g s control =
     gbind (the_session s) (\<lambda>ss.
     if ss_retired ss then gfail (Unsupported ''the session was retired'')
     else
       caught_read g ''SESSION LEXICAL SETTINGS''
         (dispatch g ReadBoundary None (CallSessionLexicalSettings (ss_inner ss) control)
            (\<lambda>tr. drv_session_lexical_settings (inner g) tr (ss_inner ss) control)))"

definition fetch_completion_columns ::
    "guard \<Rightarrow> uuid \<Rightarrow> string option \<Rightarrow> string \<Rightarrow> operation_control \<Rightarrow> (string list, driver_error) run" where
  "fetch_completion_columns g s schema table control =
     gbind (pre_dispatch (Some control)) (\<lambda>_.
     gbind (the_session s) (\<lambda>ss.
     if ss_cursor ss \<noteq> None then
       refuse_policy g s ''SESSION COMPLETION COLUMNS'' ''query_cursor_active''
         ''close the active query cursor before reading completion metadata''
     else
       gbind (session_is_usable g s) (\<lambda>usable.
       if \<not> usable then
         refuse_policy g s ''SESSION COMPLETION COLUMNS'' ''retired_session''
           ''the session was retired after a connection fault and cannot read completion metadata''
       else
         gbind (table_metadata_operation ''SESSION COMPLETION COLUMNS'' schema table) (\<lambda>op.
         gbind (prepare_governed_read g op) (\<lambda>_.
         gbind (gget now) (\<lambda>start.
         gtry (caught_read g ''SESSION COMPLETION COLUMNS''
                 (dispatch g ReadBoundary (Some (op_id op)) (CallCompletionColumns (ss_inner ss) schema table control)
                    (\<lambda>tr. drv_session_completion_columns (inner g) tr (ss_inner ss) schema table control))) (\<lambda>result.
         gbind (note_disconnect s result) (\<lambda>_.
         gbind (audit_controlled_read_result g op start result (map_option length (result_ok result))) (\<lambda>_.
         gresult result)))))))))"

section \<open>Closing\<close>

text \<open>\<open>let _ = ...\<close>: whatever the run ends with is dropped, unless the future itself is dropped.\<close>

definition ignored :: "('a, 'e) run \<Rightarrow> (unit, 'f) run" where
  "ignored m = gtry m (\<lambda>_. gret ())"

definition record_batch_end :: "guard \<Rightarrow> uuid \<Rightarrow> audit_outcome \<Rightarrow> (unit, 'f) run" where
  "record_batch_end g batch_id out =
     gbind (finish_operation FinishRollback batch_id) (\<lambda>op.
     gbind (ignored (record_intent g op)) (\<lambda>_.
     ignored (gtry (record_outcome g op out) handle_write_outcome_failure)))"

definition record_ended_read_only_batch :: "guard \<Rightarrow> uuid \<Rightarrow> (unit, 'f) run" where
  "record_ended_read_only_batch g batch_id =
     record_batch_end g batch_id \<lparr>out_status = StatusFailed, out_tx = TxRolledBack, out_rows = None,
       out_category = Some (category_of Disconnected), out_duration = 0\<rparr>"

definition record_abandoned_transaction :: "guard \<Rightarrow> uuid \<Rightarrow> (unit, 'f) run" where
  "record_abandoned_transaction g batch_id =
     gbind (gmodify lock_connection) (\<lambda>_.
     record_batch_end g batch_id \<lparr>out_status = StatusUnknown, out_tx = TxUnknown, out_rows = None,
       out_category = None, out_duration = 0\<rparr>)"

definition close_open_batch :: "guard \<Rightarrow> uuid \<Rightarrow> open_batch \<Rightarrow> (unit, driver_error) run" where
  "close_open_batch g s batch =
     gbind (session_is_usable g s) (\<lambda>usable.
     if \<not> usable \<and> ob_read_only batch \<and> \<not> ob_wrote batch then record_ended_read_only_batch g (ob_id batch)
     else
       gbind (session_is_usable g s) (\<lambda>usable.
       if usable \<and> \<not> ob_uncertain batch then
         gbind (gget (\<lambda>w. with_timeout (now w) CLOSE_ROLLBACK_TIMEOUT)) (\<lambda>control.
         gtry (finish g s ''ROLLBACK'' control FinishRollback False) (\<lambda>rollback.
         gbind (the_session s) (\<lambda>ss.
         gbind (case (rollback, ss_batch ss) of
                  (Inl _, Some left) \<Rightarrow>
                    if ob_read_only left \<and> \<not> ob_wrote left then record_ended_read_only_batch g (ob_id left)
                    else record_abandoned_transaction g (ob_id left)
                | _ \<Rightarrow> gret ()) (\<lambda>_.
         gresult (map_result (\<lambda>_. ()) rollback)))))
       else
         gbind (record_abandoned_transaction g (ob_id batch)) (\<lambda>_.
         gfail (OperationOutcomeUnknown Disconnected))))"

definition session_close :: "guard \<Rightarrow> uuid \<Rightarrow> (unit, driver_error) run" where
  "session_close g s =
     gbind (the_session s) (\<lambda>ss.
     gtry (case ss_cursor ss of
             Some cursor \<Rightarrow> close_active_cursor g s (ac_id cursor) (Some StatusCancelled)
           | None \<Rightarrow> gret ()) (\<lambda>cursor_cleanup.
     gtry (case ss_batch ss of Some batch \<Rightarrow> close_open_batch g s batch | None \<Rightarrow> gret ()) (\<lambda>cleanup.
     gtry (caught_read g ''SESSION CLOSE''
             (dispatch g ReadBoundary None (CallSessionClose (ss_inner ss))
                (\<lambda>tr. drv_session_close (inner g) tr (ss_inner ss)))) (\<lambda>close_result.
     gbind (gresult cursor_cleanup) (\<lambda>_.
     gbind (gresult cleanup) (\<lambda>_.
     gresult close_result))))))"

section \<open>Every method keeps the invariant\<close>

lemma keeps_session_updates [keeps_intro]:
  "keeps (guarded g tr0 locked pending ids sqls) (set_batch s b)"
  "keeps (guarded g tr0 locked pending ids sqls) (retire s)"
  "keeps (guarded g tr0 locked pending ids sqls) (set_cursor s None)"
  "keeps (guarded g tr0 locked pending ids sqls) (update_session s (ss_collect_update (\<lambda>_. b')))"
  "keeps (guarded g tr0 locked pending ids sqls) (update_session s (ss_sets_update f))"
  "keeps (guarded g tr0 locked pending ids sqls) (update_session s (\<lambda>ss. ss\<lparr>ss_collect := True, ss_sets := []\<rparr>))"
  "keeps (guarded g tr0 locked pending ids sqls)
     (update_session s (ss_cursor_update (map_option (ac_complete_update (\<lambda>_. True)))))"
  unfolding set_batch_def retire_def set_cursor_def by (intro keeps_update_session; auto)+

lemma keeps_set_cursor:
  "ca_operation_id (ac_audit c) \<in> ids \<or> local_human g
   \<Longrightarrow> keeps (guarded g tr0 locked pending ids sqls) (set_cursor s (Some c))"
  unfolding set_cursor_def by (intro keeps_update_session) auto

lemma keeps_session_is_usable [keeps_intro]: "keeps (guarded g tr0 locked pending ids sqls) (session_is_usable h s)"
  unfolding session_is_usable_def by (intro keeps_intro)

lemma keeps_refusals [keeps_intro]:
  "keeps (guarded g tr0 locked pending ids sqls) (refuse g s sql rule e)"
  "keeps (guarded g tr0 locked pending ids sqls) (refuse_policy g s sql rule msg)"
  "keeps (guarded g tr0 locked pending ids sqls) (require_query_ready g s sql)"
  "keeps (guarded g tr0 locked pending ids sqls) (nested_begin g s sql)"
  unfolding require_query_ready_def nested_begin_def refuse_policy_def refuse_def by (intro keeps_intro)+

lemma keeps_new_batch [keeps_intro]: "keeps (guarded g tr0 locked pending ids sqls) (new_batch b)"
  unfolding new_batch_def by (intro keeps_intro)

lemma keeps_case_driver_error [keeps_intro]:
  "(\<And>e. keeps I (f e)) \<Longrightarrow> keeps I (case r of Inl e \<Rightarrow> f e | Inr _ \<Rightarrow> gret ())"
  by (cases r) (auto intro: keeps_gret)

lemma keeps_notes [keeps_intro]:
  "keeps (guarded g tr0 locked pending ids sqls) (note_disconnect s result)"
  "keeps (guarded g tr0 locked pending ids sqls) (note_statement h s writes to_savepoint result')"
  "keeps (guarded g tr0 locked pending ids sqls) (note_cursor_error h s e)"
proof -
  show disconnect: "keeps (guarded g tr0 locked pending ids sqls) (note_disconnect s result)" for result :: "driver_error + 'x"
    unfolding note_disconnect_def by (auto split: sum.split driver_error.split intro: keeps_intro)
  show "keeps (guarded g tr0 locked pending ids sqls) (note_statement h s writes to_savepoint result')"
    unfolding note_statement_def Let_def by (intro keeps_intro disconnect)
  show "keeps (guarded g tr0 locked pending ids sqls) (note_cursor_error h s e)"
    unfolding note_cursor_error_def by (cases e; simp; intro keeps_intro)
qed

lemma never_ok_refuse: "never_ok (refuse g s sql rule e)" "never_ok (refuse_policy g s sql rule msg)"
  unfolding refuse_policy_def refuse_def by (intro never_ok_intros)+

lemma keeps_available [keeps_intro]: "keeps I require_governed_write_available"
  by (simp add: keeps_iff require_governed_write_available_def)

lemma keeps_require_writable [keeps_intro]: "keeps (guarded g tr0 locked pending ids sqls) (require_writable g s sql)"
  unfolding require_writable_def by (intro keeps_intro)

lemma keeps_gbind_writable:
  assumes "\<And>x. \<not> locked \<Longrightarrow> keeps (guarded g tr0 locked pending ids sqls) (f x)"
  shows "keeps (guarded g tr0 locked pending ids sqls) (gbind (require_writable g s sql) f)"
proof (cases locked)
  case True
  have "gbind (require_writable g s sql) f w = gbind (refuse g s sql ''governed_write_lockdown'' (PolicyDenied lockdown_message)) f w"
    if "writes_disabled w" for w
    using that by (simp add: require_writable_def require_governed_write_available_def gtry_def gbind_def)
  moreover have "keeps (guarded g tr0 locked pending ids sqls)
      (gbind (refuse g s sql ''governed_write_lockdown'' (PolicyDenied lockdown_message)) f)"
  proof -
    have "hoare (guarded g tr0 locked pending ids sqls)
        (gbind (refuse g s sql ''governed_write_lockdown'' (PolicyDenied lockdown_message)) f)
        (\<lambda>_. guarded g tr0 locked pending ids sqls) (\<lambda>_. guarded g tr0 locked pending ids sqls)
        (guarded g tr0 locked pending ids sqls)"
      by (rule hoare_gbind [where Q = "\<lambda>_ _. False", OF keeps_failing [OF keeps_refusals(1) never_ok_refuse(1)]])
        (rule hoare_false)
    then show ?thesis by (simp add: keeps_def)
  qed
  ultimately show ?thesis using True by (simp add: keeps_iff guarded_def)
next
  case False
  then show ?thesis using assms by (intro keeps_intro) auto
qed

lemma keeps_gbind_writable_if:
  assumes "\<And>x. (locked \<Longrightarrow> \<not> c) \<Longrightarrow> keeps (guarded g tr0 locked pending ids sqls) (f x)"
  shows "keeps (guarded g tr0 locked pending ids sqls) (gbind (if c then require_writable g s sql else gret ()) f)"
  using assms by (cases c) (auto intro!: keeps_gbind_writable keeps_gbind keeps_gret)

subsection \<open>Statements\<close>

lemma keeps_inner_statement:
  assumes "opid \<in> ids \<or> (b = ReadBoundary \<and> local_human g) \<or> (b = WriteBoundary \<and> allows_unaudited_local_write g)"
    and "sql \<in> sqls" "b = WriteBoundary \<Longrightarrow> \<not> locked \<and> {opid} \<times> {c. call_statement c = Some sql} \<subseteq> pending"
  shows "keeps (guarded g tr0 locked pending ids sqls) (inner_statement g s b opid a sql ps control)"
  unfolding inner_statement_def
  by (intro keeps_gbind keeps_gget keeps_if keeps_dispatch keeps_session_updates keeps_gret)
    (use assms in \<open>auto simp: may_dispatch_def intent_waived_def split: boundary.split\<close>)

lemma keeps_with_rows:
  "(\<And>rows. keeps I (audit result rows)) \<Longrightarrow> keeps I (with_rows s audit result)"
  unfolding with_rows_def by (intro keeps_intro)

lemma with_rows_hoare: "(\<And>rows. hoare I (audit result rows) Q X D) \<Longrightarrow> hoare I (with_rows s audit result) Q X D"
  unfolding with_rows_def by (rule hoare_gbind [where Q = "\<lambda>_. I"]) (simp add: hoare_def gget_def)

lemma keeps_session_read:
  assumes "sql \<in> sqls" "\<And>ids start result rows. keeps (guarded g tr0 locked pending ids sqls) (audit start result rows)"
  shows "keeps (guarded g tr0 locked pending ids sqls) (session_read g s op auth sql ps control audit)"
  unfolding session_read_def Let_def
  by (intro keeps_gbind_prepared_read keeps_gbind [OF keeps_gget] keeps_gtry guarded.keeps_caught keeps_inner_statement
      keeps_gbind keeps_with_rows keeps_gresult assms) auto

lemma keeps_session_write:
  assumes "sql \<in> sqls" "\<not> locked"
    and "\<And>pending ids start result rows. hoare (guarded g tr0 locked pending ids sqls) (audit start result rows)
      (\<lambda>_ w. guarded g tr0 locked pending ids sqls w
         \<and> (facts_writes (facts (guard_analyze g sql)) \<longrightarrow> outcome_recorded (op_id op) (trace w)))
      (\<lambda>_. guarded g tr0 locked pending ids sqls) (guarded g tr0 locked pending ids sqls)"
  shows "keeps (guarded g tr0 locked pending ids sqls) (session_write g s op auth sql ps control audit)"
  unfolding session_write_def
proof (intro keeps_gtry_write_intent keeps_gbind [OF keeps_gget]
    keeps_armed_call [where op = op and C = "{c. call_statement c = Some sql}"])
  fix ids' start
  assume ids': "op_id op \<in> ids' \<or> allows_unaudited_local_write g"
  let ?I = "guarded g tr0 locked ({op_id op} \<times> {c. call_statement c = Some sql} \<union> pending) ids' sqls"
  show "keeps ?I (caught_write g ''SESSION QUERY''
      (inner_statement g s WriteBoundary (op_id op) (auth_analysis auth) sql ps control))"
    by (intro guarded.keeps_caught keeps_inner_statement) (use ids' assms in auto)
  have "(\<exists>c\<in>{c. call_statement c = Some sql}. call_writes g c) \<longleftrightarrow> facts_writes (facts (guard_analyze g sql))"
    by (auto simp: call_writes_def intro: exI [of _ "CallQuery sql None None"])
  then show "hoare ?I (with_rows s (audit start) r)
      (\<lambda>_ w. ?I w \<and> ((\<exists>c\<in>{c. call_statement c = Some sql}. call_writes g c) \<longrightarrow> outcome_recorded (op_id op) (trace w)))
      (\<lambda>_. ?I) ?I" for r
    using assms(3) by (intro with_rows_hoare) simp
qed

lemma keeps_statement_bodies:
  assumes "sql \<in> sqls" "auth_analysis auth = guard_analyze g sql"
  shows "keeps (guarded g tr0 locked pending ids sqls) (batch_statement g s sql ps control auth batch_id)"
    and "facts_writes (facts (guard_analyze g sql))
      \<Longrightarrow> keeps (guarded g tr0 locked pending ids sqls) (lone_write g s sql ps control auth)"
    and "keeps (guarded g tr0 locked pending ids sqls) (lone_read g s sql ps control auth)"
proof -
  let ?w = "facts_writes (facts (guard_analyze g sql))"
  show "keeps (guarded g tr0 locked pending ids sqls) (lone_read g s sql ps control auth)"
    unfolding lone_read_def
    by (intro keeps_gbind [OF keeps_authorized_operation] keeps_session_read guarded.keeps_audit_results assms)
  show "keeps (guarded g tr0 locked pending ids sqls) (lone_write g s sql ps control auth)" if ?w
    unfolding lone_write_def
    by (intro keeps_gbind_writable keeps_gbind [OF keeps_authorized_operation] keeps_session_write audit_accounts(1) assms)
  show "keeps (guarded g tr0 locked pending ids sqls) (batch_statement g s sql ps control auth batch_id)"
  proof (cases ?w)
    case True
    then show ?thesis
      unfolding batch_statement_def Let_def assms(2)
      by (simp only: if_True)
        (intro keeps_gbind_writable keeps_gbind_operation keeps_session_write audit_accounts(2) assms; simp)
  next
    case False
    then show ?thesis
      unfolding batch_statement_def Let_def assms(2)
      by (simp only: if_False)
        (intro keeps_gbind [OF keeps_gret] keeps_gbind_operation keeps_session_read guarded.keeps_audit_results assms)
  qed
qed

lemma keeps_gbind_classified:
  assumes "\<And>auth. auth_analysis auth = guard_analyze g sql
      \<Longrightarrow> keeps (guarded g tr0 locked pending ids (insert sql sqls)) (f auth)"
  shows "keeps (guarded g tr0 locked pending ids sqls) (gbind (authorize_classified g sql (guard_analyze g sql) control c) f)"
  unfolding authorize_classified_def
  by (rule keeps_gbind_eligible [OF authorize_with_bound_hoare [OF refl]]) (use assms in auto)

lemma keeps_session_statement:
  "keeps (guarded g tr0 locked pending ids sqls) (session_statement g s sql ps control)"
  unfolding session_statement_def Let_def
proof (intro keeps_gbind [OF keeps_gget] keeps_if keeps_refusals keeps_gbind_classified keeps_gtry keeps_gbind
    [OF keeps_notes(2)] keeps_gresult)
  fix ss and auth :: authorization
  assume auth: "auth_analysis auth = guard_analyze g sql"
  show "keeps (guarded g tr0 locked pending ids (insert sql sqls))
      (case ss_batch ss of
         None \<Rightarrow> if facts_writes (facts (auth_analysis auth)) then lone_write g s sql ps control auth
           else lone_read g s sql ps control auth
       | Some batch \<Rightarrow> batch_statement g s sql ps control auth (ob_id batch))"
    using auth by (auto split: option.split intro!: keeps_statement_bodies)
qed

subsection \<open>Transactions\<close>

lemma keeps_opened_batch [keeps_intro]: "keeps (guarded g tr0 locked pending ids sqls) (opened_batch s b result)"
  unfolding opened_batch_def by (intro keeps_intro)

lemma keeps_begins:
  assumes "control_recognised g ControlBegin sql"
  shows "keeps (guarded g tr0 locked pending ids sqls) (session_begin g s sql control)"
    and "keeps (guarded g tr0 locked pending ids sqls) (begin_read_only g s sql control)"
proof -
  show "keeps (guarded g tr0 locked pending ids sqls) (session_begin g s sql control)"
    unfolding session_begin_def control_call_def
    by (intro keeps_intro keeps_dispatch_unaudited) (simp_all add: assms)
  show "keeps (guarded g tr0 locked pending ids sqls) (begin_read_only g s sql control)"
    unfolding begin_read_only_def control_call_def
    by (intro keeps_if keeps_refusals keeps_gbind [OF keeps_gget] keeps_gbind [OF guarded.keeps_operations(1)]
        keeps_gbind_prepared_read keeps_gtry guarded.keeps_caught keeps_dispatch_read may_read keeps_gbind
        keeps_notes keeps_opened_batch guarded.keeps_audit_results keeps_gresult) (simp_all add: assms)
qed

lemma keeps_next_batch [keeps_intro]:
  "keeps (guarded g tr0 locked pending ids sqls) (next_batch kind chain batch ambiguous over result)"
  unfolding next_batch_def Let_def by (intro keeps_intro)

lemma keeps_finish_operation [keeps_intro]: "keeps (guarded g tr0 locked pending ids sqls) (finish_operation kind b)"
  unfolding finish_operation_def by (cases kind) (simp_all, (intro keeps_intro)+)

lemma next_batch_trace: "trace (snd (gbind (next_batch kind chain batch ambiguous over result) (set_batch s) w)) = trace w"
  by (auto simp: next_batch_def Let_def gbind_def gret_def new_batch_def fresh_id_def set_batch_def update_session_def
      gmodify_def split: sum.split)

lemma hoare_same_trace:
  fixes m :: "('a, 'e) run"
  assumes "keeps I m" "\<And>w. trace (snd (m w)) = trace w"
  shows "hoare (\<lambda>w. I w \<and> (c \<longrightarrow> K (trace w))) m (\<lambda>_ w. I w \<and> (c \<longrightarrow> K (trace w))) (\<lambda>_. I) I"
proof (rule hoareI)
  fix w assume "I w \<and> (c \<longrightarrow> K (trace w))"
  moreover have "I w \<Longrightarrow> I (snd (m w))" using assms(1) by (simp add: keeps_iff)
  ultimately show "ended (\<lambda>_ w. I w \<and> (c \<longrightarrow> K (trace w))) (\<lambda>_. I) I (m w)"
    using assms(2) [of w] by (cases "m w" rule: ended_cases) auto
qed

lemma hoare_gbind_keeps:
  "keeps I m \<Longrightarrow> (\<And>x. hoare I (f x) Q (\<lambda>_. I) I) \<Longrightarrow> hoare I (gbind m f) Q (\<lambda>_. I) I"
  unfolding keeps_def by (rule hoare_gbind)

lemma hoare_gtry_keeps:
  "keeps I m \<Longrightarrow> (\<And>r. hoare I (f r) Q (\<lambda>_. I) I) \<Longrightarrow> hoare I (gtry m f) Q (\<lambda>_. I) I"
  unfolding keeps_def by (rule hoare_gtry)

lemma settled_batch_hoare:
  "hoare (guarded g tr0 locked pending ids sqls)
    (gtry (record_outcome g op out) (\<lambda>recorded.
     gbind (gbind (next_batch kind chain batch ambiguous over result) (set_batch s)) (\<lambda>_.
     gbind (handle_write_outcome_failure recorded) (\<lambda>_. gret x))))
    (\<lambda>_ w. guarded g tr0 locked pending ids sqls w \<and> outcome_recorded (op_id op) (trace w))
    (\<lambda>_. guarded g tr0 locked pending ids sqls) (guarded g tr0 locked pending ids sqls)"
    (is "hoare ?I _ ?Q _ _")
proof (rule hoare_gtry)
  let ?J = "\<lambda>r w. ?I w \<and> (Option.is_none (result_err r) \<longrightarrow> outcome_recorded (op_id op) (trace w))"
  show "hoare ?I (record_outcome g op out) (\<lambda>x. ?J (Inr x)) (\<lambda>e. ?J (Inl e)) ?I"
    by (rule hoare_conseq [OF guarded.record_outcome_hoare]) auto
  fix r :: "audit_error + unit"
  have "hoare (?J r) (handle_write_outcome_failure r) (\<lambda>_ w. ?I w \<and> outcome_recorded (op_id op) (trace w)) (\<lambda>_. ?I) ?I"
    by (rule hoare_conseq [OF guarded.write_outcome_failure_hoare]) (auto split: sum.split)
  then have "hoare (?J r) (gbind (handle_write_outcome_failure r) (\<lambda>_. gret x)) ?Q (\<lambda>_. ?I) ?I"
    by (rule hoare_gbind) (rule hoare_gret)
  moreover have "hoare (?J r) (gbind (next_batch kind chain batch ambiguous over result) (set_batch s)) (\<lambda>_. ?J r) (\<lambda>_. ?I) ?I"
    by (rule hoare_same_trace) (intro keeps_intro, rule next_batch_trace)
  ultimately show "hoare (?J r) (gbind (gbind (next_batch kind chain batch ambiguous over result) (set_batch s)) (\<lambda>_.
      gbind (handle_write_outcome_failure r) (\<lambda>_. gret x))) ?Q (\<lambda>_. ?I) ?I"
    by (rule hoare_gbind [rotated])
qed

lemma finish_call_hoare:
  assumes "op_id op \<in> ids" "control_recognised g (finish_control kind) sql" "kind = FinishCommit \<Longrightarrow> \<not> locked"
    and "{op_id op} \<times> {c. ends_transaction c} \<subseteq> pending"
  shows "hoare (guarded g tr0 locked pending ids sqls) (finish_call g s sql control kind chain batch ss op start)
    (\<lambda>_ w. guarded g tr0 locked pending ids sqls w \<and> outcome_recorded (op_id op) (trace w))
    (\<lambda>_. guarded g tr0 locked pending ids sqls) (guarded g tr0 locked pending ids sqls)"
  unfolding finish_call_def control_call_def Let_def case_prod_beta
  by (intro settled_batch_hoare hoare_gtry_keeps hoare_gbind_keeps guarded.keeps_caught keeps_dispatch_write keeps_notes
      guarded.keeps_locks keeps_gget; use assms in \<open>cases kind; auto simp: may_dispatch_def\<close>)

lemma keeps_finish:
  assumes "control_recognised g (finish_control kind) sql"
  shows "keeps (guarded g tr0 locked pending ids sqls) (finish g s sql control kind chain)"
  unfolding finish_def finish_open_def
  by (intro keeps_gbind [OF keeps_gget] keeps_case_option keeps_refusals keeps_gbind_writable_if
      keeps_gbind [OF keeps_finish_operation] keeps_gbind_intent keeps_gbind keeps_gresult
      keeps_armed_scope_settles [where C = "{c. ends_transaction c}"] hoare_conseq [OF finish_call_hoare])
    (use assms in auto)

lemma control_recognised_query:
  assumes "transaction_control_of (parser g) sql (ctx_driver_id g) = Some c"
  shows "c = Begin \<or> c = BeginReadOnlySnapshot \<or> (c = BeginReadWrite \<and> \<not> ctx_read_only g) \<Longrightarrow> control_recognised g ControlBegin sql"
    and "c = CommitControl chain \<Longrightarrow> control_recognised g (finish_control FinishCommit) sql"
    and "c = RollbackControl chain \<Longrightarrow> control_recognised g (finish_control FinishRollback) sql"
  using assms by (auto simp: control_recognised_def)

lemma keeps_session_query:
  "keeps (guarded g tr0 locked pending ids sqls) (session_query g s sql ps control)"
  unfolding session_query_def
proof (rule keeps_gbind [OF keeps_refusals(3)])
  fix u
  note rules = keeps_gbind keeps_gret keeps_if keeps_refusals keeps_session_statement
  show "keeps (guarded g tr0 locked pending ids sqls)
      (case transaction_control_of (parser g) sql (ctx_driver_id g) of
       Some BeginReadWrite \<Rightarrow>
         if ctx_read_only g then
           refuse_policy g s sql ''connection_read_only''
             ''read-write transactions are not allowed on a read-only connection''
         else session_begin g s sql control
     | Some Begin \<Rightarrow> session_begin g s sql control
     | Some BeginReadOnly \<Rightarrow>
         refuse_policy g s sql ''snapshot_isolation''
           ''read-only sessions require REPEATABLE READ or SERIALIZABLE isolation''
     | Some BeginReadOnlySnapshot \<Rightarrow> begin_read_only g s sql control
     | Some (CommitControl chain) \<Rightarrow> gbind (finish g s sql control FinishCommit chain) (\<lambda>r. gret (fst r))
     | Some (RollbackControl chain) \<Rightarrow> gbind (finish g s sql control FinishRollback chain) (\<lambda>r. gret (fst r))
     | None \<Rightarrow>
         if hides_transaction_control (parser g) sql (ctx_driver_id g) then
           refuse_policy g s sql ''hidden_transaction_control''
             ''send BEGIN, COMMIT and ROLLBACK as separate statements so the session can track the transaction''
         else session_statement g s sql ps control)"
  proof (cases "transaction_control_of (parser g) sql (ctx_driver_id g)")
    case None
    then show ?thesis by (simp only: option.case) (intro rules)
  next
    case (Some c)
    note control = control_recognised_query [OF Some]
    show ?thesis
      unfolding Some option.case
      by (cases c; simp only: transaction_control.case; intro rules keeps_begins keeps_finish control; simp)
  qed
qed

lemma control_recognised_own:
  "control_recognised g (finish_control FinishCommit) ''COMMIT''" "control_recognised g (finish_control FinishRollback) ''ROLLBACK''"
  by (simp_all add: control_recognised_def)

lemma keeps_session_commit: "keeps (guarded g tr0 locked pending ids sqls) (session_commit g s control)"
  unfolding session_commit_def
  by (intro keeps_gbind [OF keeps_refusals(3)] keeps_gbind [OF keeps_finish [OF control_recognised_own(1)]])
    (auto split: tx_outcome.split intro: keeps_gret keeps_gfail)

lemma keeps_session_result_sets:
  "keeps (guarded g tr0 locked pending ids sqls) (session_result_sets g s sql ps control)"
  unfolding session_result_sets_def Let_def by (intro keeps_intro keeps_session_query)

subsection \<open>Cursors\<close>

text \<open>Whoever reads the session's cursor knows that its operation may call the driver.\<close>

lemma keeps_gbind_session:
  assumes "\<And>ss ids'. ids \<subseteq> ids' \<Longrightarrow> (\<And>c. ss_cursor ss = Some c \<Longrightarrow> ca_operation_id (ac_audit c) \<in> ids' \<or> local_human g)
      \<Longrightarrow> keeps (guarded g tr0 locked pending ids' sqls) (f ss)"
  shows "keeps (guarded g tr0 locked pending ids sqls) (gbind (the_session s) f)"
  unfolding keeps_iff
proof (intro allI impI)
  fix w assume I: "guarded g tr0 locked pending ids sqls w"
  define ids' where "ids' = ids \<union> {i. intent_recorded i (trace w)}"
  have J: "guarded g tr0 locked pending ids' sqls w" using I by (auto simp: guarded_def ids'_def)
  have "keeps (guarded g tr0 locked pending ids' sqls) (f (sessions w s))"
    by (rule assms) (use I in \<open>auto simp: ids'_def guarded_def cursors_accounted_def\<close>)
  with J have "guarded g tr0 locked pending ids' sqls (snd (f (sessions w s) w))" by (simp add: keeps_iff)
  then show "guarded g tr0 locked pending ids sqls (snd (gbind (the_session s) f w))"
    by (simp add: gbind_def gget_def) (rule guarded_subset, auto simp: ids'_def)
qed

lemma keeps_case_option_known:
  "(r = None \<Longrightarrow> keeps I m) \<Longrightarrow> (\<And>x. r = Some x \<Longrightarrow> keeps I (h x)) \<Longrightarrow> keeps I (case r of None \<Rightarrow> m | Some x \<Rightarrow> h x)"
  by (cases r) auto

lemma keeps_audit_cursor [keeps_intro]:
  "keeps (guarded g tr0 locked pending ids sqls) (audit_cursor_result g audit start result rows status)"
  "keeps (guarded g tr0 locked pending ids sqls) (audit_cursor_error g audit start e)"
  unfolding audit_cursor_result_def audit_cursor_error_def by (intro keeps_intro)+

lemma cursor_operation_id [simp]: "op_id (cursor_operation audit) = ca_operation_id audit"
  by (simp add: cursor_operation_def)

lemma keeps_open_authorized_cursor:
  assumes "sql \<in> sqls"
  shows "keeps (guarded g tr0 locked pending ids sqls) (open_authorized_cursor g s sql ps control audit)"
  unfolding open_authorized_cursor_def
  by (intro keeps_gbind_prepared_read keeps_gbind [OF keeps_gget] keeps_gtry guarded.keeps_caught keeps_dispatch_read may_read
      keeps_case_sum keeps_gbind keeps_set_cursor keeps_notes keeps_audit_cursor keeps_gresult keeps_gret keeps_gfail)
    (use assms in auto)

lemma keeps_open_query_cursor: "keeps (guarded g tr0 locked pending ids sqls) (open_query_cursor g s sql ps control)"
  unfolding open_query_cursor_def
  by (intro keeps_gbind [OF keeps_session_is_usable] keeps_if keeps_refusals keeps_gbind [OF keeps_gget] keeps_case_option
      keeps_gbind_classified keeps_gbind [OF guarded.keeps_fresh_id] keeps_open_authorized_cursor) simp

lemma keeps_cursor_close:
  assumes "ca_operation_id audit \<in> ids \<or> local_human g"
  shows "keeps (guarded g tr0 locked pending ids sqls) (cursor_call_close g s audit i)"
    and "keeps (guarded g tr0 locked pending ids sqls) (close_cursor_driver g s audit i)"
proof -
  show close: "keeps (guarded g tr0 locked pending ids sqls) (cursor_call_close g s audit i)"
    unfolding cursor_call_close_def
    by (intro keeps_gbind [OF keeps_gget] guarded.keeps_caught keeps_dispatch_read may_read) (use assms in auto)
  show "keeps (guarded g tr0 locked pending ids sqls) (close_cursor_driver g s audit i)"
    unfolding close_cursor_driver_def by (intro keeps_intro close)
qed

lemma keeps_fetch_query_cursor_page:
  "keeps (guarded g tr0 locked pending ids sqls) (fetch_query_cursor_page g s i control)"
  unfolding fetch_query_cursor_page_def fetch_active_page_def Let_def
  by (intro keeps_gbind_session keeps_case_option_known keeps_if keeps_gfail keeps_gbind [OF keeps_gget] keeps_gtry guarded.keeps_caught
      keeps_dispatch_read may_read keeps_audit_cursor keeps_case_sum keeps_gbind keeps_notes keeps_cursor_close keeps_gresult
      keeps_session_updates keeps_gret; simp)

lemma keeps_close_active_cursor:
  "keeps (guarded g tr0 locked pending ids sqls) (close_active_cursor g s i status)"
  unfolding close_active_cursor_def
  by (intro keeps_gbind_session keeps_case_option_known keeps_if keeps_gfail keeps_gbind [OF keeps_gget] keeps_gtry
      keeps_cursor_close keeps_audit_cursor keeps_case_sum keeps_gbind keeps_session_updates keeps_gresult keeps_gret; simp)

lemma keeps_session_metadata:
  "keeps (guarded g tr0 locked pending ids sqls) (session_lexical_settings g s control)"
  "keeps (guarded g tr0 locked pending ids sqls) (fetch_completion_columns g s schema table control)"
  unfolding session_lexical_settings_def fetch_completion_columns_def
  by (intro keeps_gbind [OF keeps_gget] keeps_if keeps_gfail guarded.keeps_caught keeps_dispatch_unaudited
      keeps_gbind [OF keeps_pre_dispatch] keeps_refusals keeps_gbind [OF keeps_session_is_usable]
      keeps_gbind [OF guarded.keeps_operations(3)] keeps_gbind_prepared_read keeps_gtry keeps_dispatch_read may_read
      keeps_gbind keeps_notes guarded.keeps_audit_results keeps_gresult; simp)+

subsection \<open>Closing\<close>

lemma keeps_ignored [keeps_intro]: "keeps I m \<Longrightarrow> keeps I (ignored m)"
  unfolding ignored_def by (intro keeps_intro)

lemma keeps_record_batch_ends [keeps_intro]:
  "keeps (guarded g tr0 locked pending ids sqls) (record_ended_read_only_batch g b)"
  "keeps (guarded g tr0 locked pending ids sqls) (record_abandoned_transaction g b)"
  unfolding record_ended_read_only_batch_def record_abandoned_transaction_def record_batch_end_def
  by (intro keeps_intro)+

lemma keeps_session_close: "keeps (guarded g tr0 locked pending ids sqls) (session_close g s)"
proof -
  have "keeps (guarded g tr0 locked pending ids sqls) (close_open_batch g s batch)" for batch
    unfolding close_open_batch_def by (intro keeps_intro keeps_finish control_recognised_own)
  then show ?thesis
    unfolding session_close_def
    by (intro keeps_intro keeps_close_active_cursor keeps_dispatch_unaudited; simp)
qed

end
