(* ===== verification/Guard_Runs.thy ===== *)
theory Guard_Runs
  imports Guard_Connection
begin

text \<open>
  Whole runs of a guarded connection, step by step: what happens when the audit sink accepts records and the driver
  answers. The exact answers of \<open>Guard_Answers\<close> and the examples of \<open>Guard_System\<close> rest on them.
\<close>

lemma audit_record_accepted:
  assumes "\<And>ev. audit_sink g (trace w) ev = Answer t (Inr ())"
  obtains ev where "audit_record g op phase status tx rows category d w = (Ok (), emit (Recorded ev None) (suspend g t w))"
    and "ev_phase ev = phase" "ev_operation_id ev = op_id op" "ev_status ev = status" "ev_rows_affected ev = rows"
    and "ev_decision_rule ev = op_rule op"
  using assms by (simp add: audit_record_def sink_record_def gbind_def gget_def)

lemma record_intent_accepted:
  assumes "\<And>ev. audit_sink g (trace w) ev = Answer t (Inr ())"
  obtains ev where "record_intent g op w = (Ok (), emit (Recorded ev None) (suspend g t w))"
    and "ev_phase ev = IntentPhase" "ev_operation_id ev = op_id op"
proof -
  obtain ev where "audit_record g op IntentPhase StatusPending
      (if op_class op = ClassCommit \<or> op_class op = ClassRollback then TxPending else TxNotApplicable) None None None w
      = (Ok (), emit (Recorded ev None) (suspend g t w))" "ev_phase ev = IntentPhase" "ev_operation_id ev = op_id op"
    by (rule audit_record_accepted [OF assms])
  with that show thesis by (simp add: record_intent_def gtry_def gresult_def gret_def)
qed

lemma audit_write_accepted:
  assumes "\<And>ev. audit_sink g (trace w) ev = Answer t (Inr ())"
  obtains ev where "audit_write_result g op start (Inr r :: driver_error + 'a) rows w
      = (Ok (), emit (Recorded ev None) (suspend g t w))"
    and "ev_phase ev = OutcomePhase" "ev_operation_id ev = op_id op" "ev_status ev = StatusSucceeded"
    and "ev_rows_affected ev = rows" "ev_decision_rule ev = op_rule op"
proof -
  obtain ev where "audit_record g op OutcomePhase StatusSucceeded TxNotApplicable rows None (Some (elapsed_since start w)) w
      = (Ok (), emit (Recorded ev None) (suspend g t w))" "ev_phase ev = OutcomePhase" "ev_operation_id ev = op_id op"
      "ev_status ev = StatusSucceeded" "ev_rows_affected ev = rows" "ev_decision_rule ev = op_rule op"
    by (rule audit_record_accepted [OF assms])
  with that show thesis
    by (simp add: audit_write_result_def record_outcome_def succeeded_outcome_def handle_write_outcome_failure_def
        gbind_def gget_def gtry_def gret_def)
qed

lemma suspend_quiet:
  "(\<And>tr. other_tasks g tr = (False, False)) \<Longrightarrow> writes_disabled (suspend g t w) = writes_disabled w"
  "trace (suspend g t w) = trace w"
  by (simp_all add: writes_disabled_def suspend_def)

lemma emit_quiet: "writes_disabled (emit e w) = writes_disabled w" "trace (emit e w) = trace w @ [e]"
  by (simp_all add: writes_disabled_def emit_def)

lemma execute_write_runs:
  assumes "\<And>tr ev. audit_sink g tr ev = Answer t (Inr ())" "\<And>tr. other_tasks g tr = (False, False)"
    and "\<And>tr. reply tr = Answer t' (Inr r)" "\<not> writes_disabled w"
  shows "\<exists>intent outcome w'. execute_write g sql batch auth call reply w = (Ok r, w')
    \<and> trace w' = trace w @ [Recorded intent None,
        Dispatched WriteBoundary (Some (ev_operation_id intent)) call, Recorded outcome None]
    \<and> ev_phase intent = IntentPhase \<and> ev_phase outcome = OutcomePhase
    \<and> ev_operation_id outcome = ev_operation_id intent \<and> ev_status outcome = StatusSucceeded
    \<and> ev_rows_affected outcome = Some (rows_affected r) \<and> ev_decision_rule outcome = rule_name (auth_decision auth)
    \<and> ev_operation_id intent = next_id w \<and> \<not> writes_disabled w'"
proof -
  obtain op w1 where op: "(authorized_operation g sql batch auth :: (audit_operation, driver_error) run) w = (Ok op, w1)" "trace w1 = trace w"
      "\<not> writes_disabled w1" "op_rule op = rule_name (auth_decision auth)" "op_id op = next_id w"
    using assms(4) by (simp add: authorized_operation_def operation_def fresh_id_def gbind_def gret_def writes_disabled_def)
  obtain intent where intent: "record_intent g op w1 = (Ok (), emit (Recorded intent None) (suspend g t w1))"
      "ev_phase intent = IntentPhase" "ev_operation_id intent = op_id op"
    by (rule record_intent_accepted [OF assms(1)])
  define w2 where "w2 = emit (Recorded intent None) (suspend g t w1)"
  define w3 where "w3 = suspend g t' (emit (Dispatched WriteBoundary (Some (op_id op)) call) w2)"
  obtain outcome where outcome: "audit_write_result g op (now w2) (Inr r :: driver_error + exec_result) (Some (rows_affected r)) w3
        = (Ok (), emit (Recorded outcome None) (suspend g t w3))"
      "ev_phase outcome = OutcomePhase" "ev_operation_id outcome = op_id op" "ev_status outcome = StatusSucceeded"
      "ev_rows_affected outcome = Some (rows_affected r)" "ev_decision_rule outcome = op_rule op"
    by (rule audit_write_accepted [OF assms(1)])
  have "caught_write g name (dispatch g WriteBoundary (Some (op_id op)) call reply) w2 = (Ok r, w3)" for name
    using assms(3) by (simp add: caught_write_def dispatch_def gtry_def gret_def w3_def Let_def)
  then have "execute_write g sql batch auth call reply w = (Ok r, emit (Recorded outcome None) (suspend g t w3))"
    using op(1) intent(1) outcome(1) assms(4)
    by (simp add: execute_write_def gbind_def gtry_def gget_def gret_def gresult_def require_governed_write_available_def
        handle_intent_failure_def armed_write_def armed_call_def armed_scope_def w2_def Let_def)
  moreover have "trace (emit (Recorded outcome None) (suspend g t w3)) = trace w @ [Recorded intent None,
      Dispatched WriteBoundary (Some (ev_operation_id intent)) call, Recorded outcome None]"
    using op(2) intent(3) by (simp add: w2_def w3_def emit_quiet suspend_quiet(2))
  moreover have "\<not> writes_disabled (emit (Recorded outcome None) (suspend g t w3))"
    using op(3) assms(2) by (simp add: w2_def w3_def emit_quiet suspend_quiet(1))
  ultimately show ?thesis using intent outcome op(4,5) by auto
qed

text \<open>The rows that a statement is known to change, where the policy has a limit on them.\<close>

definition known_rows :: "guard \<Rightarrow> statement_analysis \<Rightarrow> nat option" where
  "known_rows g a =
     (let f = facts a; e = facts_effects f in
      if contains_mutating_dml f \<and> facts_class f \<noteq> Administrative \<and> \<not> eff_contains e ADMIN
         \<and> \<not> eff_contains e UNKNOWN \<and> blast_radius_max_rows (effective_policy g) \<noteq> None
      then (case blast_radius a of Some (Known n) \<Rightarrow> Some n | _ \<Rightarrow> None) else None)"

lemma authorize_allowed:
  assumes "shared_connection_decision (parser g) sql (ctx_driver_id g) (facts (guard_analyze g sql)) = None"
    and "evaluate_categorical (ctx_principal g) (ctx_environment g) (facts (guard_analyze g sql)) (ctx_read_only g)
      (effective_policy g) = None"
    and "\<And>q. blast_radius (guard_analyze g sql) \<noteq> Some (CountQuery q)"
    and "verdict g sql (known_rows g (guard_analyze g sql)) = Allow rule" "\<not> writes_disabled w"
  shows "authorize g sql control w = (Ok \<lparr>auth_decision = Allow rule, auth_analysis = guard_analyze g sql,
      auth_approval = ApprovalNotRequired, auth_preview = NotRequested\<rparr>, w)"
proof -
  let ?a = "guard_analyze g sql"
  have "evaluate_eligible_write (ctx_principal g) (ctx_environment g) (facts ?a) (effective_policy g) (known_rows g ?a)
      = Allow rule"
    using evaluate_eligible assms(2,4) by (simp add: verdict_def)
  moreover have "estimate_blast_radius g ?a control c
      = gret (case blast_radius ?a of Some (Known n) \<Rightarrow> Some n | _ \<Rightarrow> None)" for c
    using assms(3) by (auto simp: estimate_blast_radius_def split: option.split blast_radius_rewrite.split)
  ultimately show ?thesis
    using assms(1,2,5)
    by (auto simp: authorize_def authorize_analysis_def authorize_with_bound_def Let_def governed_write_refusal_def
        require_governed_write_available_def resolve_authorization_def gbind_def gret_def known_rows_def)
qed

text \<open>A read that the policy allows by its category runs, whatever the state of governed writes.\<close>

lemma authorize_read:
  assumes "shared_connection_decision (parser g) sql (ctx_driver_id g) (facts (guard_analyze g sql)) = None"
    and "evaluate_categorical (ctx_principal g) (ctx_environment g) (facts (guard_analyze g sql)) (ctx_read_only g)
      (effective_policy g) \<noteq> None"
    and "verdict g sql None = Allow rule"
  shows "authorize g sql control w = (Ok \<lparr>auth_decision = Allow rule, auth_analysis = guard_analyze g sql,
      auth_approval = ApprovalNotRequired, auth_preview = NotRequested\<rparr>, w)"
  using assms
  by (auto simp: authorize_def authorize_analysis_def authorize_with_bound_def Let_def verdict_def evaluate_def
      resolve_authorization_def gret_def)

lemma governed_query_runs:
  assumes "\<And>control. authorize g sql control w = (Ok auth, w)" "\<not> facts_writes (facts (auth_analysis auth))"
    and "\<And>tr ev. audit_sink g tr ev = Answer t (Inr ())"
    and "\<And>tr. drv_query (inner g) tr sql ps control = Answer t' (Inr r)" "\<not> local_human g"
  shows "\<exists>intent outcome w'. governed_query g name sql ps control w
      = (Ok (mask_result_for_analysis g (Some (auth_analysis auth)) r), w')
    \<and> trace w' = trace w @ [Recorded intent None,
        Dispatched ReadBoundary (Some (next_id w)) (CallQuery sql ps control), Recorded outcome None]"
proof -
  obtain op w1 where op: "(authorized_operation g sql None auth :: (audit_operation, driver_error) run) w = (Ok op, w1)"
      "trace w1 = trace w" "op_id op = next_id w"
    by (simp add: authorized_operation_def operation_def fresh_id_def gbind_def gret_def)
  obtain intent where intent: "record_intent g op w1 = (Ok (), emit (Recorded intent None) (suspend g t w1))"
    by (rule record_intent_accepted [OF assms(3)])
  define w2 where "w2 = emit (Recorded intent None) (suspend g t w1)"
  define w3 where "w3 = suspend g t' (emit (Dispatched ReadBoundary (Some (op_id op)) (CallQuery sql ps control)) w2)"
  let ?r = "mask_result_for_analysis g (Some (auth_analysis auth)) r"
  obtain outcome where "audit_record g op OutcomePhase StatusSucceeded TxNotApplicable (counted (result_rows ?r)) None
      (Some (elapsed_since (now w2) w3)) w3 = (Ok (), emit (Recorded outcome None) (suspend g t w3))"
    by (rule audit_record_accepted [OF assms(3)])
  then have "audit_read g control op (now w2) (Inr ?r :: driver_error + query_result) (counted (result_rows ?r)) w3
      = (Ok (), emit (Recorded outcome None) (suspend g t w3))"
    by (simp add: audit_read_def audit_read_result_def audit_controlled_read_result_def record_outcome_def succeeded_outcome_def
        handle_read_audit_failure_def gbind_def gget_def gtry_def gret_def split: option.split)
  moreover have "caught_read g name (dispatch g ReadBoundary (Some (op_id op)) (CallQuery sql ps control)
      (\<lambda>tr. drv_query (inner g) tr sql ps control)) w2 = (Ok r, w3)"
    using assms(4) by (simp add: caught_read_def dispatch_def gtry_def gret_def w3_def Let_def)
  ultimately have "governed_query g name sql ps control w = (Ok ?r, emit (Recorded outcome None) (suspend g t w3))"
    using op(1) intent(1) assms(1,2,5)
    by (simp add: governed_query_def governed_read_def prepare_governed_read_def map_error_def gbind_def gtry_def gget_def gret_def
        gresult_def map_result_def result_ok_def w2_def Let_def)
  then show ?thesis
    using op(2,3) by (auto simp: w2_def w3_def emit_quiet suspend_quiet(2))
qed

end
