(* ===== verification/Guard_System.thy ===== *)
theory Guard_System
  imports Guard_Session Guard_Runs
begin

text \<open>
  The guard as its clients see it: any sequence of calls of the connection, its transactions and its sessions, with any
  behaviour of the driver, the audit sink and the approval sink, and with other tasks locking writes down in
  between. The properties are about the trace of everything the guard did.

  Calls on one guard may overlap in the program. They share no state but the two lockdown flags, which other tasks
  may set whenever a call waits (\<open>other_tasks\<close>), so each call's own events are those of a run here.
\<close>

section \<open>Calls of the guard\<close>

text \<open>
  A call of the guard by its client, and what it returns. A missing control is the plain method, a control the
  controlled one.
\<close>

datatype guard_call =
    SupportsServerCancellation
  | ListDatabases ctl
  | ListTables ctl
  | ListViews ctl
  | ListObjects catalog_object_kind "string option" ctl
  | FetchColumns "string option" string ctl
  | FetchRows "string option" string nat nat ctl
  | FetchIndexes "string option" string ctl
  | FetchForeignKeys "string option" string ctl
  | FetchInboundForeignKeys "string option" string ctl
  | FetchEnumLabels string string ctl
  | ServerVersion
  | Ping
  | LexicalSettings operation_control
  | Close
  | OpenSession
  | BeginTransaction ctl
  | RunQuery string params ctl
  | RunResultSets string "cell list" operation_control
  | RunExecute string params ctl
  | RunBatch "(string \<times> cell list) list" "nat list option" ctl
  | TxQuery policy_transaction string params ctl
  | TxExecute policy_transaction string params ctl
  | TxCommit policy_transaction
  | TxRollback policy_transaction ctl
  | SessionQuery uuid string "cell list" operation_control
  | SessionResultSets uuid string "cell list" operation_control
  | SessionCommit uuid operation_control
  | OpenCursor uuid string "cell list" operation_control
  | FetchCursor uuid nat operation_control
  | CloseCursor uuid nat operation_control
  | SessionLexicalSettings uuid operation_control
  | CompletionColumns uuid "string option" string operation_control
  | SessionUsable uuid
  | TransactionOpen uuid
  | CloseSession uuid

datatype guard_value =
    BoolValue bool
  | NamesValue "string list"
  | TablesValue "table_info list"
  | ObjectsValue "catalog_object list"
  | ColumnsValue "column_info list"
  | IndexesValue "index_info list"
  | KeysValue "foreign_key_info list"
  | InboundKeysValue "inbound_foreign_key_info list"
  | VersionValue "string option"
  | SettingsValue "nat option"
  | UnitValue
  | SessionValue nat
  | TransactionValue policy_transaction
  | RowsValue query_result
  | SetsValue query_result_batch
  | ExecValue exec_result
  | CountsValue "nat list"
  | CommitValue session_commit_outcome
  | CursorValue nat
  | PageValue query_cursor_page

definition gmap :: "('a \<Rightarrow> 'b) \<Rightarrow> ('a, 'e) run \<Rightarrow> ('b, 'e) run" where
  "gmap f m = gbind m (\<lambda>x. gret (f x))"

definition controlled :: "ctl \<Rightarrow> 'a \<Rightarrow> (operation_control \<Rightarrow> 'a) \<Rightarrow> 'a" where
  "controlled control plain with_control = (case control of None \<Rightarrow> plain | Some c \<Rightarrow> with_control c)"

fun perform :: "guard \<Rightarrow> guard_call \<Rightarrow> (guard_value, driver_error) run" where
  "perform g SupportsServerCancellation = gmap BoolValue (supports_server_cancellation g)"
| "perform g (ListDatabases k) = gmap NamesValue (controlled k (list_databases g) (list_databases_controlled g))"
| "perform g (ListTables k) = gmap TablesValue (controlled k (list_tables g) (list_tables_controlled g))"
| "perform g (ListViews k) = gmap TablesValue (controlled k (list_views g) (list_views_controlled g))"
| "perform g (ListObjects kind s k) =
     gmap ObjectsValue (controlled k (list_objects g kind s) (list_objects_controlled g kind s))"
| "perform g (FetchColumns s t k) =
     gmap ColumnsValue (controlled k (fetch_columns g s t) (fetch_columns_controlled g s t))"
| "perform g (FetchRows s t offset limit k) =
     gmap RowsValue (controlled k (fetch_rows g s t offset limit) (fetch_rows_controlled g s t offset limit))"
| "perform g (FetchIndexes s t k) =
     gmap IndexesValue (controlled k (fetch_indexes g s t) (fetch_indexes_controlled g s t))"
| "perform g (FetchForeignKeys s t k) =
     gmap KeysValue (controlled k (fetch_foreign_keys g s t) (fetch_foreign_keys_controlled g s t))"
| "perform g (FetchInboundForeignKeys s t k) =
     gmap InboundKeysValue
       (controlled k (fetch_inbound_foreign_keys g s t) (fetch_inbound_foreign_keys_controlled g s t))"
| "perform g (FetchEnumLabels s n k) =
     gmap NamesValue (controlled k (fetch_enum_labels g s n) (fetch_enum_labels_controlled g s n))"
| "perform g ServerVersion = gmap VersionValue (server_version g)"
| "perform g Ping = gmap (\<lambda>_. UnitValue) (ping g)"
| "perform g (LexicalSettings c) = gmap SettingsValue (lexical_settings_controlled g c)"
| "perform g Close = gmap (\<lambda>_. UnitValue) (close g)"
| "perform g OpenSession = gmap SessionValue (open_session g)"
| "perform g (BeginTransaction k) = gmap TransactionValue (controlled k (begin_transaction g) (begin_controlled g))"
| "perform g (RunQuery sql None k) = gmap RowsValue (controlled k (query g sql) (query_controlled g sql))"
| "perform g (RunQuery sql (Some ps) k) =
     gmap RowsValue (controlled k (query_params g sql ps) (query_params_controlled g sql ps))"
| "perform g (RunResultSets sql ps c) = gmap SetsValue (query_result_sets_controlled g sql ps c)"
| "perform g (RunExecute sql None k) = gmap ExecValue (controlled k (execute g sql) (execute_controlled g sql))"
| "perform g (RunExecute sql (Some ps) k) =
     gmap ExecValue (controlled k (execute_params g sql ps) (execute_params_controlled g sql ps))"
| "perform g (RunBatch sts None k) =
     gmap CountsValue (controlled k (execute_in_transaction g sts) (execute_in_transaction_controlled g sts))"
| "perform g (RunBatch sts (Some one) k) =
     gmap CountsValue (controlled k (execute_in_transaction_checked g sts one)
       (execute_in_transaction_checked_controlled g sts one))"
| "perform g (TxQuery tx sql None k) = gmap RowsValue (controlled k (tx_query g tx sql) (tx_query_controlled g tx sql))"
| "perform g (TxQuery tx sql (Some ps) k) =
     gmap RowsValue (controlled k (tx_query_params g tx sql ps) (tx_query_params_controlled g tx sql ps))"
| "perform g (TxExecute tx sql None k) =
     gmap ExecValue (controlled k (tx_execute g tx sql) (tx_execute_controlled g tx sql))"
| "perform g (TxExecute tx sql (Some ps) k) =
     gmap ExecValue (controlled k (tx_execute_params g tx sql ps) (tx_execute_params_controlled g tx sql ps))"
| "perform g (TxCommit tx) = gmap (\<lambda>_. UnitValue) (commit g tx)"
| "perform g (TxRollback tx k) = gmap (\<lambda>_. UnitValue) (controlled k (rollback g tx) (rollback_controlled g tx))"
| "perform g (SessionQuery s sql ps c) = gmap RowsValue (session_query g s sql ps c)"
| "perform g (SessionResultSets s sql ps c) = gmap SetsValue (session_result_sets g s sql ps c)"
| "perform g (SessionCommit s c) = gmap CommitValue (session_commit g s c)"
| "perform g (OpenCursor s sql ps c) = gmap CursorValue (open_query_cursor g s sql ps c)"
| "perform g (FetchCursor s i c) = gmap PageValue (fetch_query_cursor_page g s i c)"
| "perform g (CloseCursor s i c) = gmap (\<lambda>_. UnitValue) (close_query_cursor g s i c)"
| "perform g (SessionLexicalSettings s c) = gmap SettingsValue (session_lexical_settings g s c)"
| "perform g (CompletionColumns s schema table c) = gmap NamesValue (fetch_completion_columns g s schema table c)"
| "perform g (SessionUsable s) = gmap BoolValue (session_is_usable g s)"
| "perform g (TransactionOpen s) = gmap BoolValue (transaction_open s)"
| "perform g (CloseSession s) = gmap (\<lambda>_. UnitValue) (session_close g s)"

lemma keeps_gmap [keeps_intro]: "keeps I m \<Longrightarrow> keeps I (gmap f m)"
  unfolding gmap_def by (intro keeps_intro)

lemma keeps_controlled [keeps_intro]:
  "keeps I m \<Longrightarrow> (\<And>c. keeps I (n c)) \<Longrightarrow> keeps I (controlled k m n)"
  by (cases k) (simp_all add: controlled_def)

lemma keeps_close_query_cursor: "keeps (guarded g tr0 locked pending ids sqls) (close_query_cursor g s i c)"
  unfolding close_query_cursor_def by (rule keeps_close_active_cursor)

lemma keeps_transaction_open: "keeps I (transaction_open s)"
  unfolding transaction_open_def by (intro keeps_intro)

lemmas session_methods [guard_methods] =
  keeps_session_query keeps_session_result_sets keeps_session_commit keeps_open_query_cursor keeps_fetch_query_cursor_page
  keeps_close_query_cursor keeps_session_metadata keeps_session_is_usable keeps_transaction_open keeps_session_close

lemma keeps_perform: "keeps (guarded g tr0 locked pending ids sqls) (perform g call)"
  by (induction g call rule: perform.induct; simp only: perform.simps; intro keeps_intro guard_methods)

section \<open>Reachable worlds\<close>

text \<open>A client's call, or a pause in which other tasks run.\<close>

inductive guard_step :: "guard \<Rightarrow> world \<Rightarrow> world \<Rightarrow> bool" for g where
  client_call: "guard_step g w (snd (perform g call w))"
| pause: "guard_step g w (suspend g t w)"

inductive_cases guard_stepE: "guard_step g w w'"

abbreviation guard_reachable :: "guard \<Rightarrow> world \<Rightarrow> world \<Rightarrow> bool" where
  "guard_reachable g \<equiv> (guard_step g)\<^sup>*\<^sup>*"

lemma guard_step_guarded:
  "guard_step g w w' \<Longrightarrow> guarded g tr0 locked {} {} {} w \<Longrightarrow> guarded g tr0 locked {} {} {} w'"
  using keeps_perform by (auto simp: keeps_iff elim!: guard_stepE)

text \<open>A guard starts with no transaction and no cursor open on any session.\<close>

definition fresh_world :: "world \<Rightarrow> bool" where
  "fresh_world w \<longleftrightarrow> trace w = [] \<and> (\<forall>s. ss_batch (sessions w s) = None \<and> ss_cursor (sessions w s) = None)"

lemma guarded_start:
  "cursors_accounted g w \<Longrightarrow> locked = writes_disabled w \<Longrightarrow> guarded g (trace w) locked {} {} {} w"
  by (auto simp: guarded_def writes_accounted_def intro: exI [of _ "[]"])

lemma fresh_accounted: "fresh_world w \<Longrightarrow> cursors_accounted g w"
  by (simp add: fresh_world_def cursors_accounted_def)

lemma reachable_guarded:
  "guard_reachable g w0 w \<Longrightarrow> fresh_world w0 \<Longrightarrow> guarded g (trace w0) (writes_disabled w0) {} {} {} w"
  by (induction rule: rtranclp_induct) (auto intro: guarded_start fresh_accounted guard_step_guarded)

lemma events_ok_at: "events_ok g locked tr (before @ e # after) \<Longrightarrow> event_ok g locked (tr @ before) e"
  by (simp add: events_ok_append)

lemma reachable_event_ok:
  assumes "guard_reachable g w0 w" "fresh_world w0" "trace w = before @ e # after"
  shows "event_ok g (writes_disabled w0) before e"
  using reachable_guarded [OF assms(1,2)] assms(2,3) events_ok_at [of g _ "[]" before e after]
  by (auto simp: guarded_def fresh_world_def)

lemma reachable_statement:
  assumes "guard_reachable g w0 w" "fresh_world w0" "trace w = before @ Dispatched b opid c # after"
    and "call_statement c = Some sql"
  shows "permitted g before sql \<or> b = ReadBoundary \<and> is_count_query g sql"
proof (cases opid)
  case None
  have "\<not> is_unaudited_call b c" using assms(4) by (cases "(b, c)" rule: is_unaudited_call.cases) auto
  with None show ?thesis using reachable_event_ok [OF assms(1-3)] by (simp add: event_ok_def)
next
  case (Some i)
  then show ?thesis
    using reachable_event_ok [OF assms(1-3)] assms(4) by (auto simp: event_ok_def statement_ok_def)
qed

lemma permitted_not_denied:
  assumes "permitted g tr sql"
  obtains rows where "\<not> is_deny (verdict g sql rows)"
proof -
  from assms obtain rows where
    "is_allow (verdict g sql rows) \<or> (\<exists>rule why shown. verdict g sql rows = RequireApproval rule why shown)"
    unfolding permitted_def by blast
  then have "\<not> is_deny (verdict g sql rows)" by (cases "verdict g sql rows") auto
  with that show ?thesis .
qed

section \<open>An example system\<close>

text \<open>
  A guard with concrete parties, on which the properties below are instantiated: the sinks accept everything, the
  driver runs writes and queries, the text \<open>U\<close> is an insert of one row, the text \<open>S\<close> starts a read-only
  snapshot, and every other text is a plain query.
\<close>

definition example_insert :: statement where
  "example_insert = InsertStatement (TableName ''accounts'') (Some (MkQuery None (Values 1) 0 []))"

definition example_query :: statement where
  "example_query = Query (MkQuery None (SelectBody (MkSelect [Wildcard] False
     [TableWithJoins (Table ''accounts'' (Some ''accounts'') None False False) [] ''accounts''] None None)) 0 [])"

definition example_texts :: sql_parser where
  "example_texts = \<lparr>
     tokenize = (\<lambda>_ _. Some []),
     parse_sql = (\<lambda>_ sql. Inr [if sql = ''U'' then example_insert
        else if sql = ''S'' then StartTransaction [AccessReadOnly, IsolationLevel RepeatableRead] [] else example_query]),
     sqlite_script = (\<lambda>_. []),
     unicode_alnum = (\<lambda>_. False)\<rparr>"

definition example_facts :: "string \<Rightarrow> statement_facts" where
  "example_facts trimmed =
     (if trimmed = [] then unparseable ''empty SQL''
      else if trimmed = ''U'' then
        \<lparr>facts_class = Insert, facts_effects = eff_union READS WRITES_ROWS, tables = [''accounts''],
         has_where = True, contains_unscoped_dml = False, is_multi_statement = False, parse_error = None\<rparr>
      else if trimmed = ''S'' then
        \<lparr>facts_class = Transaction, facts_effects = TRANSACTION_CONTROL, tables = [],
         has_where = True, contains_unscoped_dml = False, is_multi_statement = False, parse_error = None\<rparr>
      else
        \<lparr>facts_class = Select, facts_effects = READS, tables = [''accounts''],
         has_where = True, contains_unscoped_dml = False, is_multi_statement = False, parse_error = None\<rparr>)"

definition example_analysis :: "string \<Rightarrow> statement_analysis" where
  "example_analysis sql = (let trimmed = trim sql in
     \<lparr>facts = example_facts trimmed, rolls_back_to_savepoint = False,
      blast_radius = (if trimmed = ''U'' then Some (Known 1) else None),
      sensitive_positions = None,
      known_statement_rows = (if trimmed = [] then [] else [if trimmed = ''U'' then Some 1 else None])\<rparr>)"

lemma example_classified:
  "classify_statements [classify_statement example_insert] EMPTY False = example_facts ''U''"
  "classify_statements [classify_statement (StartTransaction [AccessReadOnly, IsolationLevel RepeatableRead] [])] EMPTY False
   = example_facts ''S''"
  "classify_statements [classify_statement example_query] EMPTY False = example_facts ''Q''"
  by code_simp+

lemma example_projections:
  "projection_from_statements P M [example_insert] ps = None" "projection_from_statements P M [StartTransaction ms sts] ps = None"
  "projection_from_statements P M [example_query] ps = None"
  by (simp_all add: projection_from_statements_def example_insert_def example_query_def
      select_projection_sensitivity.simps [of P M ps "MkQuery _ _ _ _"] is_lone_wildcard_def only_derived_source_def)

lemma example_plans:
  "analyze_blast_radius [example_insert] ''postgres'' = (Some (Known 1), [Some 1])"
  "analyze_blast_radius [StartTransaction ms sts] ''postgres'' = (None, [None])"
  "analyze_blast_radius [example_query] ''postgres'' = (None, [None])"
  by (simp_all add: analyze_blast_radius_def rewrite_for_statement_def example_insert_def example_query_def Let_def
      known_rows_of_def count_sql_for_insert_def)

definition unsupported_reply :: "'a driver_reply" where
  "unsupported_reply = Answer 1 (Inl (Unsupported ''example''))"

definition example_driver :: driver where
  "example_driver = \<lparr>
     drv_supports_server_cancellation = (\<lambda>_. Some True),
     drv_list_databases = (\<lambda>_ _. Answer 1 (Inr [''main''])),
     drv_list_tables = (\<lambda>_ _. unsupported_reply), drv_list_views = (\<lambda>_ _. unsupported_reply),
     drv_list_objects = (\<lambda>_ _ _ _. unsupported_reply), drv_fetch_columns = (\<lambda>_ _ _ _. unsupported_reply),
     drv_fetch_rows = (\<lambda>_ _ _ _ _ _. unsupported_reply), drv_fetch_indexes = (\<lambda>_ _ _ _. unsupported_reply),
     drv_fetch_foreign_keys = (\<lambda>_ _ _ _. unsupported_reply),
     drv_fetch_inbound_foreign_keys = (\<lambda>_ _ _ _. unsupported_reply),
     drv_fetch_enum_labels = (\<lambda>_ _ _ _. unsupported_reply), drv_server_version = (\<lambda>_. unsupported_reply),
     drv_ping = (\<lambda>_. Answer 1 (Inr ())), drv_lexical_settings = (\<lambda>_ _. unsupported_reply),
     drv_open_session = (\<lambda>_. Answer 1 (Inr 9)), drv_begin = (\<lambda>_ _. Answer 1 (Inr 7)),
     drv_query = (\<lambda>_ _ _ _. Answer 1 (Inr (example_result ''4111''))),
     drv_query_result_sets = (\<lambda>_ _ _ _. unsupported_reply),
     drv_execute = (\<lambda>_ _ _ _. Answer 5 (Inr \<lparr>rows_affected = 1\<rparr>)),
     drv_execute_in_transaction = (\<lambda>_ _ _ _. unsupported_reply), drv_tx_query = (\<lambda>_ _ _ _ _. unsupported_reply),
     drv_tx_execute = (\<lambda>_ _ _ _ _. unsupported_reply), drv_tx_commit = (\<lambda>_ _. Answer 1 (Inr ())),
     drv_tx_rollback = (\<lambda>_ _ _. Answer 1 (Inr ())), drv_session_query = (\<lambda>_ _ _ _ _. Answer 1 (Inr (example_result ''4111''))),
     drv_session_result_sets = (\<lambda>_ _ _ _ _. unsupported_reply), drv_session_open_cursor = (\<lambda>_ _ _ _ _. Answer 1 (Inr 3)),
     drv_session_fetch_cursor = (\<lambda>_ _ _ _. unsupported_reply), drv_session_close_cursor = (\<lambda>_ _ _ _. Answer 1 (Inr ())),
     drv_session_lexical_settings = (\<lambda>_ _ _. unsupported_reply),
     drv_session_completion_columns = (\<lambda>_ _ _ _ _. unsupported_reply), drv_session_usable = (\<lambda>_ _. Some True),
     drv_session_close = (\<lambda>_ _. Answer 1 (Inr ()))\<rparr>"

definition example_guard :: "principal \<Rightarrow> environment \<Rightarrow> bool \<Rightarrow> guard" where
  "example_guard p env ro = policy_guard_new
     \<lparr>ctx_connection_id = 1, ctx_connection_name = ''db'', ctx_driver_id = ''postgres'', ctx_environment = env,
      ctx_read_only = ro, ctx_principal = p,
      ctx_policy = \<lparr>environments = Map.empty, connection_overrides = Map.empty, mask_patterns = []\<rparr>,
      guard_masks = None, has_fault_sink = False, parser = example_texts,
      mask_library = example_mask_lib, sha256_hex = (\<lambda>s. ''hash''), uuid_to_string = (\<lambda>_. ''1''),
      audit_sink = (\<lambda>_ _. Answer 1 (Inr ())), approval_sink = (\<lambda>_ _. Answer 3 AllowOnce),
      inner = example_driver, other_tasks = (\<lambda>_. (False, False))\<rparr>"

lemma example_guard_simps [simp]:
  "ctx_principal (example_guard p env ro) = p" "ctx_environment (example_guard p env ro) = env"
  "ctx_read_only (example_guard p env ro) = ro" "guard_analyze (example_guard p env ro) sql = example_analysis sql"
proof -
  show "ctx_principal (example_guard p env ro) = p" "ctx_environment (example_guard p env ro) = env"
    "ctx_read_only (example_guard p env ro) = ro"
    by (simp_all add: example_guard_def policy_guard_new_def Let_def)
  have "parsed_facts example_texts sql ''postgres'' =
      (if trim sql = [] then Inl ''empty SQL''
       else Inr ([if trim sql = ''U'' then example_insert
          else if trim sql = ''S'' then StartTransaction [AccessReadOnly, IsolationLevel RepeatableRead] [] else example_query],
          example_facts (trim sql)))"
    by (simp add: parsed_facts_def input_refusal_def example_texts_def sql_effects_from_tokens_def with_locking_backstop_def
        has_locking_clause_def example_classified Let_def) (simp add: example_facts_def)
  then show "guard_analyze (example_guard p env ro) sql = example_analysis sql"
    by (simp add: example_guard_def policy_guard_new_def guard_analyze_def Let_def analyze_statement_def
        analyze_statement_inner_def example_plans example_projections example_analysis_def failed_analysis_def bind_eq_None_conv)
      (simp add: example_facts_def example_insert_def example_query_def is_savepoint_rollback_def)
qed

lemma example_no_count: "\<not> is_count_query (example_guard p env ro) sql"
  by (simp add: is_count_query_def example_analysis_def Let_def)

definition start_world :: world where
  "start_world = \<lparr>now = 0, next_id = 0, trace = [], globally_disabled = False, connection_uncertain = False,
     sessions = (\<lambda>_. new_session 0)\<rparr>"

abbreviation example_human :: guard where
  "example_human \<equiv> example_guard human_gui Staging False"

definition example_written :: world where
  "example_written = snd (perform example_human (RunExecute ''U'' None None) start_world)"

lemma example_guard_parties:
  "parser (example_guard p env ro) = example_texts" "ctx_driver_id (example_guard p env ro) = ''postgres''"
  "audit_sink (example_guard p env ro) tr ev = Answer 1 (Inr ())" "other_tasks (example_guard p env ro) tr = (False, False)"
  "inner (example_guard p env ro) = example_driver"
  by (simp_all add: example_guard_def policy_guard_new_def Let_def)

lemma example_trim: "trim ''U'' = ''U''" "trim ''Q'' = ''Q''" "trim ''S'' = ''S''"
  by code_simp+

lemma example_write_facts:
  "facts (example_analysis ''U'') = example_facts ''U''" "facts_class (example_facts ''U'') = Insert"
  "facts_writes (example_facts ''U'')" "contains_mutating_dml (example_facts ''U'')"
  "\<not> eff_contains (facts_effects (example_facts ''U'')) ADMIN" "\<not> eff_contains (facts_effects (example_facts ''U'')) UNKNOWN"
  by (simp add: example_analysis_def example_trim Let_def, code_simp+)

lemma example_write_decisions:
  "shared_connection_decision example_texts ''U'' ''postgres'' (example_facts ''U'') = None"
  "evaluate_categorical human_gui Staging (example_facts ''U'') False (effective_policy example_human) = None"
  "evaluate human_gui Staging (example_facts ''U'') False (effective_policy example_human) (Some 1) = Allow ''human_write_allow''"
  "blast_radius_max_rows (effective_policy example_human) \<noteq> None"
  by code_simp+

lemma example_known_rows: "known_rows example_human (example_analysis ''U'') = Some 1"
  using example_write_decisions(4) example_write_facts
  by (simp add: known_rows_def Let_def example_write_facts) (simp add: example_analysis_def example_trim Let_def)

lemma example_authorized_write:
  "\<not> writes_disabled w \<Longrightarrow> authorize example_human ''U'' None w
     = (Ok \<lparr>auth_decision = Allow ''human_write_allow'', auth_analysis = example_analysis ''U'',
           auth_approval = ApprovalNotRequired, auth_preview = NotRequested\<rparr>, w)"
  using authorize_allowed [of example_human "''U''" "''human_write_allow''" w None] example_write_decisions example_no_count
  by (simp add: example_guard_parties example_write_facts verdict_def example_known_rows)
    (simp add: example_analysis_def example_trim Let_def)

lemma example_write_run:
  "length (trace example_written) = 3 \<and> trace example_written ! 1 = Dispatched WriteBoundary (Some 0) (CallExecute ''U'' None None)
   \<and> \<not> writes_disabled example_written
   \<and> list_ex (\<lambda>e. case e of Recorded ev r \<Rightarrow> True | _ \<Rightarrow> False) (trace example_written)"
proof -
  have start: "\<not> writes_disabled start_world" by (simp add: start_world_def writes_disabled_def)
  let ?auth = "\<lparr>auth_decision = Allow ''human_write_allow'', auth_analysis = example_analysis ''U'',
    auth_approval = ApprovalNotRequired, auth_preview = NotRequested\<rparr>"
  have "drv_execute (inner example_human) tr ''U'' None None = Answer 5 (Inr \<lparr>rows_affected = 1\<rparr>)" for tr
    by (simp add: example_guard_parties example_driver_def)
  with execute_write_runs [of example_human 1 "\<lambda>tr. drv_execute (inner example_human) tr ''U'' None None" 5 _ start_world
      "''U''" None ?auth "CallExecute ''U'' None None"] start
  obtain intent outcome w' where "execute_write example_human ''U'' None ?auth (CallExecute ''U'' None None)
      (\<lambda>tr. drv_execute (inner example_human) tr ''U'' None None) start_world = (Ok \<lparr>rows_affected = 1\<rparr>, w')"
    "trace w' = trace start_world @ [Recorded intent None,
      Dispatched WriteBoundary (Some (next_id start_world)) (CallExecute ''U'' None None), Recorded outcome None]"
    "\<not> writes_disabled w'"
    by (auto simp: example_guard_parties)
  with example_authorized_write [OF start] show ?thesis
    by (simp add: example_written_def controlled_def execute_def governed_execute_def gmap_def gbind_def gret_def)
      (simp add: start_world_def)
qed

lemma example_written_trace:
  "trace example_written = take 1 (trace example_written)
     @ Dispatched WriteBoundary (Some 0) (CallExecute ''U'' None None) # drop 2 (trace example_written)"
  using id_take_nth_drop [of 1 "trace example_written"] example_write_run by (simp add: numeral_2_eq_2)

lemma example_reachable: "guard_reachable example_human start_world example_written" "fresh_world start_world"
  unfolding example_written_def
  by (rule r_into_rtranclp, rule guard_step.client_call) (simp add: start_world_def fresh_world_def new_session_def)

section \<open>Properties of the trace\<close>

text \<open>
  C1: No driver call without a prior intent on record. In every run, a call that the guard makes on behalf of an
  audited operation comes after an intent record of that operation which the audit sink accepted, unless the
  caller is a human on a local or development connection and the call is a read, or a write that the policy
  exempts from auditing; commits and rollbacks are never exempt. The only calls without an audited operation
  carry no statement: ping, lexical settings, opening and closing a session, beginning a transaction. This covers the
  connection, its transactions, and its sessions with their cursors.
\<close>

theorem intent_precedes_call:
  assumes "guard_reachable g w0 w" "fresh_world w0" "trace w = before @ Dispatched b opid c # after"
  shows "case opid of
           None \<Rightarrow> is_unaudited_call b c \<and> call_statement c = None
         | Some i \<Rightarrow> intent_recorded i before
             \<or> local_human g \<and> b = ReadBoundary
             \<or> local_human g \<and> b = WriteBoundary \<and> human_allow_unaudited_writes (effective_policy g)
                 \<and> \<not> ends_transaction c"
proof (cases opid)
  case None
  then have "is_unaudited_call b c" using reachable_event_ok [OF assms] by (simp add: event_ok_def)
  then have "call_statement c = None" by (cases "(b, c)" rule: is_unaudited_call.cases) auto
  with None \<open>is_unaudited_call b c\<close> show ?thesis by simp
next
  case (Some i)
  then show ?thesis
    using reachable_event_ok [OF assms]
    by (cases b) (auto simp: event_ok_def intent_waived_def allows_unaudited_local_write_def)
qed

theorem intent_precedes_call_witness:
  "intent_recorded 0 (take 1 (trace example_written))"
  using intent_precedes_call [OF example_reachable example_written_trace]
  by (simp add: local_human_def)



text \<open>
  C5: A read-only connection stays unwritten. On a connection marked read-only, no statement with a writing effect
  reaches the driver, whoever asks, in whatever environment, under whatever policy and with whatever approvals
  (the row-count estimate aside, which is no statement of the caller).
\<close>

theorem read_only_never_writes:
  assumes "guard_reachable g w0 w" "fresh_world w0" "Dispatched b opid c \<in> set (trace w)"
    and "call_statement c = Some sql" "ctx_read_only g"
  shows "\<not> eff_writes (facts_effects (facts (guard_analyze g sql))) \<or> b = ReadBoundary \<and> is_count_query g sql"
proof -
  obtain before after where "trace w = before @ Dispatched b opid c # after"
    using assms(3) by (auto simp: in_set_conv_decomp)
  from reachable_statement [OF assms(1,2) this assms(4)] show ?thesis
  proof
    assume "permitted g before sql"
    then obtain rows where "\<not> is_deny (verdict g sql rows)" by (rule permitted_not_denied)
    then show ?thesis
      using assms(5) by (cases "ctx_principal g") (simp_all add: verdict_def human_denied_iff agent_denied_iff)
  qed simp
qed

definition example_read_only :: guard where
  "example_read_only = example_guard (Agent ''token'' None None) Prod True"

definition example_read :: world where
  "example_read = snd (perform example_read_only (RunQuery ''Q'' None None) start_world)"

lemma example_read_decisions:
  "shared_connection_decision example_texts ''Q'' ''postgres'' (example_facts ''Q'') = None"
  "evaluate_categorical (Agent ''token'' None None) Prod (example_facts ''Q'') True
     (effective_policy (example_guard (Agent ''token'' None None) Prod True)) \<noteq> None"
  "evaluate (Agent ''token'' None None) Prod (example_facts ''Q'') True
     (effective_policy (example_guard (Agent ''token'' None None) Prod True)) None = Allow ''read_allow''"
  "\<not> facts_writes (example_facts ''Q'')"
  by code_simp+

lemma example_read_facts: "facts (example_analysis ''Q'') = example_facts ''Q''"
  by (simp add: example_analysis_def example_trim Let_def)

lemma example_read_run:
  "Dispatched ReadBoundary (Some 0) (CallQuery ''Q'' None None) \<in> set (trace example_read)"
proof -
  have "authorize example_read_only ''Q'' control start_world
      = (Ok \<lparr>auth_decision = Allow ''read_allow'', auth_analysis = example_analysis ''Q'',
          auth_approval = ApprovalNotRequired, auth_preview = NotRequested\<rparr>, start_world)" for control
    using authorize_read [of example_read_only "''Q''" "''read_allow''" control start_world] example_read_decisions
    by (simp add: example_read_only_def example_guard_parties verdict_def example_read_facts)
  moreover have "drv_query (inner example_read_only) tr ''Q'' None None = Answer 1 (Inr (example_result ''4111''))" for tr
    by (simp add: example_read_only_def example_guard_parties example_driver_def)
  ultimately obtain intent outcome w' where
    "governed_query example_read_only ''QUERY'' ''Q'' None None start_world
      = (Ok (mask_result_for_analysis example_read_only (Some (example_analysis ''Q'')) (example_result ''4111'')), w')"
    "trace w' = trace start_world @ [Recorded intent None,
        Dispatched ReadBoundary (Some (next_id start_world)) (CallQuery ''Q'' None None), Recorded outcome None]"
    using governed_query_runs [of example_read_only "''Q''" start_world _ 1 None None 1 "example_result ''4111''" "''QUERY''"]
      example_read_decisions(4)
    by (simp add: example_read_facts) (fastforce simp: example_read_only_def example_guard_parties local_human_def)
  then show ?thesis
    by (simp add: example_read_def controlled_def query_def gmap_def gbind_def gret_def) (simp add: start_world_def)
qed

lemma example_read_reachable: "guard_reachable example_read_only start_world example_read"
  unfolding example_read_def by (rule r_into_rtranclp, rule guard_step.client_call)

theorem read_only_never_writes_witness:
  "\<not> eff_writes (facts_effects (facts (guard_analyze example_read_only ''Q'')))"
  using read_only_never_writes [OF example_read_reachable example_reachable(2) example_read_run, of "''Q''"]
    example_no_count by (simp add: example_read_only_def)

text \<open>
  C6: What an agent's statement must be to reach the driver. It parses, is not administrative, has no
  administrative, host-access or unknown effect, is a single statement unless the policy permits scripts; and if it
  writes, the connection is writable, the policy does not deny agent writes, any schema change is permitted, and no
  update or delete in it lacks a condition. No approval overrides any of this.
\<close>

theorem agent_reach:
  assumes "guard_reachable g w0 w" "fresh_world w0" "Dispatched b opid c \<in> set (trace w)"
    and "call_statement c = Some sql" "\<not> (b = ReadBoundary \<and> is_count_query g sql)"
    and "is_agent (ctx_principal g)" "f = facts (guard_analyze g sql)" "pol = effective_policy g"
  shows "facts_class f \<noteq> Unparseable \<and> facts_class f \<noteq> Administrative
    \<and> \<not> eff_contains (facts_effects f) HOST_OR_FILE_ACCESS \<and> \<not> eff_contains (facts_effects f) ADMIN
    \<and> \<not> eff_contains (facts_effects f) UNKNOWN
    \<and> (is_multi_statement f \<longrightarrow> agent_allow_multi_statement pol)
    \<and> (eff_writes (facts_effects f) \<longrightarrow>
        \<not> ctx_read_only g \<and> agent_writes pol \<noteq> WriteDeny \<and> (contains_ddl f \<longrightarrow> agent_allow_ddl pol)
        \<and> \<not> contains_unscoped_dml f)"
proof -
  obtain before after where "trace w = before @ Dispatched b opid c # after"
    using assms(3) by (auto simp: in_set_conv_decomp)
  with reachable_statement [OF assms(1,2) _ assms(4)] assms(5) have "permitted g before sql" by blast
  then obtain rows where "\<not> is_deny (verdict g sql rows)" by (rule permitted_not_denied)
  moreover obtain t cl m where "ctx_principal g = Agent t cl m"
    using assms(6) by (cases "ctx_principal g") auto
  ultimately show ?thesis
    using assms(7,8) by (auto simp: verdict_def agent_denied_iff)
qed

theorem agent_reach_witness:
  "facts_class (facts (guard_analyze example_read_only ''Q'')) \<noteq> Unparseable"
  using agent_reach [OF example_read_reachable example_reachable(2) example_read_run, of "''Q''", OF _ _ _ refl refl]
    example_no_count by (simp add: example_read_only_def)

fun begins_transaction :: "driver_call \<Rightarrow> bool" where
  "begins_transaction (CallBegin _) = True"
| "begins_transaction (CallSessionControl _ ControlBegin _ _) = True"
| "begins_transaction _ = False"

text \<open>
  C4: A lockdown stops every write. Once writes are disabled, globally or on the connection, they stay disabled, and
  no call of the guard sends anything through the write boundary any more, except for a rollback and the beginning
  of a transaction in which nothing can then be written or committed. This holds for the connection, for transactions
  that are already open and for sessions.
\<close>

theorem lockdown_stops_writes:
  assumes "guard_reachable g w0 w" "fresh_world w0" "writes_disabled w" "w' = snd (perform g call w)"
  shows "writes_disabled w' \<and> (\<exists>new. trace w' = trace w @ new
    \<and> (\<forall>opid c. Dispatched WriteBoundary opid c \<in> set new \<longrightarrow> is_rollback c \<or> begins_transaction c))"
proof -
  have "cursors_accounted g w" using reachable_guarded [OF assms(1,2)] by (simp add: guarded_def)
  then have "guarded g (trace w) True {} {} {} w'"
    using keeps_perform assms guarded_start [of g w True] by (auto simp: keeps_iff)
  then obtain new where new: "trace w' = trace w @ new" "events_ok g True (trace w) new" "writes_disabled w'"
    by (auto simp: guarded_def)
  have "is_rollback c \<or> begins_transaction c" if "Dispatched WriteBoundary opid c \<in> set new" for opid c
  proof -
    obtain before after where "new = before @ Dispatched WriteBoundary opid c # after"
      using \<open>Dispatched WriteBoundary opid c \<in> set new\<close> by (auto simp: in_set_conv_decomp)
    with new(2) have "event_ok g True (trace w @ before) (Dispatched WriteBoundary opid c)"
      using events_ok_at by blast
    then show ?thesis
      by (cases opid; cases "(WriteBoundary, c)" rule: is_unaudited_call.cases) (auto simp: event_ok_def)
  qed
  with new show ?thesis by blast
qed

theorem lockdown_stops_writes_witness:
  "writes_disabled (snd (perform example_human (RunExecute ''U'' None None) (lock_connection start_world)))"
proof -
  have "fresh_world (lock_connection start_world)"
    using example_reachable(2) by (simp add: fresh_world_def lock_connection_def)
  then show ?thesis
    using lockdown_stops_writes [of example_human "lock_connection start_world" "lock_connection start_world" _
        "RunExecute ''U'' None None"] by simp
qed

text \<open>
  C3: Every write is accounted for. In every run, each call through the write boundary on behalf of an audited
  operation that writes (a statement classified as a write, a commit, a rollback, of the connection, a transaction or a
  session) either has the outcome of that
  operation on record, accepted by the audit sink, or governed writes are disabled. So no write whose fate is
  unknown (a panic, a dropped future, an audit sink that fails) is ever followed by another write.
\<close>

theorem every_write_accounted:
  assumes "guard_reachable g w0 w" "fresh_world w0" "Dispatched WriteBoundary (Some i) c \<in> set (trace w)" "call_writes g c"
  shows "outcome_recorded i (trace w) \<or> writes_disabled w"
  using reachable_guarded [OF assms(1,2)] assms(2-4) by (auto simp: guarded_def writes_accounted_def fresh_world_def)

theorem every_write_accounted_witness: "outcome_recorded 0 (trace example_written)"
proof -
  have "Dispatched WriteBoundary (Some 0) (CallExecute ''U'' None None) \<in> set (trace example_written)"
    using example_write_run nth_mem [of 1 "trace example_written"] by simp
  moreover have "call_writes example_human (CallExecute ''U'' None None)"
    using example_write_facts by (simp add: call_writes_def)
  ultimately show ?thesis
    using every_write_accounted [OF example_reachable] example_write_run by blast
qed



end
