(* ===== verification/Guard_Frame.thy ===== *)
theory Guard_Frame
  imports Guard_System
begin

text \<open>
  Invariants that survive everything the guard does, driver calls included, as long as the state of its sessions is
  left alone: every method of the connection and of its transactions keeps them (the locale \<open>frame_invariant\<close>).
  For an invariant of the sessions it remains to look at the session's own methods.
\<close>

section \<open>Groups of methods\<close>

lemmas metadata_method_defs =
  list_databases_def list_databases_controlled_def list_tables_def list_tables_controlled_def
  list_views_def list_views_controlled_def list_objects_def list_objects_controlled_def fetch_columns_def
  fetch_columns_controlled_def fetch_rows_def fetch_rows_controlled_def fetch_indexes_def
  fetch_indexes_controlled_def fetch_foreign_keys_def fetch_foreign_keys_controlled_def
  fetch_inbound_foreign_keys_def fetch_inbound_foreign_keys_controlled_def fetch_enum_labels_def
  fetch_enum_labels_controlled_def server_version_def

lemmas statement_method_defs =
  query_def query_controlled_def query_params_def query_params_controlled_def governed_query_def
  execute_query_write_def query_result_sets_controlled_def execute_def execute_controlled_def execute_params_def
  execute_params_controlled_def governed_execute_def execute_write_def execute_in_transaction_def
  execute_in_transaction_controlled_def execute_in_transaction_checked_def
  execute_in_transaction_checked_controlled_def governed_batch_def

lemmas transaction_method_defs =
  tx_query_def tx_query_controlled_def tx_query_params_def tx_query_params_controlled_def governed_tx_query_def
  run_transaction_query_def tx_execute_def tx_execute_controlled_def tx_execute_params_def
  tx_execute_params_controlled_def governed_tx_execute_def commit_def rollback_def rollback_controlled_def
  governed_rollback_def

lemmas plain_method_defs =
  supports_server_cancellation_def ping_def lexical_settings_controlled_def close_def begin_transaction_def
  begin_controlled_def governed_begin_def

text \<open>The calls with optional parameters, whether there are some or not.\<close>

lemma perform_params:
  "perform g (RunQuery sql p k) =
     gmap RowsValue (controlled k (governed_query g (if p = None then ''QUERY'' else ''QUERY PARAMS'') sql p None)
       (\<lambda>c. governed_query g (if p = None then ''QUERY'' else ''QUERY PARAMS'') sql p (Some c)))"
  "perform g (RunExecute sql p k) =
     gmap ExecValue (controlled k (governed_execute g sql p None) (\<lambda>c. governed_execute g sql p (Some c)))"
  "perform g (TxQuery tx sql p k) =
     gmap RowsValue (controlled k (governed_tx_query g tx (if p = None then ''QUERY'' else ''QUERY PARAMS'') sql p None)
       (\<lambda>c. governed_tx_query g tx (if p = None then ''QUERY'' else ''QUERY PARAMS'') sql p (Some c)))"
  "perform g (TxExecute tx sql p k) =
     gmap ExecValue (controlled k (governed_tx_execute g tx (if p = None then ''EXECUTE'' else ''EXECUTE PARAMS'') sql p None)
       (\<lambda>c. governed_tx_execute g tx (if p = None then ''EXECUTE'' else ''EXECUTE PARAMS'') sql p (Some c)))"
  "perform g (RunBatch statements one k) =
     gmap CountsValue (case one of
       None \<Rightarrow> controlled k (execute_in_transaction g statements) (execute_in_transaction_controlled g statements)
     | Some i \<Rightarrow> controlled k (execute_in_transaction_checked g statements i)
                   (execute_in_transaction_checked_controlled g statements i))"
  by (cases p; cases k;
      simp add: controlled_def query_def query_controlled_def query_params_def query_params_controlled_def
        execute_def execute_controlled_def execute_params_def execute_params_controlled_def
        tx_query_def tx_query_controlled_def tx_query_params_def tx_query_params_controlled_def
        tx_execute_def tx_execute_controlled_def tx_execute_params_def tx_execute_params_controlled_def split: option.split)+

text \<open>Calls that touch the state of sessions.\<close>

fun session_call :: "guard_call \<Rightarrow> bool" where
  "session_call OpenSession = True"
| "session_call (SessionQuery _ _ _ _) = True"
| "session_call (SessionResultSets _ _ _ _) = True"
| "session_call (SessionCommit _ _) = True"
| "session_call (OpenCursor _ _ _ _) = True"
| "session_call (FetchCursor _ _ _) = True"
| "session_call (CloseCursor _ _ _) = True"
| "session_call (SessionLexicalSettings _ _) = True"
| "session_call (CompletionColumns _ _ _ _) = True"
| "session_call (SessionUsable _) = True"
| "session_call (TransactionOpen _) = True"
| "session_call (CloseSession _) = True"
| "session_call _ = False"

section \<open>The frame\<close>

text \<open>How an authorization goes on once the categories of the statement are known.\<close>

definition estimated_rows ::
    "guard \<Rightarrow> statement_analysis \<Rightarrow> nat option \<Rightarrow> ctl \<Rightarrow> counter \<Rightarrow> bool \<Rightarrow> (nat option, driver_error) run" where
  "estimated_rows g a enforced control c wanted =
     (if wanted then (case enforced of Some rows \<Rightarrow> gret (Some rows) | None \<Rightarrow> estimate_blast_radius g a control c)
      else gret None)"

lemma authorize_with_bound_shape:
  obtains (resolved) d where
    "authorize_with_bound g sql a enforced control c w = resolve_authorization g sql a d None control w"
  | (estimated) wanted d where
    "authorize_with_bound g sql a enforced control c w =
       gbind (estimated_rows g a enforced control c wanted) (\<lambda>rows. resolve_authorization g sql a (d rows) rows control) w"
proof (cases "evaluate_categorical (ctx_principal g) (ctx_environment g) (facts a) (ctx_read_only g) (effective_policy g)")
  case None
  then show ?thesis
  proof (cases "governed_write_refusal w")
    case None
    then show ?thesis
      using \<open>evaluate_categorical _ _ _ _ _ = None\<close>
      by (intro estimated) (simp add: authorize_with_bound_def estimated_rows_def Let_def)
  qed (auto intro: resolved simp: authorize_with_bound_def Let_def)
qed (auto intro: resolved simp: authorize_with_bound_def Let_def)

locale frame_invariant = quiet_invariant +
  assumes survives_dispatch: "I w \<Longrightarrow> I (emit (Dispatched b i c) w)"
begin

lemma keeps_dispatched [keeps_intro]: "keeps I (dispatch g b i c reply)"
  unfolding keeps_iff
proof (intro allI impI)
  fix w assume "I w"
  then have "I (suspend g t (emit (Dispatched b i c) w))" for t by (intro survives_wait survives_dispatch)
  then show "I (snd (dispatch g b i c reply w))"
    by (simp add: dispatch_def Let_def split: reply.splits sum.splits)
qed

lemma keeps_available_frame [keeps_intro]: "keeps I require_governed_write_available"
  by (rule keeps_available)

lemma keeps_count_call [keeps_intro]: "keeps I (count_call g c i sql control)"
  unfolding count_call_def by (cases c) (simp_all add: keeps_dispatched)

lemma keeps_estimate [keeps_intro]: "keeps I (estimate_blast_radius g a control c)"
  unfolding estimate_blast_radius_def
  by (auto split: option.split blast_radius_rewrite.split intro!: keeps_intro)

lemma keeps_authorize_with_bound [keeps_intro]: "keeps I (authorize_with_bound g sql a enforced control c)"
  unfolding keeps_iff
proof (intro allI impI)
  fix w assume "I w"
  have kept: "keeps I (resolve_authorization g sql a d None control)"
    "keeps I (gbind (estimated_rows g a enforced control c b) (\<lambda>n. resolve_authorization g sql a (f n) n control))" for d b f
    unfolding estimated_rows_def by (intro keeps_intro)+
  show "I (snd (authorize_with_bound g sql a enforced control c w))"
    by (rule authorize_with_bound_shape [of g sql a enforced control c w])
      (use \<open>I w\<close> kept in \<open>simp_all add: keeps_iff\<close>)
qed

lemma keeps_authorizations [keeps_intro]:
  "keeps I (authorize_classified g sql a control c)"
  "keeps I (authorize_analysis g sql a enforced control)"
  "keeps I (authorize g sql control)"
  "keeps I (authorize_in_transaction g sql control h)"
  unfolding authorize_classified_def authorize_def authorize_analysis_def authorize_in_transaction_def Let_def
  by (intro keeps_intro)+

lemma keeps_bodies [keeps_intro]:
  "keeps I (prepare_governed_read g op)"
  "keeps I (authorized_operation h sql batch auth)"
  "keeps I (governed_read g control name op call reply post rows)"
  "keeps I execution \<Longrightarrow> (\<And>r. keeps I (audit r)) \<Longrightarrow> keeps I (armed_call execution post' audit)"
  unfolding prepare_governed_read_def authorized_operation_def governed_read_def armed_call_def audit_read_def Let_def
  by (intro keeps_intro; assumption?)+

lemma keeps_metadata_read_frame [keeps_intro]:
  "keeps I new_operation \<Longrightarrow> keeps I (metadata_read g control name new_operation call reply post rows)"
  unfolding metadata_read_def by (intro keeps_intro)

lemma keeps_wrap_begin [keeps_intro]: "keeps I (wrap_begin g r)"
  unfolding wrap_begin_def by (intro keeps_intro)

lemma keeps_endings_frame [keeps_intro]:
  "keeps I (record_ending g op start tx ambiguous result)" "keeps I (rollback_operation b)"
  unfolding record_ending_def rollback_operation_def Let_def by (intro keeps_intro)+

lemma keeps_frame_call: "\<not> session_call call \<Longrightarrow> keeps I (perform g call)"
  apply (cases call)
  apply (simp_all only: perform.simps perform_params session_call.simps simp_thms)
  apply (unfold metadata_method_defs statement_method_defs transaction_method_defs plain_method_defs armed_write_def Let_def)
  by (intro keeps_intro)+

end

end
