(* ===== verification/Guard_Outcomes.thy ===== *)
theory Guard_Outcomes
  imports Guard_Frame
begin

text \<open>
  The values and the errors a run of the guard may end with, whatever the world: \<open>fails_with\<close> and \<open>returns\<close> with
  their rules, and the errors of everything that happens before a call reaches the driver (the locale
  \<open>refusal_errors\<close>).
\<close>

section \<open>Values and errors of a run\<close>

text \<open>
  \<open>fails_with E m\<close>: whatever the world, an error of \<open>m\<close> satisfies \<open>E\<close>. \<open>returns V m\<close>: a value of \<open>m\<close>
  satisfies \<open>V\<close>.
\<close>

definition fails_with :: "('e \<Rightarrow> bool) \<Rightarrow> ('a, 'e) run \<Rightarrow> bool" where
  "fails_with E m \<longleftrightarrow> (\<forall>w e w'. m w = (Err e, w') \<longrightarrow> E e)"

definition returns :: "('a \<Rightarrow> bool) \<Rightarrow> ('a, 'e) run \<Rightarrow> bool" where
  "returns V m \<longleftrightarrow> (\<forall>w x w'. m w = (Ok x, w') \<longrightarrow> V x)"

named_theorems fails_intro

lemma fails_gret [fails_intro]: "fails_with E (gret x)"
  by (simp add: fails_with_def gret_def)

lemma fails_gget [fails_intro]: "fails_with E (gget f)"
  by (simp add: fails_with_def gget_def)

lemma fails_gmodify [fails_intro]: "fails_with E (gmodify f)"
  by (simp add: fails_with_def gmodify_def)

lemma fails_fresh_id [fails_intro]: "fails_with E fresh_id"
  by (simp add: fails_with_def fresh_id_def)

lemma fails_gfail: "E e \<Longrightarrow> fails_with E (gfail e)"
  by (simp add: fails_with_def gfail_def)

lemma fails_gresult: "(\<And>e. r = Inl e \<Longrightarrow> E e) \<Longrightarrow> fails_with E (gresult r)"
  by (cases r) (simp_all add: gresult_def fails_gret fails_gfail)

lemma fails_gbind [fails_intro]: "fails_with E m \<Longrightarrow> (\<And>x. fails_with E (f x)) \<Longrightarrow> fails_with E (gbind m f)"
  by (fastforce simp: fails_with_def gbind_def split: prod.splits outcome.splits)

lemma fails_gtry: "(\<And>r. fails_with E (f r)) \<Longrightarrow> fails_with E (gtry m f)"
  by (fastforce simp: fails_with_def gtry_def split: prod.splits outcome.splits)

lemma fails_gtry_known:
  "fails_with F m \<Longrightarrow> (\<And>r. (\<And>e. r = Inl e \<Longrightarrow> F e) \<Longrightarrow> fails_with E (f r)) \<Longrightarrow> fails_with E (gtry m f)"
  by (fastforce simp: fails_with_def gtry_def split: prod.splits outcome.splits)

lemma fails_armed_scope [fails_intro]: "fails_with E m \<Longrightarrow> fails_with E (armed_scope m)"
  by (fastforce simp: fails_with_def armed_scope_def split: prod.splits outcome.splits)

lemma fails_map_error [fails_intro]: "(\<And>e. E (h e)) \<Longrightarrow> fails_with E (map_error h m)"
  unfolding map_error_def by (rule fails_gtry) (auto split: sum.split intro: fails_gret fails_gfail)

lemma fails_if [fails_intro]:
  "(c \<Longrightarrow> fails_with E m) \<Longrightarrow> (\<not> c \<Longrightarrow> fails_with E n) \<Longrightarrow> fails_with E (if c then m else n)"
  by simp

lemma fails_case [fails_intro]:
  "fails_with E m \<Longrightarrow> (\<And>x. fails_with E (f x)) \<Longrightarrow> fails_with E (case y of None \<Rightarrow> m | Some x \<Rightarrow> f x)"
  "(\<And>e. r = Inl e \<Longrightarrow> fails_with E (h e)) \<Longrightarrow> (\<And>x. fails_with E (k x))
   \<Longrightarrow> fails_with E (case r of Inl e \<Rightarrow> h e | Inr x \<Rightarrow> k x)"
  by (cases y; simp) (cases r; simp)

lemma fails_withD: "fails_with E m \<Longrightarrow> m w = (Err e, w') \<Longrightarrow> E e"
  by (auto simp: fails_with_def)

lemma returnsD: "returns V m \<Longrightarrow> m w = (Ok x, w') \<Longrightarrow> V x"
  by (auto simp: returns_def)

lemma keeps_gbind_returns:
  assumes "keeps I m" "returns V m" "\<And>x. V x \<Longrightarrow> keeps I (f x)"
  shows "keeps I (gbind m f)"
  unfolding keeps_iff
proof (intro allI impI)
  fix w assume "I w"
  with assms(1) have "I (snd (m w))" by (simp add: keeps_iff)
  then show "I (snd (gbind m f w))"
    using assms(3) returnsD [OF assms(2)] by (cases "m w" rule: ended_cases) (simp_all add: gbind_def keeps_iff)
qed

lemma fails_hoare: "hoare (\<lambda>_. True) m Q X D \<Longrightarrow> (\<And>e w. X e w \<Longrightarrow> E e) \<Longrightarrow> fails_with E m"
  unfolding fails_with_def hoare_def by (metis ended.simps(2))

lemma returns_gbind: "(\<And>x. returns V (f x)) \<Longrightarrow> returns V (gbind m f)"
  by (fastforce simp: returns_def gbind_def split: prod.splits outcome.splits)

lemma returns_gbind_known: "returns U m \<Longrightarrow> (\<And>x. U x \<Longrightarrow> returns V (f x)) \<Longrightarrow> returns V (gbind m f)"
  by (fastforce simp: returns_def gbind_def split: prod.splits outcome.splits)

lemma returns_gtry: "(\<And>r. returns V (f r)) \<Longrightarrow> returns V (gtry m f)"
  by (fastforce simp: returns_def gtry_def split: prod.splits outcome.splits)

lemma returns_gtry_known:
  "fails_with F m \<Longrightarrow> (\<And>r. (\<And>e. r = Inl e \<Longrightarrow> F e) \<Longrightarrow> returns V (f r)) \<Longrightarrow> returns V (gtry m f)"
  by (fastforce simp: returns_def fails_with_def gtry_def split: prod.splits outcome.splits)

lemma fails_gbind_known:
  "fails_with E m \<Longrightarrow> returns U m \<Longrightarrow> (\<And>x. U x \<Longrightarrow> fails_with E (f x)) \<Longrightarrow> fails_with E (gbind m f)"
  by (fastforce simp: returns_def fails_with_def gbind_def split: prod.splits outcome.splits)

lemma returns_gresult: "(\<And>x. r = Inr x \<Longrightarrow> V x) \<Longrightarrow> returns V (gresult r)"
  by (cases r) (simp_all add: returns_def gresult_def gret_def gfail_def)

lemma returns_gret: "V x \<Longrightarrow> returns V (gret x)"
  by (simp add: returns_def gret_def)

lemma returns_gfail: "returns V (gfail e)"
  by (simp add: returns_def gfail_def)

lemma returns_armed_scope: "returns V m \<Longrightarrow> returns V (armed_scope m)"
  by (fastforce simp: returns_def armed_scope_def split: prod.splits outcome.splits)

lemma returns_never_ok: "never_ok m \<Longrightarrow> returns V m"
  by (simp add: never_ok_def returns_def)

lemma map_result_okD: "map_result f r = Inr y \<Longrightarrow> \<exists>x. r = Inr x \<and> y = f x"
  by (cases r) simp_all

lemma map_result_error: "map_result f r = Inl e \<Longrightarrow> r = Inl e"
  by (cases r) simp_all

lemma fails_gmap [fails_intro]: "fails_with E m \<Longrightarrow> fails_with E (gmap f m)"
  unfolding gmap_def by (intro fails_intro)

lemma fails_controlled [fails_intro]:
  "fails_with E m \<Longrightarrow> (\<And>c. fails_with E (n c)) \<Longrightarrow> fails_with E (controlled k m n)"
  by (cases k) (simp_all add: controlled_def)

lemma returns_gmap: "returns (\<lambda>x. V (f x)) m \<Longrightarrow> returns V (gmap f m)"
  unfolding gmap_def by (erule returns_gbind_known) (rule returns_gret)

lemma returns_gmap_plain: "(\<And>x. V (f x)) \<Longrightarrow> returns V (gmap f m)"
  unfolding gmap_def by (intro returns_gbind returns_gret)

lemma returns_controlled:
  "returns V m \<Longrightarrow> (\<And>c. returns V (n c)) \<Longrightarrow> returns V (controlled k m n)"
  by (cases k) (simp_all add: controlled_def)

lemma returns_if: "(c \<Longrightarrow> returns V m) \<Longrightarrow> (\<not> c \<Longrightarrow> returns V n) \<Longrightarrow> returns V (if c then m else n)"
  by simp

lemma returns_gresult_mapped: "(\<And>x. V (f x)) \<Longrightarrow> returns V (gresult (map_result f r))"
  by (cases r) (auto intro: returns_gresult)

lemma keeps_case_disconnect [keeps_intro]:
  "keeps I m \<Longrightarrow> keeps I (case e of Disconnected \<Rightarrow> m | _ \<Rightarrow> gret ())"
  "keeps I m \<Longrightarrow> keeps I (case e of Disconnected \<Rightarrow> m | OperationOutcomeUnknown _ \<Rightarrow> m | _ \<Rightarrow> gret ())"
  by (cases e; simp add: keeps_gret)+

section \<open>Errors before anything ran\<close>

text \<open>
  Authorization and the records around a call fail only in ways of the guard's own: the locale holds for every
  predicate on errors that admits those.
\<close>

lemma always_quiet: "quiet_invariant g (\<lambda>_. True)"
  by unfold_locales simp_all

lemma await_approval_errors: "fails_with (\<lambda>e. e \<in> {Cancelled, TimedOut}) (await_approval g req control)"
  by (rule fails_hoare [OF quiet_invariant.await_approval_hoare [OF always_quiet]]) simp

locale refusal_errors =
  fixes E :: "driver_error \<Rightarrow> bool"
  assumes denied: "E (PolicyDenied m)" and cancelled: "E Cancelled" and timed_out: "E TimedOut"
    and refused: "E ReadOnly" "E (Unsupported m)"
begin

lemma fails_available [fails_intro]: "fails_with E require_governed_write_available"
  by (simp add: fails_with_def require_governed_write_available_def denied)

lemma fails_pre_dispatch [fails_intro]: "fails_with E (pre_dispatch control)"
  by (auto simp: fails_with_def pre_dispatch_def check_pre_dispatch_def cancelled timed_out
      split: option.splits if_splits)

lemma fails_handlers [fails_intro]:
  "fails_with E (handle_non_execution_audit_failure r)" "fails_with E (handle_intent_failure h r)"
  unfolding handle_non_execution_audit_failure_def handle_intent_failure_def
  by (auto split: sum.split audit_error.split intro!: fails_gret fails_gfail denied simp: intent_denied_def)

lemma fails_prepare [fails_intro]: "fails_with E (prepare_governed_read h op)"
  unfolding prepare_governed_read_def intent_denied_def by (intro fails_intro denied)

lemma fails_operation [fails_intro]:
  "fails_with E (operation h sql batch f d approval pstate)" "fails_with E (authorized_operation h sql batch auth)"
  "fails_with E (metadata_operation name targets)" "fails_with E (table_metadata_operation name schema table)"
  "fails_with E (commit_operation b)" "fails_with E (rollback_operation b)"
  unfolding authorized_operation_def operation_def metadata_operation_def table_metadata_operation_def
    commit_operation_def rollback_operation_def
  by (intro fails_intro)+

lemma fails_refusal: "E e \<Longrightarrow> fails_with E (record_refusal h sql f d approval pstate out e)"
  unfolding record_refusal_def by (intro fails_intro fails_gtry fails_gfail)

lemma fails_refuse: "E e \<Longrightarrow> fails_with E (refuse h s sql rule e)"
  unfolding refuse_def by (intro fails_intro fails_gtry fails_gfail)

lemma fails_usable [fails_intro]: "fails_with E (session_is_usable h s)"
  unfolding session_is_usable_def caught_sync_def retire_def update_session_def
  by (auto simp: fails_with_def gbind_def gget_def gret_def gmodify_def split: option.splits if_splits)

lemma fails_refusals [fails_intro]:
  "fails_with E (refuse_policy h s sql rule msg)" "fails_with E (nested_begin h s sql)"
  "fails_with E (require_query_ready h s sql)" "fails_with E (require_writable h s sql)"
proof -
  show "fails_with E (refuse_policy h s sql rule msg)" "fails_with E (nested_begin h s sql)"
    "fails_with E (require_query_ready h s sql)"
    unfolding require_query_ready_def nested_begin_def refuse_policy_def by (intro fails_intro fails_refuse denied)+
  show "fails_with E (require_writable h s sql)"
    unfolding require_writable_def
    by (intro fails_gtry_known [OF fails_available] fails_case fails_refuse fails_gret)
qed

lemma fails_resolve [fails_intro]: "fails_with E (resolve_authorization h sql a d rows control)"
proof (cases d)
  case (RequireApproval rule why shown)
  show ?thesis
    unfolding resolve_authorization_def RequireApproval decision.case Let_def
  proof (rule fails_gtry_known [OF await_approval_errors])
    fix r :: "driver_error + approval_outcome"
    assume "\<And>e. r = Inl e \<Longrightarrow> e \<in> {Cancelled, TimedOut}"
    then have "E e" if "r = Inl e" for e using that cancelled timed_out by blast
    then show "fails_with E (case r of Inl e \<Rightarrow> record_refusal h sql (facts a) (RequireApproval rule why shown)
            (interrupted_approval e) (case shown of Some v \<Rightarrow> PreviewAvailable v | None \<Rightarrow> PreviewUnavailable)
            (failed_outcome (controlled_error_terminal_status e) TxNotApplicable e 0) e
        | Inr AllowOnce \<Rightarrow> gret \<lparr>auth_decision = Allow (rule @ '':approved''), auth_analysis = a,
            auth_approval = Approved, auth_preview = case shown of Some v \<Rightarrow> PreviewAvailable v | None \<Rightarrow> PreviewUnavailable\<rparr>
        | Inr DenyRequest \<Rightarrow> record_refusal h sql (facts a) (RequireApproval rule why shown) ApprovalDenied
            (case shown of Some v \<Rightarrow> PreviewAvailable v | None \<Rightarrow> PreviewUnavailable) denied_outcome
            (PolicyDenied (''approval denied: '' @ why)))"
      by (cases r) (auto split: approval_outcome.split intro!: fails_refusal fails_gret denied)
  qed
qed (simp_all add: resolve_authorization_def fails_refusal fails_gret denied)

lemma fails_estimate [fails_intro]: "fails_with E (estimate_blast_radius h a control c)"
  unfolding estimate_blast_radius_def intent_denied_def
  by (auto split: option.split blast_radius_rewrite.split intro!: fails_intro fails_gtry denied)

lemma fails_authorize_with_bound [fails_intro]: "fails_with E (authorize_with_bound h sql a enforced control c)"
  unfolding fails_with_def
proof (intro allI impI)
  fix w e w'
  assume failed: "authorize_with_bound h sql a enforced control c w = (Err e, w')"
  have bound: "fails_with E (gbind (estimated_rows h a enforced control c b) (\<lambda>n. resolve_authorization h sql a (d n) n control))" for b d
    unfolding estimated_rows_def
    by (intro fails_gbind fails_if fails_resolve fails_gret) (auto split: option.split intro: fails_intro)
  show "E e"
  proof (cases rule: authorize_with_bound_shape [of h sql a enforced control c w])
    case (resolved d)
    show ?thesis by (rule fails_withD [OF fails_resolve failed [unfolded resolved]])
  next
    case (estimated wanted d)
    show ?thesis by (rule fails_withD [OF bound failed [unfolded estimated]])
  qed
qed

lemma fails_authorize [fails_intro]:
  "fails_with E (authorize_analysis h sql a enforced control)"
  "fails_with E (authorize_classified h sql a control c)"
  "fails_with E (authorize h sql control)"
  "fails_with E (authorize_in_transaction h sql control t)"
  unfolding authorize_def authorize_classified_def authorize_analysis_def authorize_in_transaction_def Let_def
  by (auto split: option.split intro: fails_resolve fails_authorize_with_bound)

end

section \<open>Authorizations\<close>

lemma returns_analysis:
  "returns (\<lambda>auth. auth_analysis auth = a) (resolve_authorization g sql a d rows control)"
  "returns (\<lambda>auth. auth_analysis auth = guard_analyze g sql) (authorize g sql control)"
  "returns (\<lambda>auth. auth_analysis auth = guard_analyze g sql) (authorize_in_transaction g sql control h)"
  "returns (\<lambda>auth. auth_analysis auth = a) (authorize_classified g sql a control c)"
proof -
  have refusal: "returns V (record_refusal g sql f d approval pstate out e)" for f d approval pstate out e
      and V :: "authorization \<Rightarrow> bool"
    by (rule returns_never_ok [OF never_ok_record_refusal])
  have resolve: "returns (\<lambda>auth. auth_analysis auth = a) (resolve_authorization g sql a d rows control)" for a d rows
    unfolding resolve_authorization_def Let_def
    by (cases d) (auto intro!: returns_gret returns_gtry refusal split: sum.split approval_outcome.split)
  then show "returns (\<lambda>auth. auth_analysis auth = a) (resolve_authorization g sql a d rows control)" .
  have later: "returns (\<lambda>auth. auth_analysis auth = a) (gbind m (\<lambda>n. resolve_authorization g sql a (d n) n control))" for a m d
    by (intro returns_gbind resolve)
  have "auth_analysis auth = a" if run: "authorize_with_bound g sql a enforced control c w = (Ok auth, w')"
    for a enforced c w auth w'
  proof (cases rule: authorize_with_bound_shape [of g sql a enforced control c w])
    case (resolved d)
    show ?thesis by (rule returnsD [OF resolve run [unfolded resolved]])
  next
    case (estimated wanted d)
    show ?thesis by (rule returnsD [OF later run [unfolded estimated]])
  qed
  then have bound: "returns (\<lambda>auth. auth_analysis auth = a) (authorize_with_bound g sql a enforced control c)" for a enforced c
    by (auto simp: returns_def)
  show "returns (\<lambda>auth. auth_analysis auth = guard_analyze g sql) (authorize g sql control)"
    "returns (\<lambda>auth. auth_analysis auth = guard_analyze g sql) (authorize_in_transaction g sql control h)"
    "returns (\<lambda>auth. auth_analysis auth = a) (authorize_classified g sql a control c)"
    unfolding authorize_classified_def authorize_def authorize_analysis_def authorize_in_transaction_def Let_def
    by (auto intro: resolve bound split: option.split)
qed

lemma returns_authorized:
  "(\<And>auth. auth_analysis auth = guard_analyze g sql \<Longrightarrow> returns V (f auth)) \<Longrightarrow> returns V (gbind (authorize g sql control) f)"
  "(\<And>auth. auth_analysis auth = guard_analyze g sql \<Longrightarrow> returns V (f auth))
   \<Longrightarrow> returns V (gbind (authorize_in_transaction g sql control h) f)"
  by (blast intro: returns_gbind_known returns_analysis)+

end
