(* ===== verification/Guard_Results.thy ===== *)
theory Guard_Results
  imports Guard_Outcomes
begin

text \<open>
  What the guard hands back to its caller: a masked agent's results and errors, and the lockdown behind every error
  that leaves the fate of a write open.
\<close>

section \<open>Errors of a masked agent\<close>

definition withheld :: "driver_error \<Rightarrow> bool" where
  "withheld e \<longleftrightarrow> query_messages e \<subseteq> {withheld_message}"

interpretation withheld: refusal_errors withheld
  by unfold_locales (simp_all add: withheld_def)

lemma withheld_internal: "withheld (Internal m)" "withheld (OperationOutcomeUnknown (Internal m))"
  by (simp_all add: withheld_def)

lemma withheld_caught:
  assumes "should_mask g"
  shows "fails_with withheld (caught_read g name m)" and "fails_with withheld (caught_write g name m)"
proof -
  have "withheld (sanitize_agent_error (should_mask g) e)" for e
    using assms withhold_messages by (simp add: withheld_def sanitize_agent_error_def)
  then show "fails_with withheld (caught_read g name m)" "fails_with withheld (caught_write g name m)"
    unfolding caught_read_def caught_write_def
    by (auto intro!: fails_intro fails_gtry fails_gfail withheld_internal split: sum.split driver_failure.split)
qed

lemma withheld_audits [fails_intro]:
  "fails_with withheld (handle_read_audit_failure g r)"
  "fails_with withheld (handle_write_outcome_failure r)"
  "fails_with withheld (audit_read_result g op start result rows)"
  "fails_with withheld (audit_controlled_read_result g op start result rows)"
  "fails_with withheld (audit_write_result g op start result rows)"
  "fails_with withheld (audit_transaction_result g op start result rows mode)"
  "fails_with withheld (audit_read g control op start result rows)"
  "fails_with withheld (record_ending g op start tx ambiguous ended_result)"
proof -
  have handlers: "fails_with withheld (handle_read_audit_failure g r)" "fails_with withheld (handle_write_outcome_failure r)" for r
    unfolding handle_read_audit_failure_def handle_write_outcome_failure_def
    by (auto intro!: fails_intro fails_gfail withheld_internal split: sum.split)
  then show "fails_with withheld (handle_read_audit_failure g r)" "fails_with withheld (handle_write_outcome_failure r)" by simp_all
  show "fails_with withheld (audit_read_result g op start result rows)"
    "fails_with withheld (audit_controlled_read_result g op start result rows)"
    "fails_with withheld (audit_write_result g op start result rows)"
    "fails_with withheld (audit_transaction_result g op start result rows mode)"
    "fails_with withheld (audit_read g control op start result rows)"
    "fails_with withheld (record_ending g op start tx ambiguous ended_result)"
    unfolding audit_read_def audit_read_result_def audit_controlled_read_result_def audit_write_result_def
      audit_transaction_result_def record_ending_def
    by (auto intro!: fails_intro fails_gtry handlers split: option.split prod.split)
qed

lemma withheld_governed_read:
  assumes "should_mask g"
  shows "fails_with withheld (governed_read g control name op call reply post rows)"
  unfolding governed_read_def Let_def
  by (intro fails_intro fails_gtry_known [OF withheld_caught(1) [OF assms]] fails_gresult) (blast dest: map_result_error)

lemma withheld_armed_call:
  assumes "should_mask g" "\<And>r. fails_with withheld (audit r)"
  shows "fails_with withheld (armed_call (caught_write g name m) post audit)"
  unfolding armed_call_def
proof (rule fails_gbind_known)
  let ?body = "\<lambda>r. let result = map_result post r in gbind (audit result) (\<lambda>_. gret result)"
  show "fails_with withheld (armed_scope (gtry (caught_write g name m) ?body))"
    unfolding Let_def by (intro fails_intro fails_gtry assms)
  show "returns (\<lambda>r. \<forall>e. r = Inl e \<longrightarrow> withheld e) (armed_scope (gtry (caught_write g name m) ?body))"
    unfolding Let_def
    by (intro returns_armed_scope returns_gtry_known [OF withheld_caught(2) [OF assms(1)]] returns_gbind returns_gret)
      (blast dest: map_result_error)
qed (blast intro: fails_gresult)

lemma withheld_metadata_read:
  assumes "should_mask g" "fails_with withheld new_operation"
  shows "fails_with withheld (metadata_read g control name new_operation call reply post rows)"
  unfolding metadata_read_def using assms by (intro fails_intro withheld_governed_read)

lemma withheld_wrap_begin: "(\<And>e. r = Inl e \<Longrightarrow> withheld e) \<Longrightarrow> fails_with withheld (wrap_begin g r)"
  unfolding wrap_begin_def by (intro fails_intro fails_gresult)

lemma withheld_capability: "fails_with withheld (supports_server_cancellation g)"
  by (auto simp: supports_server_cancellation_def fails_with_def caught_sync_def gbind_def gret_def split: option.splits)

lemma withheld_begin: "should_mask g \<Longrightarrow> fails_with withheld (governed_begin g control)"
  unfolding governed_begin_def by (blast intro: fails_gtry_known withheld_caught(2) withheld_wrap_begin)

lemma withheld_gtry_read:
  assumes "should_mask g" "\<And>r. (\<And>e. r = Inl e \<Longrightarrow> withheld e) \<Longrightarrow> fails_with withheld (f r)"
  shows "fails_with withheld (gtry (caught_read g name m) f)"
  by (rule fails_gtry_known [OF withheld_caught(1)]) (use assms in auto)

lemma withheld_gresult: "(\<And>e. r = Inl e \<Longrightarrow> withheld e) \<Longrightarrow> fails_with withheld (gresult (map_result f r))"
  by (rule fails_gresult) (blast dest: map_result_error)

lemma fails_gtry_record [fails_intro]:
  "(\<And>r. fails_with E (f r)) \<Longrightarrow> fails_with E (gtry (record_intent g op) f)"
  by (rule fails_gtry)

lemma withheld_ending: "withheld (ending_denied what e)"
  by (simp add: withheld_def ending_denied_def)

lemma withheld_plain_call: "should_mask g \<Longrightarrow> \<not> session_call call \<Longrightarrow> fails_with withheld (perform g call)"
  apply (cases call)
  apply (simp_all only: perform.simps perform_params session_call.simps simp_thms)
  apply (unfold metadata_method_defs statement_method_defs transaction_method_defs ping_def lexical_settings_controlled_def
      close_def begin_transaction_def begin_controlled_def armed_write_def Let_def)
  by (intro fails_intro withheld_metadata_read withheld_governed_read withheld_armed_call withheld_capability
      withheld_caught withheld_begin withheld_gtry_read withheld_gresult withheld_ending; assumption?)+

subsection \<open>Sessions\<close>

lemma fails_session_updates [fails_intro]:
  "fails_with E (update_session s f)" "fails_with E (retire s)" "fails_with E (set_batch s b)" "fails_with E (set_cursor s c)"
  unfolding retire_def set_batch_def set_cursor_def update_session_def by (rule fails_intro)+

lemma fails_session_notes [fails_intro]:
  "fails_with E (note_disconnect s r)" "fails_with E (note_statement g s writes to_savepoint result)"
  "fails_with E (note_cursor_error g s e)"
proof -
  show disconnect: "fails_with E (note_disconnect s r)" for r :: "driver_error + 'z"
    unfolding note_disconnect_def by (auto split: sum.split driver_error.split intro: fails_intro)
  show "fails_with E (note_statement g s writes to_savepoint result)"
    unfolding note_statement_def Let_def by (intro fails_intro disconnect)
  show "fails_with E (note_cursor_error g s e)"
    unfolding note_cursor_error_def by (cases e; simp; intro fails_intro)
qed

lemma fails_batches [fails_intro]:
  "fails_with E (new_batch ro)" "fails_with E (opened_batch s ro r)"
  "fails_with E (next_batch kind chain batch ambiguous over result)" "fails_with E (wrap_session h)"
  "fails_with E (transaction_open s)" "fails_with E (ignored m)"
  unfolding new_batch_def opened_batch_def next_batch_def wrap_session_def transaction_open_def ignored_def Let_def
  by (intro fails_intro fails_gtry)+

lemma fails_finish_operation [fails_intro]: "fails_with E (finish_operation kind i)"
  unfolding finish_operation_def commit_operation_def rollback_operation_def by (cases kind; simp; intro fails_intro)

lemma fails_batch_ends [fails_intro]:
  "fails_with E (record_ended_read_only_batch g i)" "fails_with E (record_abandoned_transaction g i)"
  unfolding record_ended_read_only_batch_def record_abandoned_transaction_def record_batch_end_def by (intro fails_intro)+

lemma withheld_cursor_audits [fails_intro]:
  "fails_with withheld (audit_cursor_result g audit start result rows status)"
  "fails_with withheld (audit_cursor_error g audit start e)"
  unfolding audit_cursor_result_def audit_cursor_error_def by (intro fails_intro fails_gtry)+

text \<open>A step whose own error is handed on in the end.\<close>

lemma withheld_rethrow:
  assumes "fails_with withheld m" "\<And>r. fails_with withheld (n r)"
  shows "fails_with withheld (gtry m (\<lambda>r. gbind (n r) (\<lambda>_. gresult r)))"
  by (rule fails_gtry_known [OF assms(1)]) (intro fails_gbind assms(2) fails_gresult, blast)

lemma withheld_session_calls:
  assumes "should_mask g"
  shows "(\<And>start r rows. fails_with withheld (audit start r rows))
      \<Longrightarrow> fails_with withheld (session_read g s op auth sql ps control audit)"
    and "(\<And>start r rows. fails_with withheld (audit start r rows))
      \<Longrightarrow> fails_with withheld (session_write g s op auth sql ps control audit)"
  unfolding session_read_def session_write_def with_rows_def Let_def
  by (intro fails_intro withheld_armed_call withheld_gtry_read withheld_gresult assms; assumption?)+

lemma withheld_statement: "should_mask g \<Longrightarrow> fails_with withheld (session_statement g s sql ps control)"
  unfolding session_statement_def batch_statement_def lone_write_def lone_read_def if_distrib [of "\<lambda>f. f g s _ _ _ _ _ _"] Let_def
  by (intro fails_intro withheld_rethrow withheld_session_calls withheld.fails_refuse withheld.refused; assumption?)

lemma withheld_begins:
  assumes "should_mask g"
  shows "fails_with withheld (session_begin g s sql control)" "fails_with withheld (begin_read_only g s sql control)"
  unfolding session_begin_def begin_read_only_def
  by (intro fails_intro fails_gtry_known [OF withheld_caught(1) [OF assms]] fails_gtry_known [OF withheld_caught(2) [OF assms]]
      fails_gresult; blast)+

lemma withheld_finish:
  assumes "should_mask g"
  shows "fails_with withheld (finish g s sql control kind chain)"
proof -
  have "fails_with withheld (finish_call g s sql control kind chain batch ss op start)" for batch ss op start
    unfolding finish_call_def Let_def case_prod_beta by (intro fails_gtry fails_intro)
  moreover have "returns (\<lambda>r. \<forall>e. r = Inl e \<longrightarrow> withheld e) (finish_call g s sql control kind chain batch ss op start)" for batch ss op start
    unfolding finish_call_def Let_def case_prod_beta
    by (rule returns_gtry_known [OF withheld_caught(2) [OF assms]], intro returns_gbind returns_gtry returns_gret)
      (blast dest: map_result_error)
  ultimately have scope: "fails_with withheld (gbind (armed_scope (finish_call g s sql control kind chain batch ss op start)) gresult)"
    for batch ss op start
    by (intro fails_gbind_known [OF fails_armed_scope returns_armed_scope] fails_gresult) blast+
  show ?thesis unfolding finish_def finish_open_def by (intro scope fails_intro withheld_ending)
qed

lemma withheld_query: "should_mask g \<Longrightarrow> fails_with withheld (session_query g s sql ps control)"
  unfolding session_query_def
  by (auto split: option.split transaction_control.split
      intro!: fails_intro withheld_begins withheld_finish withheld_statement)

lemma withheld_session_methods:
  assumes "should_mask g"
  shows "fails_with withheld (session_commit g s control)"
    and "fails_with withheld (session_result_sets g s sql ps control)"
proof -
  show "fails_with withheld (session_commit g s control)"
    unfolding session_commit_def
    by (intro fails_gbind withheld.fails_refusals withheld_finish assms)
      (auto split: tx_outcome.split intro!: fails_intro fails_gfail simp: withheld_def)
  show "fails_with withheld (session_result_sets g s sql ps control)"
    unfolding session_result_sets_def Let_def
    by (intro fails_gbind fails_intro fails_gtry_known [OF withheld_query [OF assms]] fails_gresult) blast
qed

lemma withheld_cursor_call_close: "should_mask g \<Longrightarrow> fails_with withheld (cursor_call_close g s audit i)"
  unfolding cursor_call_close_def by (intro fails_intro withheld_caught)

lemma withheld_close_driver: "fails_with withheld (close_cursor_driver g s audit i)"
  unfolding close_cursor_driver_def by (intro fails_gtry fails_intro)

lemma withheld_cursor_methods:
  assumes "should_mask g"
  shows "fails_with withheld (open_query_cursor g s sql ps control)"
    and "fails_with withheld (fetch_query_cursor_page g s i control)"
    and "fails_with withheld (close_active_cursor g s i status)"
proof -
  note rules = fails_gtry_known [OF withheld_caught(1) [OF assms]] fails_gtry_known [OF withheld_cursor_audits(1)]
    fails_gtry_known [OF withheld_cursor_audits(2)] fails_gtry_known [OF withheld_cursor_call_close [OF assms]]
  show "fails_with withheld (open_query_cursor g s sql ps control)"
    unfolding open_query_cursor_def open_authorized_cursor_def
    by (intro fails_intro rules fails_gresult fails_gfail; blast?)
  show "fails_with withheld (fetch_query_cursor_page g s i control)"
    unfolding fetch_query_cursor_page_def fetch_active_page_def Let_def
    by (intro fails_intro rules fails_gresult fails_gfail withheld_close_driver withheld.refused; blast dest: map_result_error)
  show "fails_with withheld (close_active_cursor g s i status)"
    unfolding close_active_cursor_def
    by (intro fails_intro rules fails_gresult fails_gfail withheld.refused fails_gtry_known [where F = withheld]; blast?)
qed

lemma withheld_metadata_methods:
  assumes "should_mask g"
  shows "fails_with withheld (session_lexical_settings g s control)"
    and "fails_with withheld (fetch_completion_columns g s schema table control)"
  unfolding session_lexical_settings_def fetch_completion_columns_def
  by (intro fails_intro withheld_caught fails_gtry_known [OF withheld_caught(1) [OF assms]] fails_gresult fails_gfail
      withheld.refused assms; blast)+

lemma withheld_session_close:
  assumes "should_mask g"
  shows "fails_with withheld (session_close g s)"
proof -
  have "fails_with withheld (close_open_batch g s batch)" for batch
    unfolding close_open_batch_def case_prod_beta
    by (intro fails_intro fails_gtry_known [OF withheld_finish [OF assms]] withheld_gresult fails_gfail)
      (auto split: sum.split option.split intro!: fails_intro simp: withheld_def)
  then have batch: "fails_with withheld (case b of Some batch \<Rightarrow> close_open_batch g s batch | None \<Rightarrow> gret ())" for b
    by (intro fails_intro)
  have cursor: "fails_with withheld (case c of Some cursor \<Rightarrow> close_active_cursor g s (ac_id cursor) (Some StatusCancelled)
      | None \<Rightarrow> gret ())" for c
    by (intro fails_intro withheld_cursor_methods assms)
  show ?thesis
    unfolding session_close_def
    by (intro fails_gbind [OF fails_gget] fails_gtry_known [OF cursor] fails_gtry_known [OF batch]
        fails_gtry_known [OF withheld_caught(1) [OF assms]] fails_gbind fails_gresult; blast)
qed

lemma withheld_perform: "should_mask g \<Longrightarrow> fails_with withheld (perform g call)"
proof (cases "session_call call")
  case True
  assume "should_mask g"
  with True show ?thesis
    apply (cases call)
    apply (simp_all only: perform.simps session_call.simps simp_thms close_query_cursor_def open_session_def)
    by (intro fails_intro withheld_caught withheld_query withheld_session_methods withheld_cursor_methods
        withheld_metadata_methods withheld_session_close; assumption?)+
qed (rule withheld_plain_call)

section \<open>Values of a masked agent\<close>

text \<open>Where the analysis of a statement says that sensitive values may come out, for a result of \<open>n\<close> columns.\<close>

definition mask_positions :: "statement_analysis option \<Rightarrow> nat \<Rightarrow> bool list option" where
  "mask_positions a n = map_option (\<lambda>a. case sensitive_positions a of
       Some ps \<Rightarrow> if length ps = n then ps else replicate n True
     | None \<Rightarrow> replicate n True) a"

definition result_clean :: "guard \<Rightarrow> sensitive_patterns \<Rightarrow> statement_analysis option \<Rightarrow> query_result \<Rightarrow> bool" where
  "result_clean g ps a r \<longleftrightarrow>
     list_all (row_clean (mask_library g) ps
       (sensitive_columns (mask_library g) ps (result_columns r) (mask_positions a (length (result_columns r)))))
       (result_rows r)"

text \<open>
  The analysis of the statement of a call, for the calls that return rows; a page of a cursor comes from the
  statement that the cursor was opened for.
\<close>

fun call_analysis :: "guard \<Rightarrow> world \<Rightarrow> guard_call \<Rightarrow> statement_analysis option" where
  "call_analysis g w (RunQuery sql _ _) = Some (guard_analyze g sql)"
| "call_analysis g w (RunResultSets sql _ _) = Some (guard_analyze g sql)"
| "call_analysis g w (TxQuery _ sql _ _) = Some (guard_analyze g sql)"
| "call_analysis g w (SessionQuery _ sql _ _) = Some (guard_analyze g sql)"
| "call_analysis g w (SessionResultSets _ sql _ _) = Some (guard_analyze g sql)"
| "call_analysis g w (FetchCursor s _ _) = map_option (\<lambda>c. ca_analysis (ac_audit c)) (ss_cursor (sessions w s))"
| "call_analysis g w _ = None"

text \<open>The driver's answers to \<open>BEGIN\<close>, \<open>COMMIT\<close> and \<open>ROLLBACK\<close> on a session are handed on as they are.\<close>

fun control_answer :: "guard \<Rightarrow> guard_call \<Rightarrow> bool" where
  "control_answer g (SessionQuery _ sql _ _) = (transaction_control_of (parser g) sql (ctx_driver_id g) \<noteq> None)"
| "control_answer g (SessionResultSets _ sql _ _) = (transaction_control_of (parser g) sql (ctx_driver_id g) \<noteq> None)"
| "control_answer g _ = False"

definition value_clean :: "guard \<Rightarrow> sensitive_patterns \<Rightarrow> statement_analysis option \<Rightarrow> guard_value \<Rightarrow> bool" where
  "value_clean g ps a v =
     (case v of
        RowsValue r \<Rightarrow> result_clean g ps a r
      | SetsValue b \<Rightarrow> list_all (result_clean g ps a) (result_sets b)
      | PageValue p \<Rightarrow> result_clean g ps a (page_result p)
      | _ \<Rightarrow> True)"

lemma result_clean_mask:
  assumes "guard_masks g = Some ps" "json_faithful (mask_library g) ps"
  shows "result_clean g ps a (mask_result_for_analysis g a r)"
    and "list_all (result_clean g ps (Some b)) (result_sets (mask_result_batch_for_analysis g b batch))"
proof -
  have one: "result_clean g ps a (mask_result_for_analysis g a r)" for a r
    using mask_clean [OF assms(2), of r "mask_positions a (length (result_columns r))"] assms(1)
    by (simp add: result_clean_def mask_result_for_analysis_def mask_positions_def Let_def)
  show "result_clean g ps a (mask_result_for_analysis g a r)" by (rule one)
  show "list_all (result_clean g ps (Some b)) (result_sets (mask_result_batch_for_analysis g b batch))"
    using one assms(1) by (simp add: mask_result_batch_for_analysis_def should_mask_def list_all_iff)
qed

lemma returns_governed_read:
  "(\<And>x. V (post x)) \<Longrightarrow> returns V (governed_read g control name op call reply post rows)"
  unfolding governed_read_def Let_def by (intro returns_gbind returns_gtry returns_gresult_mapped)

lemma returns_armed_call:
  assumes "\<And>x. V (post x)"
  shows "returns V (armed_call execution post audit)"
  unfolding armed_call_def
proof (rule returns_gbind_known [OF returns_armed_scope])
  show "returns (\<lambda>r. \<exists>s. r = map_result post s)
      (gtry execution (\<lambda>r. let result = map_result post r in gbind (audit result) (\<lambda>_. gret result)))"
    unfolding Let_def by (intro returns_gtry returns_gbind returns_gret exI) (rule refl)
qed (auto intro: returns_gresult_mapped assms)

lemma clean_queries:
  assumes "guard_masks g = Some ps" "json_faithful (mask_library g) ps"
  shows "returns (result_clean g ps (Some (guard_analyze g sql))) (governed_query g name sql parameters control)"
    and "returns (result_clean g ps (Some (guard_analyze g sql))) (governed_tx_query g tx name sql parameters control)"
    and "returns (\<lambda>b. list_all (result_clean g ps (Some (guard_analyze g sql))) (result_sets b))
           (query_result_sets_controlled g sql cells c)"
    and "returns (result_clean g ps None) (metadata_read g control name new_operation call reply (mask_result g) rows)"
  unfolding governed_query_def governed_tx_query_def run_transaction_query_def query_result_sets_controlled_def
    execute_query_write_def armed_write_def metadata_read_def mask_result_def Let_def
  by ((intro returns_authorized returns_if returns_gbind returns_gtry returns_governed_read returns_armed_call
      returns_gresult_mapped; (simp only: result_clean_mask [OF assms]))+)

lemma value_clean_simps [simp]:
  "value_clean g ps a (RowsValue r) = result_clean g ps a r"
  "value_clean g ps a (SetsValue b) = list_all (result_clean g ps a) (result_sets b)"
  "value_clean g ps a (PageValue p) = result_clean g ps a (page_result p)"
  by (simp_all add: value_clean_def)

lemma clean_plain_call:
  "guard_masks g = Some ps \<Longrightarrow> json_faithful (mask_library g) ps \<Longrightarrow> \<not> session_call call
   \<Longrightarrow> returns (value_clean g ps (call_analysis g w call)) (perform g call)"
  by (induction g call rule: perform.induct; simp only: perform.simps call_analysis.simps session_call.simps simp_thms;
      (rule returns_gmap_plain, simp add: value_clean_def; fail)?;
      intro returns_gmap returns_controlled;
      simp only: query_def query_controlled_def query_params_def query_params_controlled_def tx_query_def
        tx_query_controlled_def tx_query_params_def tx_query_params_controlled_def fetch_rows_def fetch_rows_controlled_def
        value_clean_simps clean_queries)

subsection \<open>Sessions\<close>

lemma returns_gtry_value:
  "returns V m \<Longrightarrow> (\<And>r. (\<And>x. r = Inr x \<Longrightarrow> V x) \<Longrightarrow> returns V' (f r)) \<Longrightarrow> returns V' (gtry m f)"
  by (fastforce simp: returns_def gtry_def split: prod.splits outcome.splits)

lemma returns_case: "returns V m \<Longrightarrow> (\<And>x. returns V (f x)) \<Longrightarrow> returns V (case y of None \<Rightarrow> m | Some x \<Rightarrow> f x)"
  by (cases y) simp_all

lemma clean_session_bodies:
  assumes "guard_masks g = Some ps" "json_faithful (mask_library g) ps"
  shows "returns (result_clean g ps (Some (auth_analysis auth))) (batch_statement g s sql cells control auth batch)"
    and "returns (result_clean g ps (Some (auth_analysis auth))) (lone_write g s sql cells control auth)"
    and "returns (result_clean g ps (Some (auth_analysis auth))) (lone_read g s sql cells control auth)"
proof -
  have "returns (result_clean g ps (Some (auth_analysis auth))) (session_write g s op auth sql cells control audit)"
    "returns (result_clean g ps (Some (auth_analysis auth))) (session_read g s op auth sql cells control audit)" for op audit
    unfolding session_write_def session_read_def Let_def
    by (intro returns_gtry returns_gbind returns_armed_call returns_gresult_mapped result_clean_mask [OF assms])+
  then show "returns (result_clean g ps (Some (auth_analysis auth))) (batch_statement g s sql cells control auth batch)"
    "returns (result_clean g ps (Some (auth_analysis auth))) (lone_write g s sql cells control auth)"
    "returns (result_clean g ps (Some (auth_analysis auth))) (lone_read g s sql cells control auth)"
    unfolding batch_statement_def lone_write_def lone_read_def Let_def by (intro returns_gbind; simp)+
qed

lemma clean_session_statement:
  assumes "guard_masks g = Some ps" "json_faithful (mask_library g) ps"
  shows "returns (result_clean g ps (Some (guard_analyze g sql))) (session_statement g s sql cells control)"
proof -
  have run: "returns (result_clean g ps (Some (guard_analyze g sql)))
      (gtry (case ss_batch ss of
               Some batch \<Rightarrow> batch_statement g s sql cells control auth (ob_id batch)
             | None \<Rightarrow> if facts_writes (facts (auth_analysis auth)) then lone_write g s sql cells control auth
                 else lone_read g s sql cells control auth)
         (\<lambda>result. gbind (n result) (\<lambda>_. gresult result)))"
    if "auth_analysis auth = guard_analyze g sql" for ss and auth :: authorization and n :: "driver_error + query_result \<Rightarrow> (unit, driver_error) run"
    unfolding that [symmetric]
    by (rule returns_gtry_value [where V = "result_clean g ps (Some (auth_analysis auth))"],
        intro returns_case returns_if clean_session_bodies assms)
      (intro returns_gbind returns_gresult, blast)
  show ?thesis
    unfolding session_statement_def Let_def
    by (rule returns_gbind, rule returns_if, rule returns_never_ok [OF never_ok_refuse(1)],
        rule returns_gbind_known [OF returns_analysis(4)], rule run)
qed

lemma clean_session_query:
  assumes "guard_masks g = Some ps" "json_faithful (mask_library g) ps"
    and "transaction_control_of (parser g) sql (ctx_driver_id g) = None"
  shows "returns (result_clean g ps (Some (guard_analyze g sql))) (session_query g s sql cells control)"
  unfolding session_query_def assms(3) option.case
  by (intro returns_gbind returns_if returns_never_ok [OF never_ok_refuse(2)] clean_session_statement assms(1,2))

text \<open>The further result sets that a session collects are masked before they are stored.\<close>

interpretation sets_of: frame_invariant g "\<lambda>w. P (ss_sets (sessions w s))" for g P s
  by unfold_locales simp_all

lemma keeps_sets_updates [keeps_intro]:
  "keeps (\<lambda>w. P (ss_sets (sessions w s))) (retire t)"
  "keeps (\<lambda>w. P (ss_sets (sessions w s))) (set_batch t b)"
  "keeps (\<lambda>w. P (ss_sets (sessions w s))) (set_cursor t c)"
  by (auto simp: keeps_iff retire_def set_batch_def set_cursor_def update_session_def gmodify_def)

lemma keeps_sets_aside [keeps_intro]:
  "keeps (\<lambda>w. P (ss_sets (sessions w s))) (session_is_usable h t)"
  "keeps (\<lambda>w. P (ss_sets (sessions w s))) (refuse h t sql rule e)"
  "keeps (\<lambda>w. P (ss_sets (sessions w s))) (refuse_policy h t sql rule msg)"
  "keeps (\<lambda>w. P (ss_sets (sessions w s))) (require_query_ready h t sql)"
  "keeps (\<lambda>w. P (ss_sets (sessions w s))) (require_writable h t sql)"
  "keeps (\<lambda>w. P (ss_sets (sessions w s))) (note_disconnect t result)"
  "keeps (\<lambda>w. P (ss_sets (sessions w s))) (note_statement h t writes to_savepoint result')"
  unfolding session_is_usable_def refuse_policy_def refuse_def require_query_ready_def require_writable_def note_statement_def
    note_disconnect_def Let_def
  by (intro keeps_intro keeps_case_disconnect; assumption?)+

lemma keeps_clean_sets:
  assumes "guard_masks g = Some ps" "json_faithful (mask_library g) ps"
  shows "keeps (\<lambda>w. list_all (result_clean g ps (Some a)) (ss_sets (sessions w s))) (inner_statement g s b opid a sql cells control)"
proof -
  have "keeps (\<lambda>w. list_all (result_clean g ps (Some a)) (ss_sets (sessions w s)))
      (update_session s (ss_sets_update (\<lambda>sets. sets @ map (mask_result_for_analysis g (Some a)) rs)))" for rs
    by (auto simp: keeps_iff update_session_def gmodify_def list_all_iff intro: result_clean_mask [OF assms])
  then show ?thesis
    unfolding inner_statement_def by (intro keeps_intro)
qed

lemma keeps_clean_bodies:
  assumes "guard_masks g = Some ps" "json_faithful (mask_library g) ps"
  shows "keeps (\<lambda>w. list_all (result_clean g ps (Some (auth_analysis auth))) (ss_sets (sessions w s)))
      (batch_statement g s sql cells control auth batch)"
    and "keeps (\<lambda>w. list_all (result_clean g ps (Some (auth_analysis auth))) (ss_sets (sessions w s)))
      (lone_write g s sql cells control auth)"
    and "keeps (\<lambda>w. list_all (result_clean g ps (Some (auth_analysis auth))) (ss_sets (sessions w s)))
      (lone_read g s sql cells control auth)"
proof -
  let ?I = "\<lambda>w. list_all (result_clean g ps (Some (auth_analysis auth))) (ss_sets (sessions w s))"
  have calls: "(\<And>start r rows. keeps ?I (audit start r rows)) \<Longrightarrow> keeps ?I (session_write g s op auth sql cells control audit)"
    "(\<And>start r rows. keeps ?I (audit start r rows)) \<Longrightarrow> keeps ?I (session_read g s op auth sql cells control audit)" for op audit
    unfolding session_write_def session_read_def with_rows_def Let_def
    by (intro keeps_clean_sets [OF assms] keeps_intro; assumption?)+
  show "keeps ?I (batch_statement g s sql cells control auth batch)"
    unfolding batch_statement_def Let_def
    by (cases "facts_writes (facts (auth_analysis auth))"; simp; intro calls keeps_intro)
  show "keeps ?I (lone_write g s sql cells control auth)" "keeps ?I (lone_read g s sql cells control auth)"
    unfolding lone_write_def lone_read_def by (intro calls keeps_intro)+
qed

lemma keeps_clean_query:
  assumes "guard_masks g = Some ps" "json_faithful (mask_library g) ps"
    and "transaction_control_of (parser g) sql (ctx_driver_id g) = None"
  shows "keeps (\<lambda>w. list_all (result_clean g ps (Some (guard_analyze g sql))) (ss_sets (sessions w s)))
    (session_query g s sql cells control)"
proof -
  let ?I = "\<lambda>w. list_all (result_clean g ps (Some (guard_analyze g sql))) (ss_sets (sessions w s))"
  have run: "keeps ?I (gtry (case ss_batch ss of
        Some batch \<Rightarrow> batch_statement g s sql cells control auth (ob_id batch)
      | None \<Rightarrow> if facts_writes (facts (auth_analysis auth)) then lone_write g s sql cells control auth
          else lone_read g s sql cells control auth)
      (\<lambda>result. gbind (note_statement g s (facts_writes (facts (auth_analysis auth)))
         (rolls_back_to_savepoint (auth_analysis auth)) result) (\<lambda>_. gresult result)))"
    if "auth_analysis auth = guard_analyze g sql" for ss and auth :: authorization
    using keeps_clean_bodies [OF assms(1,2), of auth s] unfolding that by (intro keeps_intro; blast)
  show ?thesis
    unfolding session_query_def session_statement_def assms(3) option.case Let_def
    by (rule keeps_gbind [OF keeps_sets_aside(4)], rule keeps_if, rule keeps_sets_aside(3), rule keeps_gbind [OF keeps_gget],
        rule keeps_if, rule keeps_sets_aside(2), rule keeps_gbind_returns [OF sets_of.keeps_authorizations(1) returns_analysis(4)],
        rule run)
qed

lemma clean_session_sets:
  assumes "guard_masks g = Some ps" "json_faithful (mask_library g) ps"
    and "transaction_control_of (parser g) sql (ctx_driver_id g) = None"
  shows "returns (\<lambda>b. list_all (result_clean g ps (Some (guard_analyze g sql))) (result_sets b))
    (session_result_sets g s sql cells control)"
  unfolding returns_def
proof (intro allI impI)
  fix w :: world and b w'
  let ?I = "\<lambda>w. list_all (result_clean g ps (Some (guard_analyze g sql))) (ss_sets (sessions w s))"
  define w1 where "w1 = w\<lparr>sessions := (sessions w)(s := (sessions w s)\<lparr>ss_collect := True, ss_sets := []\<rparr>)\<rparr>"
  assume run: "session_result_sets g s sql cells control w = (Ok b, w')"
  have "?I w1" by (simp add: w1_def)
  then have sets: "?I (snd (session_query g s sql cells control w1))"
    using keeps_clean_query [OF assms, of s cells control] unfolding keeps_iff by blast
  have "update_session s (\<lambda>ss. ss\<lparr>ss_collect := True, ss_sets := []\<rparr>) w = (Ok (), w1)"
    by (simp add: update_session_def gmodify_def w1_def)
  with run show "list_all (result_clean g ps (Some (guard_analyze g sql))) (result_sets b)"
    using sets
    by (cases "session_query g s sql cells control w1" rule: ended_cases)
      (auto simp: session_result_sets_def gbind_def gtry_def gget_def gresult_def gret_def gfail_def update_session_def gmodify_def
        Let_def dest: returnsD [OF clean_session_query [OF assms]])
qed

lemma clean_page:
  assumes "guard_masks g = Some ps" "json_faithful (mask_library g) ps"
    and "fetch_query_cursor_page g s i control w = (Ok page, w')"
  shows "result_clean g ps (map_option (\<lambda>c. ca_analysis (ac_audit c)) (ss_cursor (sessions w s))) (page_result page)"
proof -
  have page: "returns (\<lambda>p. result_clean g ps (Some (ca_analysis audit)) (page_result p)) (fetch_active_page g s ss audit i control)"
    for ss audit
    unfolding fetch_active_page_def Let_def
    by (intro returns_gbind returns_gtry)
      (auto split: sum.split dest!: map_result_okD intro!: returns_gbind returns_gret result_clean_mask [OF assms(1,2)] returns_gfail)
  obtain c where c: "ss_cursor (sessions w s) = Some c"
      "fetch_active_page g s (sessions w s) (ac_audit c) i control w = (Ok page, w')"
    using assms(3) unfolding fetch_query_cursor_page_def
    by (cases "ss_cursor (sessions w s)") (auto simp: gbind_def gget_def gfail_def split: if_splits)
  from returnsD [OF page c(2)] c(1) show ?thesis by simp
qed

lemma gmap_okE: "gmap f m w = (Ok v, w') \<Longrightarrow> (\<And>x. m w = (Ok x, w') \<Longrightarrow> v = f x \<Longrightarrow> thesis) \<Longrightarrow> thesis"
  by (cases "m w" rule: ended_cases) (auto simp: gmap_def gbind_def gret_def)

lemma clean_session_call:
  "guard_masks g = Some ps \<Longrightarrow> json_faithful (mask_library g) ps \<Longrightarrow> session_call call \<Longrightarrow> \<not> control_answer g call
   \<Longrightarrow> (\<And>s i k. call \<noteq> FetchCursor s i k) \<Longrightarrow> returns (value_clean g ps (call_analysis g w call)) (perform g call)"
  by (induction g call rule: perform.induct;
      simp only: perform.simps call_analysis.simps session_call.simps control_answer.simps simp_thms;
      (rule returns_gmap_plain, simp add: value_clean_def; fail)?;
      intro returns_gmap; (simp only: value_clean_simps clean_session_query clean_session_sets; fail)?; blast)

lemma clean_perform:
  assumes "guard_masks g = Some ps" "json_faithful (mask_library g) ps" "\<not> control_answer g call"
    and "perform g call w = (Ok v, w')"
  shows "value_clean g ps (call_analysis g w call) v"
proof (cases "session_call call")
  case False
  from returnsD [OF clean_plain_call [OF assms(1,2) False] assms(4)] show ?thesis .
next
  case True
  show ?thesis
  proof (cases "\<exists>s i k. call = FetchCursor s i k")
    case True
    then obtain s i k where call: "call = FetchCursor s i k" by blast
    obtain page where "fetch_query_cursor_page g s i k w = (Ok page, w')" "v = PageValue page"
      using assms(4) unfolding call perform.simps by (rule gmap_okE)
    with clean_page [OF assms(1,2) this(1)] show ?thesis by (simp only: call call_analysis.simps value_clean_simps)
  next
    case False
    then have "call \<noteq> FetchCursor s i k" for s i k by blast
    from returnsD [OF clean_session_call [OF assms(1,2) \<open>session_call call\<close> assms(3) this] assms(4)] show ?thesis .
  qed
qed

text \<open>
  C8: What an agent with masked results sees. Whatever it calls, on the connection, in a transaction, on a session or
  through a cursor: in every row it gets back, each value under a sensitive column name, and each value at a position
  where the analysis of its statement found that a sensitive column may come out (every position, if the analysis
  could not tell), is null or redacted, and so is each value under a sensitive key inside JSON. (The driver's answers
  to the session's transaction control statements aside, which are handed on.) And no error it gets back contains
  text of a database error, however deeply nested.
\<close>

theorem masked_agent_sees:
  assumes "guard_masks g = Some ps" "json_faithful (mask_library g) ps" "perform g call w = (r, w')"
  shows "case r of
           Ok v \<Rightarrow> control_answer g call \<or> value_clean g ps (call_analysis g w call) v
         | Err e \<Rightarrow> query_messages e \<subseteq> {withheld_message}
         | Gone \<Rightarrow> True"
proof (cases r)
  case (Ok v)
  then show ?thesis using clean_perform [OF assms(1,2), of call w v w'] assms(3) by (simp del: perform.simps) blast
next
  case (Err e)
  have "should_mask g" using assms(1) by (simp add: should_mask_def)
  from withheld_perform [OF this, of call] show ?thesis
    using assms(3) Err by (auto simp: fails_with_def withheld_def simp del: perform.simps)
qed simp

section \<open>Errors that leave the fate of a write open\<close>

text \<open>
  Calls that may change data: every write, a query whose statement is classified as a write, and the end of a
  transaction (on a session, one that is not read-only or has written).
\<close>

definition ends_write :: "world \<Rightarrow> uuid \<Rightarrow> bool" where
  "ends_write w s \<longleftrightarrow> (\<forall>b. ss_batch (sessions w s) = Some b \<longrightarrow> \<not> (ob_read_only b \<and> \<not> ob_wrote b))"

definition session_write_call :: "guard \<Rightarrow> world \<Rightarrow> uuid \<Rightarrow> string \<Rightarrow> bool" where
  "session_write_call g w s sql =
     (case transaction_control_of (parser g) sql (ctx_driver_id g) of
        None \<Rightarrow> facts_writes (facts (guard_analyze g sql))
      | Some (CommitControl _) \<Rightarrow> ends_write w s
      | Some (RollbackControl _) \<Rightarrow> ends_write w s
      | _ \<Rightarrow> False)"

fun write_call :: "guard \<Rightarrow> world \<Rightarrow> guard_call \<Rightarrow> bool" where
  "write_call g w (RunQuery sql _ _) = facts_writes (facts (guard_analyze g sql))"
| "write_call g w (RunResultSets sql _ _) = facts_writes (facts (guard_analyze g sql))"
| "write_call g w (TxQuery _ sql _ _) = facts_writes (facts (guard_analyze g sql))"
| "write_call g w (RunExecute _ _ _) = True"
| "write_call g w (RunBatch _ _ _) = True"
| "write_call g w (TxExecute _ _ _ _) = True"
| "write_call g w (TxCommit _) = True"
| "write_call g w (TxRollback _ _) = True"
| "write_call g w (SessionQuery s sql _ _) = session_write_call g w s sql"
| "write_call g w (SessionResultSets s sql _ _) = session_write_call g w s sql"
| "write_call g w (SessionCommit s _) = ends_write w s"
| "write_call g w _ = False"

text \<open>An error of the run that leaves the fate of a write open comes with writes disabled.\<close>

definition settles :: "('a, driver_error) run \<Rightarrow> bool" where
  "settles m \<longleftrightarrow> (\<forall>w e w'. m w = (Err e, w') \<longrightarrow> is_ambiguous_post_dispatch e \<longrightarrow> writes_disabled w')"

interpretation unambiguous: refusal_errors "\<lambda>e. \<not> is_ambiguous_post_dispatch e"
  by unfold_locales simp_all

interpretation locked: quiet_invariant g "\<lambda>w. c \<longrightarrow> writes_disabled w" for g c
  by unfold_locales (auto simp: writes_disabled_def suspend_def lock_connection_def lock_globally_def emit_def)

named_theorems settles_intro

lemma settles_refusing: "fails_with (\<lambda>e. \<not> is_ambiguous_post_dispatch e) m \<Longrightarrow> settles m"
  by (auto simp: fails_with_def settles_def)

lemma settles_gbind: "settles m \<Longrightarrow> returns V m \<Longrightarrow> (\<And>x. V x \<Longrightarrow> settles (f x)) \<Longrightarrow> settles (gbind m f)"
  by (fastforce simp: settles_def returns_def gbind_def split: prod.splits outcome.splits)

lemma settles_gbind_refusing [settles_intro]:
  "fails_with (\<lambda>e. \<not> is_ambiguous_post_dispatch e) m \<Longrightarrow> (\<And>x. settles (f x)) \<Longrightarrow> settles (gbind m f)"
  by (rule settles_gbind [where V = "\<lambda>_. True"]) (auto intro: settles_refusing simp: returns_def)

lemma settles_gbind_authorized:
  "(\<And>auth. auth_analysis auth = guard_analyze g sql \<Longrightarrow> settles (f auth)) \<Longrightarrow> settles (gbind (authorize g sql control) f)"
  "(\<And>auth. auth_analysis auth = guard_analyze g sql \<Longrightarrow> settles (f auth))
   \<Longrightarrow> settles (gbind (authorize_in_transaction g sql control h) f)"
  by (blast intro: settles_gbind [OF settles_refusing] unambiguous.fails_authorize returns_analysis)+

lemma settles_gtry [settles_intro]: "(\<And>r. settles (f r)) \<Longrightarrow> settles (gtry m f)"
  by (fastforce simp: settles_def gtry_def split: prod.splits outcome.splits)

lemma settles_gmap [settles_intro]: "settles m \<Longrightarrow> settles (gmap f m)"
  unfolding gmap_def by (rule settles_gbind [where V = "\<lambda>_. True"]) (auto intro: settles_refusing fails_gret simp: returns_def)

lemma settles_controlled [settles_intro]:
  "settles m \<Longrightarrow> (\<And>c. settles (n c)) \<Longrightarrow> settles (controlled k m n)"
  by (cases k) (simp_all add: controlled_def)

lemma settles_if: "(c \<Longrightarrow> settles m) \<Longrightarrow> (\<not> c \<Longrightarrow> settles n) \<Longrightarrow> settles (if c then m else n)"
  by simp

text \<open>A run that ends with writes disabled, however it ends.\<close>

definition locks :: "('a, 'e) run \<Rightarrow> bool" where
  "locks m \<longleftrightarrow> (\<forall>w. writes_disabled (snd (m w)))"

lemma locks_gbind_gget: "(\<And>x. locks (h x)) \<Longrightarrow> locks (gbind (gget f) h)"
  by (simp add: locks_def gbind_def gget_def)

lemma locks_gtry:
  assumes "locks m" "\<And>r. keeps writes_disabled (h r)"
  shows "locks (gtry m h)"
  unfolding locks_def
proof
  fix w
  have "writes_disabled (snd (m w))" using assms(1) by (simp add: locks_def)
  with assms(2) show "writes_disabled (snd (gtry m h w))"
    by (cases "m w" rule: ended_cases) (simp_all add: gtry_def keeps_iff)
qed

lemma locks_then: "keeps writes_disabled (k ()) \<Longrightarrow> locks (gbind (gmodify lock_connection) k)"
  by (simp add: locks_def keeps_iff gbind_def gmodify_def)

lemmas keeps_locked [keeps_intro] = locked.keeps_record_outcome [where c = True, simplified]
  locked.keeps_handlers [where c = True, simplified]

lemma audits_lock:
  assumes "is_ambiguous_post_dispatch e"
  shows "locks (audit_write_result g op start (Inl e :: driver_error + 'a) rows)"
    and "locks (audit_transaction_result g op start (Inl e :: driver_error + 'a) rows mode)"
proof -
  show "locks (audit_write_result g op start (Inl e :: driver_error + 'a) rows)"
    using write_error_outcome_iff(1) [of e] assms unfolding audit_write_result_def
    by (cases "write_error_outcome e")
      (auto simp: Let_def intro!: locks_gbind_gget locks_gtry locks_then keeps_intro)
  obtain status tx where "(case mode of AtomicBatch \<Rightarrow> transaction_error_outcome e
      | Interactive \<Rightarrow> interactive_transaction_error_outcome e) = (status, tx, True)"
    using transaction_error_outcome_iff(1) [OF assms] interactive_transaction_error_outcome_iff(1) [OF assms]
    by (cases mode; cases "transaction_error_outcome e"; cases "interactive_transaction_error_outcome e") auto
  then show "locks (audit_transaction_result g op start (Inl e :: driver_error + 'a) rows mode)"
    unfolding audit_transaction_result_def
    by (auto simp: Let_def intro!: locks_gbind_gget locks_gtry locks_then keeps_intro)
qed

lemma ending_locks: "ambiguous e \<Longrightarrow> locks (record_ending g op start tx ambiguous (Inl e))"
  unfolding record_ending_def by (auto simp: Let_def intro!: locks_then keeps_intro)

lemma gtry_okE: "gtry m f w = (Ok x, w') \<Longrightarrow> (\<And>r v. f r v = (Ok x, w') \<Longrightarrow> thesis) \<Longrightarrow> thesis"
  by (auto simp: gtry_def split: prod.splits outcome.splits)

lemma gbind_okE: "gbind m f w = (Ok x, w') \<Longrightarrow> (\<And>y v. m w = (Ok y, v) \<Longrightarrow> f y v = (Ok x, w') \<Longrightarrow> thesis) \<Longrightarrow> thesis"
  by (auto simp: gbind_def split: prod.splits outcome.splits)

lemma armed_scope_settles:
  assumes "\<And>w e w'. m w = (Ok (Inl e), w') \<Longrightarrow> is_ambiguous_post_dispatch e \<Longrightarrow> writes_disabled w'"
  shows "settles (gbind (armed_scope m) gresult)"
  using assms unfolding settles_def
  by (auto simp: gbind_def armed_scope_def gresult_def gret_def gfail_def split: prod.splits outcome.splits sum.splits)

lemma unambiguous_ending: "\<not> is_ambiguous_post_dispatch (ending_denied what e)"
  by (simp add: ending_denied_def)

lemma settles_armed_call:
  assumes "\<And>e. is_ambiguous_post_dispatch e \<Longrightarrow> locks (audit (Inl e))"
  shows "settles (armed_call execution post audit)"
  unfolding armed_call_def Let_def
proof (rule armed_scope_settles, erule gtry_okE, erule gbind_okE)
  fix e w' r v y u
  assume e: "is_ambiguous_post_dispatch e" and audited: "audit (map_result post r) v = (Ok y, u)"
    and "gret (map_result post r) u = (Ok (Inl e), w')"
  then have "map_result post r = Inl e" "u = w'" by (simp_all add: gret_def)
  moreover have "writes_disabled (snd (audit (Inl e) v))" using assms [OF e] by (simp add: locks_def)
  ultimately show "writes_disabled w'" using audited by simp
qed

lemmas settles_steps = settles_intro settles_armed_call audits_lock ending_locks fails_intro unambiguous_ending
  unambiguous.fails_available unambiguous.fails_handlers unambiguous.fails_operation

lemma settles_executes:
  "settles (governed_execute g sql parameters control)"
  "settles (governed_batch g name statements expect_one control auth)"
  "settles (governed_tx_execute g tx name sql parameters control)"
  "settles (commit g tx)"
  "is_ambiguous_post_dispatch \<le> ambiguous \<Longrightarrow> settles (governed_rollback g tx control ambiguous)"
  unfolding governed_execute_def execute_write_def governed_batch_def governed_tx_execute_def commit_def
    governed_rollback_def armed_write_def
  by (intro settles_steps; auto)+

lemma settles_queries:
  assumes "facts_writes (facts (guard_analyze g sql))"
  shows "settles (governed_query g name sql parameters control)"
    and "settles (query_result_sets_controlled g sql cells c)"
    and "settles (governed_tx_query g tx name sql parameters control)"
  unfolding governed_query_def query_result_sets_controlled_def governed_tx_query_def run_transaction_query_def
    execute_query_write_def armed_write_def Let_def
  by (rule settles_gbind_authorized, simp only: assms if_True, intro settles_steps; simp only: assms if_True;
      (intro settles_steps)?; assumption?)+

lemma settles_batches:
  "settles (execute_in_transaction g statements)"
  "settles (execute_in_transaction_controlled g statements c)"
  "settles (execute_in_transaction_checked g statements expect_one)"
  "settles (execute_in_transaction_checked_controlled g statements expect_one c)"
  unfolding execute_in_transaction_checked_def execute_in_transaction_checked_controlled_def execute_in_transaction_def
    execute_in_transaction_controlled_def Let_def
  by (intro settles_if settles_intro fails_intro settles_executes)+

lemma settles_plain_call: "write_call g w call \<Longrightarrow> \<not> session_call call \<Longrightarrow> settles (perform g call)"
  by (induction g call rule: perform.induct; simp only: perform.simps write_call.simps session_call.simps simp_thms;
      intro settles_gmap settles_controlled;
      simp only: query_def query_controlled_def query_params_def query_params_controlled_def tx_query_def
        tx_query_controlled_def tx_query_params_def tx_query_params_controlled_def execute_def execute_controlled_def
        execute_params_def execute_params_controlled_def tx_execute_def tx_execute_controlled_def tx_execute_params_def
        tx_execute_params_controlled_def rollback_def rollback_controlled_def settles_executes settles_queries
        settles_batches order_refl top_greatest top_fun_def; auto intro: settles_executes)

subsection \<open>Sessions\<close>

lemma keeps_disabled_updates [keeps_intro]:
  "keeps writes_disabled (update_session s f)" "keeps writes_disabled (retire s)" "keeps writes_disabled (set_batch s b)"
  "keeps writes_disabled (new_batch ro)"
  unfolding retire_def set_batch_def new_batch_def
  by (auto simp: keeps_iff update_session_def gmodify_def writes_disabled_def gbind_def gret_def fresh_id_def)

lemma keeps_disabled_notes [keeps_intro]:
  "keeps writes_disabled (note_disconnect s r)" "keeps writes_disabled (note_statement g s writes to_savepoint result)"
  "keeps writes_disabled (next_batch kind chain batch ambiguous over result)"
  unfolding note_statement_def note_disconnect_def next_batch_def Let_def by (intro keeps_intro)+

lemma settles_rethrow:
  assumes "settles m" "\<And>r. keeps writes_disabled (n r)" "\<And>r. fails_with (\<lambda>_. False) (n r)"
  shows "settles (gtry m (\<lambda>r. gbind (n r) (\<lambda>_. gresult r)))"
  unfolding settles_def
proof (intro allI impI)
  fix w e w'
  assume run: "gtry m (\<lambda>r. gbind (n r) (\<lambda>_. gresult r)) w = (Err e, w')" and e: "is_ambiguous_post_dispatch e"
  then obtain v where "m w = (Err e, v)" "w' = snd (n (Inl e) v)"
    using assms(3) unfolding fails_with_def
    by (cases "m w" rule: ended_cases)
      (auto simp: gtry_def gbind_def gresult_def gret_def gfail_def split: prod.splits outcome.splits)
  moreover have "writes_disabled v" using assms(1) e \<open>m w = (Err e, v)\<close> unfolding settles_def by blast
  ultimately show "writes_disabled w'" using assms(2) by (simp add: keeps_iff)
qed

lemma settles_session_bodies:
  assumes "facts_writes (facts (auth_analysis auth))"
  shows "settles (batch_statement g s sql cells control auth batch)" and "settles (lone_write g s sql cells control auth)"
  unfolding batch_statement_def lone_write_def session_write_def with_rows_def Let_def
  by ((simp only: assms if_True)?, intro settles_steps locks_gbind_gget unambiguous.fails_refusals; assumption?)+

lemma settles_session_statement:
  assumes "facts_writes (facts (guard_analyze g sql))"
  shows "settles (session_statement g s sql cells control)"
proof -
  have run: "settles (gtry (case ss_batch ss of
        Some batch \<Rightarrow> batch_statement g s sql cells control auth (ob_id batch)
      | None \<Rightarrow> if facts_writes (facts (auth_analysis auth)) then lone_write g s sql cells control auth
          else lone_read g s sql cells control auth)
      (\<lambda>result. gbind (note_statement g s (facts_writes (facts (auth_analysis auth)))
         (rolls_back_to_savepoint (auth_analysis auth)) result) (\<lambda>_. gresult result)))"
    if "auth_analysis auth = guard_analyze g sql" for ss and auth :: authorization
    using settles_session_bodies [of auth g s sql cells control] assms that
    by (intro settles_rethrow keeps_disabled_notes fails_session_notes) (auto split: option.split)
  show ?thesis
    unfolding session_statement_def Let_def
    by (rule settles_gbind_refusing [OF fails_gget], rule settles_if,
        rule settles_refusing [OF unambiguous.fails_refuse [OF unambiguous.refused(1)]],
        rule settles_gbind [OF settles_refusing [OF unambiguous.fails_authorize(2)] returns_analysis(4)], rule run)
qed

text \<open>The end of a transaction that is not a read-only one without writes.\<close>

lemma finish_locks:
  assumes "is_ambiguous_post_dispatch e" "\<not> (ob_read_only batch \<and> \<not> ob_wrote batch)"
  shows "fst (snd (snd (snd (finish_judgement kind batch (Inl e))))) = True"
  using assms by (cases e) (auto simp: finish_judgement_def finish_outcome_def Let_def)

lemma locks_noted: "(\<And>x. locks (f x)) \<Longrightarrow> locks (gbind (note_disconnect s (Inl e)) f)"
  by (cases e) (auto simp: locks_def note_disconnect_def retire_def update_session_def gmodify_def gret_def gbind_def)

lemma finish_call_locks:
  assumes "\<not> (ob_read_only batch \<and> \<not> ob_wrote batch)" "is_ambiguous_post_dispatch e"
    and "finish_call g s sql control kind chain batch ss op start w = (Ok (Inl e), w')"
  shows "writes_disabled w'"
proof -
  let ?rest = "\<lambda>result. gbind (note_disconnect s result) (\<lambda>_.
     gbind (gmodify (if fst (snd (snd (snd (finish_judgement kind batch result)))) then lock_connection else id)) (\<lambda>_.
     gbind (gget (elapsed_since start)) (\<lambda>d.
     gtry (record_outcome g op \<lparr>out_status = fst (finish_judgement kind batch result),
             out_tx = fst (snd (finish_judgement kind batch result)), out_rows = None,
             out_category = fst (snd (snd (finish_judgement kind batch result))), out_duration = d\<rparr>) (\<lambda>audit_result.
     gbind (gbind (next_batch kind chain batch (fst (snd (snd (snd (finish_judgement kind batch result)))))
       (snd (snd (snd (snd (finish_judgement kind batch result))))) result) (set_batch s)) (\<lambda>_.
     gbind (handle_write_outcome_failure audit_result) (\<lambda>_.
     gret (map_result (\<lambda>r. (r, fst (snd (finish_judgement kind batch result)))) result)))))))"
  obtain r v where rest: "?rest r v = (Ok (Inl e), w')"
    using assms(3) unfolding finish_call_def Let_def case_prod_beta by (rule gtry_okE)
  have "returns (\<lambda>y. y = Inl e \<longrightarrow> r = Inl e) (?rest r)"
    by (intro returns_gbind returns_gtry returns_gret) (blast dest: map_result_error)
  with rest have "r = Inl e" by (blast dest: returnsD)
  moreover have "locks (?rest (Inl e))"
    unfolding finish_locks [OF assms(2,1)] if_True by (intro locks_noted locks_then keeps_intro)
  ultimately have "writes_disabled (snd (?rest r v))" unfolding locks_def by blast
  then show ?thesis unfolding rest by simp
qed

lemma settles_finish_open:
  assumes "\<not> (ob_read_only batch \<and> \<not> ob_wrote batch)"
  shows "settles (finish_open g s sql control kind chain ss batch)"
proof -
  have scope: "settles (gbind (armed_scope (finish_call g s sql control kind chain batch ss op start)) gresult)" for op start
    by (rule armed_scope_settles) (rule finish_call_locks, use assms in auto)
  show ?thesis
    unfolding finish_open_def by (intro scope settles_gbind_refusing fails_intro unambiguous_ending)
qed

text \<open>The same from a world in which the transaction is known.\<close>

definition settles_from :: "(world \<Rightarrow> bool) \<Rightarrow> ('a, driver_error) run \<Rightarrow> bool" where
  "settles_from P m \<longleftrightarrow> (\<forall>w e w'. P w \<longrightarrow> m w = (Err e, w') \<longrightarrow> is_ambiguous_post_dispatch e \<longrightarrow> writes_disabled w')"

lemma settles_from_gbind:
  assumes "keeps P m" "fails_with (\<lambda>e. \<not> is_ambiguous_post_dispatch e) m" "\<And>x. settles_from P (f x)"
  shows "settles_from P (gbind m f)"
  unfolding settles_from_def
proof (intro allI impI)
  fix w e w'
  assume "P w" "gbind m f w = (Err e, w')" "is_ambiguous_post_dispatch e"
  moreover from this have "P (snd (m w))" using assms(1) by (simp add: keeps_iff)
  ultimately show "writes_disabled w'"
    using assms(2,3) by (cases "m w" rule: ended_cases) (auto simp: gbind_def fails_with_def settles_from_def)
qed

lemma settles_from_finish: "settles_from (\<lambda>w. ends_write w s) (finish g s sql control kind chain)"
  unfolding settles_from_def
proof (intro allI impI)
  fix w e w'
  assume w: "ends_write w s" and run: "finish g s sql control kind chain w = (Err e, w')" and e: "is_ambiguous_post_dispatch e"
  show "writes_disabled w'"
  proof (cases "ss_batch (sessions w s)")
    case None
    then have "refuse_policy g s sql ''missing_transaction'' ''no transaction is open on this session'' w
        = (Err e :: (query_result \<times> tx_outcome, driver_error) outcome, w')"
      using run by (simp add: finish_def gbind_def gget_def)
    then show ?thesis using e by (blast dest: fails_withD [OF unambiguous.fails_refusals(1)])
  next
    case (Some batch)
    then have "finish_open g s sql control kind chain (sessions w s) batch w = (Err e, w')"
      using run by (simp add: finish_def gbind_def gget_def)
    then show ?thesis using settles_finish_open w Some e unfolding settles_def ends_write_def by blast
  qed
qed

interpretation batch_of: frame_invariant g "\<lambda>w. P (ss_batch (sessions w s))" for g P s
  by unfold_locales simp_all

lemma keeps_batch_ready: "keeps (\<lambda>w. P (ss_batch (sessions w s))) (require_query_ready h t sql)"
proof -
  have [keeps_intro]: "keeps (\<lambda>w. P (ss_batch (sessions w s))) (retire t)"
    by (auto simp: keeps_iff retire_def update_session_def gmodify_def)
  show ?thesis
    unfolding require_query_ready_def session_is_usable_def refuse_policy_def refuse_def by (intro keeps_intro)
qed

lemma keeps_ready [keeps_intro]:
  "keeps (\<lambda>w. ends_write w s) (require_query_ready h t sql)"
  "keeps (\<lambda>w. session_write_call g w s sql') (require_query_ready h t sql)"
  unfolding ends_write_def session_write_call_def by (rule keeps_batch_ready)+

lemma settles_from_settles: "settles m \<Longrightarrow> settles_from P m"
  by (auto simp: settles_def settles_from_def)

lemma settles_from_weaken: "settles_from Q m \<Longrightarrow> (\<And>w. P w \<Longrightarrow> Q w) \<Longrightarrow> settles_from P m"
  unfolding settles_from_def by blast

lemma settles_from_map: "settles_from P m \<Longrightarrow> settles_from P (gbind m (\<lambda>r. gret (f r)))"
  by (fastforce simp: settles_from_def gbind_def gret_def split: prod.splits outcome.splits)

lemma settles_from_query: "settles_from (\<lambda>w. session_write_call g w s sql) (session_query g s sql cells control)"
proof -
  have finish: "settles_from (\<lambda>w. session_write_call g w s sql) (gbind (finish g s sql control kind chain) (\<lambda>r. gret (fst r)))"
    if "transaction_control_of (parser g) sql (ctx_driver_id g) \<in> {Some (CommitControl c), Some (RollbackControl c)}" for kind chain c
    by (rule settles_from_weaken [OF settles_from_map [OF settles_from_finish]]) (use that in \<open>auto simp: session_write_call_def\<close>)
  have other: "settles_from (\<lambda>w. session_write_call g w s sql) m"
    if "transaction_control_of (parser g) sql (ctx_driver_id g) = Some c" "\<And>chain. c \<notin> {CommitControl chain, RollbackControl chain}"
    for c and m :: "(query_result, driver_error) run"
    using that by (cases c) (auto simp: settles_from_def session_write_call_def)
  have statement: "settles_from (\<lambda>w. session_write_call g w s sql) (session_statement g s sql cells control)"
    if "transaction_control_of (parser g) sql (ctx_driver_id g) = None"
    using settles_session_statement that by (auto simp: settles_from_def settles_def session_write_call_def)
  show ?thesis
    unfolding session_query_def
  proof (rule settles_from_gbind [OF keeps_ready(2) unambiguous.fails_refusals(3)], goal_cases)
    case (1 x)
    show ?case
    proof (cases "transaction_control_of (parser g) sql (ctx_driver_id g)")
      case None
      then show ?thesis
        by (simp add: statement settles_from_settles settles_refusing unambiguous.fails_refusals)
    next
      case (Some c)
      then show ?thesis using finish other [OF Some] by (cases c) simp_all
    qed
  qed
qed

text \<open>A commit that the driver accepted either committed or rolled back.\<close>

lemma returns_commit: "returns (\<lambda>r. snd r \<in> {TxCommitted, TxRolledBack}) (finish g s sql control FinishCommit chain)"
proof -
  have ended: "returns (\<lambda>r. \<forall>x. r = Inr x \<longrightarrow> snd x \<in> {TxCommitted, TxRolledBack})
      (finish_call g s sql control FinishCommit chain batch ss op start)" for batch ss op start
    unfolding finish_call_def Let_def case_prod_beta
    by (intro returns_gtry returns_gbind returns_gret)
      (auto dest!: map_result_okD simp: finish_judgement_def finish_outcome_def)
  have scope: "returns (\<lambda>r. snd r \<in> {TxCommitted, TxRolledBack})
      (gbind (armed_scope (finish_call g s sql control FinishCommit chain batch ss op start)) gresult)" for batch ss op start
    by (rule returns_gbind_known [OF returns_armed_scope [OF ended]]) (blast intro: returns_gresult)
  show ?thesis
    unfolding finish_def finish_open_def
    by (intro scope returns_gbind returns_case returns_never_ok [OF never_ok_refuse(2)])
qed

lemma settles_from_commit: "settles_from (\<lambda>w. ends_write w s) (session_commit g s control)"
proof -
  let ?answer = "\<lambda>r. case snd r of
       TxCommitted \<Rightarrow> gret SessionCommitted
     | TxRolledBack \<Rightarrow> gret SessionRolledBack
     | _ \<Rightarrow> gfail (OperationOutcomeUnknown (Unsupported ''unconfirmed session commit outcome''))"
  have "settles_from (\<lambda>w. ends_write w s) (gbind (finish g s ''COMMIT'' control FinishCommit False) ?answer)"
    unfolding settles_from_def
  proof (intro allI impI)
    fix w e w'
    assume *: "ends_write w s" "gbind (finish g s ''COMMIT'' control FinishCommit False) ?answer w = (Err e, w')"
      "is_ambiguous_post_dispatch e"
    then have "finish g s ''COMMIT'' control FinishCommit False w = (Err e, w')"
      by (cases "finish g s ''COMMIT'' control FinishCommit False w" rule: ended_cases)
        (auto simp: gbind_def gret_def dest!: returnsD [OF returns_commit])
    with * show "writes_disabled w'" using settles_from_finish unfolding settles_from_def by blast
  qed
  then show ?thesis
    unfolding session_commit_def
    by (rule settles_from_gbind [OF keeps_ready(1) unambiguous.fails_refusals(3)])
qed

lemma settles_from_sets: "settles_from (\<lambda>w. session_write_call g w s sql) (session_result_sets g s sql cells control)"
  unfolding settles_from_def
proof (intro allI impI)
  fix w :: world and e w'
  define w1 where "w1 = w\<lparr>sessions := (sessions w)(s := (sessions w s)\<lparr>ss_collect := True, ss_sets := []\<rparr>)\<rparr>"
  assume w: "session_write_call g w s sql" and run: "session_result_sets g s sql cells control w = (Err e, w')"
    and e: "is_ambiguous_post_dispatch e"
  have "ends_write w1 s = ends_write w s" by (simp add: w1_def ends_write_def)
  then have "session_write_call g w1 s sql" using w unfolding session_write_call_def by metis
  moreover have "update_session s (\<lambda>ss. ss\<lparr>ss_collect := True, ss_sets := []\<rparr>) w = (Ok (), w1)"
    by (simp add: update_session_def gmodify_def w1_def)
  with run obtain v where "session_query g s sql cells control w1 = (Err e, v)" "writes_disabled w' = writes_disabled v"
    by (cases "session_query g s sql cells control w1" rule: ended_cases)
      (auto simp: session_result_sets_def gbind_def gtry_def gget_def gresult_def gret_def gfail_def update_session_def gmodify_def
        Let_def writes_disabled_def)
  ultimately show "writes_disabled w'" using settles_from_query e unfolding settles_from_def by blast
qed

lemma settles_from_gmap: "settles_from P m \<Longrightarrow> settles_from P (gmap f m)"
  unfolding gmap_def by (rule settles_from_map)

lemma settles_from_perform: "settles_from (\<lambda>w. write_call g w call) (perform g call)"
proof (cases "session_call call")
  case False
  then show ?thesis using settles_plain_call [of g _ call] unfolding settles_from_def settles_def by blast
next
  case True
  have none: "settles_from (\<lambda>w. False) m" for m :: "(guard_value, driver_error) run" by (simp add: settles_from_def)
  from True show ?thesis
    apply (cases call)
    apply (simp_all only: perform.simps session_call.simps write_call.simps)
    by (intro none settles_from_gmap settles_from_query settles_from_sets settles_from_commit)+
qed

text \<open>
  C9: An open fate locks the connection. Whenever a call that may change data (a write on the connection, in a
  transaction or on a session, or the end of a transaction) fails with an error after which the
  change may or may not have happened (a lost connection, a failed rollback, a driver that stopped, an outcome that
  the server could not tell, an outcome that could not be recorded), governed writes are disabled by the time the
  caller sees the error. The caller of a failed write is never left with a connection that accepts the next one
  as if nothing had happened.
\<close>

theorem ambiguous_write_locks:
  assumes "write_call g w call" "perform g call w = (Err e, w')" "is_ambiguous_post_dispatch e"
  shows "writes_disabled w'"
  using settles_from_perform [of g call] assms unfolding settles_from_def by blast

definition example_broken :: guard where
  "example_broken = example_human\<lparr>inner := example_driver\<lparr>drv_execute := (\<lambda>_ _ _ _. Answer 5 (Inl Disconnected))\<rparr>\<rparr>"

lemma example_broken_run: "fst (perform example_broken (RunExecute ''U'' None None) start_world) = Err Disconnected"
  by code_simp

theorem ambiguous_write_locks_witness:
  "writes_disabled (snd (perform example_broken (RunExecute ''U'' None None) start_world))"
  using ambiguous_write_locks [of example_broken start_world "RunExecute ''U'' None None" Disconnected, OF _
      prod_eqI [of _ "(Err Disconnected, _)"]] example_broken_run by simp

definition example_masked :: guard where
  "example_masked = (example_guard (Agent ''token'' None None) Prod False)\<lparr>guard_masks := Some [''pan'']\<rparr>"

lemma example_masked_run:
  "case fst (perform example_masked (RunQuery ''Q'' None None) start_world) of
     Ok (RowsValue r) \<Rightarrow> result_rows r = result_rows (mask example_mask_lib [''pan''] (example_result ''4111'') (Some [True, True]))
   | _ \<Rightarrow> False"
  by code_simp

theorem masked_agent_sees_witness:
  "case fst (perform example_masked (RunQuery ''Q'' None None) start_world) of
     Ok v \<Rightarrow> value_clean example_masked [''pan''] (Some (guard_analyze example_masked ''Q'')) v
   | _ \<Rightarrow> False"
proof -
  have "json_faithful (mask_library example_masked) [''pan'']"
    by (simp add: example_masked_def example_guard_def policy_guard_new_def Let_def json_faithful_def example_mask_lib_def)
  moreover have "guard_masks example_masked = Some [''pan'']" by (simp add: example_masked_def)
  ultimately show ?thesis
    using masked_agent_sees [of example_masked "[''pan'']" "RunQuery ''Q'' None None" start_world, OF _ _ prod.collapse [symmetric]]
      example_masked_run
    by (auto split: outcome.splits)
qed

end
