(* ===== verification/Guard_Answers.thy ===== *)
theory Guard_Answers
  imports Guard_Outcomes
begin

text \<open>
  The exact answer to a refused statement, and that a permitted write runs.
\<close>

section \<open>Refusals and successes\<close>

fun call_sql :: "guard_call \<Rightarrow> string option" where
  "call_sql (RunQuery sql _ _) = Some sql"
| "call_sql (RunResultSets sql _ _) = Some sql"
| "call_sql (RunExecute sql _ _) = Some sql"
| "call_sql _ = None"

lemma gbind_fails: "m w = (Err e, w') \<Longrightarrow> gbind m f w = (Err e, w')"
  by (simp add: gbind_def)

lemma perform_refused:
  assumes "call_sql call = Some sql" "\<And>control. authorize g sql control w = (Err e, w')"
  shows "perform g call w = (Err e, w')"
  using assms(1)
  by (cases "(g, call)" rule: perform.cases)
    (auto simp: gmap_def controlled_def query_def query_controlled_def query_params_def query_params_controlled_def
      governed_query_def query_result_sets_controlled_def execute_def execute_controlled_def execute_params_def
      execute_params_controlled_def governed_execute_def split: option.split intro!: gbind_fails assms(2))

lemma authorize_denied:
  assumes "shared_connection_decision (parser g) sql (ctx_driver_id g) (facts (guard_analyze g sql)) = None"
    and "evaluate_categorical (ctx_principal g) (ctx_environment g) (facts (guard_analyze g sql)) (ctx_read_only g)
      (effective_policy g) \<noteq> None"
    and "verdict g sql None = Deny rule msg"
  shows "authorize g sql control = record_refusal g sql (facts (guard_analyze g sql)) (Deny rule msg)
    ApprovalNotRequired NotRequested denied_outcome (PolicyDenied msg)"
  using assms
  by (auto simp: authorize_def authorize_analysis_def authorize_with_bound_def Let_def verdict_def evaluate_def
      resolve_authorization_def fun_eq_iff)

text \<open>
  C11: The exact answer to a refused statement. A statement that the policy denies by its category, whether it comes
  as a query or a write, with or without parameters and control, gets the policy's own message back as the error;
  nothing is sent to the driver; and exactly one record is added to the audit trail, the denied outcome of this
  statement with the rule that denied it and the digest of the statement. If that record cannot be written the call
  still fails, with a refusal that says so.
\<close>

theorem denied_exactly:
  assumes "call_sql call = Some sql"
    and "shared_connection_decision (parser g) sql (ctx_driver_id g) (facts (guard_analyze g sql)) = None"
    and "evaluate_categorical (ctx_principal g) (ctx_environment g) (facts (guard_analyze g sql)) (ctx_read_only g)
      (effective_policy g) \<noteq> None"
    and "verdict g sql None = Deny rule msg"
    and "\<And>ev. audit_sink g (trace w) ev = Answer t answer"
  shows "\<exists>ev w'. perform g call w =
      (Err (case answer of
              Inr _ \<Rightarrow> PolicyDenied msg
            | Inl e \<Rightarrow> PolicyDenied (''operation denied because audit recording failed: '' @ audit_error_display e)), w')
    \<and> trace w' = trace w @ [Recorded ev (result_err answer)]
    \<and> ev_phase ev = OutcomePhase \<and> ev_status ev = StatusDenied \<and> ev_decision_rule ev = rule
    \<and> sql_hash ev = sha256_hex g sql \<and> ev_operation_id ev = next_id w"
proof -
  let ?refused = "record_refusal g sql (facts (guard_analyze g sql)) (Deny rule msg) ApprovalNotRequired NotRequested
      denied_outcome (PolicyDenied msg) :: (authorization, driver_error) run"
  obtain ev w' where refused: "?refused w =
      (Err (case answer of Inr _ \<Rightarrow> PolicyDenied msg
            | Inl e \<Rightarrow> PolicyDenied (''operation denied because audit recording failed: '' @ audit_error_display e)), w')"
    and recorded: "trace w' = trace w @ [Recorded ev (result_err answer)]" "ev_phase ev = OutcomePhase"
      "ev_status ev = StatusDenied" "ev_decision_rule ev = rule" "sql_hash ev = sha256_hex g sql"
      "ev_operation_id ev = next_id w"
    using assms(5)
    by (cases answer)
      (auto simp: record_refusal_def operation_def fresh_id_def record_outcome_def audit_record_def sink_record_def gbind_def
        gtry_def gget_def gret_def gfail_def handle_non_execution_audit_failure_def denied_outcome_def emit_def suspend_def)
  have "perform g call w = (Err (case answer of Inr _ \<Rightarrow> PolicyDenied msg
            | Inl e \<Rightarrow> PolicyDenied (''operation denied because audit recording failed: '' @ audit_error_display e)), w')"
    by (rule perform_refused [OF assms(1)]) (simp only: authorize_denied [OF assms(2-4)] refused)
  with recorded show ?thesis by blast
qed

lemma example_denied_decisions:
  "evaluate_categorical (Agent ''token'' None None) Prod (example_facts ''U'') True
     (effective_policy (example_guard (Agent ''token'' None None) Prod True)) \<noteq> None"
  "is_deny (evaluate (Agent ''token'' None None) Prod (example_facts ''U'') True
     (effective_policy (example_guard (Agent ''token'' None None) Prod True)) None)"
  by code_simp+

lemma example_denied:
  "shared_connection_decision (parser example_read_only) ''U'' (ctx_driver_id example_read_only)
     (facts (guard_analyze example_read_only ''U'')) = None"
  "evaluate_categorical (ctx_principal example_read_only) (ctx_environment example_read_only)
     (facts (guard_analyze example_read_only ''U'')) (ctx_read_only example_read_only) (effective_policy example_read_only) \<noteq> None"
  "is_deny (verdict example_read_only ''U'' None)"
  using example_denied_decisions example_write_decisions(1)
  by (simp_all add: example_read_only_def example_guard_parties example_write_facts verdict_def)

theorem denied_exactly_witness:
  "\<exists>msg w'. perform example_read_only (RunExecute ''U'' None None) start_world = (Err (PolicyDenied msg), w')
     \<and> length (trace w') = 1"
proof -
  obtain rule msg where "verdict example_read_only ''U'' None = Deny rule msg"
    using example_denied(3) by (cases "verdict example_read_only ''U'' None") simp_all
  from denied_exactly [OF _ example_denied(1,2) this, of "RunExecute ''U'' None None" start_world 1 "Inr ()"]
  show ?thesis
    by (auto simp: example_read_only_def example_guard_def policy_guard_new_def Let_def start_world_def)
qed

text \<open>
  C10: A permitted write runs. If the policy allows a write (for the number of rows it is known to change), governed writes are available and no other task disables
  them, the audit sink accepts records and the driver executes the statement, then the call returns the driver's
  result, and what happened is exactly this: the intent on record, one call of the driver through the write boundary
  with the statement and parameters as given, the success on record with the affected rows; and writes stay enabled.
\<close>

theorem permitted_write_runs:
  assumes "shared_connection_decision (parser g) sql (ctx_driver_id g) (facts (guard_analyze g sql)) = None"
    and "evaluate_categorical (ctx_principal g) (ctx_environment g) (facts (guard_analyze g sql)) (ctx_read_only g)
      (effective_policy g) = None"
    and "\<And>q. blast_radius (guard_analyze g sql) \<noteq> Some (CountQuery q)"
    and "verdict g sql (known_rows g (guard_analyze g sql)) = Allow rule"
    and "\<And>tr ev. audit_sink g tr ev = Answer t (Inr ())" "\<And>tr. other_tasks g tr = (False, False)"
    and "\<And>tr. drv_execute (inner g) tr sql parameters control = Answer t' (Inr r)"
    and "\<not> writes_disabled w"
  shows "\<exists>intent outcome w'. perform g (RunExecute sql parameters control) w = (Ok (ExecValue r), w')
    \<and> trace w' = trace w @ [Recorded intent None,
        Dispatched WriteBoundary (Some (ev_operation_id intent)) (CallExecute sql parameters control), Recorded outcome None]
    \<and> ev_phase intent = IntentPhase \<and> ev_phase outcome = OutcomePhase
    \<and> ev_operation_id outcome = ev_operation_id intent \<and> ev_status outcome = StatusSucceeded
    \<and> ev_rows_affected outcome = Some (rows_affected r) \<and> ev_decision_rule outcome = rule \<and> \<not> writes_disabled w'"
proof -
  have "perform g (RunExecute sql parameters control) = gmap ExecValue (governed_execute g sql parameters control)"
    by (cases parameters; cases control)
      (simp_all add: controlled_def execute_def execute_controlled_def execute_params_def execute_params_controlled_def)
  moreover have "authorize g sql control w = (Ok \<lparr>auth_decision = Allow rule, auth_analysis = guard_analyze g sql,
      auth_approval = ApprovalNotRequired, auth_preview = NotRequested\<rparr>, w)"
    by (rule authorize_allowed) (use assms in auto)
  ultimately have "perform g (RunExecute sql parameters control) w = gmap ExecValue (execute_write g sql None
      \<lparr>auth_decision = Allow rule, auth_analysis = guard_analyze g sql, auth_approval = ApprovalNotRequired,
        auth_preview = NotRequested\<rparr> (CallExecute sql parameters control)
      (\<lambda>tr. drv_execute (inner g) tr sql parameters control)) w"
    by (simp add: gmap_def gbind_def governed_execute_def)
  then show ?thesis
    using execute_write_runs [of g t "\<lambda>tr. drv_execute (inner g) tr sql parameters control" t' r w sql None
      "\<lparr>auth_decision = Allow rule, auth_analysis = guard_analyze g sql, auth_approval = ApprovalNotRequired,
        auth_preview = NotRequested\<rparr>" "CallExecute sql parameters control"] assms(5-8)
    by (auto simp: gmap_def gbind_def gret_def)
qed

lemma example_permitted:
  "shared_connection_decision (parser example_human) ''U'' (ctx_driver_id example_human)
     (facts (guard_analyze example_human ''U'')) = None"
  "evaluate_categorical (ctx_principal example_human) (ctx_environment example_human)
     (facts (guard_analyze example_human ''U'')) (ctx_read_only example_human) (effective_policy example_human) = None"
  "is_allow (verdict example_human ''U'' (known_rows example_human (guard_analyze example_human ''U'')))"
  "\<not> writes_disabled start_world"
  using example_write_decisions
  by (simp_all add: example_guard_parties example_write_facts verdict_def example_known_rows start_world_def writes_disabled_def)

theorem permitted_write_runs_witness:
  "\<exists>w'. perform example_human (RunExecute ''U'' None None) start_world = (Ok (ExecValue \<lparr>rows_affected = 1\<rparr>), w')
     \<and> length (trace w') = 3"
proof -
  obtain rule where allowed:
    "verdict example_human ''U'' (known_rows example_human (guard_analyze example_human ''U'')) = Allow rule"
    using example_permitted(3)
    by (cases "verdict example_human ''U'' (known_rows example_human (guard_analyze example_human ''U''))") simp_all
  have parties: "audit_sink example_human tr ev = Answer 1 (Inr ())" "other_tasks example_human tr = (False, False)"
    "drv_execute (inner example_human) tr ''U'' None None = Answer 5 (Inr \<lparr>rows_affected = 1\<rparr>)" for tr ev
    by (simp_all add: example_guard_def policy_guard_new_def Let_def example_driver_def)
  have "blast_radius (guard_analyze example_human ''U'') \<noteq> Some (CountQuery q)" for q
    by (simp add: example_analysis_def Let_def)
  from permitted_write_runs [OF example_permitted(1,2) this allowed parties example_permitted(4)]
  obtain intent outcome w' where
    run: "perform example_human (RunExecute ''U'' None None) start_world = (Ok (ExecValue \<lparr>rows_affected = 1\<rparr>), w')"
    and "trace w' = trace start_world @ [Recorded intent None,
      Dispatched WriteBoundary (Some (ev_operation_id intent)) (CallExecute ''U'' None None), Recorded outcome None]"
    by blast
  then have "length (trace w') = 3" by (simp add: start_world_def del: perform.simps)
  with run show ?thesis by blast
qed

end
