(* ===== verification/Session_Invariant.thy ===== *)
theory Session_Invariant
  imports Guard_Outcomes
begin

text \<open>
  The invariant of the guarded sessions: a cursor lives only inside the read-only snapshot it was opened in, read-only
  snapshots exist only on PostgreSQL, and nothing is written in one. The connection's own methods leave it alone
  (\<open>frame_invariant\<close>, interpreted here); for every method of a session it is proved by what the method knows of
  the transaction and the cursor when it changes them.
\<close>

section \<open>Invariant of the sessions\<close>

text \<open>
  A cursor lives only inside an open read-only transaction, the one it was opened in; read-only transactions exist
  only on PostgreSQL; and nothing was written in one.
\<close>

definition batch_ok :: "guard \<Rightarrow> open_batch option \<Rightarrow> bool" where
  "batch_ok g batch \<longleftrightarrow>
     (\<forall>b. batch = Some b \<longrightarrow> ob_read_only b \<longrightarrow> ctx_driver_id g = ''postgres'' \<and> \<not> ob_wrote b)"

definition cursor_ok :: "open_batch option \<Rightarrow> active_cursor option \<Rightarrow> bool" where
  "cursor_ok batch cursor \<longleftrightarrow>
     (\<forall>c. cursor = Some c \<longrightarrow> (\<exists>b. batch = Some b \<and> ob_read_only b \<and> ca_batch_id (ac_audit c) = ob_id b))"

definition session_ok :: "guard \<Rightarrow> policy_session \<Rightarrow> bool" where
  "session_ok g ss \<longleftrightarrow> batch_ok g (ss_batch ss) \<and> cursor_ok (ss_batch ss) (ss_cursor ss)"

text \<open>What a session promises to its user: one transaction at a time, cursors only in a read-only snapshot.\<close>

datatype session_state = Idle | InTransaction uuid | InSnapshot uuid | Reading uuid nat

inductive session_step :: "session_state \<Rightarrow> session_state \<Rightarrow> bool" where
  begins: "session_step Idle (InTransaction i)"
| begins_snapshot: "session_step Idle (InSnapshot i)"
| ends: "session_step (InTransaction i) Idle"
| ends_snapshot: "session_step (InSnapshot i) Idle"
| chains: "session_step (InTransaction i) (InTransaction j)"
| chains_snapshot: "session_step (InSnapshot i) (InSnapshot j)"
| opens_cursor: "session_step (InSnapshot i) (Reading i c)"
| closes_cursor: "session_step (Reading i c) (InSnapshot i)"

abbreviation session_steps :: "session_state \<Rightarrow> session_state \<Rightarrow> bool" where
  "session_steps \<equiv> session_step\<^sup>*\<^sup>*"

definition state_of :: "policy_session \<Rightarrow> session_state" where
  "state_of ss =
     (case ss_batch ss of
        None \<Rightarrow> Idle
      | Some b \<Rightarrow>
          if \<not> ob_read_only b then InTransaction (ob_id b)
          else case ss_cursor ss of None \<Rightarrow> InSnapshot (ob_id b) | Some c \<Rightarrow> Reading (ob_id b) (ac_id c))"

text \<open>
  All sessions are well-formed; since they were \<open>\<sigma>\<close>, the session \<open>s\<close> has made steps of the specification and the
  others have not changed; and the transaction and cursor of \<open>s\<close> are as \<open>R\<close> says.
\<close>

definition sess :: "guard \<Rightarrow> uuid \<Rightarrow> (uuid \<Rightarrow> policy_session) \<Rightarrow> (open_batch option \<Rightarrow> active_cursor option \<Rightarrow> bool)
    \<Rightarrow> world \<Rightarrow> bool" where
  "sess g s \<sigma> R w \<longleftrightarrow>
     (\<forall>t. session_ok g (sessions w t)) \<and> (\<forall>t. t \<noteq> s \<longrightarrow> sessions w t = \<sigma> t)
     \<and> session_steps (state_of (\<sigma> s)) (state_of (sessions w s))
     \<and> R (ss_batch (sessions w s)) (ss_cursor (sessions w s))"

interpretation sess: frame_invariant g "sess h s \<sigma> R" for g h s \<sigma> R
  by unfold_locales (simp_all add: sess_def)

abbreviation no_cursor :: "open_batch option \<Rightarrow> active_cursor option \<Rightarrow> bool" where
  "no_cursor \<equiv> \<lambda>_ c. c = None"

abbreviation same :: "policy_session \<Rightarrow> open_batch option \<Rightarrow> active_cursor option \<Rightarrow> bool" where
  "same ss \<equiv> \<lambda>b c. b = ss_batch ss \<and> c = ss_cursor ss"

text \<open>A run that starts with the session as \<open>R\<close> says and ends with it as \<open>R'\<close> says.\<close>

definition leads :: "guard \<Rightarrow> uuid \<Rightarrow> (uuid \<Rightarrow> policy_session) \<Rightarrow> (open_batch option \<Rightarrow> active_cursor option \<Rightarrow> bool) \<Rightarrow> ('a, 'e) run
    \<Rightarrow> (open_batch option \<Rightarrow> active_cursor option \<Rightarrow> bool) \<Rightarrow> bool" where
  "leads g s \<sigma> R m R' \<longleftrightarrow> (\<forall>w. sess g s \<sigma> R w \<longrightarrow> sess g s \<sigma> R' (snd (m w)))"

lemma leads_keeps: "keeps (sess g s \<sigma> R) m \<Longrightarrow> leads g s \<sigma> R m R"
  by (simp add: leads_def keeps_iff)

lemma leads_weaken: "leads g s \<sigma> R m R' \<Longrightarrow> (\<And>b c. S b c \<Longrightarrow> R b c) \<Longrightarrow> (\<And>b c. R' b c \<Longrightarrow> S' b c) \<Longrightarrow> leads g s \<sigma> S m S'"
  by (auto simp: leads_def sess_def)

lemma leads_gbind_known:
  assumes "leads g s \<sigma> R m R'" "returns V m" "\<And>x. V x \<Longrightarrow> leads g s \<sigma> R' (f x) R''" "\<And>b c. R' b c \<Longrightarrow> R'' b c"
  shows "leads g s \<sigma> R (gbind m f) R''"
  unfolding leads_def
proof (intro allI impI)
  fix w assume "sess g s \<sigma> R w"
  then have m: "sess g s \<sigma> R' (snd (m w))" using assms(1) by (simp add: leads_def)
  show "sess g s \<sigma> R'' (snd (gbind m f w))"
  proof (cases "m w" rule: ended_cases)
    case (ok x w')
    then have "leads g s \<sigma> R' (f x) R''" using assms(2,3) by (blast dest: returnsD)
    with ok m show ?thesis by (simp add: leads_def gbind_def)
  qed (use m assms(4) in \<open>simp_all add: gbind_def sess_def\<close>)
qed

lemma leads_gbind:
  "leads g s \<sigma> R m R' \<Longrightarrow> (\<And>x. leads g s \<sigma> R' (f x) R'') \<Longrightarrow> (\<And>b c. R' b c \<Longrightarrow> R'' b c) \<Longrightarrow> leads g s \<sigma> R (gbind m f) R''"
  by (rule leads_gbind_known [where V = "\<lambda>_. True" and R' = R']) (simp_all add: returns_def)

lemma leads_gtry:
  assumes "leads g s \<sigma> R m R'" "\<And>r. leads g s \<sigma> R' (f r) R''" "\<And>b c. R' b c \<Longrightarrow> R'' b c"
  shows "leads g s \<sigma> R (gtry m f) R''"
  unfolding leads_def
proof (intro allI impI)
  fix w assume "sess g s \<sigma> R w"
  then have m: "sess g s \<sigma> R' (snd (m w))" using assms(1) by (simp add: leads_def)
  then have "sess g s \<sigma> R'' (snd (f r (snd (m w))))" for r using assms(2) by (simp add: leads_def)
  with m show "sess g s \<sigma> R'' (snd (gtry m f w))"
    by (cases "m w" rule: ended_cases) (use assms(3) in \<open>simp_all add: gtry_def sess_def\<close>)
qed

lemma leads_armed_scope: "leads g s \<sigma> R m R' \<Longrightarrow> leads g s \<sigma> R (armed_scope m) R'"
proof -
  have "sess g s \<sigma> R' (snd (armed_scope m w)) = sess g s \<sigma> R' (snd (m w))" for w
    by (cases "m w" rule: ended_cases) (simp_all add: armed_scope_def sess_def lock_connection_def)
  then show "leads g s \<sigma> R m R' \<Longrightarrow> leads g s \<sigma> R (armed_scope m) R'" by (simp add: leads_def)
qed

text \<open>After reading the session, its state is known.\<close>

lemma leads_gbind_read:
  assumes "\<And>ss. session_ok g ss \<Longrightarrow> R (ss_batch ss) (ss_cursor ss) \<Longrightarrow> leads g s \<sigma> (same ss) (f ss) R'"
  shows "leads g s \<sigma> R (gbind (the_session s) f) R'"
  unfolding leads_def
proof (intro allI impI)
  fix w assume "sess g s \<sigma> R w"
  then have "leads g s \<sigma> (same (sessions w s)) (f (sessions w s)) R'" "sess g s \<sigma> (same (sessions w s)) w"
    using assms by (auto simp: sess_def)
  then show "sess g s \<sigma> R' (snd (gbind (the_session s) f w))" by (simp add: leads_def gbind_def gget_def)
qed

lemma keeps_gbind_read:
  "(\<And>ss. session_ok g ss \<Longrightarrow> R (ss_batch ss) (ss_cursor ss) \<Longrightarrow> leads g s \<sigma> (same ss) (f ss) R)
   \<Longrightarrow> keeps (sess g s \<sigma> R) (gbind (the_session s) f)"
  using leads_gbind_read [of g R s \<sigma> f R] by (simp add: leads_def keeps_iff)

lemma leads_update:
  assumes "\<And>ss. session_ok g ss \<Longrightarrow> R (ss_batch ss) (ss_cursor ss)
    \<Longrightarrow> session_ok g (f ss) \<and> R' (ss_batch (f ss)) (ss_cursor (f ss)) \<and> session_steps (state_of ss) (state_of (f ss))"
  shows "leads g s \<sigma> R (update_session s f) R'"
  unfolding leads_def
proof (intro allI impI)
  fix w assume w: "sess g s \<sigma> R w"
  then have "session_ok g (f (sessions w s)) \<and> R' (ss_batch (f (sessions w s))) (ss_cursor (f (sessions w s)))
      \<and> session_steps (state_of (sessions w s)) (state_of (f (sessions w s)))"
    by (intro assms) (simp_all add: sess_def)
  moreover have "session_ok g (\<sigma> t)" if "t \<noteq> s" for t using w that unfolding sess_def by metis
  ultimately show "sess g s \<sigma> R' (snd (update_session s f w))"
    using w by (auto simp: sess_def update_session_def gmodify_def intro: rtranclp_trans)
qed

lemma keeps_update:
  assumes "\<And>ss. session_ok g ss \<Longrightarrow> R (ss_batch ss) (ss_cursor ss)
    \<Longrightarrow> session_ok g (f ss) \<and> R (ss_batch (f ss)) (ss_cursor (f ss)) \<and> session_steps (state_of ss) (state_of (f ss))"
  shows "keeps (sess g s \<sigma> R) (update_session s f)"
  using leads_update [of g R f R s \<sigma>] assms by (simp add: leads_def keeps_iff)

section \<open>Methods that leave the transaction and the cursor alone\<close>

lemma keeps_side_updates [keeps_intro]:
  "keeps (sess g s \<sigma> R) (retire s)"
  "keeps (sess g s \<sigma> R) (update_session s (ss_sets_update f))"
  "keeps (sess g s \<sigma> R) (update_session s (ss_collect_update f'))"
  "keeps (sess g s \<sigma> R) (update_session s (\<lambda>ss. ss\<lparr>ss_collect := c, ss_sets := sets\<rparr>))"
  unfolding retire_def by (rule keeps_update; simp add: session_ok_def state_of_def split: option.split)+

lemma keeps_aside [keeps_intro]:
  "keeps (sess g s \<sigma> R) (session_is_usable h s)"
  "keeps (sess g s \<sigma> R) (refuse h s sql rule e)"
  "keeps (sess g s \<sigma> R) (refuse_policy h s sql rule msg)"
  "keeps (sess g s \<sigma> R) (nested_begin h s sql)"
  "keeps (sess g s \<sigma> R) (require_query_ready h s sql)"
  "keeps (sess g s \<sigma> R) (require_writable h s sql)"
  "keeps (sess g s \<sigma> R) (note_disconnect s result)"
  unfolding session_is_usable_def refuse_policy_def refuse_def nested_begin_def require_query_ready_def require_writable_def
    note_disconnect_def
  by (intro keeps_intro; assumption?)+

lemma keeps_inner_aside [keeps_intro]:
  "keeps (sess g s \<sigma> R) (inner_statement h s b opid a sql ps control)"
  "(\<And>r rows. keeps (sess g s \<sigma> R) (audit r rows)) \<Longrightarrow> keeps (sess g s \<sigma> R) (with_rows s audit result)"
  unfolding inner_statement_def with_rows_def by (intro keeps_intro keeps_gbind [OF keeps_gget]; assumption?)+

lemma keeps_calls_aside [keeps_intro]:
  "(\<And>start r rows. keeps (sess g s \<sigma> R) (audit start r rows)) \<Longrightarrow> keeps (sess g s \<sigma> R) (session_write h s op auth sql ps control audit)"
  "(\<And>start r rows. keeps (sess g s \<sigma> R) (audit start r rows)) \<Longrightarrow> keeps (sess g s \<sigma> R) (session_read h s op auth sql ps control audit)"
  unfolding session_write_def session_read_def Let_def by (intro keeps_intro; assumption?)+

lemma keeps_statements_aside [keeps_intro]:
  "keeps (sess g s \<sigma> R) (batch_statement h s sql ps control auth batch)"
  "keeps (sess g s \<sigma> R) (lone_write h s sql ps control auth)"
  "keeps (sess g s \<sigma> R) (lone_read h s sql ps control auth)"
  unfolding batch_statement_def lone_write_def lone_read_def Let_def
  by (cases "facts_writes (facts (auth_analysis auth))"; simp?; intro keeps_intro; assumption?)+

lemma keeps_cursor_aside [keeps_intro]:
  "keeps (sess g s \<sigma> R) (audit_cursor_result h audit start result rows status)"
  "keeps (sess g s \<sigma> R) (audit_cursor_error h audit start e)"
  "keeps (sess g s \<sigma> R) (cursor_call_close h s audit i)"
  "keeps (sess g s \<sigma> R) (session_lexical_settings h s control)"
  "keeps (sess g s \<sigma> R) (fetch_completion_columns h s schema table control)"
  unfolding audit_cursor_result_def audit_cursor_error_def cursor_call_close_def session_lexical_settings_def
    fetch_completion_columns_def
  by (intro keeps_intro; assumption?)+

lemma keeps_endings_aside [keeps_intro]:
  "keeps (sess g s \<sigma> R) (finish_operation kind batch)"
  "keeps (sess g s \<sigma> R) (control_call h b i ss kind' sql control)"
  "keeps (sess g s \<sigma> R) (record_ended_read_only_batch h batch)"
  "keeps (sess g s \<sigma> R) (record_abandoned_transaction h batch)"
  unfolding finish_operation_def control_call_def record_ended_read_only_batch_def record_abandoned_transaction_def
    record_batch_end_def
  by (cases kind; simp?; intro keeps_intro; assumption?)+

section \<open>Methods that change them\<close>

lemma keeps_gbind_session_ok:
  assumes "\<And>ss. session_ok g ss \<Longrightarrow> R (ss_batch ss) (ss_cursor ss) \<Longrightarrow> keeps (sess g s \<sigma> R) (f ss)"
  shows "keeps (sess g s \<sigma> R) (gbind (the_session s) f)"
  unfolding keeps_iff by (auto simp: gbind_def gget_def) (metis assms keeps_iff sess_def)

text \<open>The transaction changes while there is no cursor, the cursor inside a known transaction.\<close>

definition batch_step :: "open_batch option \<Rightarrow> open_batch option \<Rightarrow> bool" where
  "batch_step b b' \<longleftrightarrow> (b = None \<or> b' = None \<or> map_option ob_read_only b' = map_option ob_read_only b)"

lemma leads_set_batch:
  assumes "batch_ok g b'" "batch_step b b'"
  shows "leads g s \<sigma> (\<lambda>x c. x = b \<and> c = None) (set_batch s b') no_cursor"
  unfolding set_batch_def
proof (rule leads_update)
  fix ss :: policy_session assume ss: "ss_batch ss = b \<and> ss_cursor ss = None"
  have "session_steps (state_of ss) (state_of (ss\<lparr>ss_batch := b'\<rparr>))"
    using assms(2) ss
    by (cases b; cases b') (auto simp: batch_step_def state_of_def intro: r_into_rtranclp session_step.intros)
  then show "session_ok g (ss\<lparr>ss_batch := b'\<rparr>) \<and> ss_cursor (ss\<lparr>ss_batch := b'\<rparr>) = None
      \<and> session_steps (state_of ss) (state_of (ss\<lparr>ss_batch := b'\<rparr>))"
    using assms(1) ss by (simp add: session_ok_def cursor_ok_def)
qed

lemma leads_set_cursor:
  "ob_read_only b \<Longrightarrow> cursor_ok (Some b) (Some c)
   \<Longrightarrow> leads g s \<sigma> (\<lambda>x y. x = Some b \<and> y = None) (set_cursor s (Some c)) (\<lambda>_ _. True)"
  "leads g s \<sigma> R (set_cursor s None) no_cursor"
  unfolding set_cursor_def
  by (rule leads_update; auto simp: session_ok_def cursor_ok_def state_of_def split: option.split
      intro: r_into_rtranclp session_step.intros)+

text \<open>A note changes a transaction, not which one it is.\<close>

lemma leads_note:
  assumes "\<And>b. ob_id (f b) = ob_id b" "\<And>b. ob_read_only (f b) = ob_read_only b"
    and "\<And>b c. R b c \<Longrightarrow> R' c"
    and "\<And>b c. R (Some b) c \<Longrightarrow> ob_read_only b \<Longrightarrow> ob_wrote (f b) \<Longrightarrow> ob_wrote b"
  shows "leads g s \<sigma> R (gbind (the_session s) (\<lambda>ss. case ss_batch ss of None \<Rightarrow> gret () | Some b \<Rightarrow> set_batch s (Some (f b))))
    (\<lambda>_. R')"
proof -
  have same: "leads g s \<sigma> (same ss) (set_batch s (Some (f b))) (\<lambda>_. R')"
    if "R (ss_batch ss) (ss_cursor ss)" "ss_batch ss = Some b" for ss b
    unfolding set_batch_def
    by (rule leads_update)
      (use that assms in \<open>auto simp: session_ok_def batch_ok_def cursor_ok_def state_of_def cong: option.case_cong\<close>)
  have none: "leads g s \<sigma> (same ss) (gret ()) (\<lambda>_. R')" if "R (ss_batch ss) (ss_cursor ss)" for ss
    by (rule leads_weaken [OF leads_keeps [OF keeps_gret]]) (use that assms(3) in auto)
  show ?thesis
  proof (rule leads_gbind_read)
    fix ss :: policy_session assume "R (ss_batch ss) (ss_cursor ss)"
    then show "leads g s \<sigma> (same ss) (case ss_batch ss of None \<Rightarrow> gret () | Some b \<Rightarrow> set_batch s (Some (f b))) (\<lambda>_. R')"
      using none [of ss] same [of ss] by (cases "ss_batch ss") simp_all
  qed
qed

lemma leads_note_statement:
  assumes "\<And>b c. R b c \<Longrightarrow> R' c"
    and "\<And>b c. R (Some b) c \<Longrightarrow> ob_read_only b \<Longrightarrow> writes \<Longrightarrow> ob_wrote b"
  shows "leads g s \<sigma> R (note_statement h s writes to_savepoint result) (\<lambda>_. R')"
  unfolding note_statement_def Let_def
  by (rule leads_gbind [OF leads_keeps [OF keeps_aside(7)]], rule leads_note [where R = R]) (use assms in auto)

lemma leads_note_cursor_error: "leads g s \<sigma> (\<lambda>_. R) (note_cursor_error h s e) (\<lambda>_. R)"
  unfolding note_cursor_error_def Let_def
  by (rule leads_gbind [OF leads_keeps], intro keeps_intro, rule leads_note [where R = "\<lambda>_. R"]) auto

lemma keeps_note_cursor_error [keeps_intro]: "keeps (sess g s \<sigma> (\<lambda>_. R)) (note_cursor_error h s e)"
  using leads_note_cursor_error [of g s \<sigma> R h e] by (simp add: leads_def keeps_iff)

lemma keeps_session_statement_ok:
  "keeps (sess g s \<sigma> no_cursor) (session_statement g s sql ps control)"
  unfolding session_statement_def Let_def
proof (rule keeps_gbind_read)
  fix ss :: policy_session
  let ?a = "guard_analyze g sql"
  let ?refused = "case ss_batch ss of None \<Rightarrow> False
    | Some b \<Rightarrow> ob_read_only b \<and> (eff_writes (facts_effects (facts ?a)) \<or> eff_contains (facts_effects (facts ?a)) external_effects)"
  let ?run = "\<lambda>auth. case ss_batch ss of
      None \<Rightarrow> if facts_writes (facts (auth_analysis auth)) then lone_write g s sql ps control auth
        else lone_read g s sql ps control auth
    | Some batch \<Rightarrow> batch_statement g s sql ps control auth (ob_id batch)"
  let ?note = "\<lambda>auth r. gbind (note_statement g s (facts_writes (facts (auth_analysis auth)))
    (rolls_back_to_savepoint (auth_analysis auth)) r) (\<lambda>_. gresult r)"
  assume ok: "session_ok g ss" "ss_cursor ss = None"
  have "leads g s \<sigma> (same ss) (refuse g s sql ''read_only_snapshot_refusal'' ReadOnly :: (query_result, driver_error) run) no_cursor"
    by (rule leads_weaken [OF leads_keeps [OF keeps_aside(2)]]) (use ok in auto)
  moreover have "leads g s \<sigma> (same ss) (gbind (authorize_classified g sql ?a (Some control) (CountInSession (ss_inner ss)))
      (\<lambda>auth. gtry (?run auth) (?note auth))) no_cursor" if "\<not> ?refused"
  proof (rule leads_gbind_known [OF leads_keeps [OF sess.keeps_authorizations(1)] returns_analysis(4)])
    fix auth :: authorization assume auth: "auth_analysis auth = ?a"
    have "leads g s \<sigma> (same ss) (note_statement g s (facts_writes (facts (auth_analysis auth)))
        (rolls_back_to_savepoint (auth_analysis auth)) r) no_cursor" for r
      by (rule leads_note_statement) (use ok that auth in \<open>auto simp: guard_analyze_def analysis_facts dest: classified_writes split: option.splits\<close>)
    then have noted: "leads g s \<sigma> (same ss) (?note auth r) no_cursor" for r
      by (rule leads_gbind [OF _ leads_keeps [OF keeps_gresult]]) simp
    have "leads g s \<sigma> (same ss) (?run auth) (same ss)"
      by (intro leads_keeps) (auto split: option.split intro!: keeps_intro)
    then show "leads g s \<sigma> (same ss) (gtry (?run auth) (?note auth)) no_cursor"
      by (rule leads_gtry [OF _ noted]) (use ok in auto)
  qed (use ok in auto)
  ultimately show "leads g s \<sigma> (same ss) (if ?refused then refuse g s sql ''read_only_snapshot_refusal'' ReadOnly
      else gbind (authorize_classified g sql ?a (Some control) (CountInSession (ss_inner ss)))
        (\<lambda>auth. gtry (?run auth) (?note auth))) no_cursor"
    by simp
qed

lemma returns_new_batch: "returns (\<lambda>b. ob_read_only b = read_only \<and> \<not> ob_wrote b) (new_batch read_only)"
  unfolding new_batch_def by (intro returns_gbind returns_gret) simp

lemma keeps_new_batch_ok [keeps_intro]: "keeps (sess g s \<sigma> R) (new_batch read_only)"
  unfolding new_batch_def by (intro keeps_intro)

lemma leads_opened_batch:
  assumes "read_only \<Longrightarrow> ctx_driver_id g = ''postgres''"
  shows "leads g s \<sigma> (\<lambda>b c. b = None \<and> c = None) (opened_batch s read_only result) no_cursor"
proof (cases result)
  case (Inl e)
  then show ?thesis unfolding opened_batch_def by (simp, intro leads_weaken [OF leads_keeps [OF keeps_gret]]) auto
next
  case (Inr r)
  then show ?thesis
    unfolding opened_batch_def
    by (simp, intro leads_gbind_known [OF leads_keeps [OF keeps_new_batch_ok] returns_new_batch] leads_set_batch)
      (use assms in \<open>auto simp: batch_ok_def batch_step_def\<close>)
qed

lemma leads_began:
  assumes "read_only \<Longrightarrow> ctx_driver_id g = ''postgres''" "ss_batch ss = None" "ss_cursor ss = None"
    and "\<And>R. keeps (sess g s \<sigma> R) m" "\<And>r. keeps (sess g s \<sigma> no_cursor) (f r)"
  shows "leads g s \<sigma> (same ss) (gtry m (\<lambda>result. gbind (note_disconnect s result) (\<lambda>_.
    gbind (opened_batch s read_only result) (\<lambda>_. f result)))) no_cursor"
  by (rule leads_gtry [OF leads_keeps [OF assms(4)]], rule leads_gbind [OF leads_keeps [OF keeps_aside(7)]],
      rule leads_gbind [OF leads_weaken [OF leads_opened_batch [OF assms(1)]] leads_keeps [OF assms(5)]])
    (use assms in auto)

lemma keeps_begins_ok:
  "keeps (sess g s \<sigma> no_cursor) (session_begin g s sql control)"
  "keeps (sess g s \<sigma> no_cursor) (begin_read_only g s sql control)"
proof -
  have nested: "leads g s \<sigma> (same ss) (nested_begin g s sql :: (query_result, driver_error) run) no_cursor"
    if "ss_cursor ss = None" for ss
    by (rule leads_weaken [OF leads_keeps [OF keeps_aside(4)]]) (use that in auto)
  show "keeps (sess g s \<sigma> no_cursor) (session_begin g s sql control)"
    unfolding session_begin_def
  proof (rule keeps_gbind_read)
    fix ss :: policy_session
    let ?starting = "gtry (caught_write g ''BEGIN'' (control_call g WriteBoundary None ss ControlBegin sql control)) (\<lambda>result.
       gbind (note_disconnect s result) (\<lambda>_. gbind (opened_batch s False result) (\<lambda>_. gresult result)))"
    assume "ss_cursor ss = None"
    moreover from this have "leads g s \<sigma> (same ss) ?starting no_cursor" if "ss_batch ss = None"
      by (intro leads_began keeps_intro) (use that in auto)
    ultimately show "leads g s \<sigma> (same ss) (if ss_batch ss \<noteq> None then nested_begin g s sql else ?starting) no_cursor"
      using nested by simp
  qed
  show "keeps (sess g s \<sigma> no_cursor) (begin_read_only g s sql control)"
    unfolding begin_read_only_def
  proof (rule keeps_if, rule keeps_aside(3), rule keeps_gbind_read)
    fix ss :: policy_session
    let ?audit = "\<lambda>op start result. gbind (audit_controlled_read_result g op start result
      (map_option (\<lambda>r. length (result_rows r)) (result_ok result))) (\<lambda>_. gresult result)"
    let ?call = "\<lambda>op start. gtry (caught_read g ''BEGIN READ ONLY'' (control_call g ReadBoundary (Some (op_id op)) ss ControlBegin
      sql control)) (\<lambda>result. gbind (note_disconnect s result) (\<lambda>_. gbind (opened_batch s True result) (\<lambda>_. ?audit op start result)))"
    let ?starting = "gbind (operation g sql None (facts (guard_analyze g sql)) (Allow ''read_only_snapshot'') ApprovalNotRequired
        NotRequested) (\<lambda>op. gbind (prepare_governed_read g op) (\<lambda>_. gbind (gget now) (?call op)))"
    assume pg: "\<not> ctx_driver_id g \<noteq> ''postgres''" and ss: "ss_cursor ss = None"
    have "leads g s \<sigma> (same ss) (?call op start) no_cursor" if "ss_batch ss = None" for op start
      by (intro leads_began keeps_intro) (use that pg ss in auto)
    then have "leads g s \<sigma> (same ss) ?starting no_cursor" if "ss_batch ss = None"
      by (intro leads_gbind [OF leads_keeps [OF sess.keeps_operations(1)]] leads_gbind [OF leads_keeps [OF sess.keeps_bodies(1)]]
          leads_gbind [OF leads_keeps [OF keeps_gget]]) (use that ss in auto)
    with nested ss show "leads g s \<sigma> (same ss) (if ss_batch ss \<noteq> None then nested_begin g s sql else ?starting) no_cursor"
      by simp
  qed
qed

lemma returns_next_batch:
  assumes "batch_ok g (Some batch)"
  shows "returns (\<lambda>b. batch_ok g b \<and> batch_step (Some batch) b) (next_batch kind chain batch ambiguous over result)"
  unfolding next_batch_def Let_def
  by (cases result)
    (use assms in \<open>auto simp: batch_ok_def batch_step_def intro!: returns_if returns_gret returns_gbind_known [OF returns_new_batch]\<close>)

lemma keeps_next_batch_ok [keeps_intro]: "keeps (sess g s \<sigma> R) (next_batch kind chain batch ambiguous over result)"
  unfolding next_batch_def Let_def by (intro keeps_intro)

lemma leads_finish_call:
  assumes "batch_ok g (Some batch)"
  shows "leads g s \<sigma> (\<lambda>b c. b = Some batch \<and> c = None) (finish_call h s sql control kind chain batch ss op start) no_cursor"
    (is "leads g s \<sigma> ?R _ _")
proof -
  have set: "leads g s \<sigma> ?R (gbind (next_batch kind chain batch ambiguous over result) (set_batch s)) no_cursor" for ambiguous over result
    by (rule leads_gbind_known [OF leads_keeps [OF keeps_next_batch_ok] returns_next_batch [OF assms]])
      (auto intro: leads_set_batch)
  show ?thesis
    unfolding finish_call_def Let_def case_prod_beta
    by (rule leads_gtry [OF leads_keeps], (intro keeps_intro)[1], rule leads_gbind [OF leads_keeps [OF keeps_aside(7)]],
        (rule leads_gbind [OF leads_keeps], (intro keeps_intro)[1])+, rule leads_gtry [OF leads_keeps], (intro keeps_intro)[1],
        rule leads_gbind [OF set leads_keeps], (intro keeps_intro)[1]) auto
qed

lemma keeps_finish_ok: "keeps (sess g s \<sigma> no_cursor) (finish h s sql control kind chain)"
  unfolding finish_def
proof (rule keeps_gbind_read)
  fix ss :: policy_session
  assume ok: "session_ok g ss" "ss_cursor ss = None"
  have "leads g s \<sigma> (\<lambda>b c. b = Some batch \<and> c = None) (finish_open h s sql control kind chain ss batch) no_cursor"
    if "ss_batch ss = Some batch" for batch
    unfolding finish_open_def
    by ((rule leads_gbind [OF leads_keeps], (intro keeps_intro; fail)[1])+,
        rule leads_gbind [OF leads_armed_scope [OF leads_finish_call] leads_keeps [OF keeps_gresult]])
      (use ok that in \<open>auto simp: session_ok_def\<close>)
  moreover have "leads g s \<sigma> (same ss) (refuse_policy h s sql ''missing_transaction'' ''no transaction is open on this session''
      :: (query_result \<times> tx_outcome, driver_error) run) no_cursor"
    by (rule leads_weaken [OF leads_keeps [OF keeps_aside(3)]]) (use ok in auto)
  ultimately show "leads g s \<sigma> (same ss) (case ss_batch ss of
      None \<Rightarrow> refuse_policy h s sql ''missing_transaction'' ''no transaction is open on this session''
    | Some batch \<Rightarrow> finish_open h s sql control kind chain ss batch) no_cursor"
    using ok by (cases "ss_batch ss") simp_all
qed

abbreviation any_cursor :: "open_batch option \<Rightarrow> active_cursor option \<Rightarrow> bool" where
  "any_cursor \<equiv> \<lambda>_ _. True"

lemma sess_weaken: "sess g s \<sigma> R w \<Longrightarrow> sess g s \<sigma> any_cursor w"
  by (simp add: sess_def)

lemma keeps_gbind_ready:
  assumes "\<And>x. keeps (sess g s \<sigma> no_cursor) (f x)"
  shows "keeps (sess g s \<sigma> any_cursor) (gbind (require_query_ready h s sql) f)"
  unfolding keeps_iff
proof (intro allI impI)
  fix w assume ok: "sess g s \<sigma> any_cursor w"
  show "sess g s \<sigma> any_cursor (snd (gbind (require_query_ready h s sql) f w))"
  proof (cases "ss_cursor (sessions w s) = None")
    case True
    with ok have "sess g s \<sigma> no_cursor w" by (simp add: sess_def)
    moreover have "keeps (sess g s \<sigma> no_cursor) (gbind (require_query_ready h s sql) f)"
      by (rule keeps_gbind [OF keeps_aside(5)]) (rule assms)
    ultimately show ?thesis unfolding keeps_iff by (blast intro: sess_weaken)
  next
    case False
    let ?refuse = "refuse_policy h s sql ''query_cursor_active'' ''close the active query cursor before using the session''
      :: (unit, driver_error) run"
    have "gbind (require_query_ready h s sql) f w = gbind ?refuse f w"
      using False by (simp add: require_query_ready_def gbind_def gget_def)
    moreover have "keeps (sess g s \<sigma> any_cursor) (gbind ?refuse f)"
      by (rule keeps_gbind_returns [where V = "\<lambda>_. False"]) (auto intro: keeps_intro returns_never_ok never_ok_refuse)
    ultimately show ?thesis using ok by (simp add: keeps_iff)
  qed
qed

lemma keeps_session_query_ok: "keeps (sess g s \<sigma> any_cursor) (session_query g s sql ps control)"
  unfolding session_query_def
  by (intro keeps_gbind_ready)
    (auto split: option.split transaction_control.split
      intro!: keeps_aside keeps_begins_ok keeps_finish_ok keeps_session_statement_ok keeps_gbind keeps_gret)

lemma keeps_session_calls_ok:
  "keeps (sess g s \<sigma> any_cursor) (session_commit g s control)"
  "keeps (sess g s \<sigma> any_cursor) (session_result_sets g s sql ps control)"
proof -
  show "keeps (sess g s \<sigma> any_cursor) (session_commit g s control)"
    unfolding session_commit_def
    by (intro keeps_gbind_ready keeps_gbind [OF keeps_finish_ok]) (auto split: tx_outcome.split intro: keeps_gret keeps_gfail)
  show "keeps (sess g s \<sigma> any_cursor) (session_result_sets g s sql ps control)"
    unfolding session_result_sets_def Let_def by (intro keeps_intro keeps_session_query_ok)
qed

lemma leads_open_authorized_cursor:
  assumes "ob_read_only batch" "ca_batch_id audit = ob_id batch"
  shows "leads g s \<sigma> (\<lambda>b c. b = Some batch \<and> c = None) (open_authorized_cursor h s sql ps control audit) any_cursor"
proof -
  have opened: "leads g s \<sigma> (\<lambda>b c. b = Some batch \<and> c = None)
      (gbind (set_cursor s (Some \<lparr>ac_id = i, ac_audit = audit, ac_complete = False\<rparr>)) (\<lambda>_. gret i)) any_cursor" for i
    by (rule leads_gbind [OF leads_set_cursor(1) leads_keeps [OF keeps_gret]]) (simp_all add: cursor_ok_def assms)
  have failed: "leads g s \<sigma> (\<lambda>b c. b = Some batch \<and> c = None)
      (gtry (audit_cursor_error h audit start e) (\<lambda>r. gbind (note_cursor_error h s e) (\<lambda>_. gbind (gresult r) (\<lambda>_. gfail e))))
      any_cursor" for start e
    by (rule leads_weaken [where R = any_cursor and R' = any_cursor, OF leads_keeps]) (intro keeps_intro, simp_all)
  show ?thesis
    unfolding open_authorized_cursor_def
    by (rule leads_gbind [OF leads_keeps [OF sess.keeps_bodies(1)]], (rule leads_gbind [OF leads_keeps [OF keeps_gget]])+,
        rule leads_gtry [OF leads_keeps], intro keeps_intro)
      (auto split: sum.split intro: opened failed)
qed

lemma keeps_open_query_cursor_ok: "keeps (sess g s \<sigma> any_cursor) (open_query_cursor h s sql ps control)"
  unfolding open_query_cursor_def
proof (rule keeps_gbind [OF keeps_aside(1)], rule keeps_if, rule keeps_aside(3), rule keeps_gbind_read)
  fix ss :: policy_session
  have refused: "leads g s \<sigma> R (refuse_policy h s sql rule msg :: (nat, driver_error) run) any_cursor" for R rule msg
    by (rule leads_weaken [where R = any_cursor and R' = any_cursor, OF leads_keeps [OF keeps_aside(3)]]) simp_all
  have opened: "leads g s \<sigma> (\<lambda>b c. b = Some batch \<and> c = None)
      (gbind (authorize_classified h sql a (Some control) CountOnConnection) (\<lambda>auth.
       gbind fresh_id (\<lambda>i. open_authorized_cursor h s sql ps control (audit auth i)))) any_cursor"
    if "ob_read_only batch" "\<And>auth i. ca_batch_id (audit auth i) = ob_id batch" for batch audit a
    by (rule leads_gbind [OF leads_keeps [OF sess.keeps_authorizations(1)]], rule leads_gbind [OF leads_keeps [OF sess.keeps_fresh_id]],
        rule leads_weaken [OF leads_open_authorized_cursor [of batch]]) (use that in auto)
  show "leads g s \<sigma> (same ss) (case ss_batch ss of
         None \<Rightarrow> refuse_policy h s sql ''query_cursor_requires_read_snapshot'' ''query cursors require a read-only snapshot''
       | Some batch \<Rightarrow>
           if \<not> ob_read_only batch then
             refuse_policy h s sql ''query_cursor_requires_read_snapshot'' ''query cursors require a read-only snapshot''
           else if ss_cursor ss \<noteq> None then
             refuse_policy h s sql ''query_cursor_already_open'' ''only one query cursor may be open per session''
           else if \<not> is_single_read (facts (guard_analyze h sql)) then
             refuse_policy h s sql ''query_cursor_requires_single_read'' ''query cursors require one read-only statement''
           else
             gbind (authorize_classified h sql (guard_analyze h sql) (Some control) CountOnConnection) (\<lambda>auth.
             gbind fresh_id (\<lambda>i.
             open_authorized_cursor h s sql ps control
               \<lparr>ca_operation_id = i, ca_batch_id = ob_id batch, ca_sql = sql, ca_targets = tables (facts (auth_analysis auth)),
                ca_decision_rule = rule_name (auth_decision auth), ca_approval = auth_approval auth,
                ca_preview = auth_preview auth, ca_analysis = auth_analysis auth\<rparr>))) any_cursor"
    by (auto split: option.split intro!: refused opened)
qed

lemma keeps_cursor_changes [keeps_intro]:
  "keeps (sess g s \<sigma> any_cursor) (set_cursor s None)"
  "keeps (sess g s \<sigma> any_cursor) (update_session s (ss_cursor_update (map_option (ac_complete_update f))))"
  unfolding set_cursor_def
  by (rule keeps_update; auto simp: session_ok_def cursor_ok_def state_of_def split: option.split
      intro: r_into_rtranclp session_step.intros)+

lemma keeps_fetch_ok: "keeps (sess g s \<sigma> any_cursor) (fetch_query_cursor_page h s i control)"
  unfolding fetch_query_cursor_page_def fetch_active_page_def close_cursor_driver_def Let_def by (intro keeps_intro)

text \<open>Closing the cursor that is open leaves none.\<close>

lemma leads_close_active_cursor:
  "leads g s \<sigma> (\<lambda>_ c. map_option ac_id c = Some i) (close_active_cursor h s i status) no_cursor"
  unfolding leads_def
proof (intro allI impI)
  fix w assume ok: "sess g s \<sigma> (\<lambda>_ c. map_option ac_id c = Some i) w"
  then obtain c where c: "ss_cursor (sessions w s) = Some c" "ac_id c = i" by (auto simp: sess_def)
  let ?rest = "\<lambda>_. gbind (gget now) (\<lambda>start.
     gtry (cursor_call_close h s (ac_audit c) i) (\<lambda>result.
     gtry (case status of
             Some st \<Rightarrow> if \<not> ac_complete c then audit_cursor_result h (ac_audit c) start result None
                 (case result of Inl e \<Rightarrow> controlled_error_terminal_status e | Inr _ \<Rightarrow> st) else gret ()
           | None \<Rightarrow> gret ()) (\<lambda>audit_result.
     case audit_result of
       Inl e \<Rightarrow> gbind (retire s) (\<lambda>_. gfail e)
     | Inr _ \<Rightarrow> gbind (case result of Inl _ \<Rightarrow> retire s | Inr _ \<Rightarrow> gret ()) (\<lambda>_. gresult result))))"
  have "leads g s \<sigma> (\<lambda>_ c. map_option ac_id c = Some i) (gbind (set_cursor s None) ?rest) no_cursor"
    by (rule leads_gbind [OF leads_set_cursor(2) leads_keeps]) (intro keeps_intro, simp)
  moreover have "close_active_cursor h s i status w = gbind (set_cursor s None) ?rest w"
    using c unfolding close_active_cursor_def by (subst gbind_def) (simp add: gget_def)
  ultimately show "sess g s \<sigma> no_cursor (snd (close_active_cursor h s i status w))" using ok by (simp add: leads_def)
qed

lemma keeps_close_active_cursor_ok: "keeps (sess g s \<sigma> any_cursor) (close_active_cursor h s i status)"
  unfolding close_active_cursor_def by (intro keeps_intro)

lemma keeps_close_open_batch_ok: "keeps (sess g s \<sigma> no_cursor) (close_open_batch h s batch)"
  unfolding close_open_batch_def case_prod_beta by (intro keeps_intro keeps_finish_ok)

lemma keeps_session_close_ok: "keeps (sess g s \<sigma> any_cursor) (session_close h s)"
  unfolding session_close_def
proof (rule keeps_gbind_read)
  fix ss :: policy_session
  let ?close = "case ss_cursor ss of Some c \<Rightarrow> close_active_cursor h s (ac_id c) (Some StatusCancelled) | None \<Rightarrow> gret ()"
  let ?rest = "\<lambda>r. gtry (case ss_batch ss of Some batch \<Rightarrow> close_open_batch h s batch | None \<Rightarrow> gret ()) (\<lambda>cleanup.
    gtry (caught_read h ''SESSION CLOSE'' (dispatch h ReadBoundary None (CallSessionClose (ss_inner ss))
      (\<lambda>tr. drv_session_close (inner h) tr (ss_inner ss)))) (\<lambda>close_result.
    gbind (gresult r) (\<lambda>_. gbind (gresult cleanup) (\<lambda>_. gresult close_result))))"
  have "leads g s \<sigma> (same ss) ?close no_cursor"
  proof (cases "ss_cursor ss")
    case None
    then show ?thesis by (simp add: leads_def sess_def gret_def)
  next
    case (Some c)
    then show ?thesis by (simp, intro leads_weaken [OF leads_close_active_cursor]) auto
  qed
  moreover have "keeps (sess g s \<sigma> no_cursor) (?rest r)" for r
    by (intro keeps_intro keeps_close_open_batch_ok)
  ultimately have "leads g s \<sigma> (same ss) (gtry ?close ?rest) no_cursor"
    by (rule leads_gtry [OF _ leads_keeps]) simp
  then show "leads g s \<sigma> (same ss) (gtry ?close ?rest) any_cursor"
    by (rule leads_weaken) simp_all
qed

section \<open>Every call\<close>

text \<open>Whichever session a call is about.\<close>

fun call_session :: "guard_call \<Rightarrow> uuid option" where
  "call_session (SessionQuery s _ _ _) = Some s"
| "call_session (SessionResultSets s _ _ _) = Some s"
| "call_session (SessionCommit s _) = Some s"
| "call_session (OpenCursor s _ _ _) = Some s"
| "call_session (FetchCursor s _ _) = Some s"
| "call_session (CloseCursor s _ _) = Some s"
| "call_session (SessionLexicalSettings s _) = Some s"
| "call_session (CompletionColumns s _ _ _) = Some s"
| "call_session (SessionUsable s) = Some s"
| "call_session (TransactionOpen s) = Some s"
| "call_session (CloseSession s) = Some s"
| "call_session _ = None"

lemma keeps_transaction_open_ok: "keeps (sess g s \<sigma> R) (transaction_open t)"
  unfolding transaction_open_def by (intro keeps_intro)

lemma keeps_session_call_ok: "call_session call = Some s \<Longrightarrow> keeps (sess g s \<sigma> any_cursor) (perform g call)"
  apply (cases call)
  apply (simp_all only: perform.simps call_session.simps option.inject option.distinct close_query_cursor_def)
  by (intro keeps_gmap keeps_session_query_ok keeps_session_calls_ok keeps_open_query_cursor_ok keeps_fetch_ok
      keeps_close_active_cursor_ok keeps_cursor_aside keeps_aside keeps_session_close_ok keeps_transaction_open_ok)+

lemma call_kinds: "\<not> session_call call \<or> call = OpenSession \<or> (\<exists>s. call_session call = Some s)"
  by (cases call) simp_all

lemma keeps_perform_ok:
  assumes "call \<noteq> OpenSession" "call_session call \<in> {None, Some s}"
  shows "keeps (sess g s \<sigma> any_cursor) (perform g call)"
  using assms call_kinds [of call] by (auto intro: keeps_session_call_ok sess.keeps_frame_call)

interpretation all_ok: frame_invariant g "\<lambda>w. \<forall>t. session_ok h (sessions w t)" for g h
  by unfold_locales simp_all

lemma keeps_open_session_ok: "keeps (\<lambda>w. \<forall>t. session_ok g (sessions w t)) (open_session h)"
proof -
  have "keeps (\<lambda>w. \<forall>t. session_ok g (sessions w t)) (update_session s (\<lambda>_. new_session i))" for s i
    by (simp add: keeps_iff session_ok_def batch_ok_def cursor_ok_def new_session_def update_session_def gmodify_def)
  then show ?thesis unfolding open_session_def wrap_session_def by (intro keeps_intro)
qed

lemma perform_refines:
  assumes "\<forall>t. session_ok g (sessions w t)" "call \<noteq> OpenSession" "call_session call \<in> {None, Some s}"
  shows "sess g s (sessions w) any_cursor (snd (perform g call w))"
proof -
  have "sess g s (sessions w) any_cursor w" using assms(1) by (simp add: sess_def)
  then show ?thesis using keeps_perform_ok [OF assms(2,3), of g "sessions w"] unfolding keeps_iff by blast
qed

lemma step_sessions_ok:
  assumes "\<forall>t. session_ok g (sessions w t)"
  shows "\<forall>t. session_ok g (sessions (snd (perform g call w)) t)"
proof (cases "call = OpenSession")
  case True
  have "keeps (\<lambda>w. \<forall>t. session_ok g (sessions w t)) (perform g call)"
    unfolding True perform.simps by (intro keeps_gmap keeps_open_session_ok)
  then show ?thesis using assms unfolding keeps_iff by blast
next
  case False
  obtain s where "call_session call \<in> {None, Some s}" by (cases "call_session call") auto
  from perform_refines [OF assms False this] show ?thesis unfolding sess_def by blast
qed

lemma reachable_sessions_ok: "guard_reachable g w0 w \<Longrightarrow> fresh_world w0 \<Longrightarrow> \<forall>t. session_ok g (sessions w t)"
proof (induction rule: rtranclp_induct)
  case base
  then show ?case by (simp add: session_ok_def batch_ok_def cursor_ok_def fresh_world_def)
next
  case (step w w')
  note ok = step.IH [OF step.prems]
  from step.hyps(2) show ?case
  proof cases
    case (client_call call)
    show ?thesis unfolding client_call by (rule step_sessions_ok [OF ok])
  next
    case (pause t)
    show ?thesis unfolding pause by (rule all_ok.survives_wait) (rule ok)
  qed
qed


text \<open>
  C13: What an open cursor implies. In every reachable state, a session with an open query cursor is inside a
  read-only transaction on PostgreSQL, the cursor belongs to that transaction, and nothing was written in it.
\<close>

theorem cursor_inside_snapshot:
  assumes "guard_reachable g w0 w" "fresh_world w0" "ss_cursor (sessions w s) = Some c"
  shows "ctx_driver_id g = ''postgres''
    \<and> (\<exists>b. ss_batch (sessions w s) = Some b \<and> ob_read_only b \<and> ca_batch_id (ac_audit c) = ob_id b
         \<and> \<not> ob_wrote b)"
  using reachable_sessions_ok [OF assms(1,2), rule_format, of s] assms(3)
  by (auto simp: session_ok_def batch_ok_def cursor_ok_def)

section \<open>An example\<close>

text \<open>
  In the example system, where the text \<open>S\<close> starts a read-only snapshot. Runs are
  evaluated step by step: the continuation of a step is looked at only when the step has its result.
\<close>

abbreviation unlimited :: operation_control where
  "unlimited \<equiv> \<lparr>cancelled_at = None, deadline = None\<rparr>"

lemma lazy_cong:
  "w = w' \<Longrightarrow> gbind m f w = gbind m f w'"
  "w = w' \<Longrightarrow> gtry m h w = gtry m h w'"
  by simp_all

lemmas run_simps = gbind_def gtry_def gret_def gfail_def gget_def gmodify_def gresult_def gmap_def fresh_id_def
  update_session_def caught_read_def caught_write_def caught_sync_def dispatch_def suspend_def emit_def
  record_outcome_def record_intent_def audit_record_def sink_record_def map_error_def

lemma example_human_simps:
  "ctx_driver_id example_human = ''postgres''"
  "drv_session_usable (inner example_human) = (\<lambda>_ _. Some True)"
  "drv_session_query (inner example_human) = (\<lambda>_ _ _ _ _. Answer 1 (Inr (example_result ''4111'')))"
  "drv_session_open_cursor (inner example_human) = (\<lambda>_ _ _ _ _. Answer 1 (Inr 3))"
  "other_tasks example_human = (\<lambda>_. (False, False))" "audit_sink example_human = (\<lambda>_ _. Answer 1 (Inr ()))"
  "\<not> local_human example_human"
  by (simp_all add: example_guard_def policy_guard_new_def Let_def example_driver_def guard_analyze_def
      local_human_def)

lemma example_snapshot_control:
  "transaction_control_of (parser example_human) ''S'' ''postgres'' = Some BeginReadOnlySnapshot"
  by code_simp

lemma example_begins:
  assumes "sessions w s = new_session i"
  shows "ss_batch (sessions (snd (perform example_human (SessionQuery s ''S'' [] unlimited) w)) s)
      = Some \<lparr>ob_id = Suc (next_id w), ob_read_only = True, ob_wrote = False, ob_uncertain = False, ob_aborted = False\<rparr>"
    and "ss_cursor (sessions (snd (perform example_human (SessionQuery s ''S'' [] unlimited) w)) s) = None"
    and "\<not> ss_retired (sessions (snd (perform example_human (SessionQuery s ''S'' [] unlimited) w)) s)"
  using assms
  by (simp_all add: session_query_def require_query_ready_def session_is_usable_def example_snapshot_control begin_read_only_def
      operation_def prepare_governed_read_def opened_batch_def new_batch_def set_batch_def control_call_def note_disconnect_def
      audit_controlled_read_result_def handle_read_audit_failure_def new_session_def run_simps example_human_simps
      cong: lazy_cong)

lemma example_allowed:
  "evaluate_categorical (ctx_principal example_human) (ctx_environment example_human) (facts (example_analysis ''Q''))
     (ctx_read_only example_human) (effective_policy example_human) \<noteq> None
   \<and> is_allow (evaluate_with_effects (ctx_principal example_human) (ctx_environment example_human)
       (facts (example_analysis ''Q'')) (ctx_read_only example_human) (effective_policy example_human) None)"
  by code_simp

lemma example_authorized:
  obtains auth where "authorize_classified example_human ''Q'' (example_analysis ''Q'') control c w = (Ok auth, w)"
  using example_allowed
  by (cases "evaluate_with_effects (ctx_principal example_human) (ctx_environment example_human)
       (facts (example_analysis ''Q'')) (ctx_read_only example_human) (effective_policy example_human) None")
    (simp_all add: authorize_classified_def authorize_with_bound_def Let_def resolve_authorization_def gret_def)

lemma example_opens:
  assumes "ss_batch (sessions w s) = Some b" "ob_read_only b" "ss_cursor (sessions w s) = None" "\<not> ss_retired (sessions w s)"
  shows "map_option ac_id (ss_cursor (sessions (snd (perform example_human (OpenCursor s ''Q'' [] unlimited) w)) s)) = Some 3"
proof -
  obtain auth where "authorize_classified example_human ''Q'' (example_analysis ''Q'') (Some unlimited) CountOnConnection w
      = (Ok auth, w)"
    by (rule example_authorized)
  moreover have "is_single_read (facts (example_analysis ''Q''))"
    by code_simp
  ultimately show ?thesis
    using assms
    by (simp add: open_query_cursor_def session_is_usable_def open_authorized_cursor_def prepare_governed_read_def set_cursor_def
        run_simps example_human_simps cong: lazy_cong)
qed

definition example_snapshot :: world where
  "example_snapshot = snd (perform example_human (SessionQuery 0 ''S'' [] unlimited) start_world)"

definition example_reading :: world where
  "example_reading = snd (perform example_human (OpenCursor 0 ''Q'' [] unlimited) example_snapshot)"

lemma example_sessions_reachable:
  "guard_reachable example_human start_world example_snapshot" "guard_reachable example_human start_world example_reading"
proof -
  show snapshot: "guard_reachable example_human start_world example_snapshot"
    unfolding example_snapshot_def by (rule r_into_rtranclp, rule guard_step.client_call)
  then show "guard_reachable example_human start_world example_reading"
    unfolding example_reading_def by (rule rtranclp.rtrancl_into_rtrancl) (rule guard_step.client_call)
qed

lemma example_reading_cursor: "map_option ac_id (ss_cursor (sessions example_reading 0)) = Some 3"
  unfolding example_reading_def
  by (rule example_opens, (simp add: example_snapshot_def example_begins start_world_def del: perform.simps)+)


theorem cursor_inside_snapshot_witness: "\<exists>b. ss_batch (sessions example_reading 0) = Some b \<and> ob_read_only b"
proof -
  obtain c where "ss_cursor (sessions example_reading 0) = Some c" using example_reading_cursor by blast
  from cursor_inside_snapshot [OF example_sessions_reachable(2) example_reachable(2) this] show ?thesis by blast
qed

end
