(* ===== verification/Sql_Quoting.thy ===== *)
theory Sql_Quoting
  imports Sql_Lex
begin

text \<open>
  Quoting of identifiers (\<open>quote_ident\<close> of \<open>crates/core/src/sql_dialect.rs\<close>) and of text values
  (\<open>string_literal\<close>, \<open>binary_literal\<close> and \<open>quote_literal\<close> of \<open>crates/core/src/sql_literal.rs\<close>), and the proof that
  the lexer of \<open>sql_lex.rs\<close> reads back each quoted form as one span, whatever the name or the text.
\<close>

section \<open>Definitions\<close>

text \<open>\<open>str::replace\<close> with a one-character pattern.\<close>

definition replace_char :: "char \<Rightarrow> string \<Rightarrow> string \<Rightarrow> string" where
  "replace_char c r s = concat (map (\<lambda>x. if x = c then r else [x]) s)"

definition quote_ident :: "string \<Rightarrow> string \<Rightarrow> string" where
  "quote_ident driver_id name =
     (if driver_id = ''clickhouse'' then
        [backtick] @ replace_char backtick [backtick, backtick]
                       (replace_char backslash [backslash, backslash] name) @ [backtick]
      else if driver_id = ''mysql'' then
        [backtick] @ replace_char backtick [backtick, backtick] name @ [backtick]
      else if driver_id = ''mssql'' then ''['' @ replace_char (CHR '']'') '']]'' name @ '']''
      else [double_quote] @ replace_char double_quote [double_quote, double_quote] name @ [double_quote])"

definition quote_literal :: "string \<Rightarrow> string \<Rightarrow> string" where
  "quote_literal driver_id content =
     (let escaped =
        (if driver_id = ''mysql'' \<or> driver_id = ''clickhouse''
         then replace_char single_quote [single_quote, single_quote]
                (replace_char backslash [backslash, backslash] content)
         else replace_char single_quote [single_quote, single_quote] content);
          prefix = (if driver_id = ''mssql'' then ''N'' else '''')
      in prefix @ [single_quote] @ escaped @ [single_quote])"

text \<open>\<open>export::hex_encode\<close>: two lower-case digits per byte.\<close>

definition hex_digit_char :: "nat \<Rightarrow> char" where
  "hex_digit_char n = ''0123456789abcdef'' ! n"

definition hex_encode :: "string \<Rightarrow> string" where
  "hex_encode bytes = concat (map (\<lambda>b. [hex_digit_char (of_char b div 16), hex_digit_char (of_char b mod 16)]) bytes)"

definition string_literal :: "string \<Rightarrow> string \<Rightarrow> string" where
  "string_literal driver_id content =
     (if driver_id = ''mysql'' \<and> (backslash \<in> set content \<or> CHR 0x00 \<in> set content) then
        ''_utf8mb4 X'' @ [single_quote] @ hex_encode content @ [single_quote]
      else if driver_id = ''sqlite'' \<and> CHR 0x00 \<in> set content then
        ''CAST(X'' @ [single_quote] @ hex_encode content @ [single_quote] @ '' AS TEXT)''
      else if driver_id = ''postgres'' \<and> backslash \<in> set content then
        ''E'' @ [single_quote] @ replace_char single_quote [single_quote, single_quote]
                  (replace_char backslash [backslash, backslash] content) @ [single_quote]
      else quote_literal driver_id content)"

section \<open>Properties\<close>

subsection \<open>Escaping\<close>

text \<open>What both replacements amount to: double the quote, and the backslash where it is an escape.\<close>

definition escape_quoted :: "char \<Rightarrow> bool \<Rightarrow> string \<Rightarrow> string" where
  "escape_quoted q e s = concat (map (\<lambda>x. if x = q \<or> (e \<and> x = backslash) then [x, x] else [x]) s)"

text \<open>The reading of a quoted text that the escaping is meant for.\<close>

fun unescape_quoted :: "char \<Rightarrow> bool \<Rightarrow> string \<Rightarrow> string" where
  "unescape_quoted q e (x # y # s) =
     (if x = q \<or> (e \<and> x = backslash) then y # unescape_quoted q e s else x # unescape_quoted q e (y # s))"
| "unescape_quoted q e s = s"

lemma unescape_plain_Cons: "x \<noteq> q \<Longrightarrow> \<not> (e \<and> x = backslash) \<Longrightarrow> unescape_quoted q e (x # s) = x # unescape_quoted q e s"
  by (cases s) auto

lemma escape_quoted_simps [simp]:
  "escape_quoted q e [] = []"
  "escape_quoted q e (x # s) = (if x = q \<or> (e \<and> x = backslash) then [x, x] else [x]) @ escape_quoted q e s"
  by (simp_all add: escape_quoted_def)

lemma unescape_escape: "unescape_quoted q e (escape_quoted q e s) = s"
  by (induction s) (auto simp: unescape_plain_Cons)

lemma replace_char_simps [simp]:
  "replace_char c r [] = []"
  "replace_char c r (x # s) = (if x = c then r else [x]) @ replace_char c r s"
  by (simp_all add: replace_char_def)

lemma replace_quote: "q \<noteq> backslash \<Longrightarrow> replace_char q [q, q] s = escape_quoted q False s"
  by (induction s) auto

lemma replace_append [simp]: "replace_char c r (s @ t) = replace_char c r s @ replace_char c r t"
  by (simp add: replace_char_def)

lemma replace_backslash_quote:
  "q \<noteq> backslash \<Longrightarrow> escape_quoted q False (replace_char backslash [backslash, backslash] s) = escape_quoted q True s"
  by (induction s) auto

lemma quote_chars [simp]:
  "single_quote \<noteq> backslash" "double_quote \<noteq> backslash" "backtick \<noteq> backslash" "CHR '']'' \<noteq> backslash"
  by (simp_all add: single_quote_def double_quote_def backtick_def backslash_def)

lemma escape_no_backslash: "backslash \<notin> set s \<Longrightarrow> escape_quoted q e s = escape_quoted q False s"
  by (induction s) auto

lemma quoted_scan_plain:
  "x \<noteq> q \<Longrightarrow> \<not> (e \<and> x = backslash) \<Longrightarrow> s \<noteq> [] \<Longrightarrow> quoted_scan q e k (x # s) = quoted_scan q e (k + 1) s"
  by (cases s) auto

lemma quoted_scan_escape:
  assumes "q \<noteq> backslash" "rest = [] \<or> hd rest \<noteq> q"
  shows "quoted_scan q e k (escape_quoted q e s @ q # rest) = Some (k + length (escape_quoted q e s) + 1)"
  using assms
proof (induction s arbitrary: k)
  case Nil
  then show ?case by (cases rest) auto
next
  case (Cons x s)
  then show ?case by (cases e) (auto simp: quoted_scan_plain)
qed

lemma quoted_length_escape:
  assumes "q \<noteq> backslash" "rest = [] \<or> hd rest \<noteq> q"
  shows "quoted_length (q # escape_quoted q e s @ q # rest) q e = length (escape_quoted q e s) + 2"
  using quoted_scan_escape [OF assms, of e 1 s] by (simp add: quoted_length_def)

lemma bracket_scan_plain: "x \<noteq> CHR '']'' \<Longrightarrow> s \<noteq> [] \<Longrightarrow> bracket_scan k (x # s) = bracket_scan (k + 1) s"
  by (cases s) auto

lemma bracket_scan_escape:
  assumes "rest = [] \<or> hd rest \<noteq> CHR '']''"
  shows "bracket_scan k (escape_quoted (CHR '']'') False s @ CHR '']'' # rest)
         = Some (k + length (escape_quoted (CHR '']'') False s) + 1)"
  using assms
proof (induction s arbitrary: k)
  case Nil
  then show ?case by (cases rest) auto
next
  case (Cons x s)
  then show ?case by (simp add: bracket_scan_plain)
qed

lemma bracket_length_escape:
  assumes "rest = [] \<or> hd rest \<noteq> CHR '']''"
  shows "bracket_length (CHR ''['' # escape_quoted (CHR '']'') False s @ CHR '']'' # rest)
         = length (escape_quoted (CHR '']'') False s) + 2"
  using bracket_scan_escape [OF assms, of 1 s] by (simp add: bracket_length_def)

lemma starts_with_Cons [simp]: "starts_with (p # ps) (x # xs) \<longleftrightarrow> p = x \<and> starts_with ps xs"
  by (auto simp: starts_with_def)

lemma starts_with_Nil [simp]: "starts_with [] xs"
  by (simp add: starts_with_def)

lemma starts_with_on_Nil [simp]: "starts_with (p # ps) [] \<longleftrightarrow> False"
  by (simp add: starts_with_def)

lemma dollar_quote_length_other [simp]: "x \<noteq> CHR ''$'' \<Longrightarrow> dollar_quote_length (x # s) d = None"
  by (simp add: dollar_quote_length_def)

lemma skip_single_quote:
  "skip_span (single_quote # s) d = Some (quoted_length (single_quote # s) single_quote (d = ''mysql'' \<or> d = ''clickhouse''))"
  by (simp add: skip_span_def single_quote_def)

lemma skip_double_quote:
  "skip_span (double_quote # s) d = Some (quoted_length (double_quote # s) double_quote (d = ''mysql'' \<or> d = ''clickhouse''))"
  by (simp add: skip_span_def double_quote_def single_quote_def backtick_def)

lemma skip_backtick:
  "d = ''mysql'' \<or> d = ''clickhouse'' \<Longrightarrow>
   skip_span (backtick # s) d = Some (quoted_length (backtick # s) backtick (d = ''clickhouse''))"
  by (auto simp add: skip_span_def single_quote_def backtick_def)

lemma skip_bracket: "skip_span (CHR ''['' # s) ''mssql'' = Some (bracket_length (CHR ''['' # s))"
  by (simp add: skip_span_def single_quote_def backtick_def)

lemma skip_escape_string:
  "skip_span (CHR ''E'' # single_quote # s) ''postgres'' = Some (1 + quoted_length (single_quote # s) single_quote True)"
  by (simp add: skip_span_def single_quote_def)

text \<open>
  C25: A quoted identifier is one token. For every driver, the lexer of that driver reads the output of
  \<open>quote_ident\<close> as exactly one quoted span, however many quotes, brackets or backslashes the name holds,
  and whatever text follows, provided it does not start with another closing quote.
\<close>

theorem quote_ident_one_span:
  assumes "rest = [] \<or> hd rest \<notin> {backtick, double_quote, CHR '']''}"
  shows "skip_span (quote_ident driver_id name @ rest) driver_id = Some (length (quote_ident driver_id name))"
proof -
  have close: "rest = [] \<or> hd rest \<noteq> q" if "q \<in> {backtick, double_quote, CHR '']''}" for q
    using assms that by auto
  show ?thesis
    using quoted_length_escape [OF _ close] bracket_length_escape [OF close]
    by (simp add: quote_ident_def replace_backslash_quote replace_quote skip_backtick skip_bracket skip_double_quote)
qed

theorem quote_ident_one_span_witness:
  "skip_span (quote_ident ''mssql'' ''a]b'' @ '' ; DROP'') ''mssql'' = Some 6"
  using quote_ident_one_span [of "'' ; DROP''" "''mssql''" "''a]b''"]
  by (simp add: backtick_def double_quote_def quote_ident_def)

text \<open>
  Quoting identifiers is injective: for a fixed driver, two names with the same quoted form are
  the same name, so no column or table can be addressed by the quoted form of another.
\<close>

lemma quote_ident_injective: "quote_ident driver_id a = quote_ident driver_id b \<longleftrightarrow> a = b"
proof -
  have "escape_quoted q e a = escape_quoted q e b \<longleftrightarrow> a = b" for q e
    by (metis unescape_escape)
  then show ?thesis
    by (simp add: quote_ident_def replace_backslash_quote replace_quote)
qed

subsection \<open>Text values inside a script\<close>

text \<open>A character at which no driver's lexer starts a span and no statement ends.\<close>

definition plain_char :: "string \<Rightarrow> char \<Rightarrow> bool" where
  "plain_char d c \<longleftrightarrow>
     c \<notin> {CHR ''-'', CHR ''/'', CHR ''#'', CHR ''$'', CHR ''['', CHR '';'', single_quote, double_quote, backtick}
     \<and> (d = ''postgres'' \<longrightarrow> c \<notin> {CHR ''E'', CHR ''e''})"

lemma skip_plain: "plain_char d c \<Longrightarrow> skip_span (c # s) d = None"
  by (auto simp: plain_char_def skip_span_def)

lemma spans_walk_char:
  assumes "plain_char d c"
  shows "spans_from alnum (p @ c # s) d a (length p) = spans_from alnum (p @ c # s) d a (length p + 1)"
proof -
  have "skip_length alnum (p @ c # s) (length p) d = 0"
    using assms by (simp add: skip_length_def skip_span_at_def skip_plain)
  moreover have "c \<noteq> CHR '';''" using assms by (simp add: plain_char_def)
  ultimately show ?thesis
    by (intro spans_from_plain) (simp_all)
qed

lemma spans_walk:
  assumes "list_all (plain_char d) w"
  shows "spans_from alnum (p @ w @ s) d a (length p) = spans_from alnum (p @ w @ s) d a (length p + length w)"
  using assms
proof (induction w arbitrary: p)
  case (Cons c w)
  then show ?case
    using spans_walk_char [of d c alnum p "w @ s" a] Cons.IH [of "p @ [c]"] by simp
qed simp

lemma spans_jump:
  assumes "skip_span (t @ s) d = Some (length t)" "t \<noteq> []" "hd t \<noteq> CHR ''$''"
  shows "spans_from alnum (p @ t @ s) d a (length p) = spans_from alnum (p @ t @ s) d a (length p + length t)"
proof -
  have "\<not> inside_identifier alnum (p @ t @ s) (length p)"
    using assms by (cases t) (auto simp: inside_identifier_def)
  then have "skip_length alnum (p @ t @ s) (length p) d = length t"
    using assms by (simp add: skip_length_def skip_span_at_def)
  then show ?thesis
    using spans_from_skip [of "length p" "p @ t @ s" alnum d a] assms by simp
qed

lemma spans_quoted:
  assumes "rest = [] \<or> hd rest \<noteq> single_quote"
    and "e \<longleftrightarrow> d = ''mysql'' \<or> d = ''clickhouse''"
  shows "spans_from alnum (p @ (single_quote # escape_quoted single_quote e s @ [single_quote]) @ rest) d a (length p)
       = spans_from alnum (p @ (single_quote # escape_quoted single_quote e s @ [single_quote]) @ rest) d a
           (length p + length (single_quote # escape_quoted single_quote e s @ [single_quote]))"
proof (rule spans_jump)
  show "skip_span ((single_quote # escape_quoted single_quote e s @ [single_quote]) @ rest) d =
      Some (length (single_quote # escape_quoted single_quote e s @ [single_quote]))"
    using assms quoted_length_escape [of single_quote rest e s] by (simp add: skip_single_quote)
qed (simp_all add: single_quote_def)

lemma hex_digit_char_cases: "n < 16 \<Longrightarrow> hex_digit_char n \<in> set ''0123456789abcdef''"
  unfolding hex_digit_char_def by (rule nth_mem) simp

lemma hex_encode_plain: "c \<in> set (hex_encode s) \<Longrightarrow> c \<in> set ''0123456789abcdef''"
proof -
  have "of_char b div 16 < (16 :: nat)" for b :: char
    using nat_of_char_less_256 [of b] by (simp add: less_mult_imp_div_less)
  then have "set [hex_digit_char (of_char b div 16), hex_digit_char (of_char b mod 16)] \<subseteq> set ''0123456789abcdef''" for b
    using hex_digit_char_cases [of "of_char b div 16"] hex_digit_char_cases [of "of_char b mod 16"]
    unfolding list.set by simp
  then show "c \<in> set (hex_encode s) \<Longrightarrow> c \<in> set ''0123456789abcdef''"
    unfolding hex_encode_def set_concat set_map by blast
qed

lemma escape_clean: "\<forall>c \<in> set s. c \<noteq> q \<and> c \<noteq> backslash \<Longrightarrow> escape_quoted q e s = s"
  by (induction s) auto

lemma escape_hex: "escape_quoted single_quote e (hex_encode s) = hex_encode s"
proof -
  have "\<forall>c \<in> set (hex_encode s). c \<noteq> single_quote \<and> c \<noteq> backslash"
    using hex_encode_plain [of _ s] by (auto simp: single_quote_def backslash_def)
  then show ?thesis by (rule escape_clean)
qed

text \<open>
  A text is inert for a driver when the statement splitter crosses it without a cut, wherever in a
  script it stands and wherever the current statement started.
\<close>

definition inert :: "string \<Rightarrow> string \<Rightarrow> bool" where
  "inert d t \<longleftrightarrow>
     (\<forall>alnum p rest a. (rest = [] \<or> hd rest \<noteq> single_quote) \<longrightarrow>
        spans_from alnum (p @ t @ rest) d a (length p) = spans_from alnum (p @ t @ rest) d a (length p + length t))"

lemma inert_quoted:
  "e \<longleftrightarrow> d = ''mysql'' \<or> d = ''clickhouse'' \<Longrightarrow> inert d (single_quote # escape_quoted single_quote e s @ [single_quote])"
  unfolding inert_def using spans_quoted by blast

lemma inertD:
  "inert d t \<Longrightarrow> rest = [] \<or> hd rest \<noteq> single_quote \<Longrightarrow>
   spans_from alnum (p @ t @ rest) d a (length p) = spans_from alnum (p @ t @ rest) d a (length p + length t)"
  unfolding inert_def by blast

lemma inert_append_plain:
  assumes "inert d t" "list_all (plain_char d) w"
  shows "inert d (w @ t)"
  unfolding inert_def
proof (intro allI impI)
  fix alnum and p rest :: string and a
  assume "rest = [] \<or> hd rest \<noteq> single_quote"
  then show "spans_from alnum (p @ (w @ t) @ rest) d a (length p)
      = spans_from alnum (p @ (w @ t) @ rest) d a (length p + length (w @ t))"
    using spans_walk [OF assms(2), of alnum p "t @ rest" a] inertD [OF assms(1), of rest alnum "p @ w" a]
    by (simp add: add.assoc)
qed

lemma inert_plain_append:
  assumes "inert d t" "list_all (plain_char d) w" "w \<noteq> []"
  shows "inert d (t @ w)"
  unfolding inert_def
proof (intro allI impI)
  fix alnum and p rest :: string and a
  have "hd (w @ rest) \<noteq> single_quote"
    using assms by (cases w) (auto simp: plain_char_def)
  then have "spans_from alnum (p @ t @ w @ rest) d a (length p)
      = spans_from alnum (p @ t @ w @ rest) d a (length p + length t)"
    by (intro inertD [OF assms(1)]) simp
  then show "spans_from alnum (p @ (t @ w) @ rest) d a (length p)
      = spans_from alnum (p @ (t @ w) @ rest) d a (length p + length (t @ w))"
    using spans_walk [OF assms(2), of alnum "p @ t" rest a] by (simp add: add.assoc)
qed

lemma inert_escape_string:
  "inert ''postgres'' (CHR ''E'' # single_quote # escape_quoted single_quote True s @ [single_quote])"
  unfolding inert_def
proof (intro allI impI)
  fix alnum and p rest :: string and a
  assume "rest = [] \<or> hd rest \<noteq> single_quote"
  then show "spans_from alnum (p @ (CHR ''E'' # single_quote # escape_quoted single_quote True s @ [single_quote]) @ rest) ''postgres'' a (length p)
      = spans_from alnum (p @ (CHR ''E'' # single_quote # escape_quoted single_quote True s @ [single_quote]) @ rest) ''postgres'' a
          (length p + length (CHR ''E'' # single_quote # escape_quoted single_quote True s @ [single_quote]))"
    using quoted_length_escape [of single_quote rest True s]
    by (intro spans_jump) (simp_all add: skip_escape_string)
qed

lemma inert_hex: "inert d (single_quote # hex_encode s @ [single_quote])"
  using inert_quoted [OF refl, of d "hex_encode s"] by (simp add: escape_hex)

lemma plain_words:
  "list_all (plain_char d) ''N''"
  "list_all (plain_char d) ''_utf8mb4 X''"
  "list_all (plain_char d) ''CAST(X''"
  "d \<noteq> ''postgres'' \<Longrightarrow> list_all (plain_char d) '' AS TEXT)''"
  by (simp_all add: plain_char_def single_quote_def double_quote_def backtick_def)

lemma inert_quote_literal: "inert d (quote_literal d s)"
proof -
  define e where "e \<longleftrightarrow> d = ''mysql'' \<or> d = ''clickhouse''"
  have "inert d (single_quote # escape_quoted single_quote e s @ [single_quote])"
    by (rule inert_quoted) (rule e_def)
  moreover from this have "inert d (''N'' @ single_quote # escape_quoted single_quote e s @ [single_quote])"
    by (rule inert_append_plain) (rule plain_words)
  moreover have "quote_literal d s =
      (if d = ''mssql'' then ''N'' else []) @ single_quote # escape_quoted single_quote e s @ [single_quote]"
    by (simp add: quote_literal_def replace_quote replace_backslash_quote e_def)
  ultimately show ?thesis
    by (cases "d = ''mssql''") simp_all
qed

lemma inert_sqlite_nul:
  "inert ''sqlite'' (''CAST(X'' @ (single_quote # hex_encode s @ [single_quote]) @ '' AS TEXT)'')"
  by (intro inert_append_plain inert_plain_append inert_hex plain_words) simp_all

lemma inert_string_literal: "inert d (string_literal d s)"
  using inert_append_plain [OF inert_hex plain_words(2)] inert_sqlite_nul inert_escape_string inert_quote_literal
  by (simp add: string_literal_def replace_quote replace_backslash_quote)

text \<open>
  C24: A text value never breaks out of its literal. For every driver and every text (quotes, backslashes,
  semicolons and NUL bytes included), the literal that \<open>string_literal\<close> renders can be placed anywhere in a
  script: the statement splitter of that driver crosses it without ending a statement, and resumes
  exactly behind it, as long as the text that follows does not start with a single quote.
\<close>

theorem string_literal_inert:
  assumes "rest = [] \<or> hd rest \<noteq> single_quote"
  shows "spans_from alnum (before @ string_literal driver_id content @ rest) driver_id start (length before)
       = spans_from alnum (before @ string_literal driver_id content @ rest) driver_id start
           (length before + length (string_literal driver_id content))"
  using inert_string_literal assms by (rule inertD)

theorem string_literal_inert_witness:
  "spans_from (list_all is_ascii_alphanumeric) (''SELECT '' @ string_literal ''postgres'' [single_quote, CHR '';''] @ '';'') ''postgres'' 0 7 =
   spans_from (list_all is_ascii_alphanumeric) (''SELECT '' @ string_literal ''postgres'' [single_quote, CHR '';''] @ '';'') ''postgres'' 0 12"
  using string_literal_inert [of "'';''" "list_all is_ascii_alphanumeric" "''SELECT ''" "''postgres''" "[single_quote, CHR '';'']" 0]
  by (simp add: string_literal_def quote_literal_def single_quote_def backslash_def eval_nat_numeral)

end
