(* ===== verification/Numeric_Order.thy ===== *)
theory Numeric_Order
  imports Constant_Predicate Complex_Main
begin

text \<open>
  The numbers that the literals of \<^theory_text>\<open>Constant_Predicate\<close> denote, and that the comparison of
  \<open>constant_predicate.rs\<close> is the order of these numbers.
\<close>

text \<open>The value of a string of digits behind the decimal point.\<close>

fun frac_value :: "string \<Rightarrow> rat" where
  "frac_value [] = 0"
| "frac_value (c # cs) = (of_nat (digit_value c) + frac_value cs) / 10"

definition literal_value :: "numeric_literal \<Rightarrow> rat" where
  "literal_value n = (if negative n then -1 else 1) * frac_value (digits n) * 10 powi order n"

definition wf_literal :: "numeric_literal \<Rightarrow> bool" where
  "wf_literal n \<longleftrightarrow> n = zero_literal
     \<or> digits n \<noteq> [] \<and> list_all is_digit (digits n) \<and> hd (digits n) \<noteq> CHR ''0'' \<and> last (digits n) \<noteq> CHR ''0''"

lemma digit_value_le: "is_digit c \<Longrightarrow> digit_value c \<le> 9"
  unfolding is_digit_def digit_value_def by linarith

lemma digit_cmp:
  "is_digit a \<Longrightarrow> is_digit b \<Longrightarrow> a < b \<longleftrightarrow> digit_value a < digit_value b"
  "is_digit a \<Longrightarrow> is_digit b \<Longrightarrow> a = b \<longleftrightarrow> digit_value a = digit_value b"
proof -
  assume "is_digit a" "is_digit b"
  then have r: "48 \<le> (of_char a :: nat)" "48 \<le> (of_char b :: nat)" by (simp_all add: is_digit_def)
  then show "a < b \<longleftrightarrow> digit_value a < digit_value b" unfolding less_char_def digit_value_def by linarith
  have "digit_value a = digit_value b \<longleftrightarrow> (of_char a :: nat) = of_char b"
    using r unfolding digit_value_def by linarith
  then show "a = b \<longleftrightarrow> digit_value a = digit_value b" by simp
qed

lemma digit_zero: "is_digit (CHR ''0'')" "digit_value (CHR ''0'') = 0"
  by (simp_all add: is_digit_def digit_value_def)

lemma frac_value_bounds: "list_all is_digit ds \<Longrightarrow> 0 \<le> frac_value ds \<and> frac_value ds < 1"
proof (induction ds)
  case (Cons c cs)
  then have "of_nat (digit_value c) \<le> (9 :: rat)" "0 \<le> frac_value cs" "frac_value cs < 1"
    using of_nat_mono [OF digit_value_le [of c], where ?'a = rat] by simp_all
  then show ?case by simp
qed simp

lemma cmp_shift: "0 < (k :: rat) \<Longrightarrow> cmp ((x + a) / k) ((x + b) / k) = cmp a b"
  by (simp add: cmp_def divide_less_cancel)

lemma cmp_digit:
  assumes "is_digit a" "is_digit b" "a \<noteq> b" "0 \<le> x" "x < 1" "0 \<le> y" "y < (1 :: rat)"
  shows "cmp ((of_nat (digit_value a) + x) / 10) ((of_nat (digit_value b) + y) / 10) = cmp a b"
proof (cases "digit_value a < digit_value b")
  case True
  then have "of_nat (digit_value a) + 1 \<le> (of_nat (digit_value b) :: rat)"
    by (metis Suc_leI of_nat_Suc of_nat_mono add.commute)
  with True assms show ?thesis by (simp add: cmp_def digit_cmp divide_less_cancel)
next
  case False
  with assms have "digit_value b < digit_value a" using digit_cmp by (metis linorder_neqE_nat)
  then have "of_nat (digit_value b) + 1 \<le> (of_nat (digit_value a) :: rat)"
    by (metis Suc_leI of_nat_Suc of_nat_mono add.commute)
  with \<open>digit_value b < digit_value a\<close> assms show ?thesis
    by (auto simp add: cmp_def digit_cmp divide_less_cancel)
qed

lemma compare_padded_value:
  "list_all is_digit as \<Longrightarrow> list_all is_digit bs \<Longrightarrow> compare_padded as bs = cmp (frac_value as) (frac_value bs)"
proof (induction as bs rule: compare_padded.induct)
  case 1
  then show ?case by (simp add: cmp_def)
next
  case (2 a as)
  then show ?case
    using cmp_digit [of a "CHR ''0''" "frac_value as" 0] cmp_shift [of 10 0 "frac_value as" 0] frac_value_bounds [of as]
    by (auto simp: digit_zero)
next
  case (3 b bs)
  then show ?case
    using cmp_digit [of "CHR ''0''" b 0 "frac_value bs"] cmp_shift [of 10 0 0 "frac_value bs"] frac_value_bounds [of bs]
    by (auto simp: digit_zero)
next
  case (4 a as b bs)
  then show ?case
    using cmp_digit [of a b "frac_value as" "frac_value bs"] frac_value_bounds [of as] frac_value_bounds [of bs]
    by (auto simp: cmp_shift)
qed

subsection \<open>The comparison is the order of the numbers\<close>

lemma significant_bounds:
  assumes "wf_literal n" "\<not> is_zero n"
  shows "1 / 10 \<le> frac_value (digits n)" "frac_value (digits n) < 1" "list_all is_digit (digits n)"
proof -
  obtain c cs where c: "digits n = c # cs" "c \<noteq> CHR ''0''" "is_digit c" "list_all is_digit cs"
    using assms by (cases "digits n") (auto simp: wf_literal_def zero_literal_def is_zero_def)
  then have "1 \<le> digit_value c" using digit_cmp(2) [of c "CHR ''0''"] by (simp add: digit_zero)
  then have "1 \<le> (of_nat (digit_value c) :: rat)" by simp
  with c frac_value_bounds [of cs] show "1 / 10 \<le> frac_value (digits n)"
    by simp
  show "frac_value (digits n) < 1" "list_all is_digit (digits n)"
    using frac_value_bounds [of "digits n"] c by simp_all
qed

lemma powi_step: "i < j \<Longrightarrow> 10 * 10 powi i \<le> (10 :: rat) powi j"
  using power_int_increasing [of "i + 1" j "10 :: rat"] by (simp add: power_int_add_1')

lemma cmp_flip: "cmp (- a) (- b) = reverse_ordering (cmp a (b :: rat))"
  by (simp add: cmp_def)

lemma magnitude_compare:
  assumes "1 / 10 \<le> x" "x < 1" "1 / 10 \<le> y" "y < (1 :: rat)"
  shows "cmp (x * 10 powi i) (y * 10 powi j) = (if cmp i j \<noteq> Equal then cmp i j else cmp x y)"
proof -
  have lower: "x * 10 powi i < y * 10 powi j" if "i < j" "x < 1" "1 / 10 \<le> y" for x y :: rat and i j
  proof -
    have "x * 10 powi i < 10 powi i" using that by simp
    also have "\<dots> = 1 / 10 * (10 * 10 powi i)" by simp
    also have "\<dots> \<le> y * 10 powi j" using that powi_step [OF that(1)] by (intro mult_mono) auto
    finally show ?thesis .
  qed
  show ?thesis
    using lower [of i j x y] lower [of j i y x] assms by (auto simp: cmp_def)
qed

lemma literal_value_sign:
  assumes "wf_literal n" "\<not> is_zero n"
  shows "negative n \<Longrightarrow> literal_value n < 0" "\<not> negative n \<Longrightarrow> 0 < literal_value n"
proof -
  have "0 < frac_value (digits n)" "0 < (10 :: rat) powi order n"
    using significant_bounds(1) [OF assms] by simp_all
  then show "negative n \<Longrightarrow> literal_value n < 0" "\<not> negative n \<Longrightarrow> 0 < literal_value n"
    by (simp_all add: literal_value_def)
qed

lemma compare_literal_exact:
  assumes "wf_literal a" "wf_literal b" "\<not> is_zero a" "\<not> is_zero b"
  shows "compare_literal a b = cmp (literal_value a) (literal_value b)"
proof -
  note a = significant_bounds [OF assms(1,3)] and b = significant_bounds [OF assms(2,4)]
  have "compare_digits a b = cmp (frac_value (digits a)) (frac_value (digits b))"
    using a b by (simp add: compare_digits_def compare_padded_value)
  with magnitude_compare [OF a(1,2) b(1,2)] show ?thesis
    using literal_value_sign [OF assms(1,3)] literal_value_sign [OF assms(2,4)]
    by (cases "negative a"; cases "negative b")
      (auto simp: compare_literal_def literal_value_def Let_def cmp_flip, auto simp: cmp_def)
qed

lemma literal_value_zero: "wf_literal n \<Longrightarrow> is_zero n \<Longrightarrow> n = zero_literal" "literal_value zero_literal = 0"
  by (auto simp: wf_literal_def is_zero_def literal_value_def zero_literal_def digit_zero)

text \<open>A positive literal is below one tenth exactly when its first digit stands behind the decimal point and a zero.\<close>

lemma below_tenth:
  assumes "wf_literal n" "\<not> is_zero n" "\<not> negative n"
  shows "literal_value n < 1 / 10 \<longleftrightarrow> order n < 0"
proof -
  note f = significant_bounds [OF assms(1,2)]
  have "literal_value n < 1 / 10" if "order n < 0"
  proof -
    have "(10 :: rat) powi order n \<le> 1 / 10" using powi_step [OF that] by simp
    then have "frac_value (digits n) * 10 powi order n \<le> frac_value (digits n) * (1 / 10)"
      using f(1) by (intro mult_left_mono) auto
    with f(2) assms(3) show ?thesis by (simp add: literal_value_def)
  qed
  moreover have "1 / 10 \<le> literal_value n" if "0 \<le> order n"
  proof -
    have "1 / 10 * 1 \<le> frac_value (digits n) * 10 powi order n"
      using f(1) power_int_increasing [OF that, of "10 :: rat"] by (intro mult_mono) auto
    with assms(3) show ?thesis by (simp add: literal_value_def)
  qed
  ultimately show ?thesis by fastforce
qed

lemma compare_zero_left:
  assumes "wf_literal n" "\<not> is_zero n"
  shows "compare_literal zero_literal n = (if negative n \<or> order n < 0 then Greater else Less)"
    and "compare_literal n zero_literal = (if negative n then Less else if order n < 0 then Less else Greater)"
proof -
  obtain c cs where c: "digits n = c # cs" "CHR ''0'' < c"
    using assms digit_cmp [of "CHR ''0''"] digit_zero
    by (cases "digits n") (auto simp: wf_literal_def is_zero_def zero_literal_def)
  then show "compare_literal zero_literal n = (if negative n \<or> order n < 0 then Greater else Less)"
    and "compare_literal n zero_literal = (if negative n then Less else if order n < 0 then Less else Greater)"
    by (auto simp: compare_literal_def zero_literal_def compare_digits_def cmp_def Let_def)
qed

lemma compare_zero_exact:
  assumes "wf_literal n" "\<not> is_zero n"
  shows "compare_literal zero_literal n = cmp 0 (literal_value n) \<longleftrightarrow> \<not> (0 < literal_value n \<and> literal_value n < 1 / 10)"
    and "compare_literal n zero_literal = cmp (literal_value n) 0 \<longleftrightarrow> \<not> (0 < literal_value n \<and> literal_value n < 1 / 10)"
  using literal_value_sign [OF assms] below_tenth [OF assms] compare_zero_left [OF assms]
  by (cases "negative n"; cases "order n < 0"; simp add: cmp_def)+

lemma compare_zeros: "compare_literal zero_literal zero_literal = Equal"
  by (simp add: compare_literal_def zero_literal_def compare_digits_def cmp_def Let_def)

subsection \<open>A literal denotes the number it is written as\<close>

lemma frac_value_append: "frac_value (xs @ ys) = frac_value xs + frac_value ys / 10 ^ length xs"
  by (induction xs) (simp_all add: field_simps)

lemma frac_value_zeros: "list_all (\<lambda>c. c = CHR ''0'') zs \<Longrightarrow> frac_value zs = 0"
  by (induction zs) (auto simp: digit_zero)

lemma digits_value_frac: "of_nat (digits_value n ds) = (of_nat n + frac_value ds) * (10 :: rat) ^ length ds"
  by (induction ds arbitrary: n) (simp_all add: field_simps)

text \<open>The number written with these digits before and behind the decimal point and this exponent.\<close>

definition written_value :: "bool \<Rightarrow> string \<Rightarrow> string \<Rightarrow> int \<Rightarrow> rat" where
  "written_value neg whole fraction exponent =
     (if neg then -1 else 1) * of_nat (digits_value 0 (whole @ fraction)) * 10 powi (exponent - int (length fraction))"

lemma strip_zeros:
  assumes "ds' = trim_start_zeros ds" "ds'' = trim_end_matches (CHR ''0'') ds'"
  shows "frac_value ds * 10 ^ length ds = frac_value ds'' * 10 ^ length ds'"
proof -
  obtain zs0 where "ds = zs0 @ ds'" "list_all (\<lambda>c. c = CHR ''0'') zs0"
    unfolding assms(1) trim_start_zeros_def
    by (metis (no_types, lifting) list_all_iff set_takeWhileD takeWhile_dropWhile_id)
  then have lead: "frac_value ds * 10 ^ length ds = frac_value ds' * 10 ^ length ds'"
    by (simp add: frac_value_append frac_value_zeros power_add)
  obtain zs where "ds' = ds'' @ zs" "list_all (\<lambda>c. c = CHR ''0'') zs"
    unfolding assms(2) trim_end_matches_def
    by (metis (no_types, lifting) list_all_iff rev_append rev_rev_ident set_rev set_takeWhileD takeWhile_dropWhile_id)
  then have "frac_value ds' = frac_value ds''"
    by (simp add: frac_value_append frac_value_zeros)
  with lead show ?thesis by simp
qed

lemma significant_literal_cases:
  assumes "significant_literal neg whole fraction exponent = Some n"
  obtains (zero) "trim_start_zeros (whole @ fraction) = []" "n = zero_literal"
  | (digits) "trim_start_zeros (whole @ fraction) \<noteq> []" "negative n = neg"
      "digits n = trim_end_matches (CHR ''0'') (trim_start_zeros (whole @ fraction))"
      "order n = exponent - int (length fraction) + int (length (trim_start_zeros (whole @ fraction)))"
proof -
  let ?s = "trim_start_zeros (whole @ fraction)"
  have "length (trim_end_matches (CHR ''0'') ?s) \<le> length ?s"
    unfolding trim_end_matches_def by (metis length_dropWhile_le length_rev)
  then show ?thesis
    using assms that
    by (auto simp: significant_literal_def checked_i64_def Let_def split: if_splits bind_splits)
qed

lemma significant_literal_value:
  assumes "significant_literal neg whole fraction exponent = Some n"
  shows "literal_value n = written_value neg whole fraction exponent"
  using assms
proof (cases rule: significant_literal_cases)
  case zero
  then have "frac_value (whole @ fraction) = 0"
    using strip_zeros [OF refl refl, of "whole @ fraction"] by (simp add: trim_end_matches_def)
  then show ?thesis using zero by (simp add: written_value_def digits_value_frac literal_value_zero)
next
  case digits
  let ?s = "trim_start_zeros (whole @ fraction)"
  have "frac_value (digits n) * 10 powi order n
      = frac_value (digits n) * 10 ^ length ?s * 10 powi (exponent - int (length fraction))"
    by (simp add: digits power_int_add)
  also have "\<dots> = of_nat (digits_value 0 (whole @ fraction)) * 10 powi (exponent - int (length fraction))"
    using strip_zeros [OF refl refl, of "whole @ fraction"] digits by (simp add: digits_value_frac)
  finally show ?thesis using digits by (simp add: literal_value_def written_value_def)
qed

lemma significant_literal_wf:
  assumes "significant_literal neg whole fraction exponent = Some n" "list_all is_digit (whole @ fraction)"
  shows "wf_literal n"
  using assms(1)
proof (cases rule: significant_literal_cases)
  case zero
  then show ?thesis by (simp add: wf_literal_def)
next
  case digits
  let ?s = "trim_start_zeros (whole @ fraction)"
  have "hd ?s \<noteq> CHR ''0''" "set ?s \<subseteq> set (whole @ fraction)"
    using digits hd_dropWhile [of "\<lambda>c. c = CHR ''0''" "whole @ fraction"]
    by (auto simp: trim_start_zeros_def dest: set_dropWhileD)
  moreover obtain zs where zs: "?s = digits n @ zs" "list_all (\<lambda>c. c = CHR ''0'') zs"
    unfolding digits(3) trim_end_matches_def
    by (metis (no_types, lifting) list_all_iff rev_append rev_rev_ident set_rev set_takeWhileD takeWhile_dropWhile_id)
  moreover have "digits n \<noteq> []"
    using zs digits(1) \<open>hd ?s \<noteq> CHR ''0''\<close> by (cases "digits n") (auto simp: list_all_iff neq_Nil_conv)
  moreover have "last (digits n) \<noteq> CHR ''0''"
    using \<open>digits n \<noteq> []\<close> hd_dropWhile [of "\<lambda>c. c = CHR ''0''" "rev ?s"]
    unfolding digits(3) trim_end_matches_def by (auto simp: last_rev)
  ultimately show ?thesis using assms(2) by (auto simp: wf_literal_def list_all_iff)
qed

text \<open>The number a literal is written as.\<close>

definition text_value :: "string \<Rightarrow> rat" where
  "text_value text =
     (let (neg, unsigned) = strip_sign text in
      case split_exponent unsigned of
        None \<Rightarrow> 0
      | Some (mantissa, exponent) \<Rightarrow>
          (let (whole, fraction) = split_fraction mantissa in written_value neg whole fraction exponent))"

lemma parse_literal_value:
  assumes "parse_literal text = Some n"
  shows "literal_value n = text_value text" "wf_literal n"
proof -
  obtain neg unsigned mantissa exponent whole fraction where
    "strip_sign text = (neg, unsigned)" "split_exponent unsigned = Some (mantissa, exponent)"
    "split_fraction mantissa = (whole, fraction)" "list_all is_digit (whole @ fraction)"
    "significant_literal neg whole fraction exponent = Some n"
    using assms by (auto simp: parse_literal_def Let_def split: prod.splits if_splits bind_splits)
  then show "literal_value n = text_value text" "wf_literal n"
    by (simp_all add: text_value_def significant_literal_value significant_literal_wf)
qed

text \<open>One is zero and the other lies strictly between zero and one tenth.\<close>

definition zero_against_tiny :: "rat \<Rightarrow> rat \<Rightarrow> bool" where
  "zero_against_tiny x y \<longleftrightarrow> x = 0 \<and> 0 < y \<and> y < 1 / 10 \<or> y = 0 \<and> 0 < x \<and> x < 1 / 10"

lemma compare_wf:
  assumes "wf_literal m" "wf_literal n"
  shows "compare_literal m n = cmp (literal_value m) (literal_value n)
    \<longleftrightarrow> \<not> zero_against_tiny (literal_value m) (literal_value n)"
proof -
  have z: "literal_value k = 0 \<longleftrightarrow> is_zero k" "is_zero k \<Longrightarrow> k = zero_literal" if "wf_literal k" for k
    using literal_value_zero(1) [of k] literal_value_zero(2) literal_value_sign [of k] that by (cases "is_zero k"; cases "negative k"; simp)+
  consider "is_zero m" "is_zero n" | "is_zero m" "\<not> is_zero n" | "\<not> is_zero m" "is_zero n" | "\<not> is_zero m" "\<not> is_zero n"
    by blast
  then show ?thesis
  proof cases
    case 1
    then show ?thesis
      using z [OF assms(1)] z [OF assms(2)] compare_zeros by (simp add: zero_against_tiny_def cmp_def)
  next
    case 2
    then show ?thesis
      using z [OF assms(1)] z [OF assms(2)] compare_zero_exact(1) [OF assms(2)]
      by (simp add: zero_against_tiny_def literal_value_zero)
  next
    case 3
    then show ?thesis
      using z [OF assms(1)] z [OF assms(2)] compare_zero_exact(2) [OF assms(1)]
      by (simp add: zero_against_tiny_def literal_value_zero)
  next
    case 4
    then show ?thesis
      using z [OF assms(1)] z [OF assms(2)] compare_literal_exact [OF assms] by (simp add: zero_against_tiny_def)
  qed
qed

text \<open>
  C19: Two numeric literals of a predicate, of whatever length and exponent, are compared as the numbers they
  are written as, except when one of them is zero and the other lies strictly between zero and one tenth.
\<close>

theorem literals_compare_exactly:
  assumes "parse_literal a = Some m" "parse_literal b = Some n"
  shows "compare_literal m n = cmp (text_value a) (text_value b) \<longleftrightarrow> \<not> zero_against_tiny (text_value a) (text_value b)"
  using compare_wf [of m n] parse_literal_value [OF assms(1)] parse_literal_value [OF assms(2)] by simp

lemma example_literals:
  "parse_literal ''0.10000000000000001'' = Some \<lparr>negative = False, digits = ''10000000000000001'', order = 0\<rparr>"
  "parse_literal ''1e-1'' = Some \<lparr>negative = False, digits = ''1'', order = 0\<rparr>"
  by code_simp+

theorem literals_compare_exactly_witness:
  "compare_literal \<lparr>negative = False, digits = ''10000000000000001'', order = 0\<rparr> \<lparr>negative = False, digits = ''1'', order = 0\<rparr>
   = cmp (text_value ''0.10000000000000001'') (text_value ''1e-1'')"
  using literals_compare_exactly [OF example_literals] parse_literal_value(1) [OF example_literals(1)]
    parse_literal_value(1) [OF example_literals(2)]
  by (simp add: zero_against_tiny_def literal_value_def digit_value_def)

text \<open>
  So a predicate that compares zero with a small positive constant, true of every row, is not recognised as constant.
\<close>

theorem tiny_predicate_missed:
  "\<not> is_constant_true (BinaryOp (ValueExpr (NumberValue ''0.05'')) OpGt (ValueExpr (NumberValue ''0'')))
   \<and> is_constant_true (BinaryOp (ValueExpr (NumberValue ''0.5'')) OpGt (ValueExpr (NumberValue ''0'')))"
  by code_simp

end
