(* ===== verification/Spec2Isabelle.thy ===== *)
theory Spec2Isabelle
  imports Guard_Results Guard_Answers Session_Invariant Sql_Quoting Numeric_Order
begin

text \<open>
  A verification development of TablePro, a database client with a policy guard between its users (people and
  software agents) and the database drivers.
\<close>

end
